(* ===== verification/Prelude.thy ===== *)
theory Prelude
  imports Complex_Main "HOL-Library.Sublist"
begin

text \<open>
  What the components of the development share: the collections of simplification
  rules, Go's 64-bit arithmetic, results of fallible operations, the string functions
  of Go's standard library that the source calls (\<open>strings.TrimSpace\<close>,
  \<open>strings.ToLower\<close>, \<open>strings.Contains\<close>, \<open>strconv.FormatInt\<close>,
  \<open>strconv.ParseInt\<close>), the stable sort \<open>sort.SliceStable\<close>, the slice expression
  of the paginated queries, and lemmas on lists that several components use.
  A Go string is the list of its bytes; the case and white-space functions are those of
  ASCII text, which wallet addresses, logical times and search queries are.
\<close>

named_theorems claim_simps \<open>rules of the claim stores\<close>

type_synonym instant = int    \<comment> \<open>\<open>time.Time\<close>, in nanoseconds\<close>
type_synonym duration = int   \<comment> \<open>\<open>time.Duration\<close>, an \<open>int64\<close> of nanoseconds\<close>
type_synonym wallet = string  \<comment> \<open>a TON wallet address as it is written\<close>

section \<open>Machine integers\<close>

text \<open>
  \<open>int64\<close> and \<open>int\<close> (64 bits on the deployed platforms) are \<^typ>\<open>int\<close>; where
  an operation can leave the range, its result is reduced with \<open>i64\<close>.
\<close>

definition i64 :: "int \<Rightarrow> int" where
  "i64 x = (x + 2 ^ 63) mod 2 ^ 64 - 2 ^ 63"

definition in_i64 :: "int \<Rightarrow> bool" where
  "in_i64 x \<longleftrightarrow> - (2 ^ 63) \<le> x \<and> x < 2 ^ 63"

lemma i64_range: "in_i64 (i64 x)"
  by (simp add: i64_def in_i64_def)

lemma i64_id [simp]: "in_i64 x \<Longrightarrow> i64 x = x"
  by (simp add: i64_def in_i64_def)

lemma i64_idem [simp]: "i64 (i64 x) = i64 x"
  by (simp add: i64_range)

text \<open>Go's integer division and shift truncate; \<open>1 << k\<close> is 0 once \<open>k\<close> reaches the width.\<close>

definition go_div :: "int \<Rightarrow> int \<Rightarrow> int" where
  "go_div a b = sgn a * sgn b * (\<bar>a\<bar> div \<bar>b\<bar>)"

definition go_shl1 :: "nat \<Rightarrow> int" where
  "go_shl1 k = (if k < 64 then i64 (2 ^ k) else 0)"

lemma go_div_nonneg: "0 \<le> a \<Longrightarrow> 0 < b \<Longrightarrow> go_div a b = a div b"
  by (cases "a = 0") (simp_all add: go_div_def)

lemma go_shl1_small: "k < 63 \<Longrightarrow> go_shl1 k = 2 ^ k"
proof -
  assume k: "k < 63"
  then have "(2::int) ^ k < 2 ^ 63" by (intro power_strict_increasing) auto
  then have "in_i64 (2 ^ k)" unfolding in_i64_def by (auto intro: order_trans [of _ 0])
  with k show ?thesis by (simp add: go_shl1_def)
qed

section \<open>Results of fallible operations\<close>

text \<open>
  A Go function that returns \<open>(T, error)\<close> returns \<open>Inl\<close> of the error or
  \<open>Inr\<close> of the value; \<open>bindR\<close> is the early return \<open>if err != nil\<close>.
\<close>

fun bindR :: "'e + 'a \<Rightarrow> ('a \<Rightarrow> 'e + 'b) \<Rightarrow> 'e + 'b" where
  "bindR (Inl e) f = Inl e"
| "bindR (Inr x) f = f x"

lemma bindR_eq_Inr [simp]: "bindR r f = Inr y \<longleftrightarrow> (\<exists>x. r = Inr x \<and> f x = Inr y)"
  by (cases r) auto

lemma bindR_eq_Inl: "bindR r f = Inl e \<longleftrightarrow> r = Inl e \<or> (\<exists>x. r = Inr x \<and> f x = Inl e)"
  by (cases r) auto

lemma bindR_assoc: "bindR (bindR r f) g = bindR r (\<lambda>x. bindR (f x) g)"
  by (cases r) auto

section \<open>Strings\<close>

definition is_space :: "char \<Rightarrow> bool" where
  "is_space c \<longleftrightarrow> of_char c \<in> {9, 10, 11, 12, 13, 32 :: nat}"

definition TrimSpace :: "string \<Rightarrow> string" where
  "TrimSpace s = rev (dropWhile is_space (rev (dropWhile is_space s)))"

definition lower_char :: "char \<Rightarrow> char" where
  "lower_char c = (if 65 \<le> (of_char c :: nat) \<and> (of_char c :: nat) \<le> 90
     then char_of ((of_char c :: nat) + 32) else c)"

definition ToLower :: "string \<Rightarrow> string" where
  "ToLower s = map lower_char s"

fun str_contains :: "string \<Rightarrow> string \<Rightarrow> bool" where
  "str_contains [] sub = (sub = [])"
| "str_contains (c # cs) sub = (prefix sub (c # cs) \<or> str_contains cs sub)"

lemma str_contains_sublist: "str_contains s sub \<longleftrightarrow> sublist sub s"
  by (induction s) (auto simp: sublist_Cons_right)

lemma str_contains_append: "str_contains (xs @ s @ ys) s"
  by (simp add: str_contains_sublist)

lemma lower_char_idem [simp]: "lower_char (lower_char c) = lower_char c"
proof (cases "65 \<le> (of_char c :: nat) \<and> (of_char c :: nat) \<le> 90")
  case True
  then have "of_char (char_of ((of_char c :: nat) + 32) :: char) = (of_char c :: nat) + 32"
    by (simp add: of_char_of)
  with True show ?thesis by (simp add: lower_char_def)
next
  case False
  then show ?thesis by (auto simp add: lower_char_def)
qed

lemma ToLower_idem [simp]: "ToLower (ToLower s) = ToLower s"
  by (simp add: ToLower_def)

lemma ToLower_Nil_iff [simp]: "ToLower s = [] \<longleftrightarrow> s = []"
  by (simp add: ToLower_def)

lemma dropWhile_rev_last:
  "ys \<noteq> [] \<Longrightarrow> \<not> P (hd ys) \<Longrightarrow> rev (dropWhile P (rev ys)) \<noteq> [] \<and> hd (rev (dropWhile P (rev ys))) = hd ys"
  by (induction ys) (auto simp: dropWhile_append)

lemma TrimSpace_idem [simp]: "TrimSpace (TrimSpace s) = TrimSpace s"
proof -
  define t where "t = dropWhile is_space s"
  define u where "u = rev (dropWhile is_space (rev t))"
  have "dropWhile is_space u = u"
  proof (cases "t = []")
    case True
    then show ?thesis by (simp add: u_def)
  next
    case False
    then have "\<not> is_space (hd t)" unfolding t_def by (rule hd_dropWhile)
    with False have "u \<noteq> [] \<and> hd u = hd t"
      unfolding u_def by (rule dropWhile_rev_last)
    with \<open>\<not> is_space (hd t)\<close> show ?thesis by (cases u) auto
  qed
  then show ?thesis
    by (simp add: TrimSpace_def flip: t_def u_def) (simp add: u_def dropWhile_idem)
qed

subsection \<open>Decimal numbers\<close>

definition digit_char :: "nat \<Rightarrow> char" where
  "digit_char d = char_of (48 + d)"

fun nat_dec :: "nat \<Rightarrow> string" where
  "nat_dec n = (if n < 10 then [digit_char n] else nat_dec (n div 10) @ [digit_char (n mod 10)])"

declare nat_dec.simps [simp del]

definition FormatInt :: "int \<Rightarrow> string" where
  "FormatInt n = (if n < 0 then CHR ''-'' # nat_dec (nat (- n)) else nat_dec (nat n))"

definition is_digit :: "char \<Rightarrow> bool" where
  "is_digit c \<longleftrightarrow> 48 \<le> (of_char c :: nat) \<and> (of_char c :: nat) \<le> 57"

definition dec_value :: "string \<Rightarrow> nat" where
  "dec_value s = foldl (\<lambda>acc c. 10 * acc + (of_char c - 48)) 0 s"

text \<open>The unsigned digits of a base 10 literal, and the literal with an optional sign.\<close>

definition parse_digits :: "string \<Rightarrow> nat option" where
  "parse_digits s = (if s \<noteq> [] \<and> list_all is_digit s then Some (dec_value s) else None)"

fun parse_decimal :: "string \<Rightarrow> int option" where
  "parse_decimal (CHR ''-'' # ds) = map_option (\<lambda>n. - int n) (parse_digits ds)"
| "parse_decimal (CHR ''+'' # ds) = map_option int (parse_digits ds)"
| "parse_decimal ds = map_option int (parse_digits ds)"

definition ParseInt64 :: "string \<Rightarrow> int option" where
  "ParseInt64 s = (case parse_decimal s of
       None \<Rightarrow> None
     | Some n \<Rightarrow> if in_i64 n then Some n else None)"

text \<open>\<open>strconv.ParseUint(s, 10, 64)\<close>: digits only.\<close>

definition ParseUint64 :: "string \<Rightarrow> nat option" where
  "ParseUint64 s = (case parse_digits s of None \<Rightarrow> None | Some n \<Rightarrow> if n < 2 ^ 64 then Some n else None)"

lemma of_char_digit: "d < 10 \<Longrightarrow> (of_char (digit_char d) :: nat) = 48 + d"
  by (simp add: digit_char_def of_char_of)

lemma is_digit_digit_char: "d < 10 \<Longrightarrow> is_digit (digit_char d)"
  by (simp add: is_digit_def of_char_digit)

lemma dec_value_snoc: "dec_value (s @ [c]) = 10 * dec_value s + (of_char c - 48)"
  by (simp add: dec_value_def)

lemma dec_value_nat_dec: "dec_value (nat_dec n) = n"
proof (induction n rule: nat_dec.induct)
  case (1 n)
  then show ?case
    by (subst nat_dec.simps) (auto simp: dec_value_snoc of_char_digit, simp add: dec_value_def of_char_digit)
qed

lemma nat_dec_digits: "list_all is_digit (nat_dec n)"
proof (induction n rule: nat_dec.induct)
  case (1 n)
  then show ?case by (subst nat_dec.simps) (auto simp: is_digit_digit_char)
qed

lemma nat_dec_nonempty [simp]: "nat_dec n \<noteq> []"
  by (subst nat_dec.simps) simp

lemma TrimSpace_solid: "list_all (\<lambda>c. \<not> is_space c) s \<Longrightarrow> TrimSpace s = s"
proof -
  assume s: "list_all (\<lambda>c. \<not> is_space c) s"
  then have "dropWhile is_space s = s" "dropWhile is_space (rev s) = rev s"
    by (cases s, simp, simp) (cases "rev s", simp, metis (no_types, lifting) dropWhile.simps(2) list.set_intros(1) list_all_iff s set_rev)
  then show ?thesis by (simp add: TrimSpace_def)
qed

lemma digit_not_space: "is_digit c \<Longrightarrow> \<not> is_space c"
  by (auto simp: is_digit_def is_space_def)

lemma TrimSpace_decimal: "list_all is_digit s \<Longrightarrow> TrimSpace s = s"
  by (rule TrimSpace_solid) (auto simp: list_all_iff digit_not_space)

lemma parse_digits_nat_dec [simp]: "parse_digits (nat_dec n) = Some n"
  by (simp add: parse_digits_def nat_dec_digits dec_value_nat_dec)

lemma parse_decimal_unsigned:
  assumes "s \<noteq> []" and "is_digit (hd s)"
  shows "parse_decimal s = map_option int (parse_digits s)"
proof -
  from assms obtain c cs where s: "s = c # cs" and c: "is_digit c" by (cases s) auto
  from c have "c \<noteq> CHR ''-''" "c \<noteq> CHR ''+''" by (auto simp: is_digit_def)
  then show ?thesis unfolding s by (cases "c # cs" rule: parse_decimal.cases) auto
qed

lemma parse_decimal_FormatInt [simp]: "parse_decimal (FormatInt n) = Some n"
proof (cases "n < 0")
  case True
  then show ?thesis by (simp add: FormatInt_def)
next
  case False
  have "is_digit (hd (nat_dec (nat n)))"
    using nat_dec_digits [of "nat n"] by (cases "nat_dec (nat n)") auto
  with False show ?thesis by (simp add: FormatInt_def parse_decimal_unsigned)
qed

lemma ParseInt64_FormatInt: "in_i64 n \<Longrightarrow> ParseInt64 (FormatInt n) = Some n"
  by (simp add: ParseInt64_def)

lemma ParseInt64_range: "ParseInt64 s = Some n \<Longrightarrow> in_i64 n"
  by (auto simp: ParseInt64_def split: option.splits if_splits)

section \<open>Sorting and slicing\<close>

text \<open>
  \<open>sort.SliceStable\<close> with the order "a's time is after b's time" sorts by decreasing
  time and keeps the order of equal times.
\<close>

definition stable_newest_first :: "('a \<Rightarrow> instant) \<Rightarrow> 'a list \<Rightarrow> 'a list" where
  "stable_newest_first t xs = sort_key (\<lambda>x. - t x) xs"

lemma set_stable_newest_first [simp]: "set (stable_newest_first t xs) = set xs"
  by (simp add: stable_newest_first_def)

lemma length_stable_newest_first [simp]: "length (stable_newest_first t xs) = length xs"
  by (simp add: stable_newest_first_def)

lemma stable_newest_first_Nil [simp]: "stable_newest_first t [] = []"
  by (simp add: stable_newest_first_def)

lemma sorted_stable_newest_first:
  "sorted_wrt (\<lambda>a b. t b \<le> t a) (stable_newest_first t xs)"
proof -
  have "sorted (map (\<lambda>x. - t x) (stable_newest_first t xs))"
    by (simp add: stable_newest_first_def)
  then show ?thesis by (simp add: sorted_map)
qed

lemma stable_newest_first_stable:
  "filter (\<lambda>x. t x = k) (stable_newest_first t xs) = filter (\<lambda>x. t x = k) xs"
  using sort_key_stable [of "\<lambda>x. - t x" "- k" xs] by (simp add: stable_newest_first_def)

text \<open>
  The pagination of \<open>ListGames\<close>, \<open>GetGamesByPlayerPage\<close> and
  \<open>paginateActivityItems\<close>: the slice \<open>items[offset:end]\<close> with \<open>end\<close> cut at
  the length, or the empty slice when the offset is past the end. The sum
  \<open>offset + limit\<close> is an \<open>int\<close>. A slice expression whose bounds are not
  \<open>0 \<le> low \<le> high \<le> length\<close> panics: \<open>None\<close>.
\<close>

definition go_slice :: "'a list \<Rightarrow> int \<Rightarrow> int \<Rightarrow> 'a list option" where
  "go_slice xs lo hi = (if 0 \<le> lo \<and> lo \<le> hi \<and> hi \<le> int (length xs)
     then Some (take (nat hi - nat lo) (drop (nat lo) xs)) else None)"

definition paginate :: "'a list \<Rightarrow> int \<Rightarrow> int \<Rightarrow> 'a list option" where
  "paginate xs limit offset =
     (if int (length xs) \<le> offset then Some []
      else let e = i64 (offset + limit);
               e' = (if int (length xs) < e then int (length xs) else e)
           in go_slice xs offset e')"

lemma paginate_page:
  assumes "0 \<le> offset" "0 < limit" "in_i64 (offset + limit)"
  shows "paginate xs limit offset = Some (take (nat limit) (drop (nat offset) xs))"
proof (cases "int (length xs) \<le> offset")
  case True
  then show ?thesis by (auto simp: paginate_def)
next
  case False
  show ?thesis
  proof (cases "int (length xs) < offset + limit")
    case True
    with False assms show ?thesis
      by (simp add: paginate_def Let_def go_slice_def)
  next
    case fits: False
    have "nat (offset + limit) - nat offset = nat limit" using assms by linarith
    with False fits assms show ?thesis
      by (simp add: paginate_def Let_def go_slice_def)
  qed
qed

section \<open>Lists\<close>

lemma length_filter_remove1_le: "length (filter P (remove1 x xs)) \<le> length (filter P xs)"
  by (induction xs) auto

lemma distinct_remove1_notin: "distinct xs \<Longrightarrow> x \<notin> set (remove1 x xs)"
  by simp

lemma filter_remove1_not: "\<not> P x \<Longrightarrow> filter P (remove1 x xs) = filter P xs"
  by (induction xs) auto

lemma length_filter_mono: "(\<And>x. x \<in> set xs \<Longrightarrow> P x \<Longrightarrow> Q x) \<Longrightarrow>
    length (filter P xs) \<le> length (filter Q xs)"
  by (induction xs) (auto simp: le_SucI)

lemma distinct_key_singleton:
  assumes "distinct (map f xs)" "\<And>a b. a \<in> set xs \<Longrightarrow> b \<in> set xs \<Longrightarrow> f a = f b"
  shows "length xs \<le> 1"
proof (cases xs)
  case (Cons a ys)
  show ?thesis
  proof (cases ys)
    case (Cons b zs)
    with \<open>xs = a # ys\<close> have "f a = f b" by (intro assms(2)) simp_all
    with assms(1) \<open>xs = a # ys\<close> Cons show ?thesis by simp
  qed (simp add: Cons)
qed simp

end
