(* ===== verification/Entities.thy ===== *)
theory Entities
  imports Prelude
begin

text \<open>
  The entities of \<open>internal/entity\<close>: the sentinel errors and error wrapping, games and
  their life cycle, advisory reservations, users, blockchain events, dead letter entries,
  the blockchain checkpoint, and the vocabulary of the activity queues, each with its
  \<open>Validate\<close> method and predicates. A \<open>Validate\<close> method returns \<open>None\<close> for
  Go's \<open>nil\<close>. A nil pointer field is \<open>None\<close>. Methods that read the clock take
  the instant they read.
\<close>

section \<open>Errors\<close>

text \<open>
  The sentinel errors of \<open>errors.go\<close> and of \<open>blockchain_subscriber.go\<close>,
  \<open>errors.New\<close> with a text, and \<open>fmt.Errorf("\<dots>: %w", err)\<close>, which keeps
  the wrapped error for \<open>errors.Is\<close>.
\<close>

datatype error =
    ErrGameAlreadyReserved | ErrTooManyReservations | ErrCannotReserveOwnGame
  | ErrNotReservationHolder | ErrGameNotAvailable | ErrReservationNotFound
  | ErrExpiredClaimWalletRequired | ErrGameCancellationPending | ErrCancelAlreadyReserved
  | ErrCancelNotAvailable | ErrNotGameCreator | ErrTooManyCancelReservations
  | ErrCancelReservationNotFound | ErrNotCancelReservationHolder | ErrRevealAlreadyReserved
  | ErrRevealNotAvailable | ErrNotAPlayer | ErrTooManyRevealReservations
  | ErrRevealReservationNotFound | ErrNotRevealReservationHolder | ErrExpiredClaimAlreadyClaimed
  | ErrExpiredClaimNotAvailable | ErrNotExpiredClaimParticipant | ErrTooManyExpiredClaims
  | ErrExpiredClaimNotFound | ErrNotExpiredClaimHolder | ErrInvalidActivityQueueKey
  | ErrInvalidActivityOffset | ErrActivityWalletRequired
  | errTransactionHasNoInMsg | errTransactionHasNoGameEvents | errUnknownEventType
  | ErrorString string
  | Wrapf string error

fun errors_is :: "error \<Rightarrow> error \<Rightarrow> bool" where
  "errors_is (Wrapf p e) target = (Wrapf p e = target \<or> errors_is e target)"
| "errors_is e target = (e = target)"

text \<open>\<open>err.Error()\<close>, with the texts of \<open>errors.go\<close>.\<close>

fun Error :: "error \<Rightarrow> string" where
  "Error ErrGameAlreadyReserved = ''game is already reserved by another player''"
| "Error ErrTooManyReservations = ''wallet has too many active reservations''"
| "Error ErrCannotReserveOwnGame = ''cannot reserve your own game''"
| "Error ErrNotReservationHolder = ''only the reservation holder can perform this action''"
| "Error ErrGameNotAvailable = ''game is not available for reservation''"
| "Error ErrReservationNotFound = ''reservation not found''"
| "Error ErrExpiredClaimWalletRequired = ''wallet address is required''"
| "Error ErrGameCancellationPending = ''game is currently being cancelled''"
| "Error ErrCancelAlreadyReserved = ''cancel is already reserved by another session''"
| "Error ErrCancelNotAvailable = ''game is not available for cancel reservation''"
| "Error ErrNotGameCreator = ''only the game creator can reserve cancel''"
| "Error ErrTooManyCancelReservations = ''wallet has too many active cancel reservations''"
| "Error ErrCancelReservationNotFound = ''cancel reservation not found''"
| "Error ErrNotCancelReservationHolder = ''only the cancel reservation holder can perform this action''"
| "Error ErrRevealAlreadyReserved = ''reveal is already reserved by another player''"
| "Error ErrRevealNotAvailable = ''game is not available for reveal reservation''"
| "Error ErrNotAPlayer = ''only participants of the game can reserve a reveal''"
| "Error ErrTooManyRevealReservations = ''wallet has too many active reveal reservations''"
| "Error ErrRevealReservationNotFound = ''reveal reservation not found''"
| "Error ErrNotRevealReservationHolder = ''only the reveal reservation holder can perform this action''"
| "Error ErrExpiredClaimAlreadyClaimed = ''expired follow-up is already claimed by another player''"
| "Error ErrExpiredClaimNotAvailable = ''game is not available for expired follow-up''"
| "Error ErrNotExpiredClaimParticipant = ''only participants of the game can claim expired follow-up''"
| "Error ErrTooManyExpiredClaims = ''wallet has too many active expired follow-up claims''"
| "Error ErrExpiredClaimNotFound = ''expired follow-up claim not found''"
| "Error ErrNotExpiredClaimHolder = ''only the expired follow-up claim holder can perform this action''"
| "Error ErrInvalidActivityQueueKey = ''invalid queue key''"
| "Error ErrInvalidActivityOffset = ''offset cannot be negative''"
| "Error ErrActivityWalletRequired = ''wallet address is required''"
| "Error errTransactionHasNoInMsg = ''transaction has no in_msg data''"
| "Error errTransactionHasNoGameEvents = ''transaction has no parsable game event messages''"
| "Error errUnknownEventType = ''unknown event type''"
| "Error (ErrorString s) = s"
| "Error (Wrapf p e) = p @ '': '' @ Error e"

section \<open>Games\<close>

abbreviation (input) GameStatusUninitialized :: int where "GameStatusUninitialized \<equiv> 0"
abbreviation (input) GameStatusWaitingForOpponent :: int where "GameStatusWaitingForOpponent \<equiv> 1"
abbreviation (input) GameStatusWaitingForOpenBids :: int where "GameStatusWaitingForOpenBids \<equiv> 2"
abbreviation (input) GameStatusEnded :: int where "GameStatusEnded \<equiv> 3"
abbreviation (input) GameStatusPaid :: int where "GameStatusPaid \<equiv> 4"

abbreviation (input) CoinSideUnknown :: int where "CoinSideUnknown \<equiv> 0"
abbreviation (input) CoinSideClosed :: int where "CoinSideClosed \<equiv> 1"
abbreviation (input) CoinSideHeads :: int where "CoinSideHeads \<equiv> 2"
abbreviation (input) CoinSideTails :: int where "CoinSideTails \<equiv> 3"

record Game =
  g_GameID :: int
  g_Status :: int
  g_PlayerOneAddress :: wallet
  g_PlayerTwoAddress :: "wallet option"
  g_PlayerOneChoice :: int
  g_PlayerTwoChoice :: "int option"
  g_PlayerOneReferrer :: "wallet option"
  g_PlayerTwoReferrer :: "wallet option"
  g_BetAmount :: int
  g_WinnerAddress :: "wallet option"
  g_PayoutAmount :: "int option"
  g_ServiceFeeNumerator :: int
  g_ReferrerFeeNumerator :: int
  g_WaitingTimeoutSeconds :: int
  g_LowestBidAllowed :: int
  g_HighestBidAllowed :: int
  g_MinReferrerPayoutValue :: int
  g_ProtocolVersion :: int
  g_FeeReceiverAddress :: wallet
  g_CreatedAt :: instant
  g_JoinedAt :: "instant option"
  g_RevealedAt :: "instant option"
  g_CompletedAt :: "instant option"
  g_InitTxHash :: string
  g_JoinTxHash :: "string option"
  g_RevealTxHash :: "string option"
  g_CompleteTxHash :: "string option"

text \<open>The regular expression \<open>^EQ[A-Za-z0-9_-]{46}$\<close> of \<open>user.go\<close>.\<close>

definition ton_char :: "char \<Rightarrow> bool" where
  "ton_char c \<longleftrightarrow> (let n = (of_char c :: nat) in
     65 \<le> n \<and> n \<le> 90 \<or> 97 \<le> n \<and> n \<le> 122 \<or> 48 \<le> n \<and> n \<le> 57 \<or> n = 95 \<or> n = 45)"

definition tonAddressRegex :: "string \<Rightarrow> bool" where
  "tonAddressRegex s \<longleftrightarrow> take 2 s = ''EQ'' \<and> length s = 48 \<and> list_all ton_char (drop 2 s)"

definition Game_Validate :: "Game \<Rightarrow> error option" where
  "Game_Validate g =
     (if g_GameID g \<le> 0 then Some (ErrorString ''game_id must be positive'')
      else if g_Status g < GameStatusUninitialized \<or> g_Status g > GameStatusPaid
        then Some (ErrorString ''status must be 0-4'')
      else if \<not> tonAddressRegex (g_PlayerOneAddress g)
        then Some (ErrorString ''player_one_address must be valid TON address'')
      else if g_BetAmount g \<le> 0 then Some (ErrorString ''bet_amount must be positive'')
      else if g_PlayerOneChoice g < CoinSideUnknown \<or> g_PlayerOneChoice g > CoinSideTails
        then Some (ErrorString ''player_one_choice must be 0-3'')
      else if g_Status g \<ge> GameStatusWaitingForOpenBids \<and> g_PlayerTwoAddress g = None
        then Some (ErrorString ''player_two_address required for status >= 2'')
      else if g_PlayerTwoAddress g \<noteq> None \<and> g_PlayerTwoAddress g = Some (g_PlayerOneAddress g)
        then Some (ErrorString ''player_two_address must be different from player_one_address'')
      else if g_InitTxHash g = '''' then Some (ErrorString ''init_tx_hash is required'')
      else None)"

definition CanTransitionTo :: "Game \<Rightarrow> int \<Rightarrow> bool" where
  "CanTransitionTo g newStatus =
     (if newStatus < g_Status g
      then (if g_Status g = GameStatusEnded \<and> newStatus = GameStatusPaid then True else False)
      else True)"

lemma CanTransitionTo_iff: "CanTransitionTo g n \<longleftrightarrow> g_Status g \<le> n"
  by (auto simp: CanTransitionTo_def)

section \<open>Reservations\<close>

abbreviation ReservationStatusActive :: string where "ReservationStatusActive \<equiv> ''active''"
abbreviation ReservationStatusReleased :: string where "ReservationStatusReleased \<equiv> ''released''"
abbreviation ReservationStatusExpired :: string where "ReservationStatusExpired \<equiv> ''expired''"

text \<open>
  \<open>GameReservation\<close>; \<open>CancelReservation\<close>, \<open>RevealReservation\<close> and
  \<open>ExpiredClaim\<close> are aliases of the same type in Go, and so are they here.
\<close>

record GameReservation =
  r_GameID :: int
  r_WalletAddress :: wallet
  r_CreatedAt :: instant
  r_ExpiresAt :: instant
  r_Status :: string

type_synonym CancelReservation = GameReservation
type_synonym RevealReservation = GameReservation
type_synonym ExpiredClaim = GameReservation

definition Reservation_Validate :: "GameReservation \<Rightarrow> error option" where
  "Reservation_Validate r =
     (if r_GameID r \<le> 0 then Some (ErrorString ''game_id must be positive'')
      else if r_WalletAddress r = '''' then Some (ErrorString ''wallet_address is required'')
      else if r_Status r \<noteq> ReservationStatusActive \<and> r_Status r \<noteq> ReservationStatusReleased
            \<and> r_Status r \<noteq> ReservationStatusExpired
        then Some (ErrorString ''invalid status'')
      else None)"

definition IsExpired :: "instant \<Rightarrow> GameReservation \<Rightarrow> bool" where
  "IsExpired now r \<longleftrightarrow> r_ExpiresAt r < now"

definition IsActive :: "instant \<Rightarrow> GameReservation \<Rightarrow> bool" where
  "IsActive now r \<longleftrightarrow> r_Status r = ReservationStatusActive \<and> \<not> IsExpired now r"

definition TimeRemaining :: "instant \<Rightarrow> GameReservation \<Rightarrow> duration" where
  "TimeRemaining now r = (let remaining = r_ExpiresAt r - now
                          in if remaining < 0 then 0 else remaining)"

lemma IsExpired_mono: "IsExpired t r \<Longrightarrow> t \<le> t' \<Longrightarrow> IsExpired t' r"
  by (simp add: IsExpired_def)

lemma IsActive_antimono: "IsActive t' r \<Longrightarrow> t \<le> t' \<Longrightarrow> IsActive t r"
  by (auto simp: IsActive_def IsExpired_def)

lemma IsActive_released [simp]:
  "\<not> IsActive t (r\<lparr>r_Status := ReservationStatusReleased\<rparr>)"
  "\<not> IsActive t (r\<lparr>r_Status := ReservationStatusExpired\<rparr>)"
  by (simp_all add: IsActive_def)

lemma TimeRemaining_active:
  "IsActive now r \<Longrightarrow> TimeRemaining now r = r_ExpiresAt r - now \<and> 0 \<le> TimeRemaining now r"
  by (simp add: IsActive_def IsExpired_def TimeRemaining_def)

section \<open>Users\<close>

record User =
  u_ID :: int
  u_TelegramUserID :: "int option"
  u_TelegramUsername :: string
  u_WalletAddress :: wallet
  u_TotalGamesPlayed :: int
  u_TotalWins :: int
  u_TotalLosses :: int
  u_TotalReferrals :: int
  u_TotalReferralEarnings :: int
  u_CreatedAt :: instant
  u_UpdatedAt :: instant

definition User_Validate :: "User \<Rightarrow> error option" where
  "User_Validate u =
     (if u_WalletAddress u = '''' then Some (ErrorString ''wallet_address is required'')
      else if \<not> tonAddressRegex (u_WalletAddress u)
        then Some (ErrorString ''wallet_address must be valid TON address format (EQ...)'')
      else if (case u_TelegramUserID u of None \<Rightarrow> False | Some i \<Rightarrow> i \<le> 0)
        then Some (ErrorString ''telegram_user_id must be positive when provided'')
      else if u_TotalGamesPlayed u < 0
        then Some (ErrorString ''total_games_played cannot be negative'')
      else if u_TotalWins u < 0 then Some (ErrorString ''total_wins cannot be negative'')
      else if u_TotalLosses u < 0 then Some (ErrorString ''total_losses cannot be negative'')
      else if u_TotalReferrals u < 0 then Some (ErrorString ''total_referrals cannot be negative'')
      else if u_TotalReferralEarnings u < 0
        then Some (ErrorString ''total_referral_earnings cannot be negative'')
      else None)"

section \<open>Blockchain events\<close>

abbreviation EventGameInitialized :: string where "EventGameInitialized \<equiv> ''GameInitializedNotify''"
abbreviation EventGameStarted :: string where "EventGameStarted \<equiv> ''GameStartedNotify''"
abbreviation EventGameFinished :: string where "EventGameFinished \<equiv> ''GameFinishedNotify''"
abbreviation EventGameCancelled :: string where "EventGameCancelled \<equiv> ''GameCancelledNotify''"
abbreviation EventDraw :: string where "EventDraw \<equiv> ''DrawNotify''"
abbreviation EventSecretOpened :: string where "EventSecretOpened \<equiv> ''SecretOpenedNotify''"
abbreviation EventInsufficientBalance :: string
  where "EventInsufficientBalance \<equiv> ''InsufficientBalanceNotify''"

text \<open>
  A value of \<open>map[string]interface{}\<close>: the dynamic types \<open>extractInt64\<close> and
  \<open>extractString\<close> distinguish, and any other type by its name. A finite
  \<open>float64\<close> is the rational number it denotes.
\<close>

datatype gval =
    VInt64 int | VFloat64 rat | VInt int | VUint8 int | VUint16 int | VUint32 int
  | VUint64 int | VString string | VOther string

type_synonym event_data = "string \<rightharpoonup> gval"

record GameEvent =
  e_ID :: int
  e_GameID :: int
  e_EventType :: string
  e_TransactionHash :: string
  e_BlockNumber :: int
  e_Timestamp :: instant
  e_Payload :: string
  e_EventData :: "event_data option"
  e_CreatedAt :: instant

definition validEventTypes :: "string list" where
  "validEventTypes = [EventGameInitialized, EventGameStarted, EventGameFinished,
     EventGameCancelled, EventDraw, EventSecretOpened, EventInsufficientBalance]"

fun contains :: "string list \<Rightarrow> string \<Rightarrow> bool" where
  "contains [] item = False"
| "contains (s # slice) item = (if s = item then True else contains slice item)"

lemma contains_iff [simp]: "contains xs x \<longleftrightarrow> x \<in> set xs"
  by (induction xs) auto

definition GameEvent_Validate :: "GameEvent \<Rightarrow> error option" where
  "GameEvent_Validate e =
     (if \<not> contains validEventTypes (e_EventType e) then Some (ErrorString ''invalid event_type'')
      else if e_TransactionHash e = '''' then Some (ErrorString ''transaction_hash is required'')
      else if e_GameID e \<le> 0 then Some (ErrorString ''game_id must be positive'')
      else if e_BlockNumber e < 0 then Some (ErrorString ''block_number cannot be negative'')
      else None)"

section \<open>The blockchain checkpoint\<close>

record BlockchainSyncState =
  s_ID :: int
  s_ContractAddress :: string
  s_LastProcessedBlock :: int
  s_LastPollTimestamp :: instant
  s_UpdatedAt :: instant
  s_EventSourceType :: string
  s_LastProcessedLt :: string
  s_LastProcessedHash :: string
  s_WebSocketConnected :: bool
  s_FallbackCount :: int
  s_LastFallbackAt :: "instant option"

definition SyncState_Validate :: "BlockchainSyncState \<Rightarrow> error option" where
  "SyncState_Validate s =
     (if s_ID s \<noteq> 1 then Some (ErrorString ''id must be 1 (singleton)'')
      else if s_ContractAddress s = '''' then Some (ErrorString ''contract_address is required'')
      else if \<not> tonAddressRegex (s_ContractAddress s)
        then Some (ErrorString ''contract_address must be valid TON address format (EQ...)'')
      else if s_LastProcessedBlock s < 0
        then Some (ErrorString ''last_processed_block cannot be negative'')
      else if s_EventSourceType s \<noteq> '''' \<and> s_EventSourceType s \<noteq> ''websocket''
            \<and> s_EventSourceType s \<noteq> ''http''
        then Some (ErrorString (''event_source_type must be 'websocket' or 'http'' @ [CHR 0x27]))
      else None)"

end
