(* ===== verification/Wallet.thy ===== *)
theory Wallet
  imports Entities
begin

text \<open>
  Wallet identity (\<open>normalizeReservationWallet\<close>, \<open>sameReservationWallet\<close> of
  \<open>reservation.go\<close>, \<open>isGameParticipant\<close> of \<open>reveal_reservation.go\<close>,
  \<open>belongsToWallet\<close> of \<open>game_activity.go\<close>). Two spellings of an address name
  the same wallet when they normalise to the same string. The TON address library is the
  parameter \<open>pa\<close>: \<open>address.ParseAddr\<close> followed by \<open>StringRaw\<close>,
  \<open>None\<close> for a parse error. The only fact used of it, where it is used, is that the
  raw form of an address is not the empty string.
\<close>

type_synonym parse_addr = "string \<Rightarrow> string option"

definition raw_nonempty :: "parse_addr \<Rightarrow> bool" where
  "raw_nonempty pa \<longleftrightarrow> (\<forall>s r. pa s = Some r \<longrightarrow> r \<noteq> [])"

definition normalizeReservationWallet :: "parse_addr \<Rightarrow> wallet \<Rightarrow> string" where
  "normalizeReservationWallet pa walletAddress =
     (let trimmedWalletAddress = TrimSpace walletAddress in
      if trimmedWalletAddress = '''' then ''''
      else case pa trimmedWalletAddress of
          None \<Rightarrow> ToLower trimmedWalletAddress
        | Some raw \<Rightarrow> raw)"

definition sameReservationWallet :: "parse_addr \<Rightarrow> wallet \<Rightarrow> string \<Rightarrow> bool" where
  "sameReservationWallet pa walletAddress normalizedWalletAddress =
     (if normalizedWalletAddress = '''' then normalizeReservationWallet pa walletAddress = ''''
      else normalizeReservationWallet pa walletAddress = normalizedWalletAddress)"

definition isGameParticipant :: "parse_addr \<Rightarrow> Game \<Rightarrow> string \<Rightarrow> bool" where
  "isGameParticipant pa game normalizedWallet =
     (if sameReservationWallet pa (g_PlayerOneAddress game) normalizedWallet then True
      else case g_PlayerTwoAddress game of
          None \<Rightarrow> False
        | Some p2 \<Rightarrow> sameReservationWallet pa p2 normalizedWallet)"

definition belongsToWallet :: "parse_addr \<Rightarrow> Game option \<Rightarrow> string \<Rightarrow> bool" where
  "belongsToWallet pa game normalizedWallet = (case game of
       None \<Rightarrow> False
     | Some g \<Rightarrow> if sameReservationWallet pa (g_PlayerOneAddress g) normalizedWallet then True
         else g_PlayerTwoAddress g \<noteq> None
            \<and> sameReservationWallet pa (the (g_PlayerTwoAddress g)) normalizedWallet)"

lemma sameReservationWallet_iff [simp]:
  "sameReservationWallet pa w n \<longleftrightarrow> normalizeReservationWallet pa w = n"
  by (simp add: sameReservationWallet_def)

lemma normalize_TrimSpace [simp]:
  "normalizeReservationWallet pa (TrimSpace w) = normalizeReservationWallet pa w"
  by (simp add: normalizeReservationWallet_def)

lemma normalize_eq_Nil:
  "raw_nonempty pa \<Longrightarrow> normalizeReservationWallet pa w = [] \<longleftrightarrow> TrimSpace w = []"
  by (auto simp: normalizeReservationWallet_def Let_def raw_nonempty_def split: option.splits)

lemma isGameParticipant_iff:
  "isGameParticipant pa g n \<longleftrightarrow> normalizeReservationWallet pa (g_PlayerOneAddress g) = n
     \<or> (\<exists>p2. g_PlayerTwoAddress g = Some p2 \<and> normalizeReservationWallet pa p2 = n)"
  by (auto simp: isGameParticipant_def split: option.splits)

lemma belongsToWallet_Some [simp]:
  "belongsToWallet pa (Some g) n = isGameParticipant pa g n"
  by (auto simp: belongsToWallet_def isGameParticipant_iff)

end
