(* ===== verification/Claim_Store.thy ===== *)
theory Claim_Store
  imports Wallet
begin

text \<open>
  The in-memory store that the four claim use cases share in shape
  (\<open>ReservationUseCase\<close>, \<open>CancelReservationUseCase\<close>,
  \<open>RevealReservationUseCase\<close>, \<open>ExpiredClaimUseCase\<close>): the primary index
  from games to claims, the secondary index from normalised wallets to lists of games,
  and the configuration. The four Go types repeat the same helper code; the helpers are
  written once here and named by each use case in its own theory.

  The theory also fixes the contract of a claim service as a locale, with the lemmas that
  its clients (the activity queues, the persistence handlers, join/cancel coordination)
  rely on. Each use case interprets it.

  A Go map is iterated in an unspecified order: the loops over the primary index take
  the list of the keys in the order they are visited.
\<close>

section \<open>State\<close>

text \<open>
  Calls of the broadcast use case (\<open>game_broadcast.go\<close>) made by the claim use cases
  and by the persistence handlers, in the order they are made.
\<close>

datatype broadcast =
    BroadcastReservationCreated GameReservation
  | BroadcastReservationReleased int string
  | BroadcastCancelReservationCreated GameReservation
  | BroadcastCancelReservationReleased int string
  | BroadcastRevealReservationCreated GameReservation
  | BroadcastRevealReservationReleased int string
  | BroadcastExpiredClaimCreated GameReservation
  | BroadcastExpiredClaimReleased int string
  | BroadcastGameUpdateWithEvent Game string

record claim_store =
  reservations :: "int \<rightharpoonup> GameReservation"
  walletReservations :: "string \<rightharpoonup> int list"
  maxPerWallet :: int
  timeout :: duration
  cleanupInterval :: duration
  hasBroadcast :: bool    \<comment> \<open>\<open>broadcastUC != nil\<close>\<close>

record claim_config =
  MaxPerWallet :: int
  TimeoutSeconds :: int
  CleanupIntervalSeconds :: int

abbreviation (input) Second :: duration where "Second \<equiv> 1000000000"

text \<open>The constructors differ in their defaults only (timeout in seconds and limit).\<close>

definition new_claim_store :: "int \<Rightarrow> int \<Rightarrow> bool \<Rightarrow> claim_config \<Rightarrow> claim_store" where
  "new_claim_store defaultTimeout defaultMax bc cfg =
     (let t = i64 (TimeoutSeconds cfg * Second);
          c = i64 (CleanupIntervalSeconds cfg * Second)
      in \<lparr> reservations = Map.empty, walletReservations = Map.empty,
           maxPerWallet = (if MaxPerWallet cfg \<le> 0 then defaultMax else MaxPerWallet cfg),
           timeout = (if t \<le> 0 then defaultTimeout * Second else t),
           cleanupInterval = (if c \<le> 0 then 5 * Second else c),
           hasBroadcast = bc \<rparr>)"

section \<open>Helpers\<close>

definition wallet_ids :: "claim_store \<Rightarrow> string \<Rightarrow> int list" where
  "wallet_ids st key = (case walletReservations st key of None \<Rightarrow> [] | Some ids \<Rightarrow> ids)"

definition active_at :: "instant \<Rightarrow> claim_store \<Rightarrow> int \<Rightarrow> bool" where
  "active_at now st gid = (case reservations st gid of None \<Rightarrow> False | Some r \<Rightarrow> IsActive now r)"

text \<open>The loop that counts the active claims among the games listed for a wallet.\<close>

fun count_active :: "instant \<Rightarrow> claim_store \<Rightarrow> int list \<Rightarrow> int" where
  "count_active now st [] = 0"
| "count_active now st (gid # gids) =
     (if active_at now st gid then 1 else 0) + count_active now st gids"

text \<open>The loop that collects the active claims among the games listed for a wallet.\<close>

fun collect_active :: "instant \<Rightarrow> claim_store \<Rightarrow> int list \<Rightarrow> GameReservation list" where
  "collect_active now st [] = []"
| "collect_active now st (gid # gids) = (case reservations st gid of
       Some r \<Rightarrow> if IsActive now r then r # collect_active now st gids
                 else collect_active now st gids
     | None \<Rightarrow> collect_active now st gids)"

text \<open>
  \<open>append(ids[:i], ids[i+1:]...)\<close> at the first occurrence, and the deletion of a wallet
  whose list became empty.
\<close>

definition index_remove :: "parse_addr \<Rightarrow> wallet \<Rightarrow> int \<Rightarrow> claim_store \<Rightarrow> claim_store" where
  "index_remove pa walletAddress gameID st =
     (let key = normalizeReservationWallet pa walletAddress;
          ids = remove1 gameID (wallet_ids st key)
      in st\<lparr>walletReservations :=
              (if ids = [] then (walletReservations st)(key := None)
               else (walletReservations st)(key \<mapsto> ids))\<rparr>)"

definition new_claim :: "instant \<Rightarrow> claim_store \<Rightarrow> int \<Rightarrow> wallet \<Rightarrow> GameReservation" where
  "new_claim now st gameID walletAddress =
     \<lparr> r_GameID = gameID, r_WalletAddress = walletAddress, r_CreatedAt = now,
       r_ExpiresAt = now + timeout st, r_Status = ReservationStatusActive \<rparr>"

definition insert_claim :: "string \<Rightarrow> GameReservation \<Rightarrow> claim_store \<Rightarrow> claim_store" where
  "insert_claim key r st =
     st\<lparr> reservations := (reservations st)(r_GameID r \<mapsto> r),
         walletReservations := (walletReservations st)(key \<mapsto> wallet_ids st key @ [r_GameID r]) \<rparr>"

definition set_status :: "int \<Rightarrow> GameReservation \<Rightarrow> string \<Rightarrow> claim_store \<Rightarrow> claim_store" where
  "set_status gameID r s st = st\<lparr>reservations := (reservations st)(gameID \<mapsto> r\<lparr>r_Status := s\<rparr>)\<rparr>"

definition delete_claim :: "int \<Rightarrow> claim_store \<Rightarrow> claim_store" where
  "delete_claim gameID st = st\<lparr>reservations := (reservations st)(gameID := None)\<rparr>"

text \<open>
  The first test of the clean-up loops: an active claim past its expiry is marked expired
  and leaves the index.
\<close>

definition mark_expired :: "parse_addr \<Rightarrow> instant \<Rightarrow> int \<Rightarrow> GameReservation \<Rightarrow> claim_store
     \<Rightarrow> bool \<times> claim_store" where
  "mark_expired pa now gameID r st =
     (if r_Status r = ReservationStatusActive \<and> IsExpired now r
      then (True, index_remove pa (r_WalletAddress r) gameID
                    (set_status gameID r ReservationStatusExpired st))
      else (False, st))"

definition emit :: "claim_store \<Rightarrow> broadcast \<Rightarrow> broadcast list" where
  "emit st b = (if hasBroadcast st then [b] else [])"

text \<open>
  The second loop of the \<open>ListByWallet\<close> methods, outside the read lock: a claim whose
  game is no longer available (\<open>available\<close>) is released (\<open>release\<close>, with its
  announcements) and left out; an error ends the loop.
\<close>

fun filter_available ::
  "(int \<Rightarrow> error + bool) \<Rightarrow> (int \<Rightarrow> claim_store \<Rightarrow> claim_store \<times> broadcast list)
     \<Rightarrow> GameReservation list \<Rightarrow> claim_store
     \<Rightarrow> (error + GameReservation list) \<times> claim_store \<times> broadcast list" where
  "filter_available available release [] st = (Inr [], st, [])"
| "filter_available available release (r # rs) st =
     (case available (r_GameID r) of
        Inl err \<Rightarrow> (Inl err, st, [])
      | Inr False \<Rightarrow> (case release (r_GameID r) st of (st', bs) \<Rightarrow>
            (case filter_available available release rs st' of
               (out, st'', bs') \<Rightarrow> (out, st'', bs @ bs')))
      | Inr True \<Rightarrow> (case filter_available available release rs st of
            (Inl err, st', bs) \<Rightarrow> (Inl err, st', bs)
          | (Inr out, st', bs) \<Rightarrow> (Inr (r # out), st', bs)))"

text \<open>The lookup that every use case offers: the stored claim if it is active.\<close>

definition active_claim :: "claim_store \<Rightarrow> instant \<Rightarrow> int \<Rightarrow> GameReservation option" where
  "active_claim st now gameID = (case reservations st gameID of
       None \<Rightarrow> None
     | Some r \<Rightarrow> if \<not> IsActive now r then None else Some r)"

text \<open>
  The lookups that the join and the cancel use case call on each other:
  \<open>ReservationUseCase.GetReservation\<close> and \<open>CancelReservationUseCase.Get\<close>.
\<close>

definition GetReservation :: "claim_store \<Rightarrow> instant \<Rightarrow> int \<Rightarrow> GameReservation option" where
  "GetReservation st now gameID = (case reservations st gameID of
       None \<Rightarrow> None
     | Some r \<Rightarrow> if \<not> IsActive now r then None else Some r)"

definition Cancel_Get :: "claim_store \<Rightarrow> instant \<Rightarrow> int \<Rightarrow> CancelReservation option" where
  "Cancel_Get st now gameID = (case reservations st gameID of
       None \<Rightarrow> None
     | Some r \<Rightarrow> if \<not> IsActive now r then None else Some r)"

lemma GetReservation_eq [claim_simps]: "GetReservation = active_claim"
  by (simp add: fun_eq_iff GetReservation_def active_claim_def)

lemma Cancel_Get_eq [claim_simps]: "Cancel_Get = active_claim"
  by (simp add: fun_eq_iff Cancel_Get_def active_claim_def)


section \<open>The invariant of a claim store\<close>

text \<open>
  Every stored claim is filed under its own game, lasts exactly the configured timeout and
  has one of the three statuses; a claim whose status is active is listed in the index of
  its holder. The converse of the last clause does not hold: an expired claim that is
  overwritten before a clean-up leaves its game in the former holder's list.
\<close>

definition claim_ok :: "parse_addr \<Rightarrow> claim_store \<Rightarrow> int \<Rightarrow> GameReservation \<Rightarrow> bool" where
  "claim_ok pa st k r \<longleftrightarrow> r_GameID r = k \<and> r_ExpiresAt r = r_CreatedAt r + timeout st
     \<and> r_Status r \<in> {ReservationStatusActive, ReservationStatusReleased, ReservationStatusExpired}
     \<and> (r_Status r = ReservationStatusActive
          \<longrightarrow> k \<in> set (wallet_ids st (normalizeReservationWallet pa (r_WalletAddress r))))"

definition store_inv :: "parse_addr \<Rightarrow> claim_store \<Rightarrow> bool" where
  "store_inv pa st \<longleftrightarrow> 0 < maxPerWallet st \<and> 0 < timeout st \<and> finite (dom (reservations st))
     \<and> (\<forall>k r. reservations st k = Some r \<longrightarrow> claim_ok pa st k r)"

text \<open>The games a (normalised) wallet actively holds, and the per-wallet limit.\<close>

definition held :: "parse_addr \<Rightarrow> instant \<Rightarrow> claim_store \<Rightarrow> string \<Rightarrow> int set" where
  "held pa now st n = {k. \<exists>r. reservations st k = Some r \<and> IsActive now r
                            \<and> normalizeReservationWallet pa (r_WalletAddress r) = n}"

definition limit_ok :: "parse_addr \<Rightarrow> instant \<Rightarrow> claim_store \<Rightarrow> bool" where
  "limit_ok pa now st \<longleftrightarrow> (\<forall>n. int (card (held pa now st n)) \<le> maxPerWallet st)"

subsection \<open>Reading the helpers\<close>

lemma store_fields [simp]:
  "reservations (index_remove pa w k st) = reservations st"
  "maxPerWallet (index_remove pa w k st) = maxPerWallet st"
  "timeout (index_remove pa w k st) = timeout st"
  "hasBroadcast (index_remove pa w k st) = hasBroadcast st"
  "reservations (insert_claim key r st) = (reservations st)(r_GameID r \<mapsto> r)"
  "maxPerWallet (insert_claim key r st) = maxPerWallet st"
  "timeout (insert_claim key r st) = timeout st"
  "hasBroadcast (insert_claim key r st) = hasBroadcast st"
  "reservations (set_status k r s st) = (reservations st)(k \<mapsto> r\<lparr>r_Status := s\<rparr>)"
  "maxPerWallet (set_status k r s st) = maxPerWallet st"
  "timeout (set_status k r s st) = timeout st"
  "hasBroadcast (set_status k r s st) = hasBroadcast st"
  "walletReservations (set_status k r s st) = walletReservations st"
  "reservations (delete_claim k st) = (reservations st)(k := None)"
  "maxPerWallet (delete_claim k st) = maxPerWallet st"
  "timeout (delete_claim k st) = timeout st"
  "hasBroadcast (delete_claim k st) = hasBroadcast st"
  "walletReservations (delete_claim k st) = walletReservations st"
  by (simp_all add: index_remove_def insert_claim_def set_status_def delete_claim_def Let_def)

lemma wallet_ids_index_remove:
  "wallet_ids (index_remove pa w k st) n =
     (if n = normalizeReservationWallet pa w then remove1 k (wallet_ids st n) else wallet_ids st n)"
  by (simp add: wallet_ids_def index_remove_def Let_def)

lemma wallet_ids_insert_claim:
  "wallet_ids (insert_claim key r st) n =
     (if n = key then wallet_ids st n @ [r_GameID r] else wallet_ids st n)"
  by (simp add: wallet_ids_def insert_claim_def)

lemma wallet_ids_set_status [simp]: "wallet_ids (set_status k r s st) = wallet_ids st"
  by (simp add: wallet_ids_def fun_eq_iff)

lemma wallet_ids_delete_claim [simp]: "wallet_ids (delete_claim k st) = wallet_ids st"
  by (simp add: wallet_ids_def fun_eq_iff)

lemma mem_index_remove_other:
  "k' \<noteq> k \<Longrightarrow> k' \<in> set (wallet_ids (index_remove pa w k st) n) \<longleftrightarrow> k' \<in> set (wallet_ids st n)"
  by (simp add: wallet_ids_index_remove)

lemma new_claim_simps [simp]:
  "r_GameID (new_claim now st k w) = k" "r_WalletAddress (new_claim now st k w) = w"
  "r_CreatedAt (new_claim now st k w) = now" "r_ExpiresAt (new_claim now st k w) = now + timeout st"
  "r_Status (new_claim now st k w) = ReservationStatusActive"
  by (simp_all add: new_claim_def)

lemma new_claim_active: "0 < timeout st \<Longrightarrow> IsActive now (new_claim now st k w)"
  by (simp add: IsActive_def IsExpired_def)

lemma active_claim_Some:
  "active_claim st now k = Some r \<longleftrightarrow> reservations st k = Some r \<and> IsActive now r"
  by (auto simp: active_claim_def split: option.splits)

lemma active_claim_None: "active_claim st now k = None \<longleftrightarrow> \<not> active_at now st k"
  by (auto simp: active_claim_def active_at_def split: option.splits)

lemma active_claim_same:
  "reservations st' k = reservations st k \<Longrightarrow> active_claim st' now k = active_claim st now k"
  by (simp add: active_claim_def)

lemma count_active_filter: "count_active now st gids = int (length (filter (active_at now st) gids))"
  by (induction gids) auto

lemma collect_active_set:
  "r \<in> set (collect_active now st gids) \<longleftrightarrow>
     (\<exists>k \<in> set gids. reservations st k = Some r \<and> IsActive now r)"
  by (induction gids) (auto split: option.splits)

lemma collect_active_length: "int (length (collect_active now st gids)) = count_active now st gids"
  by (induction gids) (auto simp: active_at_def split: option.splits)

subsection \<open>Preservation by the primitive steps\<close>

lemma store_inv_claim: "store_inv pa st \<Longrightarrow> reservations st k = Some r \<Longrightarrow> claim_ok pa st k r"
  by (simp add: store_inv_def)

lemma new_claim_store_inv:
  "0 < dt \<Longrightarrow> 0 < dm \<Longrightarrow> store_inv pa (new_claim_store dt dm bc cfg)"
  by (simp add: store_inv_def new_claim_store_def Let_def)

lemma new_claim_store_fields [simp]:
  "reservations (new_claim_store dt dm bc cfg) = Map.empty"
  "walletReservations (new_claim_store dt dm bc cfg) = Map.empty"
  "hasBroadcast (new_claim_store dt dm bc cfg) = bc"
  by (simp_all add: new_claim_store_def Let_def)

lemma insert_claim_inv:
  assumes "store_inv pa st" "n = normalizeReservationWallet pa w"
  shows "store_inv pa (insert_claim n (new_claim now st k w) st)"
  using assms by (fastforce simp: store_inv_def claim_ok_def wallet_ids_insert_claim split: if_splits)

lemma release_claim_inv:
  assumes "store_inv pa st" "reservations st k = Some r"
    and "s \<in> {ReservationStatusReleased, ReservationStatusExpired}"
  shows "store_inv pa (index_remove pa (r_WalletAddress r) k (set_status k r s st))"
  using assms by (auto simp: store_inv_def claim_ok_def mem_index_remove_other)

lemma drop_claim_inv:
  assumes "store_inv pa st"
  shows "store_inv pa (delete_claim k (index_remove pa w k st))"
  using assms by (auto simp: store_inv_def claim_ok_def mem_index_remove_other)

lemma delete_claim_inv: "store_inv pa st \<Longrightarrow> store_inv pa (delete_claim k st)"
  by (auto simp: store_inv_def claim_ok_def)

subsection \<open>The per-wallet limit\<close>

lemma finite_held: "store_inv pa st \<Longrightarrow> finite (held pa now st n)"
  by (rule finite_subset [of _ "dom (reservations st)"]) (auto simp: held_def store_inv_def)

lemma held_listed:
  assumes "store_inv pa st"
  shows "held pa now st n \<subseteq> set (filter (active_at now st) (wallet_ids st n))"
  using store_inv_claim [OF assms]
  by (fastforce simp: held_def active_at_def claim_ok_def IsActive_def)

text \<open>The count over the index never misses a claim the wallet actively holds.\<close>

lemma card_held_le_count:
  assumes "store_inv pa st"
  shows "int (card (held pa now st n)) \<le> count_active now st (wallet_ids st n)"
proof -
  have "card (held pa now st n) \<le> card (set (filter (active_at now st) (wallet_ids st n)))"
    by (rule card_mono [OF _ held_listed [OF assms]]) simp
  also have "\<dots> \<le> length (filter (active_at now st) (wallet_ids st n))"
    by (rule card_length)
  finally show ?thesis by (simp add: count_active_filter)
qed

lemma limit_ok_subset:
  assumes "store_inv pa st" "limit_ok pa now st" "maxPerWallet st' = maxPerWallet st"
    and "\<And>n. held pa now st' n \<subseteq> held pa now st n"
  shows "limit_ok pa now st'"
  unfolding limit_ok_def
proof
  fix n
  have "card (held pa now st' n) \<le> card (held pa now st n)"
    by (rule card_mono [OF finite_held [OF assms(1)] assms(4)])
  with assms(2,3) show "int (card (held pa now st' n)) \<le> maxPerWallet st'"
    unfolding limit_ok_def by (metis of_nat_mono order_trans)
qed

lemma held_later: "t \<le> t' \<Longrightarrow> held pa t' st n \<subseteq> held pa t st n"
  by (auto simp: held_def intro: IsActive_antimono)

lemma limit_ok_later:
  assumes "store_inv pa st" "limit_ok pa t st" "t \<le> t'"
  shows "limit_ok pa t' st"
  unfolding limit_ok_def
proof
  fix n
  have "card (held pa t' st n) \<le> card (held pa t st n)"
    by (rule card_mono [OF finite_held [OF assms(1)] held_later [OF assms(3)]])
  with assms(2) show "int (card (held pa t' st n)) \<le> maxPerWallet st"
    unfolding limit_ok_def by (metis of_nat_mono order_trans)
qed

lemma held_insert_claim:
  "held pa now (insert_claim key (new_claim now st k w) st) n \<subseteq>
     (if n = normalizeReservationWallet pa w then insert k (held pa now st n) else held pa now st n)"
  by (auto simp: held_def split: if_splits)

lemma card_held_insert_claim:
  assumes "store_inv pa st"
  shows "card (held pa now (insert_claim key (new_claim now st k w) st) n) \<le>
     (if n = normalizeReservationWallet pa w then Suc (card (held pa now st n))
      else card (held pa now st n))"
proof -
  let ?H = "held pa now st n"
  have fin: "finite ?H" by (rule finite_held [OF assms])
  have "card (held pa now (insert_claim key (new_claim now st k w) st) n)
      \<le> card (if n = normalizeReservationWallet pa w then insert k ?H else ?H)"
    by (rule card_mono [OF _ held_insert_claim]) (use fin in auto)
  also have "\<dots> \<le> (if n = normalizeReservationWallet pa w then Suc (card ?H) else card ?H)"
    using card_insert_le_m1 fin by (auto simp: card_insert_if)
  finally show ?thesis .
qed

lemma limit_ok_insert:
  assumes inv: "store_inv pa st" and lim: "limit_ok pa now st"
    and below: "int (card (held pa now st (normalizeReservationWallet pa w))) < maxPerWallet st"
  shows "limit_ok pa now (insert_claim key (new_claim now st k w) st)"
  unfolding limit_ok_def
proof
  fix n
  have "int (card (held pa now st n)) \<le> maxPerWallet st"
    using lim by (simp add: limit_ok_def)
  with below show "int (card (held pa now (insert_claim key (new_claim now st k w) st) n))
      \<le> maxPerWallet (insert_claim key (new_claim now st k w) st)"
    using card_held_insert_claim [OF inv, of now key k w n] by (auto split: if_splits)
qed

lemma held_set_status:
  "s \<noteq> ReservationStatusActive \<Longrightarrow> held pa now (set_status k r s st) n \<subseteq> held pa now st n"
  by (auto simp: held_def IsActive_def split: if_splits)

lemma held_index_remove [simp]: "held pa now (index_remove pa' w k st) n = held pa now st n"
  by (simp add: held_def)

lemma held_delete_claim: "held pa now (delete_claim k st) n \<subseteq> held pa now st n"
  by (auto simp: held_def split: if_splits)

section \<open>The abstract machine of a claim store\<close>

text \<open>
  What a claim store may do, whatever the use case: time passes, a claim is created for a
  game without an active claim by a wallet that holds fewer claims than the limit, a claim
  just created is filed a second time (a batch that names a game twice), a claim is taken
  out of the index and leaves the active status, and a claim that is no longer active is
  deleted.
  Each operation of a use case is a sequence of such steps, which is what the use case's
  refinement lemmas say; the invariants are proved for the steps, once.
\<close>

inductive claim_step :: "parse_addr \<Rightarrow> instant \<times> claim_store \<Rightarrow> instant \<times> claim_store \<Rightarrow> bool"
  for pa :: parse_addr where
  tick: "now \<le> now' \<Longrightarrow> claim_step pa (now, st) (now', st)"
| create: "\<not> active_at now st k \<Longrightarrow> n = normalizeReservationWallet pa w \<Longrightarrow>
     int (card (held pa now st n)) < maxPerWallet st \<Longrightarrow>
     claim_step pa (now, st) (now, insert_claim n (new_claim now st k w) st)"
| again: "reservations st k = Some (new_claim now st k w) \<Longrightarrow> n = normalizeReservationWallet pa w \<Longrightarrow>
     claim_step pa (now, st) (now, insert_claim n (new_claim now st k w) st)"
| release: "reservations st k = Some r \<Longrightarrow>
     s \<in> {ReservationStatusReleased, ReservationStatusExpired} \<Longrightarrow>
     claim_step pa (now, st) (now, index_remove pa (r_WalletAddress r) k (set_status k r s st))"
| delete: "reservations st k = Some r \<Longrightarrow> \<not> IsActive now r \<Longrightarrow>
     claim_step pa (now, st) (now, delete_claim k st)"

abbreviation claim_steps :: "parse_addr \<Rightarrow> instant \<times> claim_store \<Rightarrow> instant \<times> claim_store \<Rightarrow> bool" where
  "claim_steps pa \<equiv> (claim_step pa)\<^sup>*\<^sup>*"

lemma claim_step_store_inv: "claim_step pa x y \<Longrightarrow> store_inv pa (snd x) \<Longrightarrow> store_inv pa (snd y)"
  by (induction rule: claim_step.induct)
    (auto intro: insert_claim_inv release_claim_inv delete_claim_inv)

lemma claim_steps_store_inv: "claim_steps pa x y \<Longrightarrow> store_inv pa (snd x) \<Longrightarrow> store_inv pa (snd y)"
  by (induction rule: rtranclp_induct) (auto intro: claim_step_store_inv)

lemma claim_step_inv:
  assumes "claim_step pa (now, st) (now', st')" "store_inv pa st" "limit_ok pa now st"
  shows "store_inv pa st' \<and> limit_ok pa now' st' \<and> now \<le> now'"
  using assms
proof (cases rule: claim_step.cases)
  case tick
  with assms show ?thesis by (auto intro: limit_ok_later)
next
  case (create k n w)
  with assms show ?thesis by (auto intro: insert_claim_inv limit_ok_insert)
next
  case (again k w n)
  have "limit_ok pa now (insert_claim n (new_claim now st k w) st)"
    by (rule limit_ok_subset [OF assms(2,3)]) (use again in \<open>auto simp: held_def\<close>)
  with again assms show ?thesis by (auto intro: insert_claim_inv)
next
  case (release k r s)
  have "limit_ok pa now (index_remove pa (r_WalletAddress r) k (set_status k r s st))"
    by (rule limit_ok_subset [OF assms(2,3)])
      (use release held_set_status [of s] in \<open>auto simp: subset_iff\<close>)
  with release assms show ?thesis by (auto intro: release_claim_inv)
next
  case (delete k r)
  have "limit_ok pa now (delete_claim k st)"
    by (rule limit_ok_subset [OF assms(2,3)]) (use held_delete_claim in auto)
  with delete assms show ?thesis by (auto intro: delete_claim_inv)
qed

lemma claim_steps_inv:
  assumes "claim_steps pa x y" "store_inv pa (snd x)" "limit_ok pa (fst x) (snd x)"
  shows "store_inv pa (snd y) \<and> limit_ok pa (fst y) (snd y) \<and> fst x \<le> fst y"
  using assms
proof (induction rule: rtranclp_induct)
  case base
  then show ?case by simp
next
  case (step y z)
  then have y: "store_inv pa (snd y)" "limit_ok pa (fst y) (snd y)" "fst x \<le> fst y" by auto
  have "claim_step pa (fst y, snd y) (fst z, snd z)" using step.hyps(2) by simp
  from claim_step_inv [OF this y(1,2)] y(3) show ?case by auto
qed

lemma claim_steps_one: "claim_step pa x y \<Longrightarrow> claim_steps pa x y"
  by (rule r_into_rtranclp)

text \<open>The guard that the code checks, the count over the index, implies the abstract guard.\<close>

lemma create_counted:
  assumes "store_inv pa st" "\<not> active_at now st k" "n = normalizeReservationWallet pa w"
    and "count_active now st (wallet_ids st n) < maxPerWallet st"
  shows "claim_step pa (now, st) (now, insert_claim n (new_claim now st k w) st)"
  using assms card_held_le_count [OF assms(1), of now n] by (auto intro: claim_step.create)

lemma limit_ok_new_store: "store_inv pa st \<Longrightarrow> reservations st = Map.empty \<Longrightarrow> limit_ok pa now st"
  by (simp add: limit_ok_def held_def store_inv_def)

text \<open>Taking a claim out of the index and deleting it, as the cancel use case does at once.\<close>

lemma delete_after_release:
  "delete_claim k (index_remove pa w k (set_status k r s st)) = delete_claim k (index_remove pa w k st)"
  by (simp add: delete_claim_def index_remove_def set_status_def wallet_ids_def Let_def)

lemma claim_steps_drop:
  assumes "reservations st k = Some r"
  shows "claim_steps pa (now, st) (now, delete_claim k (index_remove pa (r_WalletAddress r) k st))"
proof -
  let ?s = "ReservationStatusReleased"
  let ?st = "index_remove pa (r_WalletAddress r) k (set_status k r ?s st)"
  have "claim_step pa (now, st) (now, ?st)" using assms by (auto intro: claim_step.release)
  moreover have "claim_step pa (now, ?st) (now, delete_claim k ?st)"
    by (rule claim_step.delete [where r = "r\<lparr>r_Status := ?s\<rparr>"]) auto
  ultimately show ?thesis by (simp add: delete_after_release)
qed

subsection \<open>Listing\<close>

lemma filter_available_cases:
  "available (r_GameID r) = Inl e \<Longrightarrow> filter_available available release (r # rs) st = (Inl e, st, [])"
  "available (r_GameID r) = Inr False \<Longrightarrow> fst (filter_available available release (r # rs) st) =
     fst (filter_available available release rs (fst (release (r_GameID r) st)))"
  "available (r_GameID r) = Inr False \<Longrightarrow> fst (snd (filter_available available release (r # rs) st)) =
     fst (snd (filter_available available release rs (fst (release (r_GameID r) st))))"
  "available (r_GameID r) = Inr True \<Longrightarrow> fst (filter_available available release (r # rs) st) =
     map_sum id (Cons r) (fst (filter_available available release rs st))"
  "available (r_GameID r) = Inr True \<Longrightarrow> fst (snd (filter_available available release (r # rs) st)) =
     fst (snd (filter_available available release rs st))"
  by (auto split: prod.splits sum.splits)

lemma filter_available_steps:
  assumes "\<And>k st. claim_steps pa (now, st) (now, fst (release k st))"
  shows "claim_steps pa (now, st) (now, fst (snd (filter_available available release rs st)))"
proof (induction rs arbitrary: st)
  case Nil
  then show ?case by simp
next
  case (Cons r rs)
  consider (err) e where "available (r_GameID r) = Inl e" | (yes) "available (r_GameID r) = Inr True"
    | (no) "available (r_GameID r) = Inr False"
    by (metis (full_types) sum.exhaust)
  then show ?case
    by cases (simp_all only: filter_available_cases Cons.IH rtranclp_trans [OF assms Cons.IH]
        fst_conv snd_conv rtranclp.rtrancl_refl)
qed

text \<open>Without repository errors the loop filters, and releases the rest in order.\<close>

lemma filter_available_ok:
  assumes "\<And>r. r \<in> set rs \<Longrightarrow> available (r_GameID r) = Inr (ok (r_GameID r))"
  shows "fst (filter_available available release rs st) = Inr (filter (\<lambda>r. ok (r_GameID r)) rs)"
    and "fst (snd (filter_available available release rs st)) =
           fold (\<lambda>r st. fst (release (r_GameID r) st)) (filter (\<lambda>r. \<not> ok (r_GameID r)) rs) st"
proof -
  have "fst (filter_available available release rs st) = Inr (filter (\<lambda>r. ok (r_GameID r)) rs)
     \<and> fst (snd (filter_available available release rs st)) =
           fold (\<lambda>r st. fst (release (r_GameID r) st)) (filter (\<lambda>r. \<not> ok (r_GameID r)) rs) st"
    using assms
  proof (induction rs arbitrary: st)
    case Nil
    then show ?case by simp
  next
    case (Cons r rs)
    then show ?case
      using Cons.IH Cons.prems [of r]
      by (cases "ok (r_GameID r)") (simp_all add: filter_available_cases del: filter_available.simps)
  qed
  then show "fst (filter_available available release rs st) = Inr (filter (\<lambda>r. ok (r_GameID r)) rs)"
    and "fst (snd (filter_available available release rs st)) =
           fold (\<lambda>r st. fst (release (r_GameID r) st)) (filter (\<lambda>r. \<not> ok (r_GameID r)) rs) st"
    by auto
qed

lemma filter_available_error:
  assumes "fst (filter_available available release rs st) = Inl e"
  shows "\<exists>r \<in> set rs. available (r_GameID r) = Inl e"
  using assms
proof (induction rs arbitrary: st)
  case Nil
  then show ?case by simp
next
  case (Cons r rs)
  consider (err) d where "available (r_GameID r) = Inl d" | (yes) "available (r_GameID r) = Inr True"
    | (no) "available (r_GameID r) = Inr False"
    by (metis (full_types) sum.exhaust)
  then show ?case
    using Cons
    by cases (auto simp: filter_available_cases map_sum_def simp del: filter_available.simps
        split: sum.splits)
qed

text \<open>If a release removes the claim of its game only, the loop removes exactly the rest.\<close>

lemma fold_release_reservations:
  assumes "\<And>k st. reservations (fst (release k st)) = (reservations st)(k := None)"
  shows "reservations (fold (\<lambda>r st. fst (release (r_GameID r) st)) rs st) k =
     (if k \<in> r_GameID ` set rs then None else reservations st k)"
  by (induction rs arbitrary: st) (auto simp: assms)

subsection \<open>Clean-up\<close>

lemma mark_expired_steps:
  "reservations st k = Some r \<Longrightarrow> claim_steps pa (now, st) (now, snd (mark_expired pa t k r st))"
  by (auto simp: mark_expired_def intro!: claim_steps_one claim_step.release)

lemma delete_steps:
  assumes "distinct ks" "\<And>k. k \<in> set ks \<Longrightarrow> \<exists>r. reservations st k = Some r \<and> \<not> IsActive now r"
  shows "claim_steps pa (now, st) (now, fold delete_claim ks st)"
  using assms
proof (induction ks arbitrary: st)
  case Nil
  then show ?case by simp
next
  case (Cons k ks)
  obtain r where "reservations st k = Some r" "\<not> IsActive now r" using Cons.prems(2) by fastforce
  then have "claim_step pa (now, st) (now, delete_claim k st)" by (rule claim_step.delete)
  moreover have "claim_steps pa (now, delete_claim k st) (now, fold delete_claim ks (delete_claim k st))"
    using Cons.prems by (intro Cons.IH) auto
  ultimately show ?case by simp
qed

lemma reservations_fold_delete:
  "reservations (fold delete_claim ks st) k = (if k \<in> set ks then None else reservations st k)"
  by (induction ks arbitrary: st) auto

text \<open>The claim at \<open>k\<close> fails the first test, or the second one.\<close>

definition expired_entry :: "(int \<Rightarrow> instant) \<Rightarrow> claim_store \<Rightarrow> int \<Rightarrow> bool" where
  "expired_entry t1 st k = (case reservations st k of None \<Rightarrow> False
     | Some r \<Rightarrow> r_Status r = ReservationStatusActive \<and> IsExpired (t1 k) r)"

definition stale_entry :: "(int \<Rightarrow> instant) \<Rightarrow> (int \<Rightarrow> instant) \<Rightarrow> claim_store \<Rightarrow> int \<Rightarrow> bool" where
  "stale_entry t1 t2 st k = (case reservations st k of None \<Rightarrow> False
     | Some r \<Rightarrow> expired_entry t1 st k \<or> \<not> IsActive (t2 k) r)"

lemma mark_expired_reservations:
  "reservations st k = Some r \<Longrightarrow> reservations (snd (mark_expired pa t k r st)) =
     (if r_Status r = ReservationStatusActive \<and> IsExpired t r
      then (reservations st)(k \<mapsto> r\<lparr>r_Status := ReservationStatusExpired\<rparr>) else reservations st)"
  by (simp add: mark_expired_def)

lemma entry_same:
  assumes "reservations st' k = reservations st k"
  shows "expired_entry t1 st' k = expired_entry t1 st k" "stale_entry t1 t2 st' k = stale_entry t1 t2 st k"
  by (simp_all add: assms expired_entry_def stale_entry_def split: option.splits)

text \<open>
  The loop that the reveal and the expired-claim use case run: like the join clean-up, but
  a claim that is no longer active is deleted at once. \<open>t1 k\<close> and \<open>t2 k\<close> are
  the instants the two tests read for game \<open>k\<close>.
\<close>

fun sweep_loop ::
  "parse_addr \<Rightarrow> (int \<Rightarrow> instant) \<Rightarrow> (int \<Rightarrow> instant) \<Rightarrow> int list \<Rightarrow> claim_store
     \<Rightarrow> claim_store \<times> int list" where
  "sweep_loop pa t1 t2 [] st = (st, [])"
| "sweep_loop pa t1 t2 (k # ks) st =
     (case reservations st k of
        None \<Rightarrow> sweep_loop pa t1 t2 ks st
      | Some r \<Rightarrow>
          (case mark_expired pa (t1 k) k r st of (flipped, st') \<Rightarrow>
             (case sweep_loop pa t1 t2 ks
                     (if \<not> active_at (t2 k) st' k then delete_claim k st' else st') of
                (st'', expired) \<Rightarrow> (st'', if flipped then k # expired else expired))))"

lemma sweep_body:
  fixes pa :: parse_addr and t1 t2 :: "int \<Rightarrow> instant"
  assumes "reservations st k = Some r"
  defines "st' \<equiv> snd (mark_expired pa (t1 k) k r st)"
  defines "st1 \<equiv> (if \<not> active_at (t2 k) st' k then delete_claim k st' else st')"
  shows "reservations st1 = (if stale_entry t1 t2 st k then (reservations st)(k := None) else reservations st)"
    and "fst (mark_expired pa (t1 k) k r st) = expired_entry t1 st k"
  using assms(1) unfolding st1_def st'_def
  by (auto simp: mark_expired_def active_at_def stale_entry_def expired_entry_def)

lemma sweep_loop_spec:
  assumes "distinct ks"
  shows "(\<forall>k. reservations (fst (sweep_loop pa t1 t2 ks st)) k =
           (if k \<in> set ks \<and> stale_entry t1 t2 st k then None else reservations st k))
     \<and> snd (sweep_loop pa t1 t2 ks st) = filter (expired_entry t1 st) ks"
  using assms
proof (induction ks arbitrary: st)
  case Nil
  then show ?case by simp
next
  case (Cons k ks)
  show ?case
  proof (cases "reservations st k")
    case None
    then have "\<not> expired_entry t1 st k" by (simp add: expired_entry_def)
    with None Cons show ?thesis by simp
  next
    case (Some r)
    let ?st' = "snd (mark_expired pa (t1 k) k r st)"
    let ?st1 = "if \<not> active_at (t2 k) ?st' k then delete_claim k ?st' else ?st'"
    note body = sweep_body(1) [OF Some, where pa = pa and ?t1.0 = t1 and ?t2.0 = t2]
      sweep_body(2) [OF Some, where pa = pa and ?t1.0 = t1]
    have notin: "k \<notin> set ks" and dist: "distinct ks" using Cons.prems by auto
    have others: "expired_entry t1 ?st1 j = expired_entry t1 st j
        \<and> stale_entry t1 t2 ?st1 j = stale_entry t1 t2 st j" if "j \<noteq> k" for j
      using entry_same [of ?st1 j st] that by (simp only: body(1)) auto
    have filter: "filter (expired_entry t1 ?st1) ks = filter (expired_entry t1 st) ks"
      by (rule filter_cong [OF refl]) (metis others notin)
    have "sweep_loop pa t1 t2 (k # ks) st = (fst (sweep_loop pa t1 t2 ks ?st1),
        if expired_entry t1 st k then k # snd (sweep_loop pa t1 t2 ks ?st1)
        else snd (sweep_loop pa t1 t2 ks ?st1))"
      using Some body(2) by (simp add: case_prod_beta)
    moreover have "reservations (fst (sweep_loop pa t1 t2 ks ?st1)) j =
        (if j \<in> set (k # ks) \<and> stale_entry t1 t2 st j then None else reservations st j)" for j
      using Cons.IH [OF dist, of ?st1] others [of j] notin by (simp only: body(1)) auto
    ultimately show ?thesis
      using Cons.IH [OF dist, of ?st1] filter by (simp only: fst_conv snd_conv filter.simps) auto
  qed
qed

lemma sweep_loop_steps:
  assumes "\<And>k. k \<in> set ks \<Longrightarrow> t2 k \<le> now"
  shows "claim_steps pa (now, st) (now, fst (sweep_loop pa t1 t2 ks st))"
  using assms
proof (induction ks arbitrary: st)
  case Nil
  then show ?case by simp
next
  case (Cons k ks)
  show ?case
  proof (cases "reservations st k")
    case None
    with Cons show ?thesis by simp
  next
    case (Some r)
    let ?st' = "snd (mark_expired pa (t1 k) k r st)"
    let ?st1 = "if \<not> active_at (t2 k) ?st' k then delete_claim k ?st' else ?st'"
    have "reservations ?st' k \<noteq> None" using Some by (simp add: mark_expired_reservations)
    then obtain r' where r': "reservations ?st' k = Some r'" by blast
    have "claim_steps pa (now, ?st') (now, ?st1)"
      using r' Cons.prems [of k]
      by (auto simp: active_at_def intro!: claim_steps_one claim_step.delete dest: IsActive_antimono)
    moreover have "claim_steps pa (now, ?st1) (now, fst (sweep_loop pa t1 t2 ks ?st1))"
      using Cons.prems by (intro Cons.IH) auto
    ultimately have "claim_steps pa (now, st) (now, fst (sweep_loop pa t1 t2 ks ?st1))"
      using mark_expired_steps [OF Some, of pa now "t1 k"] by (meson rtranclp_trans)
    with Some show ?thesis by (simp add: case_prod_beta)
  qed
qed

lemma stale_entry_iff:
  "t1 k \<le> t2 k \<Longrightarrow> stale_entry t1 t2 st k \<longleftrightarrow>
     (\<exists>r. reservations st k = Some r \<and> \<not> IsActive (t2 k) r)"
  using IsExpired_mono [of "t1 k" _ "t2 k"]
  by (auto simp: stale_entry_def expired_entry_def IsActive_def split: option.splits)

lemma expired_entry_eq:
  "expired_entry t1 st = (\<lambda>k. \<exists>r. reservations st k = Some r
     \<and> r_Status r = ReservationStatusActive \<and> IsExpired (t1 k) r)"
  by (auto simp: fun_eq_iff expired_entry_def split: option.splits)

text \<open>What is left when every stale entry is gone: the claims the lookup finds.\<close>

lemma stale_removed_eq:
  "t1 k \<le> t2 k \<Longrightarrow> (if stale_entry t1 t2 st k then None else reservations st k) = active_claim st (t2 k) k"
  by (auto simp: stale_entry_iff active_claim_def split: option.splits)

section \<open>A sample store\<close>

text \<open>
  Concrete data on which the properties of the use cases are instantiated: Alice has claimed
  game 7 from instant 0 to 60, Bob game 8 from 20 to 80, and no string parses as an address.
\<close>

definition no_addr :: parse_addr where
  "no_addr s = None"

definition alice_claim :: GameReservation where
  "alice_claim = \<lparr>r_GameID = 7, r_WalletAddress = ''alice'', r_CreatedAt = 0, r_ExpiresAt = 60,
     r_Status = ReservationStatusActive\<rparr>"

definition bob_claim :: GameReservation where
  "bob_claim = \<lparr>r_GameID = 8, r_WalletAddress = ''bob'', r_CreatedAt = 20, r_ExpiresAt = 80,
     r_Status = ReservationStatusActive\<rparr>"

definition sample_store :: claim_store where
  "sample_store = \<lparr>reservations = [7 \<mapsto> alice_claim, 8 \<mapsto> bob_claim],
     walletReservations = [''alice'' \<mapsto> [7], ''bob'' \<mapsto> [8]],
     maxPerWallet = 3, timeout = 60, cleanupInterval = 5, hasBroadcast = True\<rparr>"

lemma sample_normalize [simp]:
  "normalizeReservationWallet no_addr ''alice'' = ''alice''"
  "normalizeReservationWallet no_addr '' ALICE'' = ''alice''"
  "normalizeReservationWallet no_addr ''bob'' = ''bob''"
  "normalizeReservationWallet no_addr ''carol'' = ''carol''"
  by code_simp+

lemma sample_claims [simp]:
  "r_GameID alice_claim = 7" "r_WalletAddress alice_claim = ''alice''" "r_ExpiresAt alice_claim = 60"
  "r_CreatedAt alice_claim = 0" "r_Status alice_claim = ReservationStatusActive"
  "r_GameID bob_claim = 8" "r_WalletAddress bob_claim = ''bob''" "r_ExpiresAt bob_claim = 80"
  "r_CreatedAt bob_claim = 20" "r_Status bob_claim = ReservationStatusActive"
  "IsActive now alice_claim \<longleftrightarrow> now \<le> 60" "IsActive now bob_claim \<longleftrightarrow> now \<le> 80"
  "IsExpired now alice_claim \<longleftrightarrow> 60 < now" "IsExpired now bob_claim \<longleftrightarrow> 80 < now"
  by (auto simp: alice_claim_def bob_claim_def IsActive_def IsExpired_def)

lemma sample_fields [simp]:
  "reservations sample_store = [7 \<mapsto> alice_claim, 8 \<mapsto> bob_claim]"
  "wallet_ids sample_store ''alice'' = [7]" "wallet_ids sample_store ''bob'' = [8]"
  "wallet_ids sample_store ''carol'' = []"
  "maxPerWallet sample_store = 3" "timeout sample_store = 60" "hasBroadcast sample_store"
  by (simp_all add: sample_store_def wallet_ids_def)

lemma sample_store_inv: "store_inv no_addr sample_store"
  by (auto simp: store_inv_def claim_ok_def split: if_splits)

section \<open>Running use cases\<close>

text \<open>
  A use case run as a state machine: its initial stores are empty and well formed and each
  of its operations is a sequence of abstract steps. Then every reachable state satisfies
  the invariant and the limit.
\<close>

locale claim_machine =
  fixes pa :: parse_addr
    and init :: "claim_store \<Rightarrow> bool"
    and step :: "instant \<times> claim_store \<Rightarrow> instant \<times> claim_store \<Rightarrow> bool"
  assumes init_inv: "init st \<Longrightarrow> store_inv pa st"
    and init_empty: "init st \<Longrightarrow> reservations st = Map.empty"
    and step_refines: "step x y \<Longrightarrow> store_inv pa (snd x) \<Longrightarrow> claim_steps pa x y"
begin

lemma reach_steps:
  assumes "step\<^sup>*\<^sup>* x y" "store_inv pa (snd x)"
  shows "claim_steps pa x y"
  using assms(1)
proof (induction rule: rtranclp_induct)
  case base
  then show ?case by simp
next
  case (step y z)
  then have "store_inv pa (snd y)" using claim_steps_store_inv assms(2) by blast
  with step show ?case by (meson step_refines rtranclp_trans)
qed

lemma reach_inv:
  assumes "init st0" "step\<^sup>*\<^sup>* (t0, st0) (now, st)"
  shows "store_inv pa st" "limit_ok pa now st"
proof -
  have "claim_steps pa (t0, st0) (now, st)" using assms by (intro reach_steps) (auto intro: init_inv)
  moreover have "limit_ok pa t0 st0" using assms(1) init_inv init_empty limit_ok_new_store by blast
  ultimately show "store_inv pa st" "limit_ok pa now st"
    using claim_steps_inv [of pa "(t0, st0)" "(now, st)"] init_inv [OF assms(1)] by auto
qed

text \<open>No wallet holds more active claims than the limit.\<close>

lemma reach_limit:
  assumes "init st0" "step\<^sup>*\<^sup>* (t0, st0) (now, st)"
  shows "int (card {k. \<exists>r. active_claim st now k = Some r
            \<and> normalizeReservationWallet pa (r_WalletAddress r) = n}) \<le> maxPerWallet st"
proof -
  have "held pa now st n = {k. \<exists>r. active_claim st now k = Some r
      \<and> normalizeReservationWallet pa (r_WalletAddress r) = n}"
    by (auto simp: held_def active_claim_Some)
  with reach_inv(2) [OF assms] show ?thesis by (metis limit_ok_def)
qed

text \<open>An active claim is filed under its game and listed in its holder's index.\<close>

lemma reach_indexed:
  assumes "init st0" "step\<^sup>*\<^sup>* (t0, st0) (now, st)" "active_claim st now k = Some r"
  shows "r_GameID r = k" "k \<in> set (wallet_ids st (normalizeReservationWallet pa (r_WalletAddress r)))"
  using store_inv_claim [OF reach_inv(1) [OF assms(1,2)], of k r] assms(3)
  by (auto simp: active_claim_Some claim_ok_def IsActive_def)

end

lemma active_claim_laws:
  "store_inv pa s \<Longrightarrow> active_claim s t k = Some r \<Longrightarrow> IsActive t r \<and> r_GameID r = k"
  "store_inv pa s \<Longrightarrow> active_claim s t' k = Some r \<Longrightarrow> t \<le> t' \<Longrightarrow> active_claim s t k = Some r"
  "store_inv pa s \<Longrightarrow> active_claim s t k = Some r \<Longrightarrow> IsActive t' r \<Longrightarrow> active_claim s t' k = Some r"
  using store_inv_claim
  by (fastforce simp: active_claim_Some claim_ok_def intro: IsActive_antimono)+

section \<open>The contract of a claim service\<close>

text \<open>
  What a client of a claim use case may rely on: the lookup returns active claims of the
  game asked for only; a claim stays visible exactly as long as it is active; the release
  that on-chain progress triggers removes the game's claim and no other.
\<close>

locale claim_service =
  fixes get :: "'s \<Rightarrow> instant \<Rightarrow> int \<Rightarrow> GameReservation option"
    and release :: "instant \<Rightarrow> int \<Rightarrow> 's \<Rightarrow> 's"
    and inv :: "'s \<Rightarrow> bool"
  assumes get_sound: "inv s \<Longrightarrow> get s t k = Some r \<Longrightarrow> IsActive t r \<and> r_GameID r = k"
    and get_earlier: "inv s \<Longrightarrow> get s t' k = Some r \<Longrightarrow> t \<le> t' \<Longrightarrow> get s t k = Some r"
    and get_until: "inv s \<Longrightarrow> get s t k = Some r \<Longrightarrow> IsActive t' r \<Longrightarrow> get s t' k = Some r"
    and release_get: "inv s \<Longrightarrow> get (release t k s) t k = None"
    and release_other: "inv s \<Longrightarrow> k' \<noteq> k \<Longrightarrow> get (release t k s) t' k' = get s t' k'"
    and release_inv: "inv s \<Longrightarrow> inv (release t k s)"
begin

lemma get_None_later: "inv s \<Longrightarrow> get s t k = None \<Longrightarrow> t \<le> t' \<Longrightarrow> get s t' k = None"
  using get_earlier by (metis option.exhaust)

lemma release_stays_released: "inv s \<Longrightarrow> t \<le> t' \<Longrightarrow> get (release t k s) t' k = None"
  by (rule get_None_later [OF release_inv release_get])

lemma release_all_inv: "inv s \<Longrightarrow> inv (fold (release t) ks s)"
  by (induction ks arbitrary: s) (auto intro: release_inv)

lemma release_all_other:
  "inv s \<Longrightarrow> k' \<notin> set ks \<Longrightarrow> get (fold (release t) ks s) t' k' = get s t' k'"
  by (induction ks arbitrary: s) (auto simp: release_inv release_other)

lemma release_all:
  "inv s \<Longrightarrow> k \<in> set ks \<Longrightarrow> get (fold (release t) ks s) t k = None"
proof (induction ks arbitrary: s)
  case Nil
  then show ?case by simp
next
  case (Cons a ks)
  show ?case
  proof (cases "k \<in> set ks")
    case True
    with Cons.prems show ?thesis by (simp add: Cons.IH release_inv)
  next
    case False
    with Cons.prems show ?thesis by (simp add: release_all_other release_inv release_get)
  qed
qed

end

text \<open>
  A claim service with its reservation operation: an error leaves the store unchanged; a
  success makes the returned claim the one the lookup finds, is given for a game with no
  active claim (or hands the caller its own active claim again) and concerns that game only.
  The environment \<open>e\<close> stands for what the operation reads outside its own store.
\<close>

locale claim_creator = claim_service get release inv
  for get :: "'s \<Rightarrow> instant \<Rightarrow> int \<Rightarrow> GameReservation option"
    and release :: "instant \<Rightarrow> int \<Rightarrow> 's \<Rightarrow> 's"
    and inv :: "'s \<Rightarrow> bool" +
  fixes reserve :: "'e \<Rightarrow> instant \<Rightarrow> int \<Rightarrow> wallet \<Rightarrow> 's \<Rightarrow> (error + GameReservation) \<times> 's"
  assumes reserve_error: "fst (reserve e t k w s) = Inl x \<Longrightarrow> snd (reserve e t k w s) = s"
    and reserve_get: "inv s \<Longrightarrow> reserve e t k w s = (Inr r, s') \<Longrightarrow> get s' t k = Some r"
    and reserve_exclusive: "inv s \<Longrightarrow> reserve e t k w s = (Inr r, s') \<Longrightarrow>
          get s t k = None \<or> get s t k = Some r \<and> s' = s"
    and reserve_other: "inv s \<Longrightarrow> k' \<noteq> k \<Longrightarrow> get (snd (reserve e t k w s)) t' k' = get s t' k'"
    and reserve_inv: "inv s \<Longrightarrow> inv (snd (reserve e t k w s))"
begin

text \<open>No attempt made while a claim is active replaces it.\<close>

lemma reserve_keeps_active:
  assumes inv: "inv s" and got: "get s t k = Some r" and act: "IsActive t' r"
  shows "get (snd (reserve e t' k' w s)) t'' k = get s t'' k"
proof (cases "k' = k")
  case False
  then show ?thesis using reserve_other [OF inv, of k k'] by simp
next
  case True
  show ?thesis
  proof (cases "fst (reserve e t' k' w s)")
    case (Inl x)
    then show ?thesis by (simp add: reserve_error)
  next
    case (Inr r')
    then have res: "reserve e t' k w s = (Inr r', snd (reserve e t' k' w s))"
      using True by (metis prod.collapse)
    have "get s t' k = Some r" by (rule get_until [OF inv got act])
    with reserve_exclusive [OF inv res] have "snd (reserve e t' k' w s) = s" by simp
    then show ?thesis by simp
  qed
qed

text \<open>
  A claim survives every sequence of attempts, by any wallets on any games, made before
  it expires.
\<close>

lemma attempts_keep_active:
  assumes "inv s" and "get s t k = Some r"
    and "\<And>e t' k' w. (e, t', k', w) \<in> set ops \<Longrightarrow> IsActive t' r"
  shows "inv (fold (\<lambda>(e, t', k', w) s. snd (reserve e t' k' w s)) ops s)
       \<and> get (fold (\<lambda>(e, t', k', w) s. snd (reserve e t' k' w s)) ops s) t k = Some r"
  using assms
proof (induction ops arbitrary: s)
  case Nil
  then show ?case by simp
next
  case (Cons op ops)
  obtain e t' k' w where op: "op = (e, t', k', w)" by (cases op)
  let ?s = "snd (reserve e t' k' w s)"
  have "inv ?s" using Cons.prems(1) by (rule reserve_inv)
  moreover have "IsActive t' r" using Cons.prems(3) op by (meson list.set_intros(1))
  then have "get ?s t k = Some r"
    using reserve_keeps_active [OF Cons.prems(1,2)] Cons.prems(2) by simp
  moreover have "IsActive u r" if "(d, u, j, v) \<in> set ops" for d u j v
    using Cons.prems(3) that by (meson list.set_intros(2))
  ultimately show ?case
    using Cons.IH [of ?s] by (simp add: op)
qed

end

end
