(* ===== verification/Join_Reservation.thy ===== *)
theory Join_Reservation
  imports Claim_Store
begin

text \<open>
  \<open>internal/usecase/reservation.go\<close>: the join reservations of the lobby.
  Every method that takes the mutex is one step of the model. \<open>Reserve\<close> reads the
  game repository and the cancel use case before it takes the mutex; the part before the
  lock (\<open>Reserve_check\<close>) and the critical section (\<open>Reserve_commit\<close>) are
  separate definitions, so that interleavings of two calls can be stated. An operation
  reads the clock several times; it is given one instant, except for the clean-up, whose
  two reads per claim are separate. The returned broadcasts are the calls of the broadcast
  use case. Logging and Prometheus counters have no effect on the state.
\<close>

type_synonym game_repo = "int \<Rightarrow> error + Game option"    \<comment> \<open>\<open>gameRepo.GetByID\<close>\<close>

section \<open>Operations\<close>

definition NewReservationUseCase :: "bool \<Rightarrow> claim_config \<Rightarrow> claim_store" where
  "NewReservationUseCase bc cfg = new_claim_store 60 3 bc cfg"

definition removeFromWalletIndex :: "parse_addr \<Rightarrow> wallet \<Rightarrow> int \<Rightarrow> claim_store \<Rightarrow> claim_store" where
  "removeFromWalletIndex = index_remove"

definition Reserve_check ::
  "parse_addr \<Rightarrow> game_repo \<Rightarrow> claim_store option \<Rightarrow> instant \<Rightarrow> int \<Rightarrow> wallet \<Rightarrow> error + unit" where
  "Reserve_check pa gameRepo cancelReservationUC now gameID walletAddress =
     (let normalizedWalletAddress = normalizeReservationWallet pa walletAddress in
      case gameRepo gameID of
        Inl err \<Rightarrow> Inl err
      | Inr None \<Rightarrow> Inl ErrGameNotAvailable
      | Inr (Some game) \<Rightarrow>
          if g_Status game \<noteq> GameStatusWaitingForOpponent then Inl ErrGameNotAvailable
          else if sameReservationWallet pa (g_PlayerOneAddress game) normalizedWalletAddress
            then Inl ErrCannotReserveOwnGame
          else case cancelReservationUC of
              None \<Rightarrow> Inr ()
            | Some cancelUC \<Rightarrow> (case Cancel_Get cancelUC now gameID of
                  None \<Rightarrow> Inr ()
                | Some c \<Rightarrow> if IsActive now c then Inl ErrGameCancellationPending else Inr ()))"

definition Reserve_commit ::
  "parse_addr \<Rightarrow> instant \<Rightarrow> int \<Rightarrow> wallet \<Rightarrow> claim_store
     \<Rightarrow> (error + GameReservation) \<times> claim_store \<times> broadcast list" where
  "Reserve_commit pa now gameID walletAddress st =
     (let normalizedWalletAddress = normalizeReservationWallet pa walletAddress in
      if active_at now st gameID then (Inl ErrGameAlreadyReserved, st, [])
      else if count_active now st (wallet_ids st normalizedWalletAddress) \<ge> maxPerWallet st
        then (Inl ErrTooManyReservations, st, [])
      else let reservation = new_claim now st gameID walletAddress in
        (Inr reservation, insert_claim normalizedWalletAddress reservation st,
         emit st (BroadcastReservationCreated reservation)))"

definition Reserve ::
  "parse_addr \<Rightarrow> game_repo \<Rightarrow> claim_store option \<Rightarrow> instant \<Rightarrow> int \<Rightarrow> wallet \<Rightarrow> claim_store
     \<Rightarrow> (error + GameReservation) \<times> claim_store \<times> broadcast list" where
  "Reserve pa gameRepo cancelReservationUC now gameID walletAddress st =
     (case Reserve_check pa gameRepo cancelReservationUC now gameID walletAddress of
        Inl err \<Rightarrow> (Inl err, st, [])
      | Inr _ \<Rightarrow> Reserve_commit pa now gameID walletAddress st)"

definition isReservationGameAvailable :: "game_repo option \<Rightarrow> int \<Rightarrow> error + bool" where
  "isReservationGameAvailable gameRepo gameID = (case gameRepo of
       None \<Rightarrow> Inr True
     | Some repo \<Rightarrow> (case repo gameID of
           Inl err \<Rightarrow> Inl err
         | Inr None \<Rightarrow> Inr False
         | Inr (Some game) \<Rightarrow> Inr (g_Status game = GameStatusWaitingForOpponent)))"

definition releaseStaleReservation :: "parse_addr \<Rightarrow> int \<Rightarrow> claim_store \<Rightarrow> claim_store" where
  "releaseStaleReservation pa gameID st = (case reservations st gameID of
       None \<Rightarrow> st
     | Some r \<Rightarrow> delete_claim gameID (removeFromWalletIndex pa (r_WalletAddress r) gameID
                   (set_status gameID r ReservationStatusReleased st)))"

definition ListByWallet ::
  "parse_addr \<Rightarrow> game_repo option \<Rightarrow> instant \<Rightarrow> wallet \<Rightarrow> claim_store
     \<Rightarrow> (error + GameReservation list) \<times> claim_store" where
  "ListByWallet pa gameRepo now walletAddress st =
     (let gameIDs = wallet_ids st (normalizeReservationWallet pa walletAddress) in
      case filter_available (isReservationGameAvailable gameRepo)
             (\<lambda>gid st. (releaseStaleReservation pa gid st, [])) (collect_active now st gameIDs) st of
        (Inl err, st', _) \<Rightarrow> (Inl err, st')
      | (Inr result, st', _) \<Rightarrow> (Inr (stable_newest_first r_CreatedAt result), st'))"

definition Cancel ::
  "parse_addr \<Rightarrow> instant \<Rightarrow> int \<Rightarrow> wallet \<Rightarrow> claim_store
     \<Rightarrow> error option \<times> claim_store \<times> broadcast list" where
  "Cancel pa now gameID walletAddress st =
     (let normalizedWalletAddress = normalizeReservationWallet pa walletAddress in
      case reservations st gameID of
        None \<Rightarrow> (Some ErrReservationNotFound, st, [])
      | Some reservation \<Rightarrow>
          if \<not> IsActive now reservation then (Some ErrReservationNotFound, st, [])
          else if \<not> sameReservationWallet pa (r_WalletAddress reservation) normalizedWalletAddress
            then (Some ErrNotReservationHolder, st, [])
          else (None,
            removeFromWalletIndex pa (r_WalletAddress reservation) gameID
              (set_status gameID reservation ReservationStatusReleased st),
            emit st (BroadcastReservationReleased gameID ''cancelled'')))"

definition ReleaseOnJoin ::
  "parse_addr \<Rightarrow> instant \<Rightarrow> int \<Rightarrow> claim_store \<Rightarrow> claim_store \<times> broadcast list" where
  "ReleaseOnJoin pa now gameID st = (case reservations st gameID of
       None \<Rightarrow> (st, [])
     | Some reservation \<Rightarrow>
         if IsActive now reservation
         then (removeFromWalletIndex pa (r_WalletAddress reservation) gameID
                 (set_status gameID reservation ReservationStatusReleased st),
               emit st (BroadcastReservationReleased gameID ''joined''))
         else (st, []))"

text \<open>
  The loop of \<open>CleanupExpired\<close>. For the claim of game \<open>k\<close>, \<open>t1 k\<close> is the
  instant its expiry test reads and \<open>t2 k\<close> the instant the activity test after it
  reads; the loop collects the expired games and the games to delete.
\<close>

fun cleanup_loop ::
  "parse_addr \<Rightarrow> (int \<Rightarrow> instant) \<Rightarrow> (int \<Rightarrow> instant) \<Rightarrow> int list \<Rightarrow> claim_store
     \<Rightarrow> claim_store \<times> int list \<times> int list" where
  "cleanup_loop pa t1 t2 [] st = (st, [], [])"
| "cleanup_loop pa t1 t2 (k # ks) st =
     (case reservations st k of
        None \<Rightarrow> cleanup_loop pa t1 t2 ks st
      | Some r \<Rightarrow>
          (case mark_expired pa (t1 k) k r st of (expired, st') \<Rightarrow>
             (case cleanup_loop pa t1 t2 ks st' of (st'', expiredGames, staleGameIDs) \<Rightarrow>
                (st'', (if expired then k # expiredGames else expiredGames),
                 (if \<not> active_at (t2 k) st' k then k # staleGameIDs else staleGameIDs)))))"

definition CleanupExpired ::
  "parse_addr \<Rightarrow> (int \<Rightarrow> instant) \<Rightarrow> (int \<Rightarrow> instant) \<Rightarrow> int list \<Rightarrow> claim_store
     \<Rightarrow> claim_store \<times> broadcast list" where
  "CleanupExpired pa t1 t2 keys st =
     (case cleanup_loop pa t1 t2 keys st of
        (st', expiredGames, staleGameIDs) \<Rightarrow>
          (fold delete_claim staleGameIDs st',
           concat (map (\<lambda>k. emit st (BroadcastReservationReleased k ''expired'')) expiredGames)))"

definition GetActiveCount :: "instant \<Rightarrow> int list \<Rightarrow> claim_store \<Rightarrow> int" where
  "GetActiveCount now keys st = count_active now st keys"

section \<open>Refinement of the abstract machine\<close>

lemma Reserve_commit_steps:
  "store_inv pa st \<Longrightarrow> claim_steps pa (now, st) (now, fst (snd (Reserve_commit pa now k w st)))"
  by (auto simp: Reserve_commit_def Let_def intro!: claim_steps_one create_counted)

lemma Reserve_steps:
  "store_inv pa st \<Longrightarrow> claim_steps pa (now, st) (now, fst (snd (Reserve pa repo cu now k w st)))"
  by (auto simp: Reserve_def Reserve_commit_steps split: sum.splits)

lemma Cancel_steps: "claim_steps pa (now, st) (now, fst (snd (Cancel pa now k w st)))"
  by (auto simp: Cancel_def Let_def removeFromWalletIndex_def split: option.splits
        intro!: claim_steps_one claim_step.release)

lemma ReleaseOnJoin_steps: "claim_steps pa (now, st) (now, fst (ReleaseOnJoin pa now k st))"
  by (auto simp: ReleaseOnJoin_def removeFromWalletIndex_def split: option.splits
        intro!: claim_steps_one claim_step.release)

lemma releaseStaleReservation_steps:
  "claim_steps pa (now, st) (now, releaseStaleReservation pa k st)"
  by (auto simp: releaseStaleReservation_def removeFromWalletIndex_def delete_after_release
        intro: claim_steps_drop split: option.splits)

lemma ListByWallet_store: "snd (ListByWallet pa repo now w st) = fst (snd (filter_available
     (isReservationGameAvailable repo) (\<lambda>gid st. (releaseStaleReservation pa gid st, []))
     (collect_active now st (wallet_ids st (normalizeReservationWallet pa w))) st))"
  by (simp add: ListByWallet_def Let_def split: prod.split sum.split)

lemma ListByWallet_steps: "claim_steps pa (now, st) (now, snd (ListByWallet pa repo now w st))"
  unfolding ListByWallet_store
  by (rule filter_available_steps) (simp add: releaseStaleReservation_steps)

lemma cleanup_loop_steps: "claim_steps pa (now, st) (now, fst (cleanup_loop pa t1 t2 ks st))"
proof (induction ks arbitrary: st)
  case Nil
  then show ?case by simp
next
  case (Cons k ks)
  show ?case
  proof (cases "reservations st k")
    case None
    with Cons show ?thesis by simp
  next
    case (Some r)
    from rtranclp_trans [OF mark_expired_steps [OF Some] Cons.IH] Some show ?thesis
      by (simp add: case_prod_beta)
  qed
qed

section \<open>What a clean-up leaves\<close>

lemma cleanup_loop_spec:
  assumes "distinct ks"
  shows "(\<forall>k. reservations (fst (cleanup_loop pa t1 t2 ks st)) k =
           (if k \<in> set ks \<and> expired_entry t1 st k
            then map_option (\<lambda>r. r\<lparr>r_Status := ReservationStatusExpired\<rparr>) (reservations st k)
            else reservations st k))
     \<and> fst (snd (cleanup_loop pa t1 t2 ks st)) = filter (expired_entry t1 st) ks
     \<and> snd (snd (cleanup_loop pa t1 t2 ks st)) = filter (stale_entry t1 t2 st) ks"
  using assms
proof (induction ks arbitrary: st)
  case Nil
  then show ?case by simp
next
  case (Cons k ks)
  show ?case
  proof (cases "reservations st k")
    case None
    then have "\<not> expired_entry t1 st k" "\<not> stale_entry t1 t2 st k"
      by (simp_all add: expired_entry_def stale_entry_def)
    with None Cons show ?thesis by simp
  next
    case (Some r)
    let ?st = "snd (mark_expired pa (t1 k) k r st)"
    have same: "reservations ?st k' = reservations st k'" if "k' \<noteq> k" for k'
      using that by (simp add: mark_expired_reservations [OF Some])
    have at: "reservations ?st k = (if expired_entry t1 st k
        then Some (r\<lparr>r_Status := ReservationStatusExpired\<rparr>) else Some r)"
      using Some by (simp add: mark_expired_reservations [OF Some] expired_entry_def)
    have ex: "fst (mark_expired pa (t1 k) k r st) = expired_entry t1 st k"
      using Some by (simp add: mark_expired_def expired_entry_def)
    have stale: "\<not> active_at (t2 k) ?st k \<longleftrightarrow> stale_entry t1 t2 st k"
      using Some by (simp add: active_at_def at stale_entry_def)
    have notin: "k \<notin> set ks" and dist: "distinct ks" using Cons.prems by auto
    have others: "expired_entry t1 ?st k' = expired_entry t1 st k'
        \<and> stale_entry t1 t2 ?st k' = stale_entry t1 t2 st k'" if "k' \<in> set ks" for k'
      using that notin entry_same [OF same] by metis
    then have filters: "filter (expired_entry t1 ?st) ks = filter (expired_entry t1 st) ks"
      "filter (stale_entry t1 t2 ?st) ks = filter (stale_entry t1 t2 st) ks"
      by (auto intro: filter_cong)
    have loop: "cleanup_loop pa t1 t2 (k # ks) st =
        (let z = cleanup_loop pa t1 t2 ks ?st in
          (fst z, (if expired_entry t1 st k then k # fst (snd z) else fst (snd z)),
           (if stale_entry t1 t2 st k then k # snd (snd z) else snd (snd z))))"
      using Some by (simp add: case_prod_beta Let_def ex stale)
    let ?z = "cleanup_loop pa t1 t2 ks ?st"
    have IH: "reservations (fst ?z) k' = (if k' \<in> set ks \<and> expired_entry t1 ?st k'
          then map_option (\<lambda>r. r\<lparr>r_Status := ReservationStatusExpired\<rparr>) (reservations ?st k')
          else reservations ?st k')" for k'
      using Cons.IH [OF dist, of ?st] by blast
    have res: "reservations (fst ?z) k' = (if k' \<in> set (k # ks) \<and> expired_entry t1 st k'
          then map_option (\<lambda>r. r\<lparr>r_Status := ReservationStatusExpired\<rparr>) (reservations st k')
          else reservations st k')" for k'
    proof (cases "k' = k")
      case True
      with notin at Some show ?thesis by (simp add: IH)
    next
      case False
      with others [of k'] show ?thesis by (auto simp: IH same)
    qed
    show ?thesis
      unfolding loop Let_def fst_conv snd_conv
      using Cons.IH [OF dist, of ?st] filters res by simp
  qed
qed

lemma CleanupExpired_reservations:
  assumes "distinct ks" "dom (reservations st) \<subseteq> set ks"
  shows "reservations (fst (CleanupExpired pa t1 t2 ks st)) k =
     (if stale_entry t1 t2 st k then None else reservations st k)"
proof -
  have "k \<in> set ks" if "stale_entry t1 t2 st k"
    using assms(2) that by (auto simp: stale_entry_def split: option.splits)
  moreover have "\<not> stale_entry t1 t2 st k \<Longrightarrow> \<not> expired_entry t1 st k"
    by (auto simp: stale_entry_def expired_entry_def split: option.splits)
  ultimately show ?thesis
    using cleanup_loop_spec [OF assms(1), of pa t1 t2 st]
    by (auto simp: CleanupExpired_def case_prod_beta reservations_fold_delete)
qed

lemma CleanupExpired_broadcasts:
  assumes "distinct ks"
  shows "snd (CleanupExpired pa t1 t2 ks st) =
     (if hasBroadcast st
      then map (\<lambda>k. BroadcastReservationReleased k ''expired'') (filter (expired_entry t1 st) ks)
      else [])"
  using cleanup_loop_spec [OF assms, of pa t1 t2 st]
  by (simp add: CleanupExpired_def case_prod_beta emit_def concat_map_singleton)

lemma CleanupExpired_steps:
  assumes "distinct ks" "\<And>k. k \<in> set ks \<Longrightarrow> t2 k \<le> now"
  shows "claim_steps pa (now, st) (now, fst (CleanupExpired pa t1 t2 ks st))"
proof -
  let ?z = "cleanup_loop pa t1 t2 ks st"
  note spec = cleanup_loop_spec [OF assms(1), of pa t1 t2 st]
  have "claim_steps pa (now, fst ?z) (now, fold delete_claim (snd (snd ?z)) (fst ?z))"
  proof (rule delete_steps)
    show "distinct (snd (snd ?z))" using spec assms(1) by simp
  next
    fix k
    assume "k \<in> set (snd (snd ?z))"
    then have k: "k \<in> set ks" "stale_entry t1 t2 st k" using spec by auto
    then obtain r where r: "reservations st k = Some r" by (auto simp: stale_entry_def split: option.splits)
    show "\<exists>r. reservations (fst ?z) k = Some r \<and> \<not> IsActive now r"
    proof (cases "expired_entry t1 st k")
      case True
      with k r spec show ?thesis by auto
    next
      case False
      with k r have "\<not> IsActive (t2 k) r" by (simp add: stale_entry_def)
      with assms(2) [OF k(1)] have "\<not> IsActive now r" using IsActive_antimono by blast
      with False k r spec show ?thesis by auto
    qed
  qed
  from rtranclp_trans [OF cleanup_loop_steps this] show ?thesis
    by (simp add: CleanupExpired_def case_prod_beta)
qed

section \<open>Running the use case\<close>

text \<open>
  One step of a running use case. \<open>Reserve\<close> is represented by its critical section,
  so the preliminary checks of one call may interleave with anything; a clean-up visits
  every key once and reads the clock no later than the instant it ends. \<open>ListByWallet\<close>
  gives up the lock after it has collected the active claims and takes it again for each stale
  one, so each of these releases is a step of its own (\<open>stale\<close>), after whatever happened
  in between; \<open>list\<close> is the call that nothing interrupts.
\<close>

inductive join_step :: "parse_addr \<Rightarrow> instant \<times> claim_store \<Rightarrow> instant \<times> claim_store \<Rightarrow> bool"
  for pa :: parse_addr where
  time: "now \<le> now' \<Longrightarrow> join_step pa (now, st) (now', st)"
| reserve: "join_step pa (now, st) (now, fst (snd (Reserve_commit pa now k w st)))"
| cancel: "join_step pa (now, st) (now, fst (snd (Cancel pa now k w st)))"
| joined: "join_step pa (now, st) (now, fst (ReleaseOnJoin pa now k st))"
| stale: "join_step pa (now, st) (now, releaseStaleReservation pa k st)"
| list: "join_step pa (now, st) (now, snd (ListByWallet pa repo now w st))"
| cleanup: "distinct ks \<Longrightarrow> set ks = dom (reservations st) \<Longrightarrow>
     (\<And>k. k \<in> set ks \<Longrightarrow> t1 k \<le> t2 k \<and> t2 k \<le> now) \<Longrightarrow>
     join_step pa (now, st) (now, fst (CleanupExpired pa t1 t2 ks st))"

lemma join_step_refines: "join_step pa x y \<Longrightarrow> store_inv pa (snd x) \<Longrightarrow> claim_steps pa x y"
  by (induction rule: join_step.induct)
    (auto intro: claim_steps_one claim_step.tick Reserve_commit_steps Cancel_steps
      ReleaseOnJoin_steps releaseStaleReservation_steps ListByWallet_steps CleanupExpired_steps)

definition join_init :: "claim_store \<Rightarrow> bool" where
  "join_init st \<longleftrightarrow> (\<exists>bc cfg. st = NewReservationUseCase bc cfg)"

interpretation join_run: claim_machine pa join_init "join_step pa" for pa
  by unfold_locales
    (auto simp: join_init_def NewReservationUseCase_def new_claim_store_inv join_step_refines)

section \<open>The claim service of the join reservations\<close>

interpretation join_claims: claim_creator GetReservation
  "\<lambda>t k st. fst (ReleaseOnJoin pa t k st)" "store_inv pa"
  "\<lambda>(repo, cu) t k w st. let z = Reserve pa repo cu t k w st in (fst z, fst (snd z))" for pa
proof (unfold_locales, goal_cases)
  case (1 s t k r)
  then show ?case unfolding claim_simps by (rule active_claim_laws)
next
  case (2 s t' k r t)
  then show ?case unfolding claim_simps by (rule active_claim_laws)
next
  case (3 s t k r t')
  then show ?case unfolding claim_simps by (rule active_claim_laws)
next
  case (4 s t k)
  then show ?case
    by (auto simp: claim_simps ReleaseOnJoin_def removeFromWalletIndex_def active_claim_def split: option.splits)
next
  case (5 s k' k t t')
  then show ?case
    by (auto simp: claim_simps ReleaseOnJoin_def removeFromWalletIndex_def intro!: active_claim_same
        split: option.splits)
next
  case (6 s t k)
  then show ?case using claim_steps_store_inv [OF ReleaseOnJoin_steps] by simp
next
  case (7 e t k w s x)
  then show ?case
    by (auto simp: Reserve_def Reserve_commit_def Let_def case_prod_beta split: sum.splits if_splits)
next
  case (8 s e t k w r s')
  then show ?case
    by (auto simp: Reserve_def Reserve_commit_def Let_def case_prod_beta claim_simps active_claim_Some
        store_inv_def intro!: new_claim_active split: sum.splits if_splits)
next
  case (9 s e t k w r s')
  then show ?case
    by (auto simp: Reserve_def Reserve_commit_def Let_def case_prod_beta claim_simps active_claim_None
        split: sum.splits if_splits)
next
  case (10 s k' k e t w t')
  then show ?case
    by (auto simp: Reserve_def Reserve_commit_def Let_def case_prod_beta claim_simps
        intro!: active_claim_same split: sum.splits)
next
  case (11 s e t k w)
  then show ?case using claim_steps_store_inv [OF Reserve_steps] by (simp add: case_prod_beta Let_def)
qed

section \<open>Properties\<close>

lemma Reserve_check_ok:
  "Reserve_check pa repo cancelUC now k w = Inr () \<longleftrightarrow>
     (\<exists>g. repo k = Inr (Some g) \<and> g_Status g = GameStatusWaitingForOpponent
        \<and> normalizeReservationWallet pa (g_PlayerOneAddress g) \<noteq> normalizeReservationWallet pa w)
     \<and> (case cancelUC of None \<Rightarrow> True | Some c \<Rightarrow> Cancel_Get c now k = None)"
  by (auto simp: Reserve_check_def Let_def claim_simps active_claim_Some split: sum.splits option.splits)

lemma Reserve_commit_ok:
  "fst (Reserve_commit pa now k w st) = Inr r \<longleftrightarrow> GetReservation st now k = None
     \<and> count_active now st (wallet_ids st (normalizeReservationWallet pa w)) < maxPerWallet st
     \<and> r = new_claim now st k w"
  by (auto simp: Reserve_commit_def Let_def claim_simps active_claim_None)

text \<open>
  C1. \<open>Reserve\<close> succeeds exactly when the game exists and waits for an opponent, the
  caller is not its creator, no cancellation of it is pending, nobody holds an active
  reservation of it, and the caller's counted reservations are below the limit; the
  reservation it returns then runs for the configured timeout from now.
\<close>

theorem Reserve_success_iff:
  "fst (Reserve pa repo cancelUC now k w st) = Inr r \<longleftrightarrow>
     (\<exists>g. repo k = Inr (Some g) \<and> g_Status g = GameStatusWaitingForOpponent
        \<and> normalizeReservationWallet pa (g_PlayerOneAddress g) \<noteq> normalizeReservationWallet pa w)
     \<and> (case cancelUC of None \<Rightarrow> True | Some c \<Rightarrow> Cancel_Get c now k = None)
     \<and> GetReservation st now k = None
     \<and> count_active now st (wallet_ids st (normalizeReservationWallet pa w)) < maxPerWallet st
     \<and> r = \<lparr> r_GameID = k, r_WalletAddress = w, r_CreatedAt = now,
             r_ExpiresAt = now + timeout st, r_Status = ReservationStatusActive \<rparr>"
  using Reserve_check_ok [of pa repo cancelUC now k w] Reserve_commit_ok [of pa now k w st r]
  by (auto simp: Reserve_def new_claim_def split: sum.splits)

text \<open>
  C3. An active reservation is exclusive: it survives every sequence of later
  \<open>Reserve\<close> calls, by any wallets for any games and against any repository answers,
  that are made before it expires.
\<close>

theorem join_claim_not_stolen:
  assumes "store_inv pa st" and "GetReservation st now k = Some r"
    and "\<And>repo cu t k' w. ((repo, cu), t, k', w) \<in> set calls \<Longrightarrow> t \<le> r_ExpiresAt r"
  shows "GetReservation (fold (\<lambda>((repo, cu), t, k', w) s. fst (snd (Reserve pa repo cu t k' w s))) calls st)
           now k = Some r"
proof -
  have "r_Status r = ReservationStatusActive"
    using assms(2) by (simp add: claim_simps active_claim_Some IsActive_def)
  then have act: "IsActive t r" if "(e, t, k', w) \<in> set calls" for e t k' w
    using assms(3) [of "fst e" "snd e" t k' w] that by (simp add: IsActive_def IsExpired_def)
  have "(\<lambda>((repo, cu), t, k', w) s. fst (snd (Reserve pa repo cu t k' w s))) =
      (\<lambda>(e, t, k', w) s. snd ((\<lambda>(repo, cu) t k w st.
          let z = Reserve pa repo cu t k w st in (fst z, fst (snd z))) e t k' w s))"
    by (auto simp: fun_eq_iff Let_def)
  with join_claims.attempts_keep_active [OF assms(1,2) act] show ?thesis by simp
qed

theorem join_claim_not_stolen_witness:
  "GetReservation (fst (snd (Reserve no_addr (\<lambda>_. Inr None) None 60 7 ''carol'' sample_store))) 5 7
     = Some alice_claim"
  using join_claim_not_stolen [OF sample_store_inv, of 5 7 alice_claim
      "[((\<lambda>_. Inr None, None), 60, 7, ''carol'')]"]
  by (simp add: GetReservation_def)

text \<open>
  \<open>Cancel\<close> releases a reservation exactly for its holder: it returns no error iff
  the reservation is active and the caller's address normalises to the holder's; then the
  reservation is gone, the release is announced and all other games are untouched.
  Otherwise it reports \<open>ErrReservationNotFound\<close> (no active reservation) or
  \<open>ErrNotReservationHolder\<close> and changes nothing.
\<close>

theorem join_cancel_outcome:
  "case Cancel pa now k w st of (err, st', bs) \<Rightarrow>
     (case GetReservation st now k of
        None \<Rightarrow> err = Some ErrReservationNotFound \<and> st' = st \<and> bs = []
      | Some r \<Rightarrow>
          if normalizeReservationWallet pa (r_WalletAddress r) = normalizeReservationWallet pa w
          then err = None \<and> bs = emit st (BroadcastReservationReleased k ''cancelled'')
             \<and> (\<forall>t. GetReservation st' t k = None)
             \<and> (\<forall>t k'. k' \<noteq> k \<longrightarrow> GetReservation st' t k' = GetReservation st t k')
          else err = Some ErrNotReservationHolder \<and> st' = st \<and> bs = [])"
  by (auto simp: Cancel_def Let_def removeFromWalletIndex_def claim_simps active_claim_def
      split: option.splits)

theorem join_cancel_outcome_witness:
  "case Cancel no_addr 6 7 '' ALICE'' sample_store of (err, st', bs) \<Rightarrow>
     err = None \<and> bs = [BroadcastReservationReleased 7 ''cancelled''] \<and> GetReservation st' 6 7 = None
     \<and> GetReservation st' 6 8 = Some bob_claim"
  using join_cancel_outcome [where pa = no_addr and now = 6 and k = 7 and w = "'' ALICE''"
      and st = sample_store]
  by (simp add: GetReservation_def emit_def split: prod.splits)

text \<open>
  C4. A clean-up keeps exactly the reservations that are still active when it looks at
  them, deletes every other entry, and announces as expired exactly the active ones that had
  passed their expiry at the first look.
\<close>

theorem join_cleanup_exact:
  assumes "distinct keys" and "set keys = dom (reservations st)" and "\<And>k. t1 k \<le> t2 k"
  shows "(\<forall>k. reservations (fst (CleanupExpired pa t1 t2 keys st)) k = GetReservation st (t2 k) k)
     \<and> snd (CleanupExpired pa t1 t2 keys st) =
           (if hasBroadcast st then map (\<lambda>k. BroadcastReservationReleased k ''expired'')
              (filter (\<lambda>k. \<exists>r. reservations st k = Some r \<and> r_Status r = ReservationStatusActive
                               \<and> IsExpired (t1 k) r) keys) else [])"
  using CleanupExpired_reservations [OF assms(1), of st pa t1 t2] assms(2)
    CleanupExpired_broadcasts [OF assms(1), of pa t1 t2 st]
  by (simp add: claim_simps stale_removed_eq assms(3) expired_entry_eq)

theorem join_cleanup_exact_witness:
  "reservations (fst (CleanupExpired no_addr (\<lambda>_. 70) (\<lambda>_. 71) [8, 7] sample_store)) 7 = None
     \<and> snd (CleanupExpired no_addr (\<lambda>_. 70) (\<lambda>_. 71) [8, 7] sample_store)
         = [BroadcastReservationReleased 7 ''expired'']"
  using join_cleanup_exact [of "[8, 7]" sample_store "\<lambda>_. 70" "\<lambda>_. 71" no_addr]
  by (auto simp: GetReservation_def)

section \<open>Where the index and the clean-up go wrong\<close>

text \<open>
  Overwriting an expired reservation that no clean-up has seen leaves the game in the
  former holder's index: the former holder's list then shows the new holder's reservation,
  and the new reservation counts against the former holder's limit.
\<close>

theorem join_overwrite_leaks:
  assumes "store_inv pa st" and "reservations st k = Some old" and "r_Status old = ReservationStatusActive"
    and "Reserve_commit pa now k newcomer st = (Inr new, st', bs)"
    and "normalizeReservationWallet pa newcomer \<noteq> normalizeReservationWallet pa (r_WalletAddress old)"
  shows "new \<in> set (projr (fst (ListByWallet pa None now (r_WalletAddress old) st')))
     \<and> 1 \<le> count_active now st' (wallet_ids st' (normalizeReservationWallet pa (r_WalletAddress old)))"
proof -
  let ?n = "normalizeReservationWallet pa (r_WalletAddress old)"
  have new: "new = new_claim now st k newcomer"
      "st' = insert_claim (normalizeReservationWallet pa newcomer) new st"
    using assms(4) by (auto simp: Reserve_commit_def Let_def split: if_splits)
  have "k \<in> set (wallet_ids st ?n)"
    using store_inv_claim [OF assms(1,2)] assms(3) by (simp add: claim_ok_def)
  with assms(5) have k: "k \<in> set (wallet_ids st' ?n)" by (simp add: new wallet_ids_insert_claim)
  have act: "reservations st' k = Some new" "IsActive now new"
    using assms(1) by (simp_all add: new new_claim_active store_inv_def)
  have all: "filter_available (isReservationGameAvailable None) rel rs s = (Inr rs, s, [])" for rel rs s
    by (induction rs) (simp_all add: isReservationGameAvailable_def)
  have "new \<in> set (collect_active now st' (wallet_ids st' ?n))"
    using k act by (auto simp: collect_active_set)
  moreover have "filter (active_at now st') (wallet_ids st' ?n) \<noteq> []"
    using k act by (auto simp: filter_empty_conv active_at_def intro!: bexI [of _ k])
  ultimately show ?thesis
    by (simp add: ListByWallet_def Let_def all count_active_filter Suc_le_eq)
qed

theorem join_overwrite_leaks_witness:
  "new_claim 70 sample_store 7 ''carol''
     \<in> set (projr (fst (ListByWallet no_addr None 70 ''alice''
         (fst (snd (Reserve_commit no_addr 70 7 ''carol'' sample_store))))))"
  using join_overwrite_leaks [OF sample_store_inv, of 7 alice_claim 70 "''carol''"
      "new_claim 70 sample_store 7 ''carol''"
      "fst (snd (Reserve_commit no_addr 70 7 ''carol'' sample_store))"
      "snd (snd (Reserve_commit no_addr 70 7 ''carol'' sample_store))"]
  by (simp add: Reserve_commit_def Let_def active_at_def)

lemma cleanup_loop_index:
  assumes "\<not> expired_entry t1 st k"
  shows "k \<in> set (wallet_ids (fst (cleanup_loop pa t1 t2 ks st)) n) \<longleftrightarrow> k \<in> set (wallet_ids st n)"
  using assms
proof (induction ks arbitrary: st)
  case Nil
  then show ?case by simp
next
  case (Cons j ks)
  show ?case
  proof (cases "reservations st j")
    case None
    with Cons show ?thesis by simp
  next
    case (Some r)
    let ?st = "snd (mark_expired pa (t1 j) j r st)"
    have "k \<in> set (wallet_ids ?st n) \<longleftrightarrow> k \<in> set (wallet_ids st n)" "\<not> expired_entry t1 ?st k"
      using Cons.prems Some
      by (cases "k = j"; auto simp: mark_expired_def expired_entry_def mem_index_remove_other)+
    with Cons.IH [of ?st] Some show ?thesis by (simp add: case_prod_beta)
  qed
qed

lemma wallet_ids_fold_delete [simp]: "wallet_ids (fold delete_claim ks st) = wallet_ids st"
  by (induction ks arbitrary: st) auto

text \<open>
  The clean-up reads the clock twice per reservation. A reservation that expires between
  the two reads is deleted without being announced as released and stays in its holder's
  index.
\<close>

theorem join_cleanup_gap:
  assumes "distinct keys" and "set keys = dom (reservations st)" and "store_inv pa st"
    and "reservations st k = Some r" and "r_Status r = ReservationStatusActive"
    and "t1 k \<le> r_ExpiresAt r" and "r_ExpiresAt r < t2 k"
  shows "case CleanupExpired pa t1 t2 keys st of (st', bs) \<Rightarrow>
     reservations st' k = None \<and> BroadcastReservationReleased k ''expired'' \<notin> set bs
     \<and> k \<in> set (wallet_ids st' (normalizeReservationWallet pa (r_WalletAddress r)))"
proof -
  have fresh: "\<not> expired_entry t1 st k" and stale: "stale_entry t1 t2 st k"
    using assms(4-7) by (simp_all add: expired_entry_def stale_entry_def IsExpired_def IsActive_def)
  have "k \<in> set (wallet_ids st (normalizeReservationWallet pa (r_WalletAddress r)))"
    using store_inv_claim [OF assms(3,4)] assms(5) by (simp add: claim_ok_def)
  then have "k \<in> set (wallet_ids (fst (CleanupExpired pa t1 t2 keys st))
      (normalizeReservationWallet pa (r_WalletAddress r)))"
    using cleanup_loop_index [OF fresh] by (simp add: CleanupExpired_def case_prod_beta)
  with CleanupExpired_reservations [OF assms(1), of st pa t1 t2 k] assms(2) fresh stale
    CleanupExpired_broadcasts [OF assms(1), of pa t1 t2 st]
  show ?thesis by (auto simp: case_prod_beta)
qed

theorem join_cleanup_gap_witness:
  "case CleanupExpired no_addr (\<lambda>_. 60) (\<lambda>_. 61) [8, 7] sample_store of (st', bs) \<Rightarrow>
     reservations st' 7 = None \<and> BroadcastReservationReleased 7 ''expired'' \<notin> set bs
     \<and> 7 \<in> set (wallet_ids st' ''alice'')"
  using join_cleanup_gap [OF _ _ sample_store_inv, of "[8, 7]" 7 alice_claim "\<lambda>_. 60" "\<lambda>_. 61"] by auto

end
