(* ===== verification/Cancel_Reservation.thy ===== *)
theory Cancel_Reservation
  imports Join_Reservation
begin

text \<open>
  \<open>internal/usecase/cancel_reservation.go\<close>: the creator's advisory claim to cancel a
  waiting game. Unlike the join use case it never marks a claim released or expired: every
  operation that ends a claim deletes it, so a stored claim always has the active status.
  \<open>Get\<close> is \<open>Cancel_Get\<close> of the claim store theory.
\<close>

section \<open>Operations\<close>

definition NewCancelReservationUseCase :: "bool \<Rightarrow> claim_config \<Rightarrow> claim_store" where
  "NewCancelReservationUseCase bc cfg = new_claim_store 60 3 bc cfg"

definition Cancel_removeFromWalletIndex ::
  "parse_addr \<Rightarrow> wallet \<Rightarrow> int \<Rightarrow> claim_store \<Rightarrow> claim_store" where
  "Cancel_removeFromWalletIndex = index_remove"

definition Cancel_Reserve_check ::
  "parse_addr \<Rightarrow> game_repo \<Rightarrow> claim_store option \<Rightarrow> instant \<Rightarrow> int \<Rightarrow> wallet \<Rightarrow> error + unit" where
  "Cancel_Reserve_check pa gameRepo reservationUC now gameID walletAddress =
     (let normalizedWallet = normalizeReservationWallet pa walletAddress in
      case gameRepo gameID of
        Inl err \<Rightarrow> Inl err
      | Inr None \<Rightarrow> Inl ErrCancelNotAvailable
      | Inr (Some game) \<Rightarrow>
          if g_Status game \<noteq> GameStatusWaitingForOpponent then Inl ErrCancelNotAvailable
          else if \<not> sameReservationWallet pa (g_PlayerOneAddress game) normalizedWallet
            then Inl ErrNotGameCreator
          else case reservationUC of
              None \<Rightarrow> Inr ()
            | Some joinUC \<Rightarrow> (case GetReservation joinUC now gameID of
                  None \<Rightarrow> Inr ()
                | Some j \<Rightarrow> if IsActive now j then Inl ErrGameAlreadyReserved else Inr ()))"

definition Cancel_Reserve_commit ::
  "parse_addr \<Rightarrow> instant \<Rightarrow> int \<Rightarrow> wallet \<Rightarrow> claim_store
     \<Rightarrow> (error + CancelReservation) \<times> claim_store \<times> broadcast list" where
  "Cancel_Reserve_commit pa now gameID walletAddress st =
     (let normalizedWallet = normalizeReservationWallet pa walletAddress in
      if active_at now st gameID then (Inl ErrCancelAlreadyReserved, st, [])
      else if count_active now st (wallet_ids st normalizedWallet) \<ge> maxPerWallet st
        then (Inl ErrTooManyCancelReservations, st, [])
      else let reservation = new_claim now st gameID walletAddress in
        (Inr reservation, insert_claim normalizedWallet reservation st,
         emit st (BroadcastCancelReservationCreated reservation)))"

definition Cancel_Reserve ::
  "parse_addr \<Rightarrow> game_repo \<Rightarrow> claim_store option \<Rightarrow> instant \<Rightarrow> int \<Rightarrow> wallet \<Rightarrow> claim_store
     \<Rightarrow> (error + CancelReservation) \<times> claim_store \<times> broadcast list" where
  "Cancel_Reserve pa gameRepo reservationUC now gameID walletAddress st =
     (case Cancel_Reserve_check pa gameRepo reservationUC now gameID walletAddress of
        Inl err \<Rightarrow> (Inl err, st, [])
      | Inr _ \<Rightarrow> Cancel_Reserve_commit pa now gameID walletAddress st)"

definition isCancelableGameAvailable :: "game_repo option \<Rightarrow> int \<Rightarrow> error + bool" where
  "isCancelableGameAvailable gameRepo gameID = (case gameRepo of
       None \<Rightarrow> Inr True
     | Some repo \<Rightarrow> (case repo gameID of
           Inl err \<Rightarrow> Inl err
         | Inr None \<Rightarrow> Inr False
         | Inr (Some game) \<Rightarrow> Inr (g_Status game = GameStatusWaitingForOpponent)))"

text \<open>Removing a claim from both indexes, as every release of this use case does.\<close>

definition drop_claim :: "parse_addr \<Rightarrow> int \<Rightarrow> CancelReservation \<Rightarrow> claim_store \<Rightarrow> claim_store" where
  "drop_claim pa gameID r st =
     delete_claim gameID (Cancel_removeFromWalletIndex pa (r_WalletAddress r) gameID st)"

definition Cancel_releaseStaleReservation ::
  "parse_addr \<Rightarrow> int \<Rightarrow> string \<Rightarrow> claim_store \<Rightarrow> claim_store \<times> broadcast list" where
  "Cancel_releaseStaleReservation pa gameID reason st = (case reservations st gameID of
       None \<Rightarrow> (st, [])
     | Some reservation \<Rightarrow> (drop_claim pa gameID reservation st,
         emit st (BroadcastCancelReservationReleased gameID reason)))"

definition Cancel_ListByWallet ::
  "parse_addr \<Rightarrow> game_repo option \<Rightarrow> instant \<Rightarrow> wallet \<Rightarrow> claim_store
     \<Rightarrow> (error + CancelReservation list) \<times> claim_store \<times> broadcast list" where
  "Cancel_ListByWallet pa gameRepo now walletAddress st =
     (let gameIDs = wallet_ids st (normalizeReservationWallet pa walletAddress) in
      case filter_available (isCancelableGameAvailable gameRepo)
             (\<lambda>gid. Cancel_releaseStaleReservation pa gid ''resolved'') (collect_active now st gameIDs) st of
        (Inl err, st', bs) \<Rightarrow> (Inl err, st', bs)
      | (Inr result, st', bs) \<Rightarrow> (Inr (stable_newest_first r_CreatedAt result), st', bs))"

definition Cancel_Cancel ::
  "parse_addr \<Rightarrow> instant \<Rightarrow> int \<Rightarrow> wallet \<Rightarrow> claim_store
     \<Rightarrow> error option \<times> claim_store \<times> broadcast list" where
  "Cancel_Cancel pa now gameID walletAddress st =
     (let normalizedWallet = normalizeReservationWallet pa walletAddress in
      case reservations st gameID of
        None \<Rightarrow> (Some ErrCancelReservationNotFound, st, [])
      | Some reservation \<Rightarrow>
          if \<not> IsActive now reservation then (Some ErrCancelReservationNotFound, st, [])
          else if \<not> sameReservationWallet pa (r_WalletAddress reservation) normalizedWallet
            then (Some ErrNotCancelReservationHolder, st, [])
          else (None, drop_claim pa gameID reservation st,
                emit st (BroadcastCancelReservationReleased gameID ''cancelled'')))"

definition ReleaseOnUnavailable ::
  "parse_addr \<Rightarrow> instant \<Rightarrow> int \<Rightarrow> string \<Rightarrow> claim_store \<Rightarrow> claim_store \<times> broadcast list" where
  "ReleaseOnUnavailable pa now gameID reason st = (case reservations st gameID of
       None \<Rightarrow> (st, [])
     | Some reservation \<Rightarrow>
         if \<not> IsActive now reservation then (st, [])
         else (drop_claim pa gameID reservation st,
               emit st (BroadcastCancelReservationReleased gameID
                          (if reason = '''' then ''resolved'' else reason))))"

text \<open>The loop of \<open>CleanupExpired\<close>; \<open>t k\<close> is the instant its test of game \<open>k\<close> reads.\<close>

fun Cancel_cleanup_loop ::
  "parse_addr \<Rightarrow> (int \<Rightarrow> instant) \<Rightarrow> int list \<Rightarrow> claim_store \<Rightarrow> claim_store \<times> int list" where
  "Cancel_cleanup_loop pa t [] st = (st, [])"
| "Cancel_cleanup_loop pa t (k # ks) st =
     (case reservations st k of
        None \<Rightarrow> Cancel_cleanup_loop pa t ks st
      | Some r \<Rightarrow>
          if r_Status r = ReservationStatusActive \<and> IsExpired (t k) r
          then (case Cancel_cleanup_loop pa t ks (drop_claim pa k r st) of
                  (st', expired) \<Rightarrow> (st', k # expired))
          else Cancel_cleanup_loop pa t ks st)"

definition Cancel_CleanupExpired ::
  "parse_addr \<Rightarrow> (int \<Rightarrow> instant) \<Rightarrow> int list \<Rightarrow> claim_store \<Rightarrow> claim_store \<times> broadcast list" where
  "Cancel_CleanupExpired pa t keys st =
     (case Cancel_cleanup_loop pa t keys st of (st', expired) \<Rightarrow>
        (st', concat (map (\<lambda>k. emit st (BroadcastCancelReservationReleased k ''expired'')) expired)))"

definition Cancel_GetActiveCount :: "instant \<Rightarrow> int list \<Rightarrow> claim_store \<Rightarrow> int" where
  "Cancel_GetActiveCount now keys st = count_active now st keys"

section \<open>Refinement of the abstract machine\<close>

lemma drop_claim_fields [simp]:
  "reservations (drop_claim pa k r st) = (reservations st)(k := None)"
  "maxPerWallet (drop_claim pa k r st) = maxPerWallet st"
  by (simp_all add: drop_claim_def Cancel_removeFromWalletIndex_def)

lemma drop_claim_steps:
  "reservations st k = Some r \<Longrightarrow> claim_steps pa (now, st) (now, drop_claim pa k r st)"
  by (simp add: drop_claim_def Cancel_removeFromWalletIndex_def claim_steps_drop)

lemma Cancel_Reserve_commit_steps:
  "store_inv pa st \<Longrightarrow> claim_steps pa (now, st) (now, fst (snd (Cancel_Reserve_commit pa now k w st)))"
  by (auto simp: Cancel_Reserve_commit_def Let_def intro!: claim_steps_one create_counted)

lemma Cancel_Reserve_steps:
  "store_inv pa st \<Longrightarrow> claim_steps pa (now, st) (now, fst (snd (Cancel_Reserve pa repo ju now k w st)))"
  by (auto simp: Cancel_Reserve_def Cancel_Reserve_commit_steps split: sum.splits)

lemma Cancel_releaseStale_reservations:
  "reservations (fst (Cancel_releaseStaleReservation pa k reason st)) = (reservations st)(k := None)"
  by (auto simp: Cancel_releaseStaleReservation_def split: option.splits)

lemma Cancel_ops_steps:
  "claim_steps pa (now, st) (now, fst (snd (Cancel_Cancel pa now k w st)))"
  "claim_steps pa (now, st) (now, fst (ReleaseOnUnavailable pa now k reason st))"
  "claim_steps pa (now, st) (now, fst (Cancel_releaseStaleReservation pa k reason st))"
  by (auto simp: Cancel_Cancel_def ReleaseOnUnavailable_def Cancel_releaseStaleReservation_def Let_def
      intro: drop_claim_steps split: option.splits)

lemma Cancel_ListByWallet_store: "fst (snd (Cancel_ListByWallet pa repo now w st)) = fst (snd (filter_available
     (isCancelableGameAvailable repo) (\<lambda>gid. Cancel_releaseStaleReservation pa gid ''resolved'')
     (collect_active now st (wallet_ids st (normalizeReservationWallet pa w))) st))"
  by (simp add: Cancel_ListByWallet_def Let_def split: prod.split sum.split)

lemma Cancel_ListByWallet_result: "fst (Cancel_ListByWallet pa repo now w st) =
     map_sum id (stable_newest_first r_CreatedAt) (fst (filter_available
       (isCancelableGameAvailable repo) (\<lambda>gid. Cancel_releaseStaleReservation pa gid ''resolved'')
       (collect_active now st (wallet_ids st (normalizeReservationWallet pa w))) st))"
  by (simp add: Cancel_ListByWallet_def Let_def split: prod.split sum.split)

lemma Cancel_ListByWallet_steps:
  "claim_steps pa (now, st) (now, fst (snd (Cancel_ListByWallet pa repo now w st)))"
  unfolding Cancel_ListByWallet_store by (rule filter_available_steps) (rule Cancel_ops_steps)

lemma Cancel_cleanup_spec:
  assumes "distinct ks"
  shows "(\<forall>k. reservations (fst (Cancel_cleanup_loop pa t ks st)) k =
           (if k \<in> set ks \<and> expired_entry t st k then None else reservations st k))
     \<and> snd (Cancel_cleanup_loop pa t ks st) = filter (expired_entry t st) ks"
  using assms
proof (induction ks arbitrary: st)
  case Nil
  then show ?case by simp
next
  case (Cons k ks)
  show ?case
  proof (cases "expired_entry t st k")
    case False
    then have "Cancel_cleanup_loop pa t (k # ks) st = Cancel_cleanup_loop pa t ks st"
      by (auto simp: expired_entry_def split: option.splits)
    with False Cons show ?thesis by auto
  next
    case True
    then obtain r where r: "reservations st k = Some r" "r_Status r = ReservationStatusActive"
        "IsExpired (t k) r" by (auto simp: expired_entry_eq)
    let ?st = "drop_claim pa k r st"
    have others: "expired_entry t ?st j = expired_entry t st j" if "j \<noteq> k" for j
      using that by (simp add: expired_entry_def)
    have "filter (expired_entry t ?st) ks = filter (expired_entry t st) ks"
      by (rule filter_cong [OF refl]) (metis Cons.prems distinct.simps(2) others)
    moreover have "reservations (fst (Cancel_cleanup_loop pa t ks ?st)) j =
        (if j \<in> set (k # ks) \<and> expired_entry t st j then None else reservations st j)" for j
      using Cons.IH [of ?st] Cons.prems others [of j] True by auto
    ultimately show ?thesis using Cons r True by (simp add: case_prod_beta)
  qed
qed

lemma Cancel_cleanup_steps: "claim_steps pa (now, st) (now, fst (Cancel_cleanup_loop pa t ks st))"
proof (induction ks arbitrary: st)
  case Nil
  then show ?case by simp
next
  case (Cons k ks)
  then show ?case
    using rtranclp_trans [OF drop_claim_steps Cons]
    by (auto simp: case_prod_beta split: option.splits)
qed

lemma Cancel_CleanupExpired_steps:
  "claim_steps pa (now, st) (now, fst (Cancel_CleanupExpired pa t ks st))"
  using Cancel_cleanup_steps by (simp add: Cancel_CleanupExpired_def case_prod_beta)

section \<open>Running the use case\<close>

inductive cancel_step :: "parse_addr \<Rightarrow> instant \<times> claim_store \<Rightarrow> instant \<times> claim_store \<Rightarrow> bool"
  for pa :: parse_addr where
  time: "now \<le> now' \<Longrightarrow> cancel_step pa (now, st) (now', st)"
| reserve: "cancel_step pa (now, st) (now, fst (snd (Cancel_Reserve_commit pa now k w st)))"
| cancel: "cancel_step pa (now, st) (now, fst (snd (Cancel_Cancel pa now k w st)))"
| unavailable: "cancel_step pa (now, st) (now, fst (ReleaseOnUnavailable pa now k reason st))"
| stale: "cancel_step pa (now, st) (now, fst (Cancel_releaseStaleReservation pa k reason st))"
| cleanup: "cancel_step pa (now, st) (now, fst (Cancel_CleanupExpired pa t ks st))"

lemma cancel_step_refines: "cancel_step pa x y \<Longrightarrow> store_inv pa (snd x) \<Longrightarrow> claim_steps pa x y"
  by (induction rule: cancel_step.induct)
    (auto intro: claim_steps_one claim_step.tick Cancel_Reserve_commit_steps Cancel_ops_steps
      Cancel_CleanupExpired_steps)

definition cancel_init :: "claim_store \<Rightarrow> bool" where
  "cancel_init st \<longleftrightarrow> (\<exists>bc cfg. st = NewCancelReservationUseCase bc cfg)"

interpretation cancel_run: claim_machine pa cancel_init "cancel_step pa" for pa
  by unfold_locales
    (auto simp: cancel_init_def NewCancelReservationUseCase_def new_claim_store_inv cancel_step_refines)

text \<open>No stored claim has left the active status: what is not active has expired.\<close>

definition all_active_status :: "claim_store \<Rightarrow> bool" where
  "all_active_status st \<longleftrightarrow> (\<forall>k r. reservations st k = Some r \<longrightarrow> r_Status r = ReservationStatusActive)"

lemma drop_all_active: "all_active_status st \<Longrightarrow> all_active_status (drop_claim pa k r st)"
  by (auto simp: all_active_status_def)

lemma Cancel_cleanup_all_active:
  "all_active_status st \<Longrightarrow> all_active_status (fst (Cancel_cleanup_loop pa t ks st))"
  by (induction ks arbitrary: st) (auto simp: case_prod_beta drop_all_active split: option.splits)

lemma cancel_step_all_active: "cancel_step pa x y \<Longrightarrow> all_active_status (snd x) \<Longrightarrow> all_active_status (snd y)"
proof (induction rule: cancel_step.induct)
  case (reserve now st k w)
  then show ?case by (auto simp: Cancel_Reserve_commit_def Let_def all_active_status_def)
next
  case (cancel now st k w)
  then show ?case by (auto simp: Cancel_Cancel_def Let_def drop_all_active split: option.splits)
next
  case (unavailable now st k reason)
  then show ?case by (auto simp: ReleaseOnUnavailable_def drop_all_active split: option.splits)
next
  case (stale now st k reason)
  then show ?case by (auto simp: Cancel_releaseStaleReservation_def drop_all_active split: option.splits)
next
  case (cleanup now st t ks)
  then show ?case by (simp add: Cancel_CleanupExpired_def case_prod_beta Cancel_cleanup_all_active)
qed simp

section \<open>The claim service of the cancel reservations\<close>

lemma Cancel_Reserve_cases:
  "fst (Cancel_Reserve pa repo ju now k w st) = Inr r \<Longrightarrow>
     \<not> active_at now st k \<and> r = new_claim now st k w
     \<and> fst (snd (Cancel_Reserve pa repo ju now k w st)) = insert_claim (normalizeReservationWallet pa w) r st"
  "fst (Cancel_Reserve pa repo ju now k w st) = Inl e \<Longrightarrow> fst (snd (Cancel_Reserve pa repo ju now k w st)) = st"
  by (auto simp: Cancel_Reserve_def Cancel_Reserve_commit_def Let_def split: sum.splits if_splits)

interpretation cancel_claims: claim_creator Cancel_Get
  "\<lambda>t k st. fst (ReleaseOnUnavailable pa t k reason st)" "store_inv pa"
  "\<lambda>(repo, ju) t k w st. let z = Cancel_Reserve pa repo ju t k w st in (fst z, fst (snd z))" for pa reason
proof (unfold_locales, goal_cases)
  case (1 s t k r)
  then show ?case unfolding claim_simps by (rule active_claim_laws)
next
  case (2 s t' k r t)
  then show ?case unfolding claim_simps by (rule active_claim_laws)
next
  case (3 s t k r t')
  then show ?case unfolding claim_simps by (rule active_claim_laws)
next
  case (4 s t k)
  then show ?case
    by (auto simp: claim_simps ReleaseOnUnavailable_def active_claim_def split: option.splits)
next
  case (5 s k' k t t')
  then show ?case
    by (auto simp: claim_simps ReleaseOnUnavailable_def intro!: active_claim_same split: option.splits)
next
  case (6 s t k)
  then show ?case using claim_steps_store_inv [OF Cancel_ops_steps(2)] by simp
next
  case (7 e t k w s x)
  then show ?case by (auto simp: case_prod_beta Let_def Cancel_Reserve_cases(2))
next
  case (8 s e t k w r s')
  then show ?case
    by (auto simp: case_prod_beta Let_def claim_simps active_claim_Some store_inv_def
        intro!: new_claim_active dest!: Cancel_Reserve_cases(1))
next
  case (9 s e t k w r s')
  then show ?case
    by (auto simp: case_prod_beta Let_def claim_simps active_claim_None
        dest!: Cancel_Reserve_cases(1))
next
  case (10 s k' k e t w t')
  then show ?case
    by (auto simp: Cancel_Reserve_def Cancel_Reserve_commit_def Let_def case_prod_beta claim_simps
        intro!: active_claim_same split: sum.splits)
next
  case (11 s e t k w)
  then show ?case using claim_steps_store_inv [OF Cancel_Reserve_steps] by (simp add: case_prod_beta Let_def)
qed

section \<open>Properties\<close>

text \<open>
  C5. A cancel reservation is granted exactly when the game exists and waits for an
  opponent, the caller is its creator, no join reservation of it is active, no cancel
  reservation of it is active and the caller is below the limit.
\<close>

theorem Cancel_Reserve_success_iff:
  "fst (Cancel_Reserve pa repo joinUC now k w st) = Inr r \<longleftrightarrow>
     (\<exists>g. repo k = Inr (Some g) \<and> g_Status g = GameStatusWaitingForOpponent
        \<and> normalizeReservationWallet pa (g_PlayerOneAddress g) = normalizeReservationWallet pa w)
     \<and> (case joinUC of None \<Rightarrow> True | Some j \<Rightarrow> GetReservation j now k = None)
     \<and> Cancel_Get st now k = None
     \<and> count_active now st (wallet_ids st (normalizeReservationWallet pa w)) < maxPerWallet st
     \<and> r = \<lparr> r_GameID = k, r_WalletAddress = w, r_CreatedAt = now,
             r_ExpiresAt = now + timeout st, r_Status = ReservationStatusActive \<rparr>"
proof -
  have check: "Cancel_Reserve_check pa repo joinUC now k w = Inr () \<longleftrightarrow>
      (\<exists>g. repo k = Inr (Some g) \<and> g_Status g = GameStatusWaitingForOpponent
        \<and> normalizeReservationWallet pa (g_PlayerOneAddress g) = normalizeReservationWallet pa w)
      \<and> (case joinUC of None \<Rightarrow> True | Some j \<Rightarrow> GetReservation j now k = None)"
    by (auto simp: Cancel_Reserve_check_def Let_def claim_simps active_claim_Some
        split: sum.splits option.splits)
  have commit: "fst (Cancel_Reserve_commit pa now k w st) = Inr r \<longleftrightarrow> Cancel_Get st now k = None
      \<and> count_active now st (wallet_ids st (normalizeReservationWallet pa w)) < maxPerWallet st
      \<and> r = new_claim now st k w"
    by (auto simp: Cancel_Reserve_commit_def Let_def claim_simps active_claim_None)
  show ?thesis
    using check commit by (auto simp: Cancel_Reserve_def new_claim_def split: sum.splits)
qed

text \<open>
  Listing a wallet's cancel reservations returns, newest first, exactly its active ones
  whose game still waits for an opponent; the others of its active ones are deleted, and no
  other entry changes.
\<close>

theorem cancel_list_exact:
  assumes "store_inv pa st"
  shows "case Cancel_ListByWallet pa (Some (\<lambda>k. Inr (games k))) now w st of (res, st', bs) \<Rightarrow>
     let ids = wallet_ids st (normalizeReservationWallet pa w);
         waiting = (\<lambda>k. \<exists>g. games k = Some g \<and> g_Status g = GameStatusWaitingForOpponent)
     in (\<exists>rs. res = Inr rs
           \<and> set rs = {r. \<exists>k \<in> set ids. Cancel_Get st now k = Some r \<and> waiting k}
           \<and> sorted_wrt (\<lambda>a b. r_CreatedAt b \<le> r_CreatedAt a) rs)
      \<and> (\<forall>k. reservations st' k =
           (if k \<in> set ids \<and> Cancel_Get st now k \<noteq> None \<and> \<not> waiting k then None else reservations st k))"
proof -
  define ids where "ids = wallet_ids st (normalizeReservationWallet pa w)"
  define ok where "ok = (\<lambda>k. \<exists>g. games k = Some g \<and> g_Status g = GameStatusWaitingForOpponent)"
  define rs where "rs = collect_active now st ids"
  let ?av = "isCancelableGameAvailable (Some (\<lambda>k. Inr (games k)))"
  let ?rel = "\<lambda>gid. Cancel_releaseStaleReservation pa gid ''resolved''"
  have av: "?av k = Inr (ok k)" for k
    by (auto simp: isCancelableGameAvailable_def ok_def split: option.splits)
  have id: "r_GameID r = k \<and> IsActive now r" if "Cancel_Get st now k = Some r" for k r
    using active_claim_laws(1) [OF assms, of now k r] that by (simp add: claim_simps)
  have mem: "r \<in> set rs \<longleftrightarrow> (\<exists>k \<in> set ids. Cancel_Get st now k = Some r)" for r
    by (auto simp: rs_def collect_active_set claim_simps active_claim_Some)
  note out = filter_available_ok [of rs ?av ok ?rel st, OF av]
  have res: "fst (Cancel_ListByWallet pa (Some (\<lambda>k. Inr (games k))) now w st) =
      Inr (stable_newest_first r_CreatedAt (filter (\<lambda>r. ok (r_GameID r)) rs))"
    unfolding Cancel_ListByWallet_result ids_def [symmetric] rs_def [symmetric] out(1) by simp
  have gone: "k \<in> r_GameID ` set (filter (\<lambda>r. \<not> ok (r_GameID r)) rs) \<longleftrightarrow>
      k \<in> set ids \<and> Cancel_Get st now k \<noteq> None \<and> \<not> ok k" for k
    using id by (auto simp: mem image_iff)
  have store: "reservations (fst (snd (Cancel_ListByWallet pa (Some (\<lambda>k. Inr (games k))) now w st))) k =
      (if k \<in> set ids \<and> Cancel_Get st now k \<noteq> None \<and> \<not> ok k then None else reservations st k)" for k
    unfolding Cancel_ListByWallet_store ids_def [symmetric] rs_def [symmetric] out(2)
      fold_release_reservations [of ?rel, OF Cancel_releaseStale_reservations] gone ..
  have "set (stable_newest_first r_CreatedAt (filter (\<lambda>r. ok (r_GameID r)) rs)) =
      {r. \<exists>k \<in> set ids. Cancel_Get st now k = Some r \<and> ok k}"
    using id by (auto simp: mem)
  with res store sorted_stable_newest_first [of r_CreatedAt] show ?thesis
    unfolding ids_def [symmetric] ok_def [symmetric] Let_def case_prod_beta by blast
qed

theorem cancel_list_exact_witness:
  "fst (Cancel_ListByWallet no_addr (Some (\<lambda>k. Inr None)) 5 ''alice'' sample_store) = Inr []
     \<and> reservations (fst (snd (Cancel_ListByWallet no_addr (Some (\<lambda>k. Inr None)) 5 ''alice'' sample_store))) 7
         = None"
  using cancel_list_exact [OF sample_store_inv, where games = "\<lambda>_. None" and now = 5 and w = "''alice''"]
  by (auto simp: case_prod_beta Let_def Cancel_Get_def)

text \<open>
  In every reachable state of the cancel use case no wallet holds more active cancel
  reservations than the limit, each active one is listed for its holder, and an entry that is
  no longer active is one that has passed its expiry: nothing else is ever left behind.
\<close>

theorem cancel_run_invariant:
  assumes "(cancel_step pa)\<^sup>*\<^sup>* (t0, NewCancelReservationUseCase bc cfg) (now, st)"
  shows "int (card {k. \<exists>r. Cancel_Get st now k = Some r
                        \<and> normalizeReservationWallet pa (r_WalletAddress r) = n}) \<le> maxPerWallet st
     \<and> (\<forall>k r. reservations st k = Some r \<longrightarrow>
           k \<in> set (wallet_ids st (normalizeReservationWallet pa (r_WalletAddress r)))
           \<and> (Cancel_Get st now k = Some r \<or> IsExpired now r))"
proof -
  have init: "cancel_init (NewCancelReservationUseCase bc cfg)" by (auto simp: cancel_init_def)
  have "all_active_status (snd (now, st))"
    using assms by (rule rtranclp_induct)
      (auto simp: NewCancelReservationUseCase_def all_active_status_def [of "new_claim_store _ _ _ _"]
        dest: cancel_step_all_active)
  then have "reservations st k = Some r \<Longrightarrow> k \<in> set (wallet_ids st (normalizeReservationWallet pa (r_WalletAddress r)))
      \<and> (Cancel_Get st now k = Some r \<or> IsExpired now r)" for k r
    using store_inv_claim [OF cancel_run.reach_inv(1) [OF init assms], of k r]
    by (auto simp: all_active_status_def claim_ok_def claim_simps active_claim_Some IsActive_def)
  with cancel_run.reach_limit [OF init assms] show ?thesis by (simp add: claim_simps)
qed

theorem cancel_run_invariant_witness:
  "let st = fst (snd (Cancel_Reserve_commit no_addr 5 7 ''alice'' (NewCancelReservationUseCase True
        \<lparr>MaxPerWallet = 1, TimeoutSeconds = 60, CleanupIntervalSeconds = 5\<rparr>)))
   in int (card {k. \<exists>r. Cancel_Get st 5 k = Some r
        \<and> normalizeReservationWallet no_addr (r_WalletAddress r) = ''alice''}) \<le> maxPerWallet st"
proof -
  let ?init = "NewCancelReservationUseCase True \<lparr>MaxPerWallet = 1, TimeoutSeconds = 60, CleanupIntervalSeconds = 5\<rparr>"
  let ?st = "fst (snd (Cancel_Reserve_commit no_addr 5 7 ''alice'' ?init))"
  have "(cancel_step no_addr)\<^sup>*\<^sup>* (5, ?init) (5, ?st)"
    by (rule r_into_rtranclp [of "cancel_step no_addr", OF cancel_step.reserve])
  then show ?thesis using cancel_run_invariant [of no_addr 5 _ _ 5 ?st "''alice''"] by (simp add: Let_def)
qed

end
