(* ===== verification/Coordination.thy ===== *)
theory Coordination
  imports Cancel_Reservation
begin

text \<open>
  The join and the cancel use case together (\<open>SetCancelReservationUseCase\<close> wires each
  into the other). Each asks the other's lookup before it takes its own lock. Calls that do
  not overlap keep the two kinds of claim apart; two overlapping calls can both pass their
  checks before either commits.
\<close>

section \<open>Releasing never activates\<close>

definition shrinks :: "claim_store \<Rightarrow> claim_store \<Rightarrow> bool" where
  "shrinks st st' \<longleftrightarrow> (\<forall>t k r. active_claim st' t k = Some r \<longrightarrow> active_claim st t k = Some r)"

lemma shrinksI:
  assumes "\<And>k r. reservations st' k = Some r \<Longrightarrow> (\<forall>t. \<not> IsActive t r) \<or> reservations st k = Some r"
  shows "shrinks st st'"
  using assms by (fastforce simp: shrinks_def active_claim_Some)

lemma join_ops_shrink:
  "shrinks st (fst (snd (Cancel pa now k w st)))"
  "shrinks st (fst (ReleaseOnJoin pa now k st))"
  "shrinks st (releaseStaleReservation pa k st)"
  by (rule shrinksI; auto simp: Cancel_def ReleaseOnJoin_def releaseStaleReservation_def
      removeFromWalletIndex_def Let_def split: option.splits if_splits)+

lemma join_cleanup_shrinks:
  "distinct ks \<Longrightarrow> set ks = dom (reservations st) \<Longrightarrow> shrinks st (fst (CleanupExpired pa t1 t2 ks st))"
  by (rule shrinksI) (auto simp: CleanupExpired_reservations split: if_splits)

lemma cancel_ops_shrink:
  "shrinks st (fst (snd (Cancel_Cancel pa now k w st)))"
  "shrinks st (fst (ReleaseOnUnavailable pa now k reason st))"
  "shrinks st (fst (Cancel_releaseStaleReservation pa k reason st))"
  by (rule shrinksI; auto simp: Cancel_Cancel_def ReleaseOnUnavailable_def
      Cancel_releaseStaleReservation_def Let_def split: option.splits if_splits)+

lemma cancel_cleanup_shrinks: "distinct ks \<Longrightarrow> shrinks st (fst (Cancel_CleanupExpired pa t ks st))"
  by (rule shrinksI) (auto simp: Cancel_CleanupExpired_def case_prod_beta Cancel_cleanup_spec split: if_splits)

section \<open>Sequential calls\<close>

text \<open>
  The two stores under calls that do not overlap. The two \<open>ListByWallet\<close> methods change
  the stores by the releases of stale claims only, which are steps of their own.
\<close>

inductive coord_step ::
  "parse_addr \<Rightarrow> instant \<times> claim_store \<times> claim_store \<Rightarrow> instant \<times> claim_store \<times> claim_store \<Rightarrow> bool"
  for pa :: parse_addr where
  time: "now \<le> now' \<Longrightarrow> coord_step pa (now, js, cs) (now', js, cs)"
| join_reserve: "coord_step pa (now, js, cs) (now, fst (snd (Reserve pa repo (Some cs) now k w js)), cs)"
| cancel_reserve: "coord_step pa (now, js, cs) (now, js, fst (snd (Cancel_Reserve pa repo (Some js) now k w cs)))"
| join_cancel: "coord_step pa (now, js, cs) (now, fst (snd (Cancel pa now k w js)), cs)"
| join_joined: "coord_step pa (now, js, cs) (now, fst (ReleaseOnJoin pa now k js), cs)"
| join_stale: "coord_step pa (now, js, cs) (now, releaseStaleReservation pa k js, cs)"
| join_cleanup: "distinct ks \<Longrightarrow> set ks = dom (reservations js) \<Longrightarrow>
     coord_step pa (now, js, cs) (now, fst (CleanupExpired pa t1 t2 ks js), cs)"
| cancel_cancel: "coord_step pa (now, js, cs) (now, js, fst (snd (Cancel_Cancel pa now k w cs)))"
| cancel_unavailable: "coord_step pa (now, js, cs) (now, js, fst (ReleaseOnUnavailable pa now k reason cs))"
| cancel_stale: "coord_step pa (now, js, cs) (now, js, fst (Cancel_releaseStaleReservation pa k reason cs))"
| cancel_cleanup: "distinct ks \<Longrightarrow>
     coord_step pa (now, js, cs) (now, js, fst (Cancel_CleanupExpired pa t ks cs))"

text \<open>No game is actively claimed on both sides.\<close>

definition apart :: "instant \<Rightarrow> claim_store \<Rightarrow> claim_store \<Rightarrow> bool" where
  "apart now js cs \<longleftrightarrow> (\<forall>k. active_claim js now k = None \<or> active_claim cs now k = None)"

lemma apart_later: "apart now js cs \<Longrightarrow> now \<le> now' \<Longrightarrow> apart now' js cs"
  unfolding apart_def active_claim_None active_at_def
  by (metis IsActive_antimono option.case_eq_if)

lemma apart_shrinks:
  "apart now js cs \<Longrightarrow> shrinks js js' \<Longrightarrow> apart now js' cs"
  "apart now js cs \<Longrightarrow> shrinks cs cs' \<Longrightarrow> apart now js cs'"
  by (metis apart_def shrinks_def not_None_eq)+

lemma Reserve_apart:
  assumes "apart now js cs"
  shows "apart now (fst (snd (Reserve pa repo (Some cs) now k w js))) cs"
proof (cases "fst (Reserve pa repo (Some cs) now k w js)")
  case (Inl e)
  with assms show ?thesis by (auto simp: Reserve_def Reserve_commit_def Let_def split: sum.splits if_splits)
next
  case (Inr r)
  then have "active_claim cs now k = None"
    by (auto simp: Reserve_def Reserve_check_def Let_def claim_simps active_claim_Some
        split: sum.splits option.splits if_splits)
  moreover have "reservations (fst (snd (Reserve pa repo (Some cs) now k w js))) j = reservations js j"
    if "j \<noteq> k" for j using that
    by (auto simp: Reserve_def Reserve_commit_def Let_def split: sum.splits)
  ultimately show ?thesis using assms unfolding apart_def by (metis active_claim_same)
qed

lemma Cancel_Reserve_apart:
  assumes "apart now js cs"
  shows "apart now js (fst (snd (Cancel_Reserve pa repo (Some js) now k w cs)))"
proof (cases "fst (Cancel_Reserve pa repo (Some js) now k w cs)")
  case (Inl e)
  with assms show ?thesis by (simp add: Cancel_Reserve_cases(2))
next
  case (Inr r)
  then have "active_claim js now k = None"
    by (auto simp: Cancel_Reserve_def Cancel_Reserve_check_def Let_def claim_simps active_claim_Some
        split: sum.splits option.splits if_splits)
  moreover have "reservations (fst (snd (Cancel_Reserve pa repo (Some js) now k w cs))) j = reservations cs j"
    if "j \<noteq> k" for j using that
    by (auto simp: Cancel_Reserve_def Cancel_Reserve_commit_def Let_def split: sum.splits)
  ultimately show ?thesis using assms unfolding apart_def by (metis active_claim_same)
qed

lemma coord_step_apart:
  "coord_step pa x y \<Longrightarrow> apart (fst x) (fst (snd x)) (snd (snd x)) \<Longrightarrow> apart (fst y) (fst (snd y)) (snd (snd y))"
  by (induction rule: coord_step.induct)
    (auto intro: apart_later apart_shrinks Reserve_apart Cancel_Reserve_apart join_ops_shrink
      cancel_ops_shrink join_cleanup_shrinks cancel_cleanup_shrinks)

section \<open>Properties\<close>

text \<open>
  C8. As long as calls do not overlap, no game ever has an active join reservation and an
  active cancel reservation at the same time, from the start of the program on and through
  every sequence of reservations, releases, clean-ups and blockchain progress.
\<close>

theorem join_cancel_exclusive:
  assumes "(coord_step pa)\<^sup>*\<^sup>* (t0, NewReservationUseCase bc cfg, NewCancelReservationUseCase bc' cfg')
             (now, js, cs)"
  shows "GetReservation js now k = None \<or> Cancel_Get cs now k = None"
proof -
  have init: "apart t0 (NewReservationUseCase bc cfg) (NewCancelReservationUseCase bc' cfg')"
    by (simp add: apart_def active_claim_def NewReservationUseCase_def)
  have "apart (fst (now, js, cs)) (fst (snd (now, js, cs))) (snd (snd (now, js, cs)))"
    using assms by (rule rtranclp_induct) (use init coord_step_apart in auto)
  then show ?thesis by (simp add: apart_def claim_simps)
qed

theorem join_cancel_exclusive_witness:
  "let cfg = \<lparr>MaxPerWallet = 1, TimeoutSeconds = 60, CleanupIntervalSeconds = 5\<rparr>;
       cs = NewCancelReservationUseCase True cfg;
       js = fst (snd (Reserve no_addr (\<lambda>_. Inr None) (Some cs) 5 7 ''alice'' (NewReservationUseCase True cfg)))
   in GetReservation js 5 7 = None \<or> Cancel_Get cs 5 7 = None"
proof -
  let ?cfg = "\<lparr>MaxPerWallet = 1, TimeoutSeconds = 60, CleanupIntervalSeconds = 5\<rparr>"
  let ?cs = "NewCancelReservationUseCase True ?cfg"
  let ?js = "fst (snd (Reserve no_addr (\<lambda>_. Inr None) (Some ?cs) 5 7 ''alice'' (NewReservationUseCase True ?cfg)))"
  have "(coord_step no_addr)\<^sup>*\<^sup>* (5, NewReservationUseCase True ?cfg, ?cs) (5, ?js, ?cs)"
    by (rule r_into_rtranclp [of "coord_step no_addr", OF coord_step.join_reserve])
  from join_cancel_exclusive [OF this, of 7] show ?thesis by (simp add: Let_def)
qed

lemma Cancel_Reserve_check_ok:
  "Cancel_Reserve_check pa repo joinUC now k w = Inr () \<longleftrightarrow>
     (\<exists>g. repo k = Inr (Some g) \<and> g_Status g = GameStatusWaitingForOpponent
        \<and> normalizeReservationWallet pa (g_PlayerOneAddress g) = normalizeReservationWallet pa w)
     \<and> (case joinUC of None \<Rightarrow> True | Some j \<Rightarrow> GetReservation j now k = None)"
  by (auto simp: Cancel_Reserve_check_def Let_def claim_simps active_claim_Some split: sum.splits option.splits)

lemma Cancel_Reserve_commit_ok:
  "fst (Cancel_Reserve_commit pa now k w st) = Inr r \<longleftrightarrow> Cancel_Get st now k = None
     \<and> count_active now st (wallet_ids st (normalizeReservationWallet pa w)) < maxPerWallet st
     \<and> r = new_claim now st k w"
  by (auto simp: Cancel_Reserve_commit_def Let_def claim_simps active_claim_None)

text \<open>What the other side answers while a claim of the game is active.\<close>

lemma active_elsewhere:
  assumes "repo k = Inr (Some g)" "g_Status g = GameStatusWaitingForOpponent"
  shows "GetReservation js now k = Some j \<Longrightarrow>
      normalizeReservationWallet pa (g_PlayerOneAddress g) = normalizeReservationWallet pa w \<Longrightarrow>
      Cancel_Reserve pa repo (Some js) now k w cs = (Inl ErrGameAlreadyReserved, cs, [])"
    and "Cancel_Get cs now k = Some c \<Longrightarrow>
      normalizeReservationWallet pa (g_PlayerOneAddress g) \<noteq> normalizeReservationWallet pa w \<Longrightarrow>
      Reserve pa repo (Some cs) now k w js = (Inl ErrGameCancellationPending, js, [])"
proof -
  have "IsActive now j" if "GetReservation js now k = Some j"
    using that by (simp add: claim_simps active_claim_Some)
  moreover have "IsActive now c" if "Cancel_Get cs now k = Some c"
    using that by (simp add: claim_simps active_claim_Some)
  ultimately show "GetReservation js now k = Some j \<Longrightarrow>
      normalizeReservationWallet pa (g_PlayerOneAddress g) = normalizeReservationWallet pa w \<Longrightarrow>
      Cancel_Reserve pa repo (Some js) now k w cs = (Inl ErrGameAlreadyReserved, cs, [])"
    and "Cancel_Get cs now k = Some c \<Longrightarrow>
      normalizeReservationWallet pa (g_PlayerOneAddress g) \<noteq> normalizeReservationWallet pa w \<Longrightarrow>
      Reserve pa repo (Some cs) now k w js = (Inl ErrGameCancellationPending, js, [])"
    using assms by (simp_all add: Cancel_Reserve_def Cancel_Reserve_check_def Reserve_def Reserve_check_def
        Let_def sameReservationWallet_def)
qed

text \<open>
  C9. The exclusion does not survive overlapping calls. Take a waiting game without an active
  claim, its creator and another wallet, both below their limits. When the join and the cancel
  call both make their checks before either takes its lock, both checks pass, both critical
  sections succeed, and the game has an active join reservation of the one and an active cancel
  reservation of the other. The same two calls one after the other never do this: whichever comes
  second is refused with the error that names the first, and changes nothing.
\<close>

theorem join_cancel_race:
  assumes "store_inv pa js" and "store_inv pa cs"
    and "repo k = Inr (Some g)" and "g_Status g = GameStatusWaitingForOpponent"
    and "normalizeReservationWallet pa (g_PlayerOneAddress g) = normalizeReservationWallet pa creator"
    and "normalizeReservationWallet pa (g_PlayerOneAddress g) \<noteq> normalizeReservationWallet pa player"
    and "GetReservation js now k = None" and "Cancel_Get cs now k = None"
    and "count_active now js (wallet_ids js (normalizeReservationWallet pa player)) < maxPerWallet js"
    and "count_active now cs (wallet_ids cs (normalizeReservationWallet pa creator)) < maxPerWallet cs"
  shows "let js' = fst (snd (Reserve_commit pa now k player js));
             cs' = fst (snd (Cancel_Reserve_commit pa now k creator cs))
         in Reserve_check pa repo (Some cs) now k player = Inr ()
          \<and> Cancel_Reserve_check pa repo (Some js) now k creator = Inr ()
          \<and> fst (Reserve_commit pa now k player js) = Inr (new_claim now js k player)
          \<and> fst (Cancel_Reserve_commit pa now k creator cs) = Inr (new_claim now cs k creator)
          \<and> GetReservation js' now k = Some (new_claim now js k player)
          \<and> Cancel_Get cs' now k = Some (new_claim now cs k creator)
          \<and> Cancel_Reserve pa repo (Some js') now k creator cs = (Inl ErrGameAlreadyReserved, cs, [])
          \<and> Reserve pa repo (Some cs') now k player js = (Inl ErrGameCancellationPending, js, [])"
proof -
  let ?js = "fst (snd (Reserve_commit pa now k player js))"
  let ?cs = "fst (snd (Cancel_Reserve_commit pa now k creator cs))"
  have check: "Reserve_check pa repo (Some cs) now k player = Inr ()"
    "Cancel_Reserve_check pa repo (Some js) now k creator = Inr ()"
    unfolding Reserve_check_ok Cancel_Reserve_check_ok using assms(3-8) by auto
  have commit: "fst (Reserve_commit pa now k player js) = Inr (new_claim now js k player)"
    "fst (Cancel_Reserve_commit pa now k creator cs) = Inr (new_claim now cs k creator)"
    unfolding Reserve_commit_ok Cancel_Reserve_commit_ok using assms(7-10) by auto
  have claimed: "GetReservation ?js now k = Some (new_claim now js k player)"
    "Cancel_Get ?cs now k = Some (new_claim now cs k creator)"
    using join_claims.reserve_get [OF assms(1), of "(repo, Some cs)" now k player]
      cancel_claims.reserve_get [OF assms(2), of "(repo, Some js)" now k creator] check commit
    by (simp_all add: Let_def Reserve_def Cancel_Reserve_def prod_eq_iff)
  show ?thesis unfolding Let_def
    using check commit claimed active_elsewhere(1) [where repo = repo and pa = pa, OF assms(3,4) claimed(1) assms(5), of cs]
      active_elsewhere(2) [where repo = repo and pa = pa, OF assms(3,4) claimed(2) assms(6), of js] by simp
qed

text \<open>A game that Alice created and nobody has joined.\<close>

definition sample_waiting_game :: Game where
  "sample_waiting_game = \<lparr>g_GameID = 9, g_Status = GameStatusWaitingForOpponent,
     g_PlayerOneAddress = ''alice'', g_PlayerTwoAddress = None, g_PlayerOneChoice = CoinSideClosed,
     g_PlayerTwoChoice = None, g_PlayerOneReferrer = None, g_PlayerTwoReferrer = None,
     g_BetAmount = 1000, g_WinnerAddress = None, g_PayoutAmount = None, g_ServiceFeeNumerator = 0,
     g_ReferrerFeeNumerator = 0, g_WaitingTimeoutSeconds = 0, g_LowestBidAllowed = 0,
     g_HighestBidAllowed = 0, g_MinReferrerPayoutValue = 0, g_ProtocolVersion = 1,
     g_FeeReceiverAddress = ''fees'', g_CreatedAt = 0, g_JoinedAt = None, g_RevealedAt = None,
     g_CompletedAt = None, g_InitTxHash = ''a'', g_JoinTxHash = None, g_RevealTxHash = None,
     g_CompleteTxHash = None\<rparr>"

theorem join_cancel_race_witness:
  "let js' = fst (snd (Reserve_commit no_addr 30 9 ''bob'' sample_store));
       cs' = fst (snd (Cancel_Reserve_commit no_addr 30 9 ''alice'' sample_store))
   in GetReservation js' 30 9 = Some (new_claim 30 sample_store 9 ''bob'')
     \<and> Cancel_Get cs' 30 9 = Some (new_claim 30 sample_store 9 ''alice'')
     \<and> fst (Cancel_Reserve no_addr (\<lambda>_. Inr (Some sample_waiting_game)) (Some js') 30 9 ''alice'' sample_store)
         = Inl ErrGameAlreadyReserved"
  using join_cancel_race [OF sample_store_inv sample_store_inv,
      where repo = "\<lambda>_. Inr (Some sample_waiting_game)" and k = 9 and g = sample_waiting_game
        and creator = "''alice''" and player = "''bob''" and now = 30]
  by (simp add: sample_waiting_game_def Cancel_Get_def GetReservation_def Let_def)

end
