(* ===== verification/Database.thy ===== *)
theory Database
  imports Entities
begin

text \<open>
  The PostgreSQL tables and the repository methods over them
  (\<open>internal/repository/postgres/game_repository.go\<close>,
  \<open>game_event_repository.go\<close>, \<open>user_repository.go\<close>) and the transaction manager
  (\<open>pkg/postgres/tx.go\<close>). The tables are lists of rows in insertion order; the
  constraints of the migrations (column lengths, checks, foreign keys, uniqueness, the range
  of \<open>INTEGER\<close> and \<open>BIGINT\<close>) are part of the statements. The server is not under
  \<open>src/\<close>: what it may do to the program is the parameter \<open>db_fault\<close>, the statements
  that fail by number, with the text of the failure; a statement that fails has no effect.
  Building the SQL text does not fail.
\<close>

section \<open>Tables\<close>

record user_row =
  ur_ID :: int
  ur_TelegramUserID :: "int option"
  ur_TelegramUsername :: "string option"
  ur_WalletAddress :: wallet
  ur_TotalGamesPlayed :: int
  ur_TotalWins :: int
  ur_TotalLosses :: int
  ur_TotalReferrals :: int
  ur_TotalReferralEarnings :: int
  ur_CreatedAt :: instant
  ur_UpdatedAt :: instant

record db =
  db_games :: "Game list"
  db_events :: "GameEvent list"
  db_users :: "user_row list"
  db_next_event :: int      \<comment> \<open>the sequences of the \<open>BIGSERIAL\<close> columns\<close>
  db_next_user :: int
  db_now :: instant         \<comment> \<open>\<open>NOW()\<close>\<close>
  db_tick :: nat            \<comment> \<open>statements sent so far\<close>
  db_fault :: "nat \<Rightarrow> string option"

definition game_row :: "db \<Rightarrow> int \<Rightarrow> Game option" where
  "game_row db k = find (\<lambda>g. g_GameID g = k) (db_games db)"

definition user_by_wallet :: "db \<Rightarrow> wallet \<Rightarrow> user_row option" where
  "user_by_wallet db w = find (\<lambda>u. ur_WalletAddress u = w) (db_users db)"

text \<open>The columns of the constraint \<open>unique_event_per_tx\<close>.\<close>

definition event_key :: "GameEvent \<Rightarrow> int \<times> string \<times> string" where
  "event_key e = (e_GameID e, e_TransactionHash e, e_EventType e)"

definition event_recorded :: "db \<Rightarrow> GameEvent \<Rightarrow> bool" where
  "event_recorded db e \<longleftrightarrow> event_key e \<in> set (map event_key (db_events db))"

section \<open>Statements\<close>

type_synonym 'a db_op = "db \<Rightarrow> (error + 'a) \<times> db"

abbreviation sql_error :: "string \<Rightarrow> error" where "sql_error code \<equiv> ErrorString (''SQLSTATE '' @ code)"
abbreviation ErrNoRows :: error where "ErrNoRows \<equiv> ErrorString ''no rows in result set''"

text \<open>One statement sent to the server: it may fail, and otherwise runs to completion.\<close>

definition statement :: "(db \<Rightarrow> error + 'a \<times> db) \<Rightarrow> 'a db_op" where
  "statement f db =
     (let db' = db\<lparr>db_tick := Suc (db_tick db)\<rparr> in
      case db_fault db (db_tick db) of
        Some msg \<Rightarrow> (Inl (ErrorString msg), db')
      | None \<Rightarrow> (case f db' of Inl e \<Rightarrow> (Inl e, db') | Inr (x, db'') \<Rightarrow> (Inr x, db'')))"

definition bindDB :: "'a db_op \<Rightarrow> ('a \<Rightarrow> 'b db_op) \<Rightarrow> 'b db_op" where
  "bindDB m f db = (case m db of (Inl e, db') \<Rightarrow> (Inl e, db') | (Inr x, db') \<Rightarrow> f x db')"

definition returnDB :: "'a \<Rightarrow> 'a db_op" where
  "returnDB x db = (Inr x, db)"

definition failDB :: "error \<Rightarrow> 'a db_op" where
  "failDB e db = (Inl e, db)"

text \<open>\<open>if err != nil { return fmt.Errorf("msg: %w", err) }\<close>\<close>

definition wrapDB :: "string \<Rightarrow> 'a db_op \<Rightarrow> 'a db_op" where
  "wrapDB msg m db = (case m db of (Inl e, db') \<Rightarrow> (Inl (Wrapf msg e), db') | (Inr x, db') \<Rightarrow> (Inr x, db'))"

section \<open>Constraints\<close>

definition fits :: "nat \<Rightarrow> string \<Rightarrow> bool" where
  "fits n s \<longleftrightarrow> length s \<le> n"

definition fits_opt :: "nat \<Rightarrow> string option \<Rightarrow> bool" where
  "fits_opt n s = (case s of None \<Rightarrow> True | Some x \<Rightarrow> fits n x)"

text \<open>
  \<open>VARCHAR(66)\<close> columns and the \<open>CHECK\<close> constraints of the games table
  (migrations 2, 7, 9), which hold for a row on its own.
\<close>

definition game_columns :: "Game \<Rightarrow> error option" where
  "game_columns g =
     (if \<not> (fits 66 (g_PlayerOneAddress g) \<and> fits_opt 66 (g_PlayerTwoAddress g)
          \<and> fits_opt 66 (g_PlayerOneReferrer g) \<and> fits_opt 66 (g_PlayerTwoReferrer g)
          \<and> fits_opt 66 (g_WinnerAddress g) \<and> fits 66 (g_FeeReceiverAddress g)
          \<and> fits 66 (g_InitTxHash g) \<and> fits_opt 66 (g_JoinTxHash g) \<and> fits_opt 66 (g_CompleteTxHash g))
      then Some (sql_error ''22001'')
      else if \<not> (0 \<le> g_Status g \<and> g_Status g \<le> 4 \<and> 0 \<le> g_PlayerOneChoice g \<and> g_PlayerOneChoice g \<le> 3
          \<and> (case g_PlayerTwoChoice g of None \<Rightarrow> True | Some c \<Rightarrow> 0 \<le> c \<and> c \<le> 3) \<and> 0 < g_BetAmount g)
      then Some (sql_error ''23514'') else None)"

text \<open>The foreign keys of the games table to the users table.\<close>

definition game_players_known :: "db \<Rightarrow> Game \<Rightarrow> bool" where
  "game_players_known db g \<longleftrightarrow> user_by_wallet db (g_PlayerOneAddress g) \<noteq> None
     \<and> (case g_PlayerTwoAddress g of None \<Rightarrow> True | Some p \<Rightarrow> user_by_wallet db p \<noteq> None)"

definition check_game :: "db \<Rightarrow> Game \<Rightarrow> error option" where
  "check_game db g = (case game_columns g of Some e \<Rightarrow> Some e
     | None \<Rightarrow> if game_players_known db g then None else Some (sql_error ''23503''))"

text \<open>The checks of the events table (migration 3).\<close>

definition event_columns :: "GameEvent \<Rightarrow> error option" where
  "event_columns e =
     (if \<not> fits 66 (e_TransactionHash e) then Some (sql_error ''22001'')
      else if e_EventType e \<notin> set validEventTypes \<or> e_BlockNumber e < 0 then Some (sql_error ''23514'')
      else None)"

definition in_int4 :: "int \<Rightarrow> bool" where
  "in_int4 x \<longleftrightarrow> - (2 ^ 31) \<le> x \<and> x < 2 ^ 31"

text \<open>\<open>UPDATE games SET \<dots> WHERE game_id = k\<close>: no row, no effect and no error.\<close>

definition update_game :: "int \<Rightarrow> (Game \<Rightarrow> Game) \<Rightarrow> unit db_op" where
  "update_game k f = statement (\<lambda>db. case game_row db k of
       None \<Rightarrow> Inr ((), db)
     | Some g \<Rightarrow> (case check_game db (f g) of
           Some e \<Rightarrow> Inl e
         | None \<Rightarrow> Inr ((), db\<lparr>db_games := map (\<lambda>g. if g_GameID g = k then f g else g) (db_games db)\<rparr>)))"

text \<open>\<open>UPDATE users SET \<dots> WHERE wallet_address = w\<close>, with the trigger on \<open>updated_at\<close>.\<close>

definition update_user :: "wallet \<Rightarrow> (user_row \<Rightarrow> user_row) \<Rightarrow> unit db_op" where
  "update_user w f = statement (\<lambda>db. case user_by_wallet db w of
       None \<Rightarrow> Inr ((), db)
     | Some u \<Rightarrow>
         if \<not> (in_int4 (ur_TotalGamesPlayed (f u)) \<and> in_int4 (ur_TotalWins (f u))
              \<and> in_int4 (ur_TotalLosses (f u)) \<and> in_int4 (ur_TotalReferrals (f u))
              \<and> in_i64 (ur_TotalReferralEarnings (f u)))
         then Inl (sql_error ''22003'')
         else Inr ((), db\<lparr>db_users := map (\<lambda>u. if ur_WalletAddress u = w
                then (f u)\<lparr>ur_UpdatedAt := db_now db\<rparr> else u) (db_users db)\<rparr>))"

section \<open>The game repository\<close>

text \<open>The columns an insert sets; \<open>created_at\<close> takes its default.\<close>

definition inserted_game :: "db \<Rightarrow> Game \<Rightarrow> Game" where
  "inserted_game db g = g\<lparr>g_CreatedAt := db_now db\<rparr>"

definition Game_Create :: "Game \<Rightarrow> instant db_op" where
  "Game_Create game = (case Game_Validate game of
       Some e \<Rightarrow> failDB (Wrapf ''validation failed'' e)
     | None \<Rightarrow> wrapDB ''execute query'' (statement (\<lambda>db.
         case game_columns game of
           Some e \<Rightarrow> Inl e
         | None \<Rightarrow>
             if game_row db (g_GameID game) \<noteq> None then Inl (sql_error ''23505'')
             else if \<not> game_players_known db game then Inl (sql_error ''23503'')
             else Inr (db_now db, db\<lparr>db_games := db_games db @ [inserted_game db game]\<rparr>))))"

text \<open>\<open>INSERT INTO games \<dots> ON CONFLICT (game_id) DO NOTHING\<close>; the answer is whether a row was inserted.\<close>

definition insert_game :: "Game \<Rightarrow> db \<Rightarrow> error + bool \<times> db" where
  "insert_game game db = (case game_columns game of
       Some e \<Rightarrow> Inl e
     | None \<Rightarrow>
         if game_row db (g_GameID game) \<noteq> None then Inr (False, db)
         else if \<not> game_players_known db game then Inl (sql_error ''23503'')
         else Inr (True, db\<lparr>db_games := db_games db @ [inserted_game db game]\<rparr>))"

definition CreateOrIgnore :: "Game \<Rightarrow> bool db_op" where
  "CreateOrIgnore game = (case Game_Validate game of
       Some e \<Rightarrow> failDB (Wrapf ''validation failed'' e)
     | None \<Rightarrow> wrapDB ''execute query'' (statement (insert_game game)))"

definition GetByID :: "int \<Rightarrow> Game db_op" where
  "GetByID gameID = wrapDB ''execute query'' (statement (\<lambda>db.
     case game_row db gameID of None \<Rightarrow> Inl ErrNoRows | Some g \<Rightarrow> Inr (g, db)))"

definition UpdateStatus :: "instant \<Rightarrow> int \<Rightarrow> int \<Rightarrow> unit db_op" where
  "UpdateStatus now gameID newStatus = wrapDB ''execute query'' (update_game gameID
     (\<lambda>g. g\<lparr>g_Status := newStatus, g_CompletedAt := Some now\<rparr>))"

definition Game_Update :: "Game \<Rightarrow> unit db_op" where
  "Game_Update game = (case Game_Validate game of
       Some e \<Rightarrow> failDB (Wrapf ''validation failed'' e)
     | None \<Rightarrow> wrapDB ''execute query'' (update_game (g_GameID game) (\<lambda>g. g\<lparr>
         g_Status := g_Status game, g_PlayerTwoAddress := g_PlayerTwoAddress game,
         g_PlayerOneChoice := g_PlayerOneChoice game, g_PlayerTwoChoice := g_PlayerTwoChoice game,
         g_PlayerTwoReferrer := g_PlayerTwoReferrer game, g_WinnerAddress := g_WinnerAddress game,
         g_PayoutAmount := g_PayoutAmount game, g_JoinedAt := g_JoinedAt game,
         g_RevealedAt := g_RevealedAt game, g_CompletedAt := g_CompletedAt game,
         g_JoinTxHash := g_JoinTxHash game, g_RevealTxHash := g_RevealTxHash game,
         g_CompleteTxHash := g_CompleteTxHash game\<rparr>)))"

definition JoinGame :: "int \<Rightarrow> wallet \<Rightarrow> string \<Rightarrow> instant \<Rightarrow> unit db_op" where
  "JoinGame gameID playerTwoAddress joinTxHash joinedAt = wrapDB ''execute query''
     (update_game gameID (\<lambda>g. g\<lparr>g_PlayerTwoAddress := Some playerTwoAddress,
        g_JoinedAt := Some joinedAt, g_JoinTxHash := Some joinTxHash,
        g_Status := GameStatusWaitingForOpenBids, g_PlayerOneChoice := CoinSideClosed,
        g_PlayerTwoChoice := Some CoinSideClosed\<rparr>))"

definition RevealChoice :: "int \<Rightarrow> wallet \<Rightarrow> int \<Rightarrow> string \<Rightarrow> instant \<Rightarrow> unit db_op" where
  "RevealChoice gameID playerAddress choice revealTxHash revealedAt =
     bindDB (wrapDB ''get game'' (GetByID gameID)) (\<lambda>game.
       if g_PlayerOneAddress game = playerAddress
       then wrapDB ''execute query'' (update_game gameID (\<lambda>g. g\<lparr>g_RevealedAt := Some revealedAt,
              g_RevealTxHash := Some revealTxHash, g_PlayerOneChoice := choice\<rparr>))
       else if g_PlayerTwoAddress game = Some playerAddress
       then wrapDB ''execute query'' (update_game gameID (\<lambda>g. g\<lparr>g_RevealedAt := Some revealedAt,
              g_RevealTxHash := Some revealTxHash, g_PlayerTwoChoice := Some choice\<rparr>))
       else failDB (ErrorString (''player '' @ playerAddress @ '' not found in game '' @ FormatInt gameID)))"

text \<open>\<open>CompleteGame\<close> and \<open>CompleteGameWithQuerier\<close> run the same statement.\<close>

definition CompleteGame :: "int \<Rightarrow> wallet \<Rightarrow> int \<Rightarrow> string \<Rightarrow> instant \<Rightarrow> unit db_op" where
  "CompleteGame gameID winnerAddress payoutAmount completeTxHash completedAt =
     wrapDB ''execute query'' (update_game gameID (\<lambda>g. g\<lparr>
       g_WinnerAddress := (if winnerAddress \<noteq> '''' then Some winnerAddress else None),
       g_PayoutAmount := (if payoutAmount > 0 then Some payoutAmount else None),
       g_CompletedAt := Some completedAt, g_CompleteTxHash := Some completeTxHash,
       g_Status := GameStatusPaid\<rparr>))"

definition CancelGame :: "int \<Rightarrow> string \<Rightarrow> instant \<Rightarrow> unit db_op" where
  "CancelGame gameID cancelTxHash completedAt = wrapDB ''execute query'' (update_game gameID (\<lambda>g. g\<lparr>
     g_Status := GameStatusPaid, g_CompletedAt := Some completedAt, g_WinnerAddress := None,
     g_PayoutAmount := None, g_CompleteTxHash := Some cancelTxHash\<rparr>))"

definition Game_Exists :: "int \<Rightarrow> bool db_op" where
  "Game_Exists gameID = wrapDB ''execute query'' (statement (\<lambda>db.
     Inr (0 < length (filter (\<lambda>g. g_GameID g = gameID) (db_games db)), db)))"

text \<open>
  Queries that return several games: \<open>ORDER BY created_at DESC\<close> does not fix the order
  of equal instants, and the model keeps them in insertion order.
\<close>

definition queryGames :: "(Game \<Rightarrow> bool) \<Rightarrow> Game list db_op" where
  "queryGames p = wrapDB ''execute query'' (statement (\<lambda>db.
     Inr (stable_newest_first g_CreatedAt (filter p (db_games db)), db)))"

definition GetByStatus :: "int \<Rightarrow> Game list db_op" where
  "GetByStatus status = queryGames (\<lambda>g. g_Status g = status)"

definition GetAvailableGames :: "Game list db_op" where
  "GetAvailableGames = GetByStatus GameStatusWaitingForOpponent"

definition GetByStatuses :: "int list \<Rightarrow> Game list db_op" where
  "GetByStatuses statuses = (if statuses = [] then returnDB []
     else queryGames (\<lambda>g. g_Status g \<in> set statuses))"

section \<open>The event repository\<close>

text \<open>
  \<open>Upsert\<close> and \<open>UpsertWithQuerier\<close> run the same statement. The event is mutated in
  place: an inserted row fills in its id and instant; when the row is already there, \<open>Scan\<close>
  reports no rows and the event keeps the id it came with.
\<close>

definition insert_event :: "GameEvent \<Rightarrow> db \<Rightarrow> error + GameEvent option \<times> db" where
  "insert_event event db = (case event_columns event of
       Some e \<Rightarrow> Inl e
     | None \<Rightarrow>
         let i = db_next_event db; db' = db\<lparr>db_next_event := i + 1\<rparr>;
             row = event\<lparr>e_ID := i, e_CreatedAt := db_now db\<rparr>
         in if event_recorded db event then Inr (None, db')
            else if game_row db (e_GameID event) = None then Inl (sql_error ''23503'')
            else Inr (Some row, db'\<lparr>db_events := db_events db @ [row]\<rparr>))"

definition Upsert :: "GameEvent \<Rightarrow> GameEvent db_op" where
  "Upsert event = (case GameEvent_Validate event of
       Some e \<Rightarrow> failDB (Wrapf ''validation failed'' e)
     | None \<Rightarrow> (\<lambda>db. case statement (insert_event event) db of
         (Inl e, db') \<Rightarrow> if e = ErrNoRows then (Inr event, db') else (Inl (Wrapf ''execute query'' e), db')
       | (Inr None, db') \<Rightarrow> (Inr event, db')
       | (Inr (Some row), db') \<Rightarrow> (Inr row, db')))"

section \<open>The user repository\<close>

definition EnsureUserByWallet :: "wallet \<Rightarrow> unit db_op" where
  "EnsureUserByWallet walletAddress = wrapDB ''execute query'' (statement (\<lambda>db.
     if \<not> fits 66 walletAddress then Inl (sql_error ''22001'')
     else let i = db_next_user db; db' = db\<lparr>db_next_user := i + 1\<rparr> in
       if user_by_wallet db walletAddress \<noteq> None then Inr ((), db')
       else Inr ((), db'\<lparr>db_users := db_users db @ [\<lparr>ur_ID = i, ur_TelegramUserID = None,
              ur_TelegramUsername = None, ur_WalletAddress = walletAddress, ur_TotalGamesPlayed = 0,
              ur_TotalWins = 0, ur_TotalLosses = 0, ur_TotalReferrals = 0, ur_TotalReferralEarnings = 0,
              ur_CreatedAt = db_now db, ur_UpdatedAt = db_now db\<rparr>]\<rparr>)))"

definition IncrementGamesPlayed :: "wallet \<Rightarrow> unit db_op" where
  "IncrementGamesPlayed w = wrapDB ''execute query''
     (update_user w (\<lambda>u. u\<lparr>ur_TotalGamesPlayed := ur_TotalGamesPlayed u + 1\<rparr>))"

definition IncrementWins :: "wallet \<Rightarrow> unit db_op" where
  "IncrementWins w = wrapDB ''execute query'' (update_user w (\<lambda>u. u\<lparr>ur_TotalWins := ur_TotalWins u + 1\<rparr>))"

definition IncrementLosses :: "wallet \<Rightarrow> unit db_op" where
  "IncrementLosses w = wrapDB ''execute query'' (update_user w (\<lambda>u. u\<lparr>ur_TotalLosses := ur_TotalLosses u + 1\<rparr>))"

definition IncrementReferrals :: "wallet \<Rightarrow> int \<Rightarrow> unit db_op" where
  "IncrementReferrals w earningsNanotons = wrapDB ''execute query'' (update_user w (\<lambda>u.
     u\<lparr>ur_TotalReferrals := ur_TotalReferrals u + 1,
       ur_TotalReferralEarnings := ur_TotalReferralEarnings u + earningsNanotons\<rparr>))"

section \<open>Transactions\<close>

text \<open>The tables return to what they were; sequences and the statement count do not.\<close>

definition rolled_back :: "db \<Rightarrow> db \<Rightarrow> db" where
  "rolled_back before db = db\<lparr>db_games := db_games before, db_events := db_events before,
     db_users := db_users before\<rparr>"

text \<open>
  The event handlers work on an event, which the repository mutates, and on the database. An
  error keeps both as they are at that point.
\<close>

type_synonym 'a hop = "GameEvent \<times> db \<Rightarrow> (error + 'a) \<times> GameEvent \<times> db"

definition bindH :: "'a hop \<Rightarrow> ('a \<Rightarrow> 'b hop) \<Rightarrow> 'b hop" where
  "bindH m f s = (case m s of (Inl e, s') \<Rightarrow> (Inl e, s') | (Inr x, s') \<Rightarrow> f x s')"

definition returnH :: "'a \<Rightarrow> 'a hop" where
  "returnH x s = (Inr x, s)"

definition failH :: "error \<Rightarrow> 'a hop" where
  "failH e s = (Inl e, s)"

definition liftR :: "error + 'a \<Rightarrow> 'a hop" where
  "liftR r s = (r, s)"

definition liftDB :: "'a db_op \<Rightarrow> 'a hop" where
  "liftDB m s = (case m (snd s) of (r, db') \<Rightarrow> (r, fst s, db'))"

definition wrapH :: "string \<Rightarrow> 'a hop \<Rightarrow> 'a hop" where
  "wrapH msg m s = (case m s of (Inl e, s') \<Rightarrow> (Inl (Wrapf msg e), s') | (Inr x, s') \<Rightarrow> (Inr x, s'))"

definition eventH :: "GameEvent hop" where
  "eventH s = (Inr (fst s), s)"

definition upsertH :: "unit hop" where
  "upsertH s = (case Upsert (fst s) (snd s) of
     (Inl e, db') \<Rightarrow> (Inl e, fst s, db') | (Inr event', db') \<Rightarrow> (Inr (), event', db'))"

text \<open>
  A rollback that fails loses the connection, and with it the transaction. A transaction
  leaves the event as the function left it, also when it is rolled back.
\<close>

definition WithTx :: "'a hop \<Rightarrow> 'a hop" where
  "WithTx fn s = (case liftDB (wrapDB ''begin transaction'' (statement (\<lambda>db. Inr ((), db)))) s of
       (Inl e, s1) \<Rightarrow> (Inl e, s1)
     | (Inr _, s1) \<Rightarrow> (case fn s1 of
           (Inl e, event, db2) \<Rightarrow>
             (case statement (\<lambda>db. Inr ((), db)) (rolled_back (snd s1) db2) of
                (Inl rb, db3) \<Rightarrow> (Inl (Wrapf ''rollback failed'' e), event, db3)
              | (Inr _, db3) \<Rightarrow> (Inl e, event, db3))
         | (Inr x, event, db2) \<Rightarrow>
             (case wrapDB ''commit transaction'' (statement (\<lambda>db. Inr ((), db))) db2 of
                (Inl e, db3) \<Rightarrow> (Inl e, event, rolled_back (snd s1) db3)
              | (Inr _, db3) \<Rightarrow> (Inr x, event, db3))))"

section \<open>What a statement can do\<close>

type_synonym tables = "Game list \<times> GameEvent list \<times> user_row list"

definition tables :: "db \<Rightarrow> tables" where
  "tables db = (db_games db, db_events db, db_users db)"

lemma tables_upd [simp]:
  "tables (db\<lparr>db_tick := n\<rparr>) = tables db" "tables (db\<lparr>db_next_event := i\<rparr>) = tables db"
  "tables (db\<lparr>db_next_user := i\<rparr>) = tables db"
  "tables (db\<lparr>db_games := gs\<rparr>) = (gs, db_events db, db_users db)"
  "tables (db\<lparr>db_events := es\<rparr>) = (db_games db, es, db_users db)"
  "tables (db\<lparr>db_users := us\<rparr>) = (db_games db, db_events db, us)"
  "tables (rolled_back before db) = tables before"
  by (simp_all add: tables_def rolled_back_def)

lemma statement_cases:
  obtains (fault) msg where "statement f db = (Inl (ErrorString msg), db\<lparr>db_tick := Suc (db_tick db)\<rparr>)"
  | (error) e where "f (db\<lparr>db_tick := Suc (db_tick db)\<rparr>) = Inl e"
      "statement f db = (Inl e, db\<lparr>db_tick := Suc (db_tick db)\<rparr>)"
  | (ran) x db' where "f (db\<lparr>db_tick := Suc (db_tick db)\<rparr>) = Inr (x, db')" "statement f db = (Inr x, db')"
  by (cases "db_fault db (db_tick db)"; cases "f (db\<lparr>db_tick := Suc (db_tick db)\<rparr>)")
    (auto simp: statement_def Let_def)

lemma nop_tables [simp]: "tables (snd (statement (\<lambda>db. Inr ((), db)) db)) = tables db"
  by (rule statement_cases [of "\<lambda>db. Inr ((), db)" db]) auto

lemma wrapDB_state [simp]: "snd (wrapDB msg m db) = snd (m db)"
  by (simp add: wrapDB_def split: prod.split sum.split)

lemma wrapH_state [simp]: "snd (wrapH msg m s) = snd (m s)"
  by (simp add: wrapH_def split: prod.split sum.split)

lemma liftDB_state [simp]: "snd (snd (liftDB m s)) = snd (m (snd s))" "fst (snd (liftDB m s)) = fst s"
  by (simp_all add: liftDB_def split: prod.split)

text \<open>
  A predicate on the tables that an operation keeps. The rules reduce the handlers to
  their statements, once for every invariant.
\<close>

definition keeps :: "(tables \<Rightarrow> bool) \<Rightarrow> 'a hop \<Rightarrow> bool" where
  "keeps P m \<longleftrightarrow> (\<forall>s. P (tables (snd s)) \<longrightarrow> P (tables (snd (snd (m s)))))"

definition keepsDB :: "(tables \<Rightarrow> bool) \<Rightarrow> 'a db_op \<Rightarrow> bool" where
  "keepsDB P m \<longleftrightarrow> (\<forall>db. P (tables db) \<longrightarrow> P (tables (snd (m db))))"

lemma keeps_basic: "keeps P (returnH x)" "keeps P (failH e)" "keeps P (liftR r)" "keeps P eventH"
  by (simp_all add: keeps_def returnH_def failH_def liftR_def eventH_def)

lemma keeps_bind:
  assumes "keeps P m" "\<And>x. keeps P (f x)"
  shows "keeps P (bindH m f)"
  unfolding keeps_def
proof (intro allI impI)
  fix s :: "GameEvent \<times> db"
  assume s: "P (tables (snd s))"
  obtain r s' where m: "m s = (r, s')" by (cases "m s")
  with s assms(1) have "P (tables (snd s'))" by (metis keeps_def snd_conv)
  with m assms(2) show "P (tables (snd (snd (bindH m f s))))"
    by (cases r; cases s') (simp_all add: bindH_def keeps_def)
qed

lemma keeps_wrap: "keeps P m \<Longrightarrow> keeps P (wrapH msg m)"
  by (simp add: keeps_def)

lemma keeps_liftDB: "keepsDB P m \<Longrightarrow> keeps P (liftDB m)"
  by (simp add: keeps_def keepsDB_def)

lemma keepsDB_wrap: "keepsDB P m \<Longrightarrow> keepsDB P (wrapDB msg m)"
  by (simp add: keepsDB_def)

lemma keepsDB_basic: "keepsDB P (returnDB x)" "keepsDB P (failDB e)"
  by (simp_all add: keepsDB_def returnDB_def failDB_def)

lemma keepsDB_bind:
  assumes "keepsDB P m" "\<And>x. keepsDB P (f x)"
  shows "keepsDB P (bindDB m f)"
  unfolding keepsDB_def
proof (intro allI impI)
  fix db :: db
  assume db: "P (tables db)"
  obtain r db' where m: "m db = (r, db')" by (cases "m db")
  with db assms(1) have "P (tables db')" by (metis keepsDB_def snd_conv)
  with m assms(2) show "P (tables (snd (bindDB m f db)))"
    by (cases r) (simp_all add: bindDB_def keepsDB_def)
qed

lemma keepsDB_statement:
  assumes "\<And>db x db'. P (tables db) \<Longrightarrow> f db = Inr (x, db') \<Longrightarrow> P (tables db')"
  shows "keepsDB P (statement f)"
  unfolding keepsDB_def
proof (intro allI impI)
  fix db :: db
  assume db: "P (tables db)"
  show "P (tables (snd (statement f db)))"
  proof (cases rule: statement_cases [of f db])
    case (ran x db')
    with db assms [of "db\<lparr>db_tick := Suc (db_tick db)\<rparr>" x db'] show ?thesis by simp
  qed (use db in auto)
qed

lemma WithTx_error:
  assumes "fst (WithTx m s) = Inl e"
  shows "tables (snd (snd (WithTx m s))) = tables (snd s)"
proof -
  let ?nop = "statement (\<lambda>db. Inr ((), db))"
  obtain r1 ev1 db1 where b: "liftDB (wrapDB ''begin transaction'' ?nop) s = (r1, ev1, db1)"
    by (cases "liftDB (wrapDB ''begin transaction'' ?nop) s")
  then have db1: "tables db1 = tables (snd s)"
    using liftDB_state(1) [of "wrapDB ''begin transaction'' ?nop" s] by simp
  obtain r2 ev2 db2 where m: "m (ev1, db1) = (r2, ev2, db2)" by (cases "m (ev1, db1)")
  have rb: "tables (snd (?nop (rolled_back db1 db2))) = tables db1" by simp
  show ?thesis
  proof (cases r1)
    case (Inl e1)
    with b db1 show ?thesis by (simp add: WithTx_def)
  next
    case (Inr u)
    show ?thesis
    proof (cases r2)
      case (Inl e2)
      with Inr b m db1 rb show ?thesis
        by (cases "?nop (rolled_back db1 db2)") (auto simp: WithTx_def split: sum.splits)
    next
      case (Inr x)
      with \<open>r1 = Inr u\<close> b m db1 assms show ?thesis
        by (cases "wrapDB ''commit transaction'' ?nop db2") (auto simp: WithTx_def split: sum.splits)
    qed
  qed
qed

lemma nop_Inr: "statement (\<lambda>db. Inr ((), db)) db = (Inr x, db') \<Longrightarrow> db' = db\<lparr>db_tick := Suc (db_tick db)\<rparr>"
  by (auto simp: statement_def Let_def split: option.splits)

lemma WithTx_done:
  assumes "fst (WithTx m s) = Inr x"
  obtains db2 where
    "m (fst s, (snd s)\<lparr>db_tick := Suc (db_tick (snd s))\<rparr>) = (Inr x, fst (snd (WithTx m s)), db2)"
    "tables (snd (snd (WithTx m s))) = tables db2"
proof -
  let ?nop = "statement (\<lambda>db. Inr ((), db))"
  obtain r1 db1 where b: "?nop (snd s) = (r1, db1)" by (cases "?nop (snd s)")
  obtain r2 ev2 db2 where m: "m (fst s, db1) = (r2, ev2, db2)" by (cases "m (fst s, db1)")
  obtain r3 db3 where c: "?nop db2 = (r3, db3)" by (cases "?nop db2")
  obtain r4 db4 where rb: "?nop (rolled_back db1 db2) = (r4, db4)" by (cases "?nop (rolled_back db1 db2)")
  have "\<exists>u1 u3. r1 = Inr u1 \<and> r2 = Inr x \<and> r3 = Inr u3 \<and> WithTx m s = (Inr x, ev2, db3)"
    using assms b m c rb by (auto simp: WithTx_def liftDB_def wrapDB_def split: sum.splits)
  with b m c show thesis
    by (auto dest!: nop_Inr intro!: that [of db2])
qed

lemma keeps_WithTx:
  assumes "keeps P m"
  shows "keeps P (WithTx m)"
  unfolding keeps_def
proof (intro allI impI)
  fix s :: "GameEvent \<times> db"
  assume s: "P (tables (snd s))"
  show "P (tables (snd (snd (WithTx m s))))"
  proof (cases "fst (WithTx m s)")
    case (Inl e)
    with s show ?thesis by (simp add: WithTx_error)
  next
    case (Inr x)
    show ?thesis
      by (rule WithTx_done [OF Inr]) (use assms s in \<open>metis keeps_def snd_conv tables_upd(1)\<close>)
  qed
qed

end
