(* ===== verification/Reveal_Reservation.thy ===== *)
theory Reveal_Reservation
  imports Claim_Store
begin

text \<open>
  \<open>internal/usecase/reveal_reservation.go\<close>: a player's advisory claim to reveal, for
  one game or atomically for a batch of games. The preliminary checks of a batch run outside
  the lock (\<open>reveal_preflight\<close>), its critical section is \<open>ReserveBatch_commit\<close>.
\<close>

section \<open>Operations\<close>

definition NewRevealReservationUseCase :: "bool \<Rightarrow> claim_config \<Rightarrow> claim_store" where
  "NewRevealReservationUseCase bc cfg = new_claim_store 90 5 bc cfg"

definition removeFromRevealWalletIndex ::
  "parse_addr \<Rightarrow> wallet \<Rightarrow> int \<Rightarrow> claim_store \<Rightarrow> claim_store" where
  "removeFromRevealWalletIndex = index_remove"

fun reveal_preflight :: "parse_addr \<Rightarrow> (int \<Rightarrow> error + Game option) \<Rightarrow> string \<Rightarrow> int list \<Rightarrow> error + unit" where
  "reveal_preflight pa gameRepo normalized [] = Inr ()"
| "reveal_preflight pa gameRepo normalized (gameID # gameIDs) = (case gameRepo gameID of
       Inl err \<Rightarrow> Inl err
     | Inr None \<Rightarrow> Inl ErrRevealNotAvailable
     | Inr (Some game) \<Rightarrow>
         if g_Status game \<noteq> GameStatusWaitingForOpenBids then Inl ErrRevealNotAvailable
         else if \<not> isGameParticipant pa game normalized then Inl ErrNotAPlayer
         else reveal_preflight pa gameRepo normalized gameIDs)"

text \<open>The loop that files the claims of a batch.\<close>

fun reveal_insert ::
  "string \<Rightarrow> instant \<Rightarrow> wallet \<Rightarrow> int list \<Rightarrow> claim_store \<Rightarrow> RevealReservation list \<times> claim_store" where
  "reveal_insert normalized now walletAddress [] st = ([], st)"
| "reveal_insert normalized now walletAddress (gameID # gameIDs) st =
     (let r = new_claim now st gameID walletAddress in
      case reveal_insert normalized now walletAddress gameIDs (insert_claim normalized r st) of
        (created, st') \<Rightarrow> (r # created, st'))"

definition ReserveBatch_commit ::
  "parse_addr \<Rightarrow> instant \<Rightarrow> int list \<Rightarrow> wallet \<Rightarrow> claim_store
     \<Rightarrow> (error + RevealReservation list) \<times> claim_store \<times> broadcast list" where
  "ReserveBatch_commit pa now gameIDs walletAddress st =
     (let normalized = normalizeReservationWallet pa walletAddress;
          activeCount = count_active now st (wallet_ids st normalized)
      in if activeCount + int (length gameIDs) > maxPerWallet st
         then (Inl ErrTooManyRevealReservations, st, [])
         else if list_ex (active_at now st) gameIDs then (Inl ErrRevealAlreadyReserved, st, [])
         else case reveal_insert normalized now walletAddress gameIDs st of
             (created, st') \<Rightarrow> (Inr created, st',
                concat (map (\<lambda>r. emit st (BroadcastRevealReservationCreated r)) created)))"

definition ReserveBatch ::
  "parse_addr \<Rightarrow> (int \<Rightarrow> error + Game option) \<Rightarrow> instant \<Rightarrow> int list \<Rightarrow> wallet \<Rightarrow> claim_store
     \<Rightarrow> (error + RevealReservation list) \<times> claim_store \<times> broadcast list" where
  "ReserveBatch pa gameRepo now gameIDs walletAddress st =
     (let normalized = normalizeReservationWallet pa walletAddress in
      if gameIDs = [] then (Inl ErrRevealNotAvailable, st, [])
      else if normalized = '''' then (Inl ErrNotAPlayer, st, [])
      else case reveal_preflight pa gameRepo normalized gameIDs of
          Inl err \<Rightarrow> (Inl err, st, [])
        | Inr _ \<Rightarrow> ReserveBatch_commit pa now gameIDs walletAddress st)"

definition Reveal_Reserve ::
  "parse_addr \<Rightarrow> (int \<Rightarrow> error + Game option) \<Rightarrow> instant \<Rightarrow> int \<Rightarrow> wallet \<Rightarrow> claim_store
     \<Rightarrow> (error + RevealReservation) \<times> claim_store \<times> broadcast list" where
  "Reveal_Reserve pa gameRepo now gameID walletAddress st =
     (case ReserveBatch pa gameRepo now [gameID] walletAddress st of
        (Inl err, st', bs) \<Rightarrow> (Inl err, st', bs)
      | (Inr [], st', bs) \<Rightarrow> (Inl ErrRevealReservationNotFound, st', bs)
      | (Inr (r # _), st', bs) \<Rightarrow> (Inr r, st', bs))"

definition Reveal_Get :: "claim_store \<Rightarrow> instant \<Rightarrow> int \<Rightarrow> RevealReservation option" where
  "Reveal_Get st now gameID = (case reservations st gameID of
       None \<Rightarrow> None
     | Some r \<Rightarrow> if \<not> IsActive now r then None else Some r)"

definition Reveal_ListByWallet :: "parse_addr \<Rightarrow> instant \<Rightarrow> wallet \<Rightarrow> claim_store \<Rightarrow> RevealReservation list" where
  "Reveal_ListByWallet pa now walletAddress st =
     stable_newest_first r_CreatedAt
       (collect_active now st (wallet_ids st (normalizeReservationWallet pa walletAddress)))"

definition Reveal_Cancel ::
  "parse_addr \<Rightarrow> instant \<Rightarrow> int \<Rightarrow> wallet \<Rightarrow> claim_store
     \<Rightarrow> error option \<times> claim_store \<times> broadcast list" where
  "Reveal_Cancel pa now gameID walletAddress st =
     (let normalized = normalizeReservationWallet pa walletAddress in
      case reservations st gameID of
        None \<Rightarrow> (Some ErrRevealReservationNotFound, st, [])
      | Some r \<Rightarrow>
          if \<not> IsActive now r then (Some ErrRevealReservationNotFound, st, [])
          else if \<not> sameReservationWallet pa (r_WalletAddress r) normalized
            then (Some ErrNotRevealReservationHolder, st, [])
          else (None,
            removeFromRevealWalletIndex pa (r_WalletAddress r) gameID
              (set_status gameID r ReservationStatusReleased st),
            emit st (BroadcastRevealReservationReleased gameID ''cancelled'')))"

definition ReleaseOnTerminal ::
  "parse_addr \<Rightarrow> instant \<Rightarrow> int \<Rightarrow> claim_store \<Rightarrow> claim_store \<times> broadcast list" where
  "ReleaseOnTerminal pa now gameID st = (case reservations st gameID of
       None \<Rightarrow> (st, [])
     | Some r \<Rightarrow>
         if \<not> IsActive now r then (st, [])
         else (removeFromRevealWalletIndex pa (r_WalletAddress r) gameID
                 (set_status gameID r ReservationStatusReleased st),
               emit st (BroadcastRevealReservationReleased gameID ''revealed'')))"

definition Reveal_cleanupExpired ::
  "parse_addr \<Rightarrow> (int \<Rightarrow> instant) \<Rightarrow> (int \<Rightarrow> instant) \<Rightarrow> int list \<Rightarrow> claim_store
     \<Rightarrow> claim_store \<times> broadcast list" where
  "Reveal_cleanupExpired pa t1 t2 keys st =
     (case sweep_loop pa t1 t2 keys st of (st', expired) \<Rightarrow>
        (st', concat (map (\<lambda>k. emit st (BroadcastRevealReservationReleased k ''expired'')) expired)))"

definition Reveal_GetActiveCount :: "instant \<Rightarrow> int list \<Rightarrow> claim_store \<Rightarrow> int" where
  "Reveal_GetActiveCount now keys st = count_active now st keys"

lemma Reveal_Get_eq [claim_simps]: "Reveal_Get = active_claim"
  by (simp add: fun_eq_iff Reveal_Get_def active_claim_def)

section \<open>Batches\<close>

lemma new_claim_insert [simp]: "new_claim now (insert_claim key r st) = new_claim now st"
  by (simp add: fun_eq_iff new_claim_def)

lemma reveal_insert_created: "fst (reveal_insert n now w ks st) = map (\<lambda>k. new_claim now st k w) ks"
  by (induction ks arbitrary: st) (simp_all add: Let_def case_prod_beta)

lemma reveal_insert_reservations:
  "reservations (snd (reveal_insert n now w ks st)) k =
     (if k \<in> set ks then Some (new_claim now st k w) else reservations st k)"
  by (induction ks arbitrary: st) (auto simp: Let_def case_prod_beta)

lemma reveal_insert_index:
  "wallet_ids (snd (reveal_insert n now w ks st)) m =
     (if m = n then wallet_ids st m @ ks else wallet_ids st m)"
  by (induction ks arbitrary: st) (auto simp: Let_def case_prod_beta wallet_ids_insert_claim)

lemma reveal_insert_fields [simp]:
  "maxPerWallet (snd (reveal_insert n now w ks st)) = maxPerWallet st"
  "timeout (snd (reveal_insert n now w ks st)) = timeout st"
  by (induction ks arbitrary: st) (simp_all add: Let_def case_prod_beta)

text \<open>A batch within the limit is a sequence of creations.\<close>

lemma reveal_insert_steps:
  assumes "store_inv pa st" and n: "n = normalizeReservationWallet pa w"
    and "\<And>k. k \<in> set ks \<Longrightarrow> \<not> active_at now st k \<or> reservations st k = Some (new_claim now st k w)"
    and "int (card (held pa now st n)) + int (length ks) \<le> maxPerWallet st"
  shows "claim_steps pa (now, st) (now, snd (reveal_insert n now w ks st))"
  using assms(1,3,4)
proof (induction ks arbitrary: st)
  case Nil
  then show ?case by simp
next
  case (Cons k ks)
  let ?st = "insert_claim n (new_claim now st k w) st"
  have "claim_step pa (now, st) (now, ?st)"
    using Cons.prems(2) [of k] Cons.prems(3) n
    by (auto intro: claim_step.create claim_step.again)
  moreover have "claim_steps pa (now, ?st) (now, snd (reveal_insert n now w ks ?st))"
  proof (rule Cons.IH)
    show "store_inv pa ?st" using Cons.prems(1) n by (rule insert_claim_inv)
    show "\<not> active_at now ?st j \<or> reservations ?st j = Some (new_claim now ?st j w)"
      if "j \<in> set ks" for j using Cons.prems(2) [of j] that by (auto simp: active_at_def)
    have "card (held pa now ?st n) \<le> Suc (card (held pa now st n))"
      using card_held_insert_claim [OF Cons.prems(1), of now n k w n] n by simp
    with Cons.prems(3) show "int (card (held pa now ?st n)) + int (length ks) \<le> maxPerWallet ?st"
      by simp
  qed
  ultimately show ?case by (simp add: Let_def case_prod_beta)
qed

lemma ReserveBatch_commit_steps:
  assumes "store_inv pa st"
  shows "claim_steps pa (now, st) (now, fst (snd (ReserveBatch_commit pa now ks w st)))"
proof -
  let ?n = "normalizeReservationWallet pa w"
  have "claim_steps pa (now, st) (now, snd (reveal_insert ?n now w ks st))"
    if "\<not> maxPerWallet st < count_active now st (wallet_ids st ?n) + int (length ks)"
      "\<not> list_ex (active_at now st) ks"
    using that card_held_le_count [OF assms, of now ?n]
    by (intro reveal_insert_steps [OF assms refl]) (auto simp: list_ex_iff)
  then show ?thesis by (simp add: ReserveBatch_commit_def Let_def case_prod_beta)
qed

lemma ReserveBatch_steps:
  "store_inv pa st \<Longrightarrow> claim_steps pa (now, st) (now, fst (snd (ReserveBatch pa repo now ks w st)))"
  by (auto simp: ReserveBatch_def Let_def ReserveBatch_commit_steps split: sum.splits)

lemma reveal_preflight_iff:
  "reveal_preflight pa repo n ks = Inr () \<longleftrightarrow>
     (\<forall>k \<in> set ks. \<exists>g. repo k = Inr (Some g) \<and> g_Status g = GameStatusWaitingForOpenBids
        \<and> isGameParticipant pa g n)"
  by (induction ks) (auto split: sum.splits option.splits)

lemma ReserveBatch_commit_result:
  "ReserveBatch_commit pa now ks w st =
     (let n = normalizeReservationWallet pa w; rs = map (\<lambda>k. new_claim now st k w) ks in
      if count_active now st (wallet_ids st n) + int (length ks) > maxPerWallet st
      then (Inl ErrTooManyRevealReservations, st, [])
      else if \<exists>k \<in> set ks. active_at now st k then (Inl ErrRevealAlreadyReserved, st, [])
      else (Inr rs, snd (reveal_insert n now w ks st),
            if hasBroadcast st then map BroadcastRevealReservationCreated rs else []))"
  by (simp add: ReserveBatch_commit_def Let_def case_prod_beta reveal_insert_created list_ex_iff
      emit_def concat_map_singleton comp_def)

section \<open>Running the use case\<close>

lemma Reveal_ops_steps:
  "claim_steps pa (now, st) (now, fst (snd (Reveal_Cancel pa now k w st)))"
  "claim_steps pa (now, st) (now, fst (ReleaseOnTerminal pa now k st))"
  by (auto simp: Reveal_Cancel_def ReleaseOnTerminal_def removeFromRevealWalletIndex_def Let_def
      intro!: claim_steps_one claim_step.release split: option.splits)

lemma Reveal_cleanup_steps:
  "(\<And>k. k \<in> set ks \<Longrightarrow> t2 k \<le> now) \<Longrightarrow>
     claim_steps pa (now, st) (now, fst (Reveal_cleanupExpired pa t1 t2 ks st))"
  using sweep_loop_steps by (simp add: Reveal_cleanupExpired_def case_prod_beta)

inductive reveal_step :: "parse_addr \<Rightarrow> instant \<times> claim_store \<Rightarrow> instant \<times> claim_store \<Rightarrow> bool"
  for pa :: parse_addr where
  time: "now \<le> now' \<Longrightarrow> reveal_step pa (now, st) (now', st)"
| reserve: "reveal_step pa (now, st) (now, fst (snd (ReserveBatch_commit pa now ks w st)))"
| cancel: "reveal_step pa (now, st) (now, fst (snd (Reveal_Cancel pa now k w st)))"
| terminal: "reveal_step pa (now, st) (now, fst (ReleaseOnTerminal pa now k st))"
| cleanup: "(\<And>k. k \<in> set ks \<Longrightarrow> t1 k \<le> t2 k \<and> t2 k \<le> now) \<Longrightarrow>
     reveal_step pa (now, st) (now, fst (Reveal_cleanupExpired pa t1 t2 ks st))"

lemma reveal_step_refines: "reveal_step pa x y \<Longrightarrow> store_inv pa (snd x) \<Longrightarrow> claim_steps pa x y"
  by (induction rule: reveal_step.induct)
    (auto intro: claim_steps_one claim_step.tick ReserveBatch_commit_steps Reveal_ops_steps
      Reveal_cleanup_steps)

definition reveal_init :: "claim_store \<Rightarrow> bool" where
  "reveal_init st \<longleftrightarrow> (\<exists>bc cfg. st = NewRevealReservationUseCase bc cfg)"

interpretation reveal_run: claim_machine pa reveal_init "reveal_step pa" for pa
  by unfold_locales
    (auto simp: reveal_init_def NewRevealReservationUseCase_def new_claim_store_inv reveal_step_refines)

section \<open>The claim service of the reveal reservations\<close>

lemma Reveal_Reserve_cases:
  "fst (Reveal_Reserve pa repo now k w st) = Inr r \<Longrightarrow> \<not> active_at now st k \<and> r = new_claim now st k w
     \<and> fst (snd (Reveal_Reserve pa repo now k w st)) = insert_claim (normalizeReservationWallet pa w) r st"
  "fst (Reveal_Reserve pa repo now k w st) = Inl e \<Longrightarrow> fst (snd (Reveal_Reserve pa repo now k w st)) = st"
  by (auto simp: Reveal_Reserve_def ReserveBatch_def ReserveBatch_commit_result Let_def
      split: sum.splits if_splits)

lemma Reveal_Reserve_store:
  "fst (snd (Reveal_Reserve pa repo now k w st)) = fst (snd (ReserveBatch pa repo now [k] w st))"
  by (simp add: Reveal_Reserve_def split: prod.split sum.split list.split)

interpretation reveal_claims: claim_creator Reveal_Get
  "\<lambda>t k st. fst (ReleaseOnTerminal pa t k st)" "store_inv pa"
  "\<lambda>repo t k w st. let z = Reveal_Reserve pa repo t k w st in (fst z, fst (snd z))" for pa
proof (unfold_locales, goal_cases)
  case (1 s t k r)
  then show ?case unfolding claim_simps by (rule active_claim_laws)
next
  case (2 s t' k r t)
  then show ?case unfolding claim_simps by (rule active_claim_laws)
next
  case (3 s t k r t')
  then show ?case unfolding claim_simps by (rule active_claim_laws)
next
  case (4 s t k)
  then show ?case
    by (auto simp: claim_simps ReleaseOnTerminal_def removeFromRevealWalletIndex_def active_claim_def
        split: option.splits)
next
  case (5 s k' k t t')
  then show ?case
    by (auto simp: claim_simps ReleaseOnTerminal_def removeFromRevealWalletIndex_def
        intro!: active_claim_same split: option.splits)
next
  case (6 s t k)
  then show ?case using claim_steps_store_inv [OF Reveal_ops_steps(2)] by simp
next
  case (7 e t k w s x)
  then show ?case by (simp add: Let_def Reveal_Reserve_cases(2))
next
  case (8 s e t k w r s')
  then show ?case
    by (auto simp: Let_def claim_simps active_claim_Some store_inv_def
        intro!: new_claim_active dest!: Reveal_Reserve_cases(1))
next
  case (9 s e t k w r s')
  then show ?case
    by (auto simp: Let_def claim_simps active_claim_None dest!: Reveal_Reserve_cases(1))
next
  case (10 s k' k e t w t')
  show ?case
  proof (cases "fst (Reveal_Reserve pa e t k w s)")
    case (Inl x)
    then show ?thesis by (simp add: Let_def Reveal_Reserve_cases(2))
  next
    case (Inr r)
    with 10 show ?thesis
      by (auto simp: Let_def claim_simps intro!: active_claim_same dest!: Reveal_Reserve_cases(1))
  qed
next
  case (11 s e t k w)
  then show ?case
    using claim_steps_store_inv [OF ReserveBatch_steps] by (simp add: Let_def Reveal_Reserve_store)
qed

section \<open>Properties\<close>

text \<open>
  C6. A batch is all or nothing. It is granted exactly when it is not empty, the wallet is
  not blank, every game waits for open bids and has the caller as a player, none of them is
  actively claimed, and the caller's counted claims plus the batch stay within the limit; then
  every game of the batch, and no other, gets the caller's claim. Otherwise the store is
  unchanged and nothing is announced.
\<close>

theorem reveal_batch_atomic:
  "case ReserveBatch pa repo now ks w st of (res, st', bs) \<Rightarrow>
     if ks \<noteq> [] \<and> normalizeReservationWallet pa w \<noteq> ''''
        \<and> list_all (\<lambda>k. \<exists>g. repo k = Inr (Some g) \<and> g_Status g = GameStatusWaitingForOpenBids
              \<and> isGameParticipant pa g (normalizeReservationWallet pa w) \<and> Reveal_Get st now k = None) ks
        \<and> count_active now st (wallet_ids st (normalizeReservationWallet pa w)) + int (length ks)
             \<le> maxPerWallet st
     then res = Inr (map (\<lambda>k. new_claim now st k w) ks)
        \<and> (\<forall>k. reservations st' k = (if k \<in> set ks then Some (new_claim now st k w) else reservations st k))
        \<and> bs = (if hasBroadcast st
                 then map (\<lambda>k. BroadcastRevealReservationCreated (new_claim now st k w)) ks else [])
     else isl res \<and> st' = st \<and> bs = []"
proof -
  let ?n = "normalizeReservationWallet pa w"
  have iff: "reveal_preflight pa repo ?n ks = Inr () \<and> \<not> (\<exists>k \<in> set ks. active_at now st k) \<longleftrightarrow>
      list_all (\<lambda>k. \<exists>g. repo k = Inr (Some g) \<and> g_Status g = GameStatusWaitingForOpenBids
              \<and> isGameParticipant pa g ?n \<and> Reveal_Get st now k = None) ks"
    by (auto simp: reveal_preflight_iff claim_simps active_claim_None list_all_iff)
  show ?thesis
    unfolding iff [symmetric]
    by (cases "reveal_preflight pa repo ?n ks")
      (auto simp: ReserveBatch_def ReserveBatch_commit_result Let_def reveal_insert_reservations comp_def)
qed

text \<open>
  A batch that names a game twice is accepted as two claims: both are returned, and the
  game counts twice against the caller's limit although the caller holds it once.
\<close>

theorem reveal_batch_duplicate:
  assumes "store_inv pa st" and "ReserveBatch_commit pa now [k, k] w st = (Inr rs, st', bs)"
  shows "length rs = 2 \<and> card (set rs) = 1
     \<and> count_active now st' (filter (\<lambda>j. j = k) (wallet_ids st' (normalizeReservationWallet pa w))) \<ge> 2"
proof -
  let ?n = "normalizeReservationWallet pa w"
  have rs: "rs = [new_claim now st k w, new_claim now st k w]"
    and st': "st' = snd (reveal_insert ?n now w [k, k] st)"
    using assms(2) by (auto simp: ReserveBatch_commit_result Let_def split: if_splits)
  have "active_at now st' k"
    using assms(1) by (auto simp: st' active_at_def reveal_insert_reservations store_inv_def
        intro!: new_claim_active simp del: reveal_insert.simps)
  moreover have "wallet_ids st' ?n = wallet_ids st ?n @ [k, k]"
    by (simp only: st' reveal_insert_index) simp
  ultimately show ?thesis by (simp add: rs count_active_filter)
qed

theorem reveal_batch_duplicate_witness:
  "card (set (projr (fst (ReserveBatch_commit no_addr 30 [9, 9] ''carol'' sample_store)))) = 1"
  using reveal_batch_duplicate [OF sample_store_inv, of 30 9 "''carol''"
      "[new_claim 30 sample_store 9 ''carol'', new_claim 30 sample_store 9 ''carol'']"
      "fst (snd (ReserveBatch_commit no_addr 30 [9, 9] ''carol'' sample_store))"
      "snd (snd (ReserveBatch_commit no_addr 30 [9, 9] ''carol'' sample_store))"]
  by (simp add: ReserveBatch_commit_result Let_def active_at_def)

end
