(* ===== verification/Expired_Claim.thy ===== *)
theory Expired_Claim
  imports Claim_Store
begin

text \<open>
  \<open>internal/usecase/expired_claim.go\<close>: a participant's advisory claim to follow up an
  ended game. A second \<open>Claim\<close> by the holder resumes the active claim; \<open>Get\<close> and
  \<open>ListByWallet\<close> ask the game repository whether the game is still ended and release
  the claim when it is not. The Go fields \<open>claims\<close> and \<open>walletClaims\<close> are
  \<open>reservations\<close> and \<open>walletReservations\<close> of the claim store.
\<close>

section \<open>Operations\<close>

definition NewExpiredClaimUseCase :: "bool \<Rightarrow> claim_config \<Rightarrow> claim_store" where
  "NewExpiredClaimUseCase bc cfg = new_claim_store 120 5 bc cfg"

definition Expired_removeFromWalletIndex ::
  "parse_addr \<Rightarrow> wallet \<Rightarrow> int \<Rightarrow> claim_store \<Rightarrow> claim_store" where
  "Expired_removeFromWalletIndex = index_remove"

definition Claim_check ::
  "parse_addr \<Rightarrow> (int \<Rightarrow> error + Game option) \<Rightarrow> int \<Rightarrow> wallet \<Rightarrow> error + unit" where
  "Claim_check pa gameRepo gameID walletAddress =
     (let normalized = normalizeReservationWallet pa walletAddress in
      if normalized = '''' then Inl ErrExpiredClaimWalletRequired
      else case gameRepo gameID of
          Inl err \<Rightarrow> Inl err
        | Inr None \<Rightarrow> Inl ErrExpiredClaimNotAvailable
        | Inr (Some game) \<Rightarrow>
            if g_Status game \<noteq> GameStatusEnded then Inl ErrExpiredClaimNotAvailable
            else if \<not> isGameParticipant pa game normalized then Inl ErrNotExpiredClaimParticipant
            else Inr ())"

definition Claim_commit ::
  "parse_addr \<Rightarrow> instant \<Rightarrow> int \<Rightarrow> wallet \<Rightarrow> claim_store
     \<Rightarrow> (error + ExpiredClaim) \<times> claim_store \<times> broadcast list" where
  "Claim_commit pa now gameID walletAddress st =
     (let normalized = normalizeReservationWallet pa walletAddress;
          create = (if count_active now st (wallet_ids st normalized) \<ge> maxPerWallet st
            then (Inl ErrTooManyExpiredClaims, st, [])
            else let claim = new_claim now st gameID walletAddress in
              (Inr claim, insert_claim normalized claim st,
               emit st (BroadcastExpiredClaimCreated claim)))
      in case reservations st gameID of
           None \<Rightarrow> create
         | Some existing \<Rightarrow>
             if IsActive now existing
             then (if sameReservationWallet pa (r_WalletAddress existing) normalized
                   then (Inr existing, st, [])
                   else (Inl ErrExpiredClaimAlreadyClaimed, st, []))
             else create)"

definition Claim ::
  "parse_addr \<Rightarrow> (int \<Rightarrow> error + Game option) \<Rightarrow> instant \<Rightarrow> int \<Rightarrow> wallet \<Rightarrow> claim_store
     \<Rightarrow> (error + ExpiredClaim) \<times> claim_store \<times> broadcast list" where
  "Claim pa gameRepo now gameID walletAddress st =
     (case Claim_check pa gameRepo gameID walletAddress of
        Inl err \<Rightarrow> (Inl err, st, [])
      | Inr _ \<Rightarrow> Claim_commit pa now gameID walletAddress st)"

definition peekActiveClaim :: "claim_store \<Rightarrow> instant \<Rightarrow> int \<Rightarrow> ExpiredClaim option" where
  "peekActiveClaim st now gameID = (case reservations st gameID of
       None \<Rightarrow> None
     | Some claim \<Rightarrow> if \<not> IsActive now claim then None else Some claim)"

definition isClaimGameActionable :: "(int \<Rightarrow> error + Game option) option \<Rightarrow> int \<Rightarrow> error + bool" where
  "isClaimGameActionable gameRepo gameID = (case gameRepo of
       None \<Rightarrow> Inr True
     | Some repo \<Rightarrow> (case repo gameID of
           Inl err \<Rightarrow> Inl err
         | Inr None \<Rightarrow> Inr False
         | Inr (Some game) \<Rightarrow> Inr (g_Status game = GameStatusEnded)))"

definition releaseWithReason ::
  "parse_addr \<Rightarrow> instant \<Rightarrow> int \<Rightarrow> string \<Rightarrow> claim_store \<Rightarrow> claim_store \<times> broadcast list" where
  "releaseWithReason pa now gameID reason st = (case reservations st gameID of
       None \<Rightarrow> (st, [])
     | Some claim \<Rightarrow>
         if \<not> IsActive now claim then (st, [])
         else (Expired_removeFromWalletIndex pa (r_WalletAddress claim) gameID
                 (set_status gameID claim ReservationStatusReleased st),
               emit st (BroadcastExpiredClaimReleased gameID reason)))"

definition ReleaseOnResolved ::
  "parse_addr \<Rightarrow> instant \<Rightarrow> int \<Rightarrow> claim_store \<Rightarrow> claim_store \<times> broadcast list" where
  "ReleaseOnResolved pa now gameID st = releaseWithReason pa now gameID ''resolved'' st"

definition Expired_Get ::
  "parse_addr \<Rightarrow> (int \<Rightarrow> error + Game option) option \<Rightarrow> instant \<Rightarrow> int \<Rightarrow> claim_store
     \<Rightarrow> (error + ExpiredClaim option) \<times> claim_store \<times> broadcast list" where
  "Expired_Get pa gameRepo now gameID st = (case peekActiveClaim st now gameID of
       None \<Rightarrow> (Inr None, st, [])
     | Some claim \<Rightarrow> (case isClaimGameActionable gameRepo gameID of
           Inl err \<Rightarrow> (Inl err, st, [])
         | Inr isActionable \<Rightarrow>
             if \<not> isActionable
             then (case ReleaseOnResolved pa now gameID st of (st', bs) \<Rightarrow> (Inr None, st', bs))
             else (Inr (Some claim), st, [])))"

definition Expired_ListByWallet ::
  "parse_addr \<Rightarrow> (int \<Rightarrow> error + Game option) option \<Rightarrow> instant \<Rightarrow> wallet \<Rightarrow> claim_store
     \<Rightarrow> (error + ExpiredClaim list) \<times> claim_store \<times> broadcast list" where
  "Expired_ListByWallet pa gameRepo now walletAddress st =
     (let normalized = normalizeReservationWallet pa walletAddress;
          gameIDs = wallet_ids st normalized
      in if normalized = '''' then (Inr [], st, [])
         else case filter_available (isClaimGameActionable gameRepo)
                (ReleaseOnResolved pa now) (collect_active now st gameIDs) st of
             (Inl err, st', bs) \<Rightarrow> (Inl err, st', bs)
           | (Inr result, st', bs) \<Rightarrow> (Inr (stable_newest_first r_CreatedAt result), st', bs))"

definition Release ::
  "parse_addr \<Rightarrow> instant \<Rightarrow> int \<Rightarrow> wallet \<Rightarrow> claim_store
     \<Rightarrow> error option \<times> claim_store \<times> broadcast list" where
  "Release pa now gameID walletAddress st =
     (let normalized = normalizeReservationWallet pa walletAddress in
      if normalized = '''' then (Some ErrExpiredClaimWalletRequired, st, [])
      else case reservations st gameID of
          None \<Rightarrow> (Some ErrExpiredClaimNotFound, st, [])
        | Some claim \<Rightarrow>
            if \<not> IsActive now claim then (Some ErrExpiredClaimNotFound, st, [])
            else if \<not> sameReservationWallet pa (r_WalletAddress claim) normalized
              then (Some ErrNotExpiredClaimHolder, st, [])
            else (None,
              Expired_removeFromWalletIndex pa (r_WalletAddress claim) gameID
                (set_status gameID claim ReservationStatusReleased st),
              emit st (BroadcastExpiredClaimReleased gameID ''cancelled'')))"

definition Expired_CleanupExpired ::
  "parse_addr \<Rightarrow> (int \<Rightarrow> instant) \<Rightarrow> (int \<Rightarrow> instant) \<Rightarrow> int list \<Rightarrow> claim_store
     \<Rightarrow> claim_store \<times> broadcast list" where
  "Expired_CleanupExpired pa t1 t2 keys st =
     (case sweep_loop pa t1 t2 keys st of (st', expiredGameIDs) \<Rightarrow>
        (st', concat (map (\<lambda>k. emit st (BroadcastExpiredClaimReleased k ''expired'')) expiredGameIDs)))"

definition Expired_GetActiveCount :: "instant \<Rightarrow> int list \<Rightarrow> claim_store \<Rightarrow> int" where
  "Expired_GetActiveCount now keys st = count_active now st keys"

lemma peekActiveClaim_eq [claim_simps]: "peekActiveClaim = active_claim"
  by (simp add: fun_eq_iff peekActiveClaim_def active_claim_def)

section \<open>Running the use case\<close>

lemma Claim_commit_eq:
  "Claim_commit pa now k w st =
     (let n = normalizeReservationWallet pa w in
      case active_claim st now k of
        Some r \<Rightarrow> if normalizeReservationWallet pa (r_WalletAddress r) = n then (Inr r, st, [])
                 else (Inl ErrExpiredClaimAlreadyClaimed, st, [])
      | None \<Rightarrow> if count_active now st (wallet_ids st n) \<ge> maxPerWallet st
                then (Inl ErrTooManyExpiredClaims, st, [])
                else (Inr (new_claim now st k w), insert_claim n (new_claim now st k w) st,
                      emit st (BroadcastExpiredClaimCreated (new_claim now st k w))))"
  by (auto simp: Claim_commit_def active_claim_def Let_def split: option.splits)

lemma Claim_commit_steps:
  "store_inv pa st \<Longrightarrow> claim_steps pa (now, st) (now, fst (snd (Claim_commit pa now k w st)))"
  by (auto simp: Claim_commit_eq Let_def active_claim_None split: option.splits
      intro!: claim_steps_one create_counted)

lemma Claim_steps:
  "store_inv pa st \<Longrightarrow> claim_steps pa (now, st) (now, fst (snd (Claim pa repo now k w st)))"
  by (auto simp: Claim_def Claim_commit_steps split: sum.splits)

lemma ReleaseOnResolved_steps: "claim_steps pa (now, st) (now, fst (ReleaseOnResolved pa now k st))"
  by (auto simp: ReleaseOnResolved_def releaseWithReason_def Expired_removeFromWalletIndex_def
      intro!: claim_steps_one claim_step.release split: option.splits)

lemma Release_steps: "claim_steps pa (now, st) (now, fst (snd (Release pa now k w st)))"
  by (auto simp: Release_def Expired_removeFromWalletIndex_def Let_def
      intro!: claim_steps_one claim_step.release split: option.splits)

lemma Expired_Get_steps: "claim_steps pa (now, st) (now, fst (snd (Expired_Get pa repo now k st)))"
  using ReleaseOnResolved_steps by (auto simp: Expired_Get_def case_prod_beta split: option.splits sum.splits)

lemma Expired_cleanup_steps:
  "(\<And>k. k \<in> set ks \<Longrightarrow> t2 k \<le> now) \<Longrightarrow>
     claim_steps pa (now, st) (now, fst (Expired_CleanupExpired pa t1 t2 ks st))"
  using sweep_loop_steps by (simp add: Expired_CleanupExpired_def case_prod_beta)

inductive expired_step :: "parse_addr \<Rightarrow> instant \<times> claim_store \<Rightarrow> instant \<times> claim_store \<Rightarrow> bool"
  for pa :: parse_addr where
  time: "now \<le> now' \<Longrightarrow> expired_step pa (now, st) (now', st)"
| claim: "expired_step pa (now, st) (now, fst (snd (Claim_commit pa now k w st)))"
| get: "expired_step pa (now, st) (now, fst (snd (Expired_Get pa repo now k st)))"
| resolved: "expired_step pa (now, st) (now, fst (ReleaseOnResolved pa now k st))"
| release: "expired_step pa (now, st) (now, fst (snd (Release pa now k w st)))"
| cleanup: "(\<And>k. k \<in> set ks \<Longrightarrow> t1 k \<le> t2 k \<and> t2 k \<le> now) \<Longrightarrow>
     expired_step pa (now, st) (now, fst (Expired_CleanupExpired pa t1 t2 ks st))"

lemma expired_step_refines: "expired_step pa x y \<Longrightarrow> store_inv pa (snd x) \<Longrightarrow> claim_steps pa x y"
  by (induction rule: expired_step.induct)
    (auto intro: claim_steps_one claim_step.tick Claim_commit_steps Expired_Get_steps
      ReleaseOnResolved_steps Release_steps Expired_cleanup_steps)

definition expired_init :: "claim_store \<Rightarrow> bool" where
  "expired_init st \<longleftrightarrow> (\<exists>bc cfg. st = NewExpiredClaimUseCase bc cfg)"

interpretation expired_run: claim_machine pa expired_init "expired_step pa" for pa
  by unfold_locales
    (auto simp: expired_init_def NewExpiredClaimUseCase_def new_claim_store_inv expired_step_refines)

section \<open>The claim service of the expired claims\<close>

interpretation expired_claims: claim_creator peekActiveClaim
  "\<lambda>t k st. fst (ReleaseOnResolved pa t k st)" "store_inv pa"
  "\<lambda>repo t k w st. let z = Claim pa repo t k w st in (fst z, fst (snd z))" for pa
proof (unfold_locales, goal_cases)
  case (1 s t k r)
  then show ?case unfolding claim_simps by (rule active_claim_laws)
next
  case (2 s t' k r t)
  then show ?case unfolding claim_simps by (rule active_claim_laws)
next
  case (3 s t k r t')
  then show ?case unfolding claim_simps by (rule active_claim_laws)
next
  case (4 s t k)
  then show ?case
    by (auto simp: claim_simps ReleaseOnResolved_def releaseWithReason_def
        Expired_removeFromWalletIndex_def active_claim_def split: option.splits)
next
  case (5 s k' k t t')
  then show ?case
    by (auto simp: claim_simps ReleaseOnResolved_def releaseWithReason_def
        Expired_removeFromWalletIndex_def intro!: active_claim_same split: option.splits)
next
  case (6 s t k)
  then show ?case using claim_steps_store_inv [OF ReleaseOnResolved_steps] by simp
next
  case (7 e t k w s x)
  then show ?case
    by (auto simp: Claim_def Claim_commit_eq Let_def split: sum.splits option.splits if_splits)
next
  case (8 s e t k w r s')
  then show ?case
    by (auto simp: Claim_def Claim_commit_eq Let_def claim_simps active_claim_Some store_inv_def
        intro!: new_claim_active split: sum.splits option.splits if_splits)
next
  case (9 s e t k w r s')
  then show ?case
    by (auto simp: Claim_def Claim_commit_eq Let_def claim_simps split: sum.splits option.splits if_splits)
next
  case (10 s k' k e t w t')
  then show ?case
    by (auto simp: Claim_def Claim_commit_eq Let_def claim_simps
        intro!: active_claim_same split: sum.splits option.splits)
next
  case (11 s e t k w)
  then show ?case using claim_steps_store_inv [OF Claim_steps] by (simp add: Let_def)
qed

section \<open>Properties\<close>

text \<open>An ended game between Alice and Bob, for the instances below.\<close>

definition sample_ended_game :: Game where
  "sample_ended_game = \<lparr>g_GameID = 7, g_Status = GameStatusEnded, g_PlayerOneAddress = ''alice'',
     g_PlayerTwoAddress = Some ''bob'', g_PlayerOneChoice = CoinSideHeads,
     g_PlayerTwoChoice = Some CoinSideTails, g_PlayerOneReferrer = None, g_PlayerTwoReferrer = None,
     g_BetAmount = 1000, g_WinnerAddress = None, g_PayoutAmount = None, g_ServiceFeeNumerator = 0,
     g_ReferrerFeeNumerator = 0, g_WaitingTimeoutSeconds = 0, g_LowestBidAllowed = 0,
     g_HighestBidAllowed = 0, g_MinReferrerPayoutValue = 0, g_ProtocolVersion = 1,
     g_FeeReceiverAddress = ''fees'', g_CreatedAt = 0, g_JoinedAt = Some 1, g_RevealedAt = Some 2,
     g_CompletedAt = None, g_InitTxHash = ''a'', g_JoinTxHash = Some ''b'', g_RevealTxHash = Some ''c'',
     g_CompleteTxHash = None\<rparr>"

text \<open>
  C7. Claiming an ended game is idempotent for its holder and closed to everybody else:
  after a successful \<open>Claim\<close>, until it expires, every further \<open>Claim\<close> that passes
  the checks returns the same claim to the same wallet (under any spelling of its address) and
  \<open>ErrExpiredClaimAlreadyClaimed\<close> to any other wallet, and leaves the store alone.
\<close>

theorem expired_claim_resumes:
  assumes "store_inv pa st" and "Claim pa repo now k w st = (Inr r, st', bs)"
    and "Claim_check pa repo' k w' = Inr ()" and "t \<le> r_ExpiresAt r"
  shows "Claim pa repo' t k w' st' =
     (if normalizeReservationWallet pa w' = normalizeReservationWallet pa w then (Inr r, st', [])
      else (Inl ErrExpiredClaimAlreadyClaimed, st', []))"
proof -
  have "normalizeReservationWallet pa (r_WalletAddress r) = normalizeReservationWallet pa w"
    using assms(2) by (auto simp: Claim_def Claim_commit_eq Let_def split: sum.splits option.splits if_splits)
  moreover have got: "peekActiveClaim st' now k = Some r"
    using expired_claims.reserve_get [OF assms(1), of repo now k w r st'] assms(2) by (simp add: Let_def)
  then have "IsActive t r"
    using assms(4) by (simp add: claim_simps active_claim_Some IsActive_def IsExpired_def)
  then have "active_claim st' t k = Some r" using got by (simp add: claim_simps active_claim_Some)
  ultimately show ?thesis using assms(3) by (auto simp: Claim_def Claim_commit_eq Let_def)
qed

theorem expired_claim_resumes_witness:
  "Claim no_addr (\<lambda>_. Inr (Some sample_ended_game)) 9 7 '' ALICE'' sample_store = (Inr alice_claim, sample_store, [])
     \<and> Claim no_addr (\<lambda>_. Inr (Some sample_ended_game)) 9 7 ''bob'' sample_store
         = (Inl ErrExpiredClaimAlreadyClaimed, sample_store, [])"
proof -
  let ?repo = "\<lambda>_. Inr (Some sample_ended_game)"
  have check: "Claim_check no_addr ?repo 7 ''alice'' = Inr ()" "Claim_check no_addr ?repo 7 '' ALICE'' = Inr ()"
    "Claim_check no_addr ?repo 7 ''bob'' = Inr ()"
    by (simp_all add: Claim_check_def sample_ended_game_def isGameParticipant_iff)
  then have "Claim no_addr ?repo 5 7 ''alice'' sample_store = (Inr alice_claim, sample_store, [])"
    by (simp add: Claim_def Claim_commit_eq Let_def active_claim_def)
  from expired_claim_resumes [OF sample_store_inv this, of ?repo _ 9] check show ?thesis by simp
qed

text \<open>
  A lookup never returns a claim on a game that is no longer ended: it answers the
  active claim if the game is ended, answers nothing otherwise, and in that case has released
  the claim for good; a repository error changes nothing.
\<close>

theorem expired_get_outcome:
  assumes "store_inv pa st"
  shows "case Expired_Get pa (Some repo) now k st of (res, st', bs) \<Rightarrow>
     (case repo k of
        Inl e \<Rightarrow> st' = st \<and> (if peekActiveClaim st now k = None then res = Inr None else res = Inl e)
      | Inr g \<Rightarrow>
          if (\<exists>game. g = Some game \<and> g_Status game = GameStatusEnded)
          then res = Inr (peekActiveClaim st now k) \<and> st' = st
          else res = Inr None \<and> (\<forall>t. now \<le> t \<longrightarrow> peekActiveClaim st' t k = None))"
proof -
  have released: "peekActiveClaim (fst (ReleaseOnResolved pa now k st)) t k = None" if "now \<le> t" for t
    using expired_claims.release_stays_released [OF assms that] .
  have absent: "peekActiveClaim st t k = None" if "peekActiveClaim st now k = None" "now \<le> t" for t
    using expired_claims.get_None_later [OF assms that] .
  show ?thesis
  proof (cases "peekActiveClaim st now k")
    case None
    then have "Expired_Get pa (Some repo) now k st = (Inr None, st, [])" by (simp add: Expired_Get_def)
    with None absent [OF None] show ?thesis by (simp split: sum.split)
  next
    case (Some r)
    then show ?thesis
    proof (cases "isClaimGameActionable (Some repo) k")
      case (Inl e)
      then have "repo k = Inl e"
        by (simp add: isClaimGameActionable_def split: sum.splits option.splits)
      with Some Inl show ?thesis by (simp add: Expired_Get_def)
    next
      case (Inr ok)
      then obtain g where g: "repo k = Inr g" "ok \<longleftrightarrow> (\<exists>game. g = Some game \<and> g_Status game = GameStatusEnded)"
        by (auto simp: isClaimGameActionable_def split: sum.splits option.splits)
      show ?thesis using Some Inr g released by (simp add: Expired_Get_def case_prod_beta)
    qed
  qed
qed

theorem expired_get_outcome_witness:
  "case Expired_Get no_addr (Some (\<lambda>_. Inr None)) 5 7 sample_store of (res, st', bs) \<Rightarrow>
     res = Inr None \<and> (\<forall>t. 5 \<le> t \<longrightarrow> peekActiveClaim st' t 7 = None)"
  using expired_get_outcome [OF sample_store_inv, where repo = "\<lambda>_. Inr None" and now = 5 and k = 7]
  by (simp add: case_prod_beta)

end
