(* ===== verification/Game_Persistence.thy ===== *)
theory Game_Persistence
  imports Database Cancel_Reservation Reveal_Reservation Expired_Claim
begin

text \<open>
  \<open>internal/usecase/game_persistence.go\<close>: the handlers that turn a blockchain event into
  database updates, releases of advisory claims and broadcasts. A handler's work on the
  event and the database is a \<open>hop\<close> (the name ends in \<open>_db\<close>) that answers the game to
  report on, or \<open>None\<close> when the event was a duplicate; what follows a success is an
  \<open>effect\<close>. JSON encoding (\<open>json.Marshal\<close>) is the parameter \<open>marshal\<close>.
\<close>

section \<open>Event data\<close>

text \<open>
  \<open>int64(v)\<close> of a \<open>float64\<close> truncates; the result is unspecified by Go when it is out
  of range, and is the smallest \<open>int64\<close> on the platforms the program is built for.
\<close>

definition int64_of_float :: "rat \<Rightarrow> int" where
  "int64_of_float v = (let t = (if v < 0 then \<lceil>v\<rceil> else \<lfloor>v\<rfloor>) in if in_i64 t then t else - (2 ^ 63))"

fun type_name :: "gval \<Rightarrow> string" where
  "type_name (VInt64 _) = ''int64''"
| "type_name (VFloat64 _) = ''float64''"
| "type_name (VInt _) = ''int''"
| "type_name (VUint8 _) = ''uint8''"
| "type_name (VUint16 _) = ''uint16''"
| "type_name (VUint32 _) = ''uint32''"
| "type_name (VUint64 _) = ''uint64''"
| "type_name (VString _) = ''string''"
| "type_name (VOther t) = t"

definition extractInt64 :: "event_data \<Rightarrow> string \<Rightarrow> error + int" where
  "extractInt64 data key = (case data key of
       None \<Rightarrow> Inl (ErrorString (''missing '' @ key))
     | Some val \<Rightarrow> (case val of
           VInt64 v \<Rightarrow> Inr v
         | VFloat64 v \<Rightarrow> Inr (int64_of_float v)
         | VInt v \<Rightarrow> Inr v
         | VUint8 v \<Rightarrow> Inr v
         | VUint16 v \<Rightarrow> Inr v
         | VUint32 v \<Rightarrow> Inr v
         | VUint64 v \<Rightarrow> if v > 2 ^ 63 - 1
             then Inl (ErrorString (key @ '' value too large: '' @ FormatInt v)) else Inr v
         | VString v \<Rightarrow> (case ParseInt64 v of
               None \<Rightarrow> Inl (Wrapf (''invalid '' @ key) (ErrorString ''strconv.ParseInt''))
             | Some parsed \<Rightarrow> Inr parsed)
         | VOther t \<Rightarrow> Inl (ErrorString (''invalid type for '' @ key @ '': '' @ t))))"

definition extractOptionalInt64 :: "event_data \<Rightarrow> string \<Rightarrow> int \<Rightarrow> error + int" where
  "extractOptionalInt64 data key defaultValue =
     (if data key = None then Inr defaultValue else extractInt64 data key)"

definition extractString :: "event_data \<Rightarrow> string \<Rightarrow> error + string" where
  "extractString data key = (case data key of
       None \<Rightarrow> Inl (ErrorString (''missing '' @ key))
     | Some (VString str) \<Rightarrow> Inr str
     | Some val \<Rightarrow> Inl (ErrorString (''invalid type for '' @ key @ '': expected string, got '' @ type_name val)))"

definition extractOptionalString :: "event_data \<Rightarrow> string \<Rightarrow> string \<Rightarrow> error + string" where
  "extractOptionalString data key defaultValue =
     (if data key = None then Inr defaultValue else extractString data key)"

type_synonym marshal = "event_data \<Rightarrow> error + string"

definition serializeEventData :: "marshal \<Rightarrow> unit hop" where
  "serializeEventData marshal s = (let event = fst s in
     if e_Payload event \<noteq> '''' then (Inr (), s)
     else case e_EventData event of
         None \<Rightarrow> (Inr (), s)
       | Some data \<Rightarrow> (case marshal data of
             Inl err \<Rightarrow> (Inl (Wrapf ''failed to serialize event data'' err), s)
           | Inr payload \<Rightarrow> (Inr (), event\<lparr>e_Payload := payload\<rparr>, snd s)))"

text \<open>Reading a nil map finds nothing.\<close>

definition event_map :: "GameEvent \<Rightarrow> event_data" where
  "event_map event = (case e_EventData event of None \<Rightarrow> Map.empty | Some data \<Rightarrow> data)"

definition dataH :: "(event_data \<Rightarrow> error + 'a) \<Rightarrow> 'a hop" where
  "dataH f = wrapH ''invalid event data'' (bindH eventH (\<lambda>event. liftR (f (event_map event))))"

section \<open>The handlers' work on the database\<close>

text \<open>The checks every handler starts with.\<close>

definition checkEvent :: "string \<Rightarrow> unit hop" where
  "checkEvent expected s = (let event = fst s in
     case GameEvent_Validate event of
       Some e \<Rightarrow> (Inl (Wrapf ''validation failed'' e), s)
     | None \<Rightarrow>
         if e_EventType event \<noteq> expected
         then (Inl (ErrorString (''invalid event type: expected '' @ expected @ '', got '' @ e_EventType event)), s)
         else (Inr (), s))"

definition getGameH :: "Game hop" where
  "getGameH = bindH eventH (\<lambda>event. wrapH (''game '' @ FormatInt (e_GameID event)
     @ '' not found (GameInitialized may not have been processed yet)'') (liftDB (GetByID (e_GameID event))))"

text \<open>Persisting the event; the answer tells whether it is new (\<open>event.ID != 0\<close>).\<close>

definition persistEvent :: "bool hop" where
  "persistEvent = bindH (wrapH ''failed to persist event'' upsertH) (\<lambda>_.
     bindH eventH (\<lambda>event. returnH (e_ID event \<noteq> 0)))"

text \<open>A nil user repository panics when it is called.\<close>

definition ensureUser :: "bool \<Rightarrow> wallet \<Rightarrow> unit hop" where
  "ensureUser users w = (if users then liftDB (EnsureUserByWallet w)
     else failH (ErrorString ''panic: nil user repository''))"

definition HandleGameInitialized_db :: "marshal \<Rightarrow> bool \<Rightarrow> int option hop" where
  "HandleGameInitialized_db marshal users =
     bindH (checkEvent EventGameInitialized) (\<lambda>_.
     bindH (dataH (\<lambda>d. extractInt64 d ''game_id'')) (\<lambda>gameID.
     bindH (dataH (\<lambda>d. extractString d ''player_one'')) (\<lambda>playerOne.
     bindH (dataH (\<lambda>d. extractInt64 d ''bet_amount'')) (\<lambda>betAmount.
     bindH eventH (\<lambda>event.
     let playerOneChoice = (case extractInt64 (event_map event) ''player_one_choice'' of
           Inl _ \<Rightarrow> CoinSideClosed | Inr parsedChoice \<Rightarrow> parsedChoice) in
     bindH (dataH (\<lambda>d. extractOptionalInt64 d ''service_fee_numerator'' 0)) (\<lambda>serviceFeeNumerator.
     bindH (dataH (\<lambda>d. extractOptionalInt64 d ''referrer_fee_numerator'' 0)) (\<lambda>referrerFeeNumerator.
     bindH (dataH (\<lambda>d. extractOptionalInt64 d ''waiting_for_open_bid_seconds'' 0)) (\<lambda>waitingTimeoutSeconds.
     bindH (dataH (\<lambda>d. extractOptionalInt64 d ''lowest_bid'' 0)) (\<lambda>lowestBidAllowed.
     bindH (dataH (\<lambda>d. extractOptionalInt64 d ''highest_bid'' 0)) (\<lambda>highestBidAllowed.
     bindH (dataH (\<lambda>d. extractOptionalInt64 d ''min_referrer_payout_value'' 0)) (\<lambda>minReferrerPayoutValue.
     bindH (dataH (\<lambda>d. extractOptionalString d ''fee_receiver'' '''')) (\<lambda>feeReceiverAddress.
     bindH (dataH (\<lambda>d. extractOptionalInt64 d ''protocol_version'' 1)) (\<lambda>protocolVersion.
     bindH (wrapH ''failed to ensure player one user'' (ensureUser users playerOne)) (\<lambda>_.
     bindH (wrapH ''failed to create game'' (liftDB (CreateOrIgnore
       \<lparr> g_GameID = gameID, g_Status = GameStatusWaitingForOpponent, g_PlayerOneAddress = playerOne,
         g_PlayerTwoAddress = None, g_PlayerOneChoice = playerOneChoice, g_PlayerTwoChoice = None,
         g_PlayerOneReferrer = None, g_PlayerTwoReferrer = None, g_BetAmount = betAmount,
         g_WinnerAddress = None, g_PayoutAmount = None, g_ServiceFeeNumerator = serviceFeeNumerator,
         g_ReferrerFeeNumerator = referrerFeeNumerator, g_WaitingTimeoutSeconds = waitingTimeoutSeconds,
         g_LowestBidAllowed = lowestBidAllowed, g_HighestBidAllowed = highestBidAllowed,
         g_MinReferrerPayoutValue = minReferrerPayoutValue, g_ProtocolVersion = protocolVersion,
         g_FeeReceiverAddress = feeReceiverAddress, g_CreatedAt = e_Timestamp event,
         g_JoinedAt = None, g_RevealedAt = None, g_CompletedAt = None,
         g_InitTxHash = e_TransactionHash event, g_JoinTxHash = None, g_RevealTxHash = None,
         g_CompleteTxHash = None \<rparr>))) (\<lambda>_.
     bindH (serializeEventData marshal) (\<lambda>_.
     bindH persistEvent (\<lambda>fresh.
     returnH (if fresh then Some gameID else None))))))))))))))))))"

definition HandleGameStarted_db :: "marshal \<Rightarrow> bool \<Rightarrow> int option hop" where
  "HandleGameStarted_db marshal users =
     bindH (checkEvent EventGameStarted) (\<lambda>_.
     bindH (dataH (\<lambda>d. extractString d ''player_two'')) (\<lambda>playerTwo.
     bindH getGameH (\<lambda>_.
     bindH (serializeEventData marshal) (\<lambda>_.
     bindH persistEvent (\<lambda>fresh.
     if \<not> fresh then returnH None else
     bindH (wrapH ''failed to ensure player two user'' (ensureUser users playerTwo)) (\<lambda>_.
     bindH eventH (\<lambda>event.
     bindH (wrapH ''failed to join game'' (liftDB
       (JoinGame (e_GameID event) playerTwo (e_TransactionHash event) (e_Timestamp event)))) (\<lambda>_.
     returnH (Some (e_GameID event))))))))))"

text \<open>The loser and the referrer of a finished game, and the referrer's share.\<close>

definition game_loser :: "Game \<Rightarrow> wallet \<Rightarrow> wallet" where
  "game_loser game winner = (if g_PlayerOneAddress game = winner
     then (case g_PlayerTwoAddress game of None \<Rightarrow> '''' | Some p2 \<Rightarrow> p2)
     else g_PlayerOneAddress game)"

definition game_referrer :: "Game \<Rightarrow> wallet \<Rightarrow> wallet option" where
  "game_referrer game winner =
     (if g_PlayerOneAddress game = winner \<and> g_PlayerOneReferrer game \<noteq> None then g_PlayerOneReferrer game
      else if g_PlayerTwoAddress game = Some winner \<and> g_PlayerTwoReferrer game \<noteq> None
        then g_PlayerTwoReferrer game
      else None)"

definition referrer_earnings :: "Game \<Rightarrow> wallet option \<Rightarrow> int" where
  "referrer_earnings game referrerAddress =
     (if referrerAddress \<noteq> None \<and> referrerAddress \<noteq> Some ''''
      then go_div (i64 (g_BetAmount game * g_ReferrerFeeNumerator game)) 10000 else 0)"

text \<open>
  The statements of a finished game, the same in a transaction and without one: the
  statistics of the winner, of the loser and of the referrer, and the whole sequence.
\<close>

definition loser_steps :: "wallet \<Rightarrow> unit hop" where
  "loser_steps loser = (if loser = '''' then returnH () else
     bindH (wrapH ''failed to increment games played for loser'' (liftDB (IncrementGamesPlayed loser))) (\<lambda>_.
     wrapH ''failed to increment losses'' (liftDB (IncrementLosses loser))))"

definition referrer_steps :: "wallet option \<Rightarrow> int \<Rightarrow> unit hop" where
  "referrer_steps referrerAddress referrerEarnings = (case referrerAddress of
       None \<Rightarrow> returnH ()
     | Some r \<Rightarrow> if r \<noteq> '''' \<and> referrerEarnings > 0
         then wrapH ''failed to update referrer stats'' (liftDB (IncrementReferrals r referrerEarnings))
         else returnH ())"

definition stats_steps :: "bool \<Rightarrow> wallet \<Rightarrow> wallet \<Rightarrow> wallet option \<Rightarrow> int \<Rightarrow> unit hop" where
  "stats_steps users winner loser referrerAddress referrerEarnings =
     (if \<not> users then returnH () else
      bindH (wrapH ''failed to increment games played for winner'' (liftDB (IncrementGamesPlayed winner))) (\<lambda>_.
      bindH (wrapH ''failed to increment wins'' (liftDB (IncrementWins winner))) (\<lambda>_.
      bindH (loser_steps loser) (\<lambda>_. referrer_steps referrerAddress referrerEarnings))))"

definition complete_steps ::
  "bool \<Rightarrow> wallet \<Rightarrow> wallet \<Rightarrow> int \<Rightarrow> wallet option \<Rightarrow> int \<Rightarrow> int option hop" where
  "complete_steps users winner loser payout referrerAddress referrerEarnings =
     bindH eventH (\<lambda>event.
     bindH (wrapH ''failed to complete game'' (liftDB (CompleteGame (e_GameID event) winner payout
         (e_TransactionHash event) (e_Timestamp event)))) (\<lambda>_.
     bindH (stats_steps users winner loser referrerAddress referrerEarnings) (\<lambda>_.
     returnH (Some (e_GameID event)))))"

definition finish_steps ::
  "bool \<Rightarrow> wallet \<Rightarrow> wallet \<Rightarrow> int \<Rightarrow> wallet option \<Rightarrow> int \<Rightarrow> int option hop" where
  "finish_steps users winner loser payout referrerAddress referrerEarnings =
     bindH persistEvent (\<lambda>fresh.
     if \<not> fresh then returnH None
     else complete_steps users winner loser payout referrerAddress referrerEarnings)"

text \<open>The payout, with the legacy key as a fallback; an error counts as 0.\<close>

definition finish_payout :: "event_data \<Rightarrow> int" where
  "finish_payout d = (case extractInt64 d ''total_gainings'' of
     Inr v \<Rightarrow> v | Inl _ \<Rightarrow> (case extractInt64 d ''payout'' of Inr v \<Rightarrow> v | Inl _ \<Rightarrow> 0))"

definition HandleGameFinished_db :: "marshal \<Rightarrow> bool \<Rightarrow> bool \<Rightarrow> int option hop" where
  "HandleGameFinished_db marshal users txManager =
     bindH (checkEvent EventGameFinished) (\<lambda>_.
     bindH getGameH (\<lambda>game.
     bindH (serializeEventData marshal) (\<lambda>_.
     bindH (dataH (\<lambda>d. extractString d ''winner'')) (\<lambda>winner.
     bindH eventH (\<lambda>event.
     let payout = finish_payout (event_map event);
         loser = game_loser game winner;
         referrerAddress = game_referrer game winner;
         steps = finish_steps users winner loser payout referrerAddress (referrer_earnings game referrerAddress)
     in if txManager then WithTx steps else steps)))))"

definition HandleDraw_db :: "marshal \<Rightarrow> bool \<Rightarrow> int option hop" where
  "HandleDraw_db marshal users =
     bindH (checkEvent EventDraw) (\<lambda>_.
     bindH getGameH (\<lambda>_.
     bindH (serializeEventData marshal) (\<lambda>_.
     bindH persistEvent (\<lambda>fresh.
     if \<not> fresh then returnH None else
     bindH eventH (\<lambda>event.
     bindH (wrapH ''failed to complete game (draw)'' (liftDB (CompleteGame (e_GameID event) '''' 0
         (e_TransactionHash event) (e_Timestamp event)))) (\<lambda>_.
     if \<not> users then returnH (Some (e_GameID event)) else
     bindH (wrapH ''failed to get game for stats update'' (liftDB (GetByID (e_GameID event)))) (\<lambda>game.
     bindH (wrapH ''failed to increment games played for player 1''
         (liftDB (IncrementGamesPlayed (g_PlayerOneAddress game)))) (\<lambda>_.
     bindH (case g_PlayerTwoAddress game of
         None \<Rightarrow> returnH ()
       | Some p2 \<Rightarrow> wrapH ''failed to increment games played for player 2'' (liftDB (IncrementGamesPlayed p2))) (\<lambda>_.
     returnH (Some (e_GameID event)))))))))))"

definition HandleGameCancelled_db :: "marshal \<Rightarrow> int option hop" where
  "HandleGameCancelled_db marshal =
     bindH (checkEvent EventGameCancelled) (\<lambda>_.
     bindH getGameH (\<lambda>_.
     bindH (serializeEventData marshal) (\<lambda>_.
     bindH persistEvent (\<lambda>fresh.
     if \<not> fresh then returnH None else
     bindH eventH (\<lambda>event.
     bindH (wrapH ''failed to cancel game'' (liftDB
       (CancelGame (e_GameID event) (e_TransactionHash event) (e_Timestamp event)))) (\<lambda>_.
     returnH (Some (e_GameID event))))))))"

definition HandleSecretOpened_db :: "marshal \<Rightarrow> int option hop" where
  "HandleSecretOpened_db marshal =
     bindH (checkEvent EventSecretOpened) (\<lambda>_.
     bindH getGameH (\<lambda>_.
     bindH (serializeEventData marshal) (\<lambda>_.
     bindH persistEvent (\<lambda>fresh.
     if \<not> fresh then returnH None else
     bindH (dataH (\<lambda>d. extractString d ''player'')) (\<lambda>playerAddress.
     bindH (dataH (\<lambda>d. extractInt64 d ''coin_side'')) (\<lambda>coinSide.
     bindH eventH (\<lambda>event.
     bindH (wrapH ''failed to reveal choice'' (liftDB (RevealChoice (e_GameID event) playerAddress coinSide
         (e_TransactionHash event) (e_Timestamp event)))) (\<lambda>_.
     returnH (Some (e_GameID event))))))))))"

definition HandleInsufficientBalance_db :: "marshal \<Rightarrow> int option hop" where
  "HandleInsufficientBalance_db marshal =
     bindH (checkEvent EventInsufficientBalance) (\<lambda>_.
     bindH getGameH (\<lambda>_.
     bindH (serializeEventData marshal) (\<lambda>_.
     bindH (wrapH ''failed to persist event'' upsertH) (\<lambda>_.
     returnH None))))"

section \<open>Effects after a success\<close>

record persistence =
  p_db :: db
  p_userRepo :: bool      \<comment> \<open>\<open>userRepo != nil\<close>\<close>
  p_txManager :: bool     \<comment> \<open>\<open>txManager != nil\<close>\<close>
  p_broadcast :: bool     \<comment> \<open>\<open>broadcastUC != nil\<close>\<close>
  p_join :: "claim_store option"
  p_cancel :: "claim_store option"
  p_reveal :: "claim_store option"
  p_expired :: "claim_store option"
  p_now :: instant

type_synonym effect = "persistence \<Rightarrow> persistence \<times> broadcast list"

definition thenP :: "effect \<Rightarrow> effect \<Rightarrow> effect" where
  "thenP a b p = (case a p of (p', bs) \<Rightarrow> (case b p' of (p'', bs') \<Rightarrow> (p'', bs @ bs')))"

definition skipP :: effect where
  "skipP p = (p, [])"

definition releaseJoinReservation :: "parse_addr \<Rightarrow> int \<Rightarrow> effect" where
  "releaseJoinReservation pa gameID p = (case p_join p of None \<Rightarrow> (p, [])
     | Some st \<Rightarrow> (case ReleaseOnJoin pa (p_now p) gameID st of (st', bs) \<Rightarrow> (p\<lparr>p_join := Some st'\<rparr>, bs)))"

definition releaseCancelReservationIfUnavailable :: "parse_addr \<Rightarrow> int \<Rightarrow> effect" where
  "releaseCancelReservationIfUnavailable pa gameID p = (case p_cancel p of None \<Rightarrow> (p, [])
     | Some st \<Rightarrow> (case ReleaseOnUnavailable pa (p_now p) gameID ''resolved'' st of
         (st', bs) \<Rightarrow> (p\<lparr>p_cancel := Some st'\<rparr>, bs)))"

definition releaseRevealReservationIfAny :: "parse_addr \<Rightarrow> int \<Rightarrow> effect" where
  "releaseRevealReservationIfAny pa gameID p = (case p_reveal p of None \<Rightarrow> (p, [])
     | Some st \<Rightarrow> (case ReleaseOnTerminal pa (p_now p) gameID st of (st', bs) \<Rightarrow> (p\<lparr>p_reveal := Some st'\<rparr>, bs)))"

definition releaseExpiredClaimIfResolved :: "parse_addr \<Rightarrow> int \<Rightarrow> effect" where
  "releaseExpiredClaimIfResolved pa gameID p = (case p_expired p of None \<Rightarrow> (p, [])
     | Some st \<Rightarrow> (case ReleaseOnResolved pa (p_now p) gameID st of (st', bs) \<Rightarrow> (p\<lparr>p_expired := Some st'\<rparr>, bs)))"

definition broadcastGameUpdate :: "int \<Rightarrow> string \<Rightarrow> effect" where
  "broadcastGameUpdate gameID eventType p =
     (if \<not> p_broadcast p then (p, [])
      else case GetByID gameID (p_db p) of
          (Inl _, db') \<Rightarrow> (p\<lparr>p_db := db'\<rparr>, [])
        | (Inr game, db') \<Rightarrow> (p\<lparr>p_db := db'\<rparr>, [BroadcastGameUpdateWithEvent game eventType]))"

section \<open>The handlers\<close>

type_synonym handler = "GameEvent \<Rightarrow> persistence \<Rightarrow> error option \<times> GameEvent \<times> persistence \<times> broadcast list"

definition run_handler :: "(persistence \<Rightarrow> int option hop) \<Rightarrow> (int \<Rightarrow> effect) \<Rightarrow> handler" where
  "run_handler work after event p = (case work p (event, p_db p) of
       (Inl e, event', db') \<Rightarrow> (Some e, event', p\<lparr>p_db := db'\<rparr>, [])
     | (Inr None, event', db') \<Rightarrow> (None, event', p\<lparr>p_db := db'\<rparr>, [])
     | (Inr (Some gameID), event', db') \<Rightarrow>
         (case after gameID (p\<lparr>p_db := db'\<rparr>) of (p', bs) \<Rightarrow> (None, event', p', bs)))"

definition HandleGameInitialized :: "parse_addr \<Rightarrow> marshal \<Rightarrow> handler" where
  "HandleGameInitialized pa marshal =
     run_handler (\<lambda>p. HandleGameInitialized_db marshal (p_userRepo p))
       (\<lambda>k. thenP (broadcastGameUpdate k ''game_initialized'') (releaseExpiredClaimIfResolved pa k))"

definition HandleGameStarted :: "parse_addr \<Rightarrow> marshal \<Rightarrow> handler" where
  "HandleGameStarted pa marshal =
     run_handler (\<lambda>p. HandleGameStarted_db marshal (p_userRepo p))
       (\<lambda>k. thenP (releaseJoinReservation pa k)
           (thenP (releaseCancelReservationIfUnavailable pa k)
           (thenP (broadcastGameUpdate k ''game_started'') (releaseExpiredClaimIfResolved pa k))))"

text \<open>The effects of the three terminal handlers.\<close>

definition terminal_effects :: "parse_addr \<Rightarrow> string \<Rightarrow> int \<Rightarrow> effect" where
  "terminal_effects pa eventType k =
     thenP (broadcastGameUpdate k eventType)
       (thenP (releaseCancelReservationIfUnavailable pa k) (releaseRevealReservationIfAny pa k))"

definition HandleGameFinished :: "parse_addr \<Rightarrow> marshal \<Rightarrow> handler" where
  "HandleGameFinished pa marshal =
     run_handler (\<lambda>p. HandleGameFinished_db marshal (p_userRepo p) (p_txManager p))
       (\<lambda>k. thenP (terminal_effects pa ''game_finished'' k) (releaseExpiredClaimIfResolved pa k))"

definition HandleDraw :: "parse_addr \<Rightarrow> marshal \<Rightarrow> handler" where
  "HandleDraw pa marshal =
     run_handler (\<lambda>p. HandleDraw_db marshal (p_userRepo p))
       (\<lambda>k. thenP (terminal_effects pa ''draw'' k) (releaseExpiredClaimIfResolved pa k))"

definition HandleGameCancelled :: "parse_addr \<Rightarrow> marshal \<Rightarrow> handler" where
  "HandleGameCancelled pa marshal =
     run_handler (\<lambda>p. HandleGameCancelled_db marshal) (terminal_effects pa ''game_cancelled'')"

definition HandleSecretOpened :: "parse_addr \<Rightarrow> marshal \<Rightarrow> handler" where
  "HandleSecretOpened pa marshal =
     run_handler (\<lambda>p. HandleSecretOpened_db marshal)
       (\<lambda>k. thenP (broadcastGameUpdate k ''secret_opened'')
           (thenP (releaseCancelReservationIfUnavailable pa k) (releaseExpiredClaimIfResolved pa k)))"

definition HandleInsufficientBalance :: "parse_addr \<Rightarrow> marshal \<Rightarrow> handler" where
  "HandleInsufficientBalance pa marshal =
     run_handler (\<lambda>p. HandleInsufficientBalance_db marshal) (\<lambda>_. skipP)"

end
