(* ===== verification/Base64.thy ===== *)
theory Base64
  imports Prelude "HOL-Library.Word"
begin

text \<open>
  Go's \<open>encoding/base64\<close>, as far as the message parsers and the message builder use it:
  \<open>StdEncoding.EncodeToString\<close>, and \<open>DecodeString\<close> of the padded \<open>StdEncoding\<close> and the
  unpadded \<open>RawStdEncoding\<close>. Decoding ignores line breaks, and the spare bits of the last
  group. Encoding and then decoding gives the bytes back.
\<close>

type_synonym byte = "8 word"
type_synonym bytes = "8 word list"

definition b64_char :: "nat \<Rightarrow> char" where
  "b64_char n = (if n < 26 then char_of (65 + n) else if n < 52 then char_of (71 + n)
     else if n < 62 then char_of (n - 4) else if n = 62 then CHR ''+'' else CHR ''/'')"

definition b64_digit :: "char \<Rightarrow> nat option" where
  "b64_digit c = (let n = of_char c in
     if 65 \<le> n \<and> n \<le> 90 then Some (n - 65) else if 97 \<le> n \<and> n \<le> 122 then Some (n - 71)
     else if 48 \<le> n \<and> n \<le> 57 then Some (n + 4)
     else if c = CHR ''+'' then Some 62 else if c = CHR ''/'' then Some 63 else None)"

fun EncodeToString :: "bytes \<Rightarrow> string" where
  "EncodeToString [] = []"
| "EncodeToString [p] = [b64_char (unat p div 4), b64_char (unat p mod 4 * 16), CHR ''='', CHR ''='']"
| "EncodeToString [p, q] = [b64_char (unat p div 4), b64_char (unat p mod 4 * 16 + unat q div 16),
     b64_char (unat q mod 16 * 4), CHR ''='']"
| "EncodeToString (p # q # r # rest) = b64_char (unat p div 4) # b64_char (unat p mod 4 * 16 + unat q div 16)
     # b64_char (unat q mod 16 * 4 + unat r div 64) # b64_char (unat r mod 64) # EncodeToString rest"

definition decode1 :: "char \<Rightarrow> char \<Rightarrow> bytes option" where
  "decode1 a b = (case (b64_digit a, b64_digit b) of
     (Some x, Some y) \<Rightarrow> Some [of_nat (x * 4 + y div 16)] | _ \<Rightarrow> None)"

definition decode2 :: "char \<Rightarrow> char \<Rightarrow> char \<Rightarrow> bytes option" where
  "decode2 a b c = (case (b64_digit a, b64_digit b, b64_digit c) of
     (Some x, Some y, Some z) \<Rightarrow> Some [of_nat (x * 4 + y div 16), of_nat (y mod 16 * 16 + z div 4)] | _ \<Rightarrow> None)"

definition decode3 :: "char \<Rightarrow> char \<Rightarrow> char \<Rightarrow> char \<Rightarrow> bytes option" where
  "decode3 a b c d = (case (b64_digit a, b64_digit b, b64_digit c, b64_digit d) of
     (Some x, Some y, Some z, Some w) \<Rightarrow> Some [of_nat (x * 4 + y div 16), of_nat (y mod 16 * 16 + z div 4),
       of_nat (z mod 4 * 64 + w)] | _ \<Rightarrow> None)"

fun decode_groups :: "bool \<Rightarrow> string \<Rightarrow> bytes option" where
  "decode_groups padded [] = Some []"
| "decode_groups padded [a] = None"
| "decode_groups padded [a, b] = (if padded then None else decode1 a b)"
| "decode_groups padded [a, b, c] = (if padded then None else decode2 a b c)"
| "decode_groups padded (a # b # c # d # rest) =
     (if padded \<and> d = CHR ''=''
      then if rest \<noteq> [] then None else if c = CHR ''='' then decode1 a b else decode2 a b c
      else case decode3 a b c d of None \<Rightarrow> None
        | Some grp \<Rightarrow> map_option (\<lambda>bs. grp @ bs) (decode_groups padded rest))"

definition strip_breaks :: "string \<Rightarrow> string" where
  "strip_breaks s = filter (\<lambda>c. of_char c \<notin> {10, 13 :: nat}) s"

definition Std_DecodeString :: "string \<Rightarrow> bytes option" where
  "Std_DecodeString s = decode_groups True (strip_breaks s)"

definition RawStd_DecodeString :: "string \<Rightarrow> bytes option" where
  "RawStd_DecodeString s = decode_groups False (strip_breaks s)"

section \<open>Decoding inverts encoding\<close>

lemma b64_char_code: "n < 64 \<Longrightarrow> of_char (b64_char n) = (if n < 26 then 65 + n else if n < 52 then 71 + n
    else if n < 62 then n - 4 else if n = 62 then 43 else 47)"
  by (simp add: b64_char_def of_char_of)

lemma b64_char_props:
  assumes "n < 64"
  shows "b64_digit (b64_char n) = Some n" "b64_char n \<noteq> CHR ''=''" "of_char (b64_char n) \<notin> {10, 13 :: nat}"
proof -
  note code = b64_char_code [OF assms]
  show "b64_digit (b64_char n) = Some n"
    using assms unfolding b64_digit_def Let_def code by (auto simp: b64_char_def)
  have "of_char (b64_char n) \<noteq> (of_char (CHR ''='') :: nat)" using assms unfolding code by auto
  then show "b64_char n \<noteq> CHR ''=''" by metis
  show "of_char (b64_char n) \<notin> {10, 13 :: nat}" using assms unfolding code by auto
qed

lemma byte_lt: "unat (b :: byte) < 256"
  using unsigned_less [of b] by simp

lemma byte_unat: "of_nat (unat (b :: byte)) = b"
  by simp

lemma group_bounds:
  "unat (p :: byte) div 4 < 64" "unat p mod 4 * 16 < 64" "unat p mod 4 * 16 + unat (q :: byte) div 16 < 64"
  "unat q mod 16 * 4 < 64" "unat q mod 16 * 4 + unat (r :: byte) div 64 < 64" "unat r mod 64 < 64"
  using byte_lt [of p] byte_lt [of q] byte_lt [of r] by simp_all

lemmas group_chars = group_bounds [THEN b64_char_props(1)]
lemmas group_plain = group_bounds [THEN b64_char_props(2)]

lemma regroup:
  "x div 4 * 4 + x mod 4 * 16 div 16 = (x :: nat)"
  "y < 256 \<Longrightarrow> x div 4 * 4 + (x mod 4 * 16 + y div 16) div 16 = x"
  "y < 256 \<Longrightarrow> (x mod 4 * 16 + y div 16) mod 16 * 16 + y mod 16 * 4 div 4 = y"
  "y < 256 \<Longrightarrow> z < 256 \<Longrightarrow> (x mod 4 * 16 + y div 16) mod 16 * 16 + (y mod 16 * 4 + z div 64) div 4 = y"
  "z < 256 \<Longrightarrow> (y mod 16 * 4 + z div 64) mod 4 * 64 + z mod 64 = z"
  by simp_all

lemma decode1_encode: "decode1 (b64_char (unat p div 4)) (b64_char (unat p mod 4 * 16)) = Some [p]"
  by (simp only: decode1_def group_chars option.case prod.case regroup byte_unat)

lemma decode2_encode: "decode2 (b64_char (unat p div 4)) (b64_char (unat p mod 4 * 16 + unat q div 16))
    (b64_char (unat q mod 16 * 4)) = Some [p, q]"
  by (simp only: decode2_def group_chars option.case prod.case regroup byte_lt byte_unat)

lemma decode3_encode: "decode3 (b64_char (unat p div 4)) (b64_char (unat p mod 4 * 16 + unat q div 16))
    (b64_char (unat q mod 16 * 4 + unat r div 64)) (b64_char (unat r mod 64)) = Some [p, q, r]"
  by (simp only: decode3_def group_chars option.case prod.case regroup byte_lt byte_unat)

lemma decode_encode: "decode_groups True (EncodeToString bs) = Some bs"
  by (induction bs rule: EncodeToString.induct)
    (simp_all add: decode1_encode decode2_encode decode3_encode group_plain)

lemma encode_no_breaks: "strip_breaks (EncodeToString bs) = EncodeToString bs"
  unfolding strip_breaks_def
  by (induction bs rule: EncodeToString.induct)
    (simp_all add: group_bounds [THEN b64_char_props(3), simplified])

lemma Std_DecodeString_Encode [simp]: "Std_DecodeString (EncodeToString bs) = Some bs"
  by (simp add: Std_DecodeString_def encode_no_breaks decode_encode)

lemma EncodeToString_Nil_iff [simp]: "EncodeToString bs = [] \<longleftrightarrow> bs = []"
  by (cases bs rule: EncodeToString.cases) auto

end
