(* ===== verification/Message_Parser.thy ===== *)
theory Message_Parser
  imports Game_Persistence Base64
begin

text \<open>
  \<open>internal/infrastructure/toncenter/message_parser.go\<close>: opcodes, the parsed message, the
  legacy JSON form and the legacy byte decoder. Unsigned fields keep their width. The format of
  an address (\<open>address.NewAddress(0, workchain, hash).String()\<close> of \<open>tonutils-go\<close>, which is
  not under \<open>src/\<close>) is the parameter \<open>fmt\<close>. A \<open>*big.Int\<close> that may be nil is an optional
  integer.
\<close>

unbundle bit_operations_syntax

type_synonym addr_format = "byte \<Rightarrow> bytes \<Rightarrow> string"

abbreviation (input) OpcodeGameInitializedNotify :: "32 word" where "OpcodeGameInitializedNotify \<equiv> 3945341079"
abbreviation (input) OpcodeGameStartedNotify :: "32 word" where "OpcodeGameStartedNotify \<equiv> 102653531"
abbreviation (input) OpcodeGameFinishedNotify :: "32 word" where "OpcodeGameFinishedNotify \<equiv> 535291459"
abbreviation (input) OpcodeGameCancelledNotify :: "32 word" where "OpcodeGameCancelledNotify \<equiv> 388530130"
abbreviation (input) OpcodeSecretOpenedNotify :: "32 word" where "OpcodeSecretOpenedNotify \<equiv> 1202198728"
abbreviation (input) OpcodeDrawNotify :: "32 word" where "OpcodeDrawNotify \<equiv> 317981831"
abbreviation (input) OpcodeInsufficientBalanceNotify :: "32 word" where "OpcodeInsufficientBalanceNotify \<equiv> 4148213171"
abbreviation (input) OpcodeGameInitializedEvent :: "32 word" where "OpcodeGameInitializedEvent \<equiv> 2904670482"
abbreviation (input) OpcodeGameStartedEvent :: "32 word" where "OpcodeGameStartedEvent \<equiv> 3493528925"
abbreviation (input) OpcodeGameFinishedEvent :: "32 word" where "OpcodeGameFinishedEvent \<equiv> 2774366883"
abbreviation (input) OpcodeGameCancelledEvent :: "32 word" where "OpcodeGameCancelledEvent \<equiv> 616834666"
abbreviation (input) OpcodeDrawEvent :: "32 word" where "OpcodeDrawEvent \<equiv> 2466780489"

record ParsedMessage =
  pm_Opcode :: "32 word"
  pm_EventType :: string
  pm_GameID :: int
  pm_PlayerOne :: string
  pm_PlayerTwo :: string
  pm_BidValue :: "int option"
  pm_TotalGainings :: "int option"
  pm_Winner :: string
  pm_Looser :: string
  pm_Player :: string
  pm_CoinSide :: byte
  pm_Required :: "int option"
  pm_Actual :: "int option"
  pm_ServiceFeeNumerator :: "32 word"
  pm_ReferrerFeeNumerator :: "32 word"
  pm_WaitingForOpenBidSeconds :: "32 word"
  pm_LowestBid :: "int option"
  pm_HighestBid :: "int option"
  pm_MinReferrerPayoutValue :: "int option"
  pm_FeeReceiver :: string
  pm_ProtocolVersion :: "32 word"
  pm_RawData :: bytes

text \<open>The zero value of the struct.\<close>

definition empty_message :: ParsedMessage where
  "empty_message = \<lparr>pm_Opcode = 0, pm_EventType = '''', pm_GameID = 0, pm_PlayerOne = '''', pm_PlayerTwo = '''',
     pm_BidValue = None, pm_TotalGainings = None, pm_Winner = '''', pm_Looser = '''', pm_Player = '''',
     pm_CoinSide = 0, pm_Required = None, pm_Actual = None, pm_ServiceFeeNumerator = 0,
     pm_ReferrerFeeNumerator = 0, pm_WaitingForOpenBidSeconds = 0, pm_LowestBid = None, pm_HighestBid = None,
     pm_MinReferrerPayoutValue = None, pm_FeeReceiver = '''', pm_ProtocolVersion = 0, pm_RawData = []\<rparr>"

definition GetEventTypeForOpcode :: "32 word \<Rightarrow> string option" where
  "GetEventTypeForOpcode opcode =
     (if opcode = OpcodeGameInitializedNotify then Some EventGameInitialized
      else if opcode = OpcodeGameInitializedEvent then Some EventGameInitialized
      else if opcode = OpcodeGameStartedNotify then Some EventGameStarted
      else if opcode = OpcodeGameStartedEvent then Some EventGameStarted
      else if opcode = OpcodeGameFinishedNotify then Some EventGameFinished
      else if opcode = OpcodeGameFinishedEvent then Some EventGameFinished
      else if opcode = OpcodeGameCancelledNotify then Some EventGameCancelled
      else if opcode = OpcodeGameCancelledEvent then Some EventGameCancelled
      else if opcode = OpcodeSecretOpenedNotify then Some EventSecretOpened
      else if opcode = OpcodeDrawNotify then Some EventDraw
      else if opcode = OpcodeDrawEvent then Some EventDraw
      else if opcode = OpcodeInsufficientBalanceNotify then Some EventInsufficientBalance
      else None)"

section \<open>The legacy JSON form\<close>

text \<open>
  The decoded object, or \<open>None\<close> when the text is not a JSON object. Converting a
  \<open>float64\<close> to \<open>uint8\<close> keeps the low byte of the truncated value.
\<close>

definition parseLegacyBigInt :: "event_data \<Rightarrow> string \<Rightarrow> int option" where
  "parseLegacyBigInt data key = (case data key of
       None \<Rightarrow> None
     | Some value \<Rightarrow> (case value of
           VString v \<Rightarrow> parse_decimal v
         | VFloat64 v \<Rightarrow> Some (int64_of_float v)
         | VInt64 v \<Rightarrow> Some v
         | VInt v \<Rightarrow> Some v
         | _ \<Rightarrow> None))"

definition parseLegacyUint32 :: "event_data \<Rightarrow> string \<Rightarrow> 32 word option" where
  "parseLegacyUint32 data key = (case parseLegacyBigInt data key of
       None \<Rightarrow> None
     | Some value \<Rightarrow> if \<not> (0 \<le> value \<and> value < 2 ^ 64) then None
         else if value > 2 ^ 32 - 1 then None else Some (of_int value))"

definition legacy_string :: "event_data \<Rightarrow> string \<Rightarrow> string" where
  "legacy_string data key = (case data key of Some (VString value) \<Rightarrow> value | _ \<Rightarrow> '''')"

definition parseLegacyParsedMessage :: "event_data option \<Rightarrow> error + ParsedMessage" where
  "parseLegacyParsedMessage json = (case json of
       None \<Rightarrow> Inl (Wrapf ''failed to parse legacy JSON'' (ErrorString ''json''))
     | Some data \<Rightarrow> (case data ''event_type'' of
           Some (VString eventType) \<Rightarrow> (case data ''game_id'' of
               Some (VFloat64 gameIDFloat) \<Rightarrow>
                 Inr (empty_message
                   \<lparr>pm_EventType := eventType, pm_GameID := int64_of_float gameIDFloat,
                    pm_PlayerOne := legacy_string data ''player_one'', pm_PlayerTwo := legacy_string data ''player_two'',
                    pm_Winner := legacy_string data ''winner'', pm_Looser := legacy_string data ''looser'',
                    pm_Player := legacy_string data ''player'', pm_FeeReceiver := legacy_string data ''fee_receiver'',
                    pm_BidValue := (case data ''bet_amount'' of Some (VString v) \<Rightarrow> parse_decimal v | _ \<Rightarrow> None),
                    pm_LowestBid := parseLegacyBigInt data ''lowest_bid'',
                    pm_HighestBid := parseLegacyBigInt data ''highest_bid'',
                    pm_MinReferrerPayoutValue := parseLegacyBigInt data ''min_referrer_payout_value'',
                    pm_CoinSide := (case data ''coin_side'' of Some (VFloat64 v) \<Rightarrow> of_int (int64_of_float v) | _ \<Rightarrow> 0),
                    pm_ServiceFeeNumerator := (case parseLegacyUint32 data ''service_fee_numerator'' of Some v \<Rightarrow> v | None \<Rightarrow> 0),
                    pm_ReferrerFeeNumerator := (case parseLegacyUint32 data ''referrer_fee_numerator'' of Some v \<Rightarrow> v | None \<Rightarrow> 0),
                    pm_WaitingForOpenBidSeconds := (case parseLegacyUint32 data ''waiting_for_open_bid_seconds'' of Some v \<Rightarrow> v | None \<Rightarrow> 0),
                    pm_ProtocolVersion := (case parseLegacyUint32 data ''protocol_version'' of Some v \<Rightarrow> v | None \<Rightarrow> 0)\<rparr>)
             | _ \<Rightarrow> Inl (ErrorString ''missing or invalid game_id in legacy JSON''))
         | _ \<Rightarrow> Inl (ErrorString ''missing or invalid event_type in legacy JSON'')))"

section \<open>The byte decoder\<close>

definition bytes_value :: "bytes \<Rightarrow> nat" where
  "bytes_value bs = foldl (\<lambda>acc b. 256 * acc + unat b) 0 bs"

definition BigEndian_Uint32 :: "bytes \<Rightarrow> 32 word" where
  "BigEndian_Uint32 bs = of_nat (bytes_value (take 4 bs))"

text \<open>
  \<open>Int64\<close> of a larger \<open>big.Int\<close> is unspecified; it is the low 64 bits. Reading at the
  offset of the source is reading at the front of what is left.
\<close>

definition read_gameId :: "string \<Rightarrow> bytes \<Rightarrow> error + int \<times> bytes" where
  "read_gameId label data = (if length data < 32 then Inl (ErrorString (label @ '': not enough data for gameId''))
     else Inr (i64 (int (bytes_value (take 32 data))), drop 32 data))"

definition parseAddress :: "addr_format \<Rightarrow> bytes \<Rightarrow> error + string" where
  "parseAddress fmt data = (if length data < 33
     then Inl (ErrorString (''address data too short: '' @ FormatInt (int (length data)) @ '' bytes''))
     else Inr (fmt (data ! 0) (take 32 (drop 1 data))))"

definition read_address :: "addr_format \<Rightarrow> string \<Rightarrow> string \<Rightarrow> bytes \<Rightarrow> error + string \<times> bytes" where
  "read_address fmt label field data = (if length data < 33
     then Inl (ErrorString (label @ '': not enough data for '' @ field))
     else case parseAddress fmt (take 33 data) of
         Inl err \<Rightarrow> Inl (Wrapf (label @ '': failed to parse '' @ field) err)
       | Inr addr \<Rightarrow> Inr (addr, drop 33 data))"

definition parseCoins :: "bytes \<Rightarrow> int \<times> nat" where
  "parseCoins data = (case data of [] \<Rightarrow> (0, 0)
     | b # rest \<Rightarrow> let len = unat b in
         if len = 0 then (0, 1)
         else if length data < 1 + len then (0, 1)
         else (int (bytes_value (take len rest)), 1 + len))"

text \<open>Coins are read when there is data left; what is left afterwards comes second.\<close>

definition read_coins :: "bytes \<Rightarrow> int option \<times> bytes" where
  "read_coins data = (if data = [] then (None, data)
     else case parseCoins data of (value, bytesRead) \<Rightarrow> (Some value, drop bytesRead data))"

definition parseGameInitializedNotify :: "addr_format \<Rightarrow> ParsedMessage \<Rightarrow> bytes \<Rightarrow> error + ParsedMessage" where
  "parseGameInitializedNotify fmt msg data =
     bindR (read_gameId EventGameInitialized data) (\<lambda>(gameID, d1).
     bindR (read_address fmt EventGameInitialized ''playerOne'' d1) (\<lambda>(addr, d2).
     Inr (msg\<lparr>pm_EventType := EventGameInitialized, pm_GameID := gameID, pm_PlayerOne := addr,
       pm_BidValue := (if d2 = [] then pm_BidValue msg else fst (read_coins d2))\<rparr>)))"

definition parseGameStartedNotify :: "addr_format \<Rightarrow> ParsedMessage \<Rightarrow> bytes \<Rightarrow> error + ParsedMessage" where
  "parseGameStartedNotify fmt msg data =
     bindR (read_gameId EventGameStarted data) (\<lambda>(gameID, d1).
     bindR (read_address fmt EventGameStarted ''playerOne'' d1) (\<lambda>(addr1, d2).
     bindR (read_address fmt EventGameStarted ''playerTwo'' d2) (\<lambda>(addr2, d3).
     Inr (msg\<lparr>pm_EventType := EventGameStarted, pm_GameID := gameID, pm_PlayerOne := addr1, pm_PlayerTwo := addr2,
       pm_TotalGainings := (if d3 = [] then pm_TotalGainings msg else fst (read_coins d3))\<rparr>))))"

definition parseGameFinishedNotify :: "addr_format \<Rightarrow> ParsedMessage \<Rightarrow> bytes \<Rightarrow> error + ParsedMessage" where
  "parseGameFinishedNotify fmt msg data =
     bindR (read_gameId EventGameFinished data) (\<lambda>(gameID, d1).
     bindR (read_address fmt EventGameFinished ''winner'' d1) (\<lambda>(winner, d2).
     bindR (read_address fmt EventGameFinished ''looser'' d2) (\<lambda>(looser, d3).
     Inr (msg\<lparr>pm_EventType := EventGameFinished, pm_GameID := gameID, pm_Winner := winner, pm_Looser := looser,
       pm_TotalGainings := (if d3 = [] then pm_TotalGainings msg else fst (read_coins d3))\<rparr>))))"

definition parseGameCancelledNotify :: "addr_format \<Rightarrow> ParsedMessage \<Rightarrow> bytes \<Rightarrow> error + ParsedMessage" where
  "parseGameCancelledNotify fmt msg data =
     bindR (read_gameId EventGameCancelled data) (\<lambda>(gameID, d1).
     bindR (read_address fmt EventGameCancelled ''playerOne'' d1) (\<lambda>(addr, d2).
     Inr (msg\<lparr>pm_EventType := EventGameCancelled, pm_GameID := gameID, pm_PlayerOne := addr\<rparr>)))"

definition parseSecretOpenedNotify :: "addr_format \<Rightarrow> ParsedMessage \<Rightarrow> bytes \<Rightarrow> error + ParsedMessage" where
  "parseSecretOpenedNotify fmt msg data =
     bindR (read_gameId EventSecretOpened data) (\<lambda>(gameID, d1).
     bindR (read_address fmt EventSecretOpened ''player'' d1) (\<lambda>(addr, d2).
     Inr (msg\<lparr>pm_EventType := EventSecretOpened, pm_GameID := gameID, pm_Player := addr,
       pm_CoinSide := (if d2 = [] then pm_CoinSide msg else d2 ! 0)\<rparr>)))"

definition parseDrawNotify :: "ParsedMessage \<Rightarrow> bytes \<Rightarrow> error + ParsedMessage" where
  "parseDrawNotify msg data =
     bindR (read_gameId EventDraw data) (\<lambda>(gameID, d1).
     Inr (msg\<lparr>pm_EventType := EventDraw, pm_GameID := gameID\<rparr>))"

definition parseInsufficientBalanceNotify :: "ParsedMessage \<Rightarrow> bytes \<Rightarrow> error + ParsedMessage" where
  "parseInsufficientBalanceNotify msg data =
     bindR (read_gameId EventInsufficientBalance data) (\<lambda>(gameID, d1).
     let (required, d2) = (if d1 = [] then (pm_Required msg, d1) else read_coins d1);
         actual = (if d2 = [] then pm_Actual msg else fst (read_coins d2))
     in Inr (msg\<lparr>pm_EventType := EventInsufficientBalance, pm_GameID := gameID,
          pm_Required := required, pm_Actual := actual\<rparr>))"

definition hex_char :: "nat \<Rightarrow> char" where
  "hex_char d = (if d < 10 then digit_char d else char_of (55 + d))"

definition hex8 :: "32 word \<Rightarrow> string" where
  "hex8 w = map (\<lambda>i. hex_char (unat w div 16 ^ i mod 16)) [7, 6, 5, 4, 3, 2, 1, 0]"

definition unknown_opcode :: "32 word \<Rightarrow> error" where
  "unknown_opcode opcode = ErrorString (''unknown opcode: 0x'' @ hex8 opcode)"

definition parseMessageByOpcode :: "addr_format \<Rightarrow> 32 word \<Rightarrow> bytes \<Rightarrow> bytes \<Rightarrow> error + ParsedMessage" where
  "parseMessageByOpcode fmt opcode data rawData =
     (let msg = empty_message\<lparr>pm_Opcode := opcode, pm_RawData := rawData\<rparr> in
      if opcode = OpcodeGameInitializedNotify then parseGameInitializedNotify fmt msg data
      else if opcode = OpcodeGameStartedNotify then parseGameStartedNotify fmt msg data
      else if opcode = OpcodeGameFinishedNotify then parseGameFinishedNotify fmt msg data
      else if opcode = OpcodeGameCancelledNotify then parseGameCancelledNotify fmt msg data
      else if opcode = OpcodeSecretOpenedNotify then parseSecretOpenedNotify fmt msg data
      else if opcode = OpcodeDrawNotify then parseDrawNotify msg data
      else if opcode = OpcodeInsufficientBalanceNotify then parseInsufficientBalanceNotify msg data
      else Inl (unknown_opcode opcode))"

section \<open>The envelope\<close>

text \<open>
  The fields of \<open>in_msg\<close> the parsers read, and what \<open>json.Unmarshal\<close> makes of a text as an
  \<open>InMsgData\<close> and as a map. \<open>None\<close> is a decoding error.
\<close>

record InMsgData =
  in_Message :: string
  in_Body :: string

record decoders =
  unmarshal_in_msg :: "string \<Rightarrow> InMsgData option"
  unmarshal_map :: "string \<Rightarrow> event_data option"

definition message_bytes :: "InMsgData \<Rightarrow> error + bytes" where
  "message_bytes inMsg =
     (if in_Message inMsg \<noteq> '''' then
        (case Std_DecodeString (in_Message inMsg) of Some data \<Rightarrow> Inr data
         | None \<Rightarrow> (case RawStd_DecodeString (in_Message inMsg) of Some data \<Rightarrow> Inr data
            | None \<Rightarrow> Inl (Wrapf ''failed to decode message'' (ErrorString ''base64''))))
      else if in_Body inMsg \<noteq> '''' then
        (case Std_DecodeString (in_Body inMsg) of Some data \<Rightarrow> Inr data
         | None \<Rightarrow> Inl (Wrapf ''failed to decode msg_data.body'' (ErrorString ''base64'')))
      else Inl (ErrorString ''no message body found in in_msg''))"

definition message_too_short :: "bytes \<Rightarrow> error" where
  "message_too_short data = ErrorString (''message too short: '' @ FormatInt (int (length data)) @ '' bytes'')"

definition ParseInMsg_V1 :: "decoders \<Rightarrow> addr_format \<Rightarrow> string \<Rightarrow> error + ParsedMessage" where
  "ParseInMsg_V1 dec fmt inMsgJSON =
     (if inMsgJSON = '''' \<or> inMsgJSON = ''null'' then Inl (ErrorString ''empty in_msg'')
      else case unmarshal_in_msg dec inMsgJSON of
          None \<Rightarrow> parseLegacyParsedMessage (unmarshal_map dec inMsgJSON)
        | Some inMsg \<Rightarrow>
            if in_Message inMsg = '''' \<and> in_Body inMsg = ''''
            then parseLegacyParsedMessage (unmarshal_map dec inMsgJSON)
            else bindR (message_bytes inMsg) (\<lambda>messageData.
              if length messageData < 4 then Inl (message_too_short messageData)
              else parseMessageByOpcode fmt (BigEndian_Uint32 messageData) (drop 4 messageData) messageData))"

end
