(* ===== verification/Ton_Transactions.thy ===== *)
theory Ton_Transactions
  imports Prelude "HOL-Library.List_Lexorder" "HOL-Library.Char_ord" "HOL-Library.Product_Lexorder"
begin

text \<open>
  The transactions of the TON Center client (\<open>internal/infrastructure/toncenter/client.go\<close>)
  and the functions of \<open>poller.go\<close> that compare, deduplicate and order them by logical
  time. Raw JSON values are their texts. A logical time is compared as a \<open>big.Int\<close>;
  \<open>SetString\<close> leaves the receiver unspecified when the text is not a number, and the
  implementation has then stored the digits it has read so far, with their sign, which is what
  the model takes.
\<close>

record Transaction =
  tx_Type :: string
  tx_Lt :: string
  tx_Hash :: string
  tx_Utime :: int
  tx_Data :: string
  tx_InMsg :: string
  tx_OutMsgs :: string
  tx_PrevTransLt :: string
  tx_PrevTransHash :: string
  tx_Fee :: string
  tx_StorageFee :: string
  tx_OtherFee :: string

definition normalizeLt :: "string \<Rightarrow> string" where
  "normalizeLt lt = (if lt = '''' then ''0'' else lt)"

definition big_int :: "string \<Rightarrow> int" where
  "big_int s = (case s of [] \<Rightarrow> 0
     | c # ds \<Rightarrow> if c = CHR ''-'' then - int (dec_value (takeWhile is_digit ds))
         else if c = CHR ''+'' then int (dec_value (takeWhile is_digit ds))
         else int (dec_value (takeWhile is_digit s)))"

definition lt_value :: "string \<Rightarrow> int" where
  "lt_value lt = big_int (normalizeLt lt)"

definition compareLtValues :: "string \<Rightarrow> string \<Rightarrow> int" where
  "compareLtValues lt1 lt2 = sgn (lt_value lt1 - lt_value lt2)"

definition compareLt :: "string \<Rightarrow> string \<Rightarrow> bool" where
  "compareLt lt1 lt2 \<longleftrightarrow> compareLtValues lt1 lt2 > 0"

definition transactionDedupKey :: "Transaction \<Rightarrow> string" where
  "transactionDedupKey tx = normalizeLt (tx_Lt tx) @ [CHR 0x00] @ tx_Hash tx"

text \<open>
  \<open>sort.Slice\<close> with the order of the source: logical time in the given direction, then
  the hash. The order of transactions that are equal in both is not fixed by Go.
\<close>

definition sortTransactionsByLt :: "Transaction list \<Rightarrow> bool \<Rightarrow> Transaction list" where
  "sortTransactionsByLt txs ascending = sort_key (\<lambda>tx.
     (if ascending then lt_value (tx_Lt tx) else - lt_value (tx_Lt tx), tx_Hash tx)) txs"

text \<open>The first transaction with each key, and how many were dropped.\<close>

fun unique_txs :: "string set \<Rightarrow> Transaction list \<Rightarrow> Transaction list \<times> int" where
  "unique_txs seen [] = ([], 0)"
| "unique_txs seen (tx # txs) =
     (if transactionDedupKey tx \<in> seen
      then (case unique_txs seen txs of (us, n) \<Rightarrow> (us, n + 1))
      else (case unique_txs (insert (transactionDedupKey tx) seen) txs of (us, n) \<Rightarrow> (tx # us, n)))"

definition normalizeTransactionsByLt :: "Transaction list \<Rightarrow> bool \<Rightarrow> Transaction list \<times> int" where
  "normalizeTransactionsByLt txs ascending = (if txs = [] then ([], 0)
     else case unique_txs {} txs of (us, duplicateCount) \<Rightarrow> (sortTransactionsByLt us ascending, duplicateCount))"

section \<open>Lemmas\<close>

lemma compareLt_iff: "compareLt a b \<longleftrightarrow> lt_value b < lt_value a"
  by (auto simp: compareLt_def compareLtValues_def sgn_if)

lemma takeWhile_nat_dec [simp]: "takeWhile is_digit (nat_dec n) = nat_dec n"
  using nat_dec_digits [of n] unfolding takeWhile_eq_all_conv list_all_iff .

lemma lt_value_FormatInt: "lt_value (FormatInt n) = n"
proof (cases "n < 0")
  case True
  then show ?thesis by (simp add: lt_value_def normalizeLt_def FormatInt_def big_int_def dec_value_nat_dec)
next
  case False
  obtain c cs where d: "nat_dec (nat n) = c # cs" by (cases "nat_dec (nat n)") auto
  then have "is_digit c" using nat_dec_digits [of "nat n"] by simp
  then have "c \<noteq> CHR ''-''" "c \<noteq> CHR ''+''" by (auto simp: is_digit_def)
  moreover have "takeWhile is_digit (c # cs) = c # cs" "dec_value (c # cs) = nat n"
    using takeWhile_nat_dec [of "nat n"] dec_value_nat_dec [of "nat n"] unfolding d by simp_all
  ultimately show ?thesis using False by (simp add: lt_value_def normalizeLt_def FormatInt_def big_int_def d)
qed

lemma unique_txs_spec:
  assumes "unique_txs seen txs = (us, n)"
  shows "set us \<subseteq> set txs" "distinct (map transactionDedupKey us)"
    "transactionDedupKey ` set us = transactionDedupKey ` set txs - seen"
    "n = int (length txs) - int (length us)"
  using assms
proof (induction seen txs arbitrary: us n rule: unique_txs.induct)
  case (1 seen)
  case 1 then show ?case by simp
  case 2 then show ?case by simp
  case 3 then show ?case by simp
  case 4 then show ?case by simp
next
  case (2 seen tx txs)
  {
    case 1 with 2 show ?case by (auto split: if_splits prod.splits)
  next
    case 2 with "2.IH" show ?case by (fastforce split: if_splits prod.splits)
  next
    case 3 with "2.IH" show ?case by (force split: if_splits prod.splits)
  next
    case 4 with "2.IH" show ?case by (force split: if_splits prod.splits)
  }
qed

end
