(* ===== verification/Dead_Letter.thy ===== *)
theory Dead_Letter
  imports Entities Ton_Transactions
begin

text \<open>
  The dead-letter queue of failed transactions: \<open>internal/entity/dead_letter.go\<close>,
  the table \<open>dead_letter_queue\<close> with
  \<open>internal/repository/postgres/dead_letter_queue_repository.go\<close>, and
  \<open>internal/usecase/dead_letter_queue.go\<close>. The table is a list of rows in insertion
  order with the constraints of migration 11: the column lengths, the check on the status and
  the partial unique index on (transaction_hash, transaction_lt) of the live rows. As in the
  model of the other tables, the statements that the server refuses are given by a function
  from statement numbers to messages. An operation that reads \<open>time.Now()\<close> takes the
  instant as an argument; \<open>dq_now\<close> is the server's \<open>NOW()\<close>. Retry counts are
  never negative, so the shift of \<open>ScheduleNextRetry\<close> does not panic.
\<close>

section \<open>Entries\<close>

abbreviation DLQErrorTypeParse :: string where "DLQErrorTypeParse \<equiv> ''parse_error''"
abbreviation DLQErrorTypePersistence :: string where "DLQErrorTypePersistence \<equiv> ''persistence_error''"
abbreviation DLQErrorTypeValidation :: string where "DLQErrorTypeValidation \<equiv> ''validation_error''"
abbreviation DLQErrorTypeUnknown :: string where "DLQErrorTypeUnknown \<equiv> ''unknown''"

abbreviation DLQStatusPending :: string where "DLQStatusPending \<equiv> ''pending''"
abbreviation DLQStatusRetrying :: string where "DLQStatusRetrying \<equiv> ''retrying''"
abbreviation DLQStatusResolved :: string where "DLQStatusResolved \<equiv> ''resolved''"
abbreviation DLQStatusFailed :: string where "DLQStatusFailed \<equiv> ''failed''"

record DeadLetterEntry =
  dl_ID :: int
  dl_TransactionHash :: string
  dl_TransactionLt :: string
  dl_RawData :: string
  dl_ErrorMessage :: string
  dl_ErrorType :: string
  dl_RetryCount :: int
  dl_MaxRetries :: int
  dl_CreatedAt :: instant
  dl_LastRetryAt :: "instant option"
  dl_NextRetryAt :: "instant option"
  dl_ResolvedAt :: "instant option"
  dl_Status :: string
  dl_ResolutionNotes :: string

text \<open>\<open>Validate\<close> fills in defaults as it checks.\<close>

definition DeadLetter_Validate :: "DeadLetterEntry \<Rightarrow> error + DeadLetterEntry" where
  "DeadLetter_Validate e =
     (if dl_TransactionHash e = '''' then Inl (ErrorString ''transaction_hash is required'')
      else if dl_TransactionLt e = '''' then Inl (ErrorString ''transaction_lt is required'')
      else if dl_ErrorMessage e = '''' then Inl (ErrorString ''error_message is required'')
      else let e1 = (if dl_ErrorType e = '''' then e\<lparr>dl_ErrorType := DLQErrorTypeUnknown\<rparr> else e);
               e2 = (if dl_Status e1 = '''' then e1\<lparr>dl_Status := DLQStatusPending\<rparr> else e1);
               e3 = (if dl_MaxRetries e2 \<le> 0 then e2\<lparr>dl_MaxRetries := 3\<rparr> else e2)
           in Inr e3)"

definition CanRetry :: "DeadLetterEntry \<Rightarrow> bool" where
  "CanRetry e \<longleftrightarrow> dl_Status e \<noteq> DLQStatusResolved \<and> dl_Status e \<noteq> DLQStatusFailed
     \<and> dl_RetryCount e < dl_MaxRetries e"

definition MarkRetrying :: "instant \<Rightarrow> DeadLetterEntry \<Rightarrow> DeadLetterEntry" where
  "MarkRetrying now e = e\<lparr>dl_Status := DLQStatusRetrying, dl_LastRetryAt := Some now,
     dl_RetryCount := i64 (dl_RetryCount e + 1)\<rparr>"

definition Entry_MarkResolved :: "instant \<Rightarrow> string \<Rightarrow> DeadLetterEntry \<Rightarrow> DeadLetterEntry" where
  "Entry_MarkResolved now notes e = e\<lparr>dl_Status := DLQStatusResolved, dl_ResolvedAt := Some now,
     dl_ResolutionNotes := notes\<rparr>"

definition Entry_MarkFailed :: "string \<Rightarrow> DeadLetterEntry \<Rightarrow> DeadLetterEntry" where
  "Entry_MarkFailed notes e = e\<lparr>dl_Status := DLQStatusFailed, dl_ResolutionNotes := notes\<rparr>"

abbreviation Hour :: duration where "Hour \<equiv> 3600000000000"
abbreviation Minute :: duration where "Minute \<equiv> 60000000000"

text \<open>The multiplier and the product are \<open>int64\<close> values and wrap around.\<close>

definition retry_backoff :: "duration \<Rightarrow> int \<Rightarrow> duration" where
  "retry_backoff baseBackoff retryCount =
     (let multiplier = go_shl1 (nat retryCount);
          backoff = i64 (baseBackoff * multiplier)
      in if backoff > Hour then Hour else backoff)"

definition ScheduleNextRetry :: "instant \<Rightarrow> duration \<Rightarrow> DeadLetterEntry \<Rightarrow> DeadLetterEntry" where
  "ScheduleNextRetry now baseBackoff e =
     e\<lparr>dl_NextRetryAt := Some (now + retry_backoff baseBackoff (dl_RetryCount e))\<rparr>"

section \<open>The table\<close>

record dlq =
  dq_rows :: "DeadLetterEntry list"
  dq_next :: int
  dq_now :: instant
  dq_tick :: nat
  dq_fault :: "nat \<Rightarrow> string option"

type_synonym 'a dlq_op = "dlq \<Rightarrow> (error + 'a) \<times> dlq"

definition dlq_statement :: "(dlq \<Rightarrow> error + 'a \<times> dlq) \<Rightarrow> 'a dlq_op" where
  "dlq_statement f q =
     (let q' = q\<lparr>dq_tick := Suc (dq_tick q)\<rparr> in
      case dq_fault q (dq_tick q) of
        Some msg \<Rightarrow> (Inl (Wrapf ''execute query'' (ErrorString msg)), q')
      | None \<Rightarrow> (case f q' of Inl e \<Rightarrow> (Inl e, q') | Inr (x, q'') \<Rightarrow> (Inr x, q'')))"

abbreviation dlq_sql_error :: "string \<Rightarrow> error" where
  "dlq_sql_error code \<equiv> Wrapf ''execute query'' (ErrorString (''SQLSTATE '' @ code))"

definition is_live :: "DeadLetterEntry \<Rightarrow> bool" where
  "is_live e \<longleftrightarrow> dl_Status e \<in> {DLQStatusPending, DLQStatusRetrying}"

definition same_tx :: "string \<Rightarrow> string \<Rightarrow> DeadLetterEntry \<Rightarrow> bool" where
  "same_tx hash lt e \<longleftrightarrow> dl_TransactionHash e = hash \<and> dl_TransactionLt e = lt"

definition dlq_columns :: "DeadLetterEntry \<Rightarrow> error option" where
  "dlq_columns e =
     (if length (dl_TransactionHash e) > 66 \<or> length (dl_TransactionLt e) > 50
         \<or> length (dl_ErrorType e) > 50 \<or> length (dl_Status e) > 20
      then Some (dlq_sql_error ''22001'')
      else if \<not> (- (2 ^ 31) \<le> dl_RetryCount e \<and> dl_RetryCount e < 2 ^ 31
                \<and> - (2 ^ 31) \<le> dl_MaxRetries e \<and> dl_MaxRetries e < 2 ^ 31)
      then Some (dlq_sql_error ''22003'')
      else if dl_Status e \<notin> {DLQStatusPending, DLQStatusRetrying, DLQStatusResolved, DLQStatusFailed}
      then Some (dlq_sql_error ''23514'')
      else None)"

section \<open>The repository\<close>

text \<open>
  \<open>INSERT \<dots> ON CONFLICT (transaction_hash, transaction_lt) WHERE status IN ('pending',
  'retrying') DO NOTHING RETURNING \<dots>\<close>: a conflict returns no row and leaves the entry as it
  is, with the defaults \<open>Validate\<close> filled in.
\<close>

definition insert_entry :: "DeadLetterEntry \<Rightarrow> dlq \<Rightarrow> error + DeadLetterEntry \<times> dlq" where
  "insert_entry e q = (case dlq_columns e of
       Some er \<Rightarrow> Inl er
     | None \<Rightarrow>
         let q' = q\<lparr>dq_next := dq_next q + 1\<rparr>;
             row = e\<lparr>dl_ID := dq_next q, dl_CreatedAt := dq_now q\<rparr>
         in if is_live e \<and> list_ex (\<lambda>r. is_live r \<and> same_tx (dl_TransactionHash e) (dl_TransactionLt e) r) (dq_rows q)
            then Inr (e, q')
            else Inr (row, q'\<lparr>dq_rows := dq_rows q @ [row\<lparr>dl_LastRetryAt := None, dl_ResolvedAt := None\<rparr>]\<rparr>))"

definition DLQ_Create :: "DeadLetterEntry \<Rightarrow> DeadLetterEntry dlq_op" where
  "DLQ_Create entry q = (case DeadLetter_Validate entry of
       Inl e \<Rightarrow> (Inl (Wrapf ''validation failed'' e), q)
     | Inr entry' \<Rightarrow> dlq_statement (insert_entry entry') q)"

definition DLQ_GetByID :: "int \<Rightarrow> DeadLetterEntry option dlq_op" where
  "DLQ_GetByID i = dlq_statement (\<lambda>q. Inr (find (\<lambda>e. dl_ID e = i) (dq_rows q), q))"

definition GetByTransactionHash :: "string \<Rightarrow> string \<Rightarrow> DeadLetterEntry option dlq_op" where
  "GetByTransactionHash hash lt = dlq_statement (\<lambda>q. Inr (find (\<lambda>e. same_tx hash lt e \<and> is_live e) (dq_rows q), q))"

text \<open>\<open>LIMIT\<close> and \<open>OFFSET\<close> are converted to \<open>uint64\<close>; the server refuses more than a \<open>bigint\<close>.\<close>

definition page :: "int \<Rightarrow> int \<Rightarrow> 'a list \<Rightarrow> error + 'a list" where
  "page limit offset xs = (if limit < 0 \<or> offset < 0 then Inl (dlq_sql_error ''22003'')
     else Inr (take (nat limit) (drop (nat offset) xs)))"

definition ready_for_retry :: "dlq \<Rightarrow> DeadLetterEntry \<Rightarrow> bool" where
  "ready_for_retry q e \<longleftrightarrow> is_live e \<and> dl_RetryCount e < dl_MaxRetries e
     \<and> (case dl_NextRetryAt e of None \<Rightarrow> True | Some t \<Rightarrow> t \<le> dq_now q)"

definition Repo_GetPendingForRetry :: "int \<Rightarrow> DeadLetterEntry list dlq_op" where
  "Repo_GetPendingForRetry limit = dlq_statement (\<lambda>q.
     map_sum id (\<lambda>xs. (xs, q)) (page limit 0 (sort_key dl_CreatedAt (filter (ready_for_retry q) (dq_rows q)))))"

definition Repo_GetByStatus :: "string \<Rightarrow> int \<Rightarrow> int \<Rightarrow> DeadLetterEntry list dlq_op" where
  "Repo_GetByStatus status limit offset = dlq_statement (\<lambda>q.
     map_sum id (\<lambda>xs. (xs, q)) (page limit offset
       (stable_newest_first dl_CreatedAt (filter (\<lambda>e. dl_Status e = status) (dq_rows q)))))"

text \<open>
  An update of the row with the given id: refused when the new row breaks a constraint or the
  unique index; an id with no row is an error of the repository.
\<close>

definition index_clash :: "DeadLetterEntry \<Rightarrow> DeadLetterEntry list \<Rightarrow> bool" where
  "index_clash e rows \<longleftrightarrow> is_live e \<and>
     list_ex (\<lambda>r. dl_ID r \<noteq> dl_ID e \<and> is_live r \<and> same_tx (dl_TransactionHash e) (dl_TransactionLt e) r) rows"

definition update_entry :: "int \<Rightarrow> (DeadLetterEntry \<Rightarrow> DeadLetterEntry) \<Rightarrow> unit dlq_op" where
  "update_entry i f = dlq_statement (\<lambda>q. case find (\<lambda>e. dl_ID e = i) (dq_rows q) of
       None \<Rightarrow> Inl (ErrorString (''entry not found: '' @ FormatInt i))
     | Some e \<Rightarrow> (case dlq_columns (f e) of
           Some er \<Rightarrow> Inl er
         | None \<Rightarrow> if index_clash (f e) (dq_rows q) then Inl (dlq_sql_error ''23505'')
             else Inr ((), q\<lparr>dq_rows := map (\<lambda>e. if dl_ID e = i then f e else e) (dq_rows q)\<rparr>)))"

definition DLQ_Update :: "DeadLetterEntry \<Rightarrow> unit dlq_op" where
  "DLQ_Update entry = update_entry (dl_ID entry) (\<lambda>e. e\<lparr>dl_ErrorMessage := dl_ErrorMessage entry,
     dl_ErrorType := dl_ErrorType entry, dl_RetryCount := dl_RetryCount entry,
     dl_LastRetryAt := dl_LastRetryAt entry, dl_NextRetryAt := dl_NextRetryAt entry,
     dl_ResolvedAt := dl_ResolvedAt entry, dl_Status := dl_Status entry,
     dl_ResolutionNotes := dl_ResolutionNotes entry\<rparr>)"

definition DLQ_UpdateStatus :: "instant \<Rightarrow> int \<Rightarrow> string \<Rightarrow> string \<Rightarrow> unit dlq_op" where
  "DLQ_UpdateStatus now i status notes = update_entry i (\<lambda>e.
     let e' = e\<lparr>dl_Status := status, dl_ResolutionNotes := notes\<rparr>
     in if status = DLQStatusResolved \<or> status = DLQStatusFailed then e'\<lparr>dl_ResolvedAt := Some now\<rparr> else e')"

definition IncrementRetryCount :: "instant \<Rightarrow> int \<Rightarrow> instant \<Rightarrow> unit dlq_op" where
  "IncrementRetryCount now i nextRetryAt = update_entry i (\<lambda>e. e\<lparr>dl_RetryCount := dl_RetryCount e + 1,
     dl_LastRetryAt := Some now, dl_NextRetryAt := Some nextRetryAt, dl_Status := DLQStatusRetrying\<rparr>)"

definition DLQ_Delete :: "int \<Rightarrow> unit dlq_op" where
  "DLQ_Delete i = dlq_statement (\<lambda>q. if \<not> list_ex (\<lambda>e. dl_ID e = i) (dq_rows q)
     then Inl (ErrorString (''entry not found: '' @ FormatInt i))
     else Inr ((), q\<lparr>dq_rows := filter (\<lambda>e. dl_ID e \<noteq> i) (dq_rows q)\<rparr>))"

definition CountByStatus :: "string \<Rightarrow> int dlq_op" where
  "CountByStatus status = dlq_statement (\<lambda>q. Inr (int (length (filter (\<lambda>e. dl_Status e = status) (dq_rows q))), q))"

record DLQStats =
  PendingCount :: int
  RetryingCount :: int
  ResolvedCount :: int
  FailedCount :: int
  TotalCount :: int
  ParseErrorCount :: int
  PersistenceErrorCount :: int
  ValidationErrorCount :: int
  UnknownErrorCount :: int
  ReadyForRetryCount :: int
  ExhaustedRetryCount :: int
  OldestPending :: "instant option"
  NextScheduledRetryAt :: "instant option"

definition count_rows :: "(DeadLetterEntry \<Rightarrow> bool) \<Rightarrow> dlq \<Rightarrow> int" where
  "count_rows P q = int (length (filter P (dq_rows q)))"

definition min_of :: "instant list \<Rightarrow> instant option" where
  "min_of ts = (case ts of [] \<Rightarrow> None | t # ts' \<Rightarrow> Some (fold min ts' t))"

definition stats_of :: "dlq \<Rightarrow> DLQStats" where
  "stats_of q = \<lparr>PendingCount = count_rows (\<lambda>e. dl_Status e = DLQStatusPending) q,
     RetryingCount = count_rows (\<lambda>e. dl_Status e = DLQStatusRetrying) q,
     ResolvedCount = count_rows (\<lambda>e. dl_Status e = DLQStatusResolved) q,
     FailedCount = count_rows (\<lambda>e. dl_Status e = DLQStatusFailed) q,
     TotalCount = int (length (dq_rows q)),
     ParseErrorCount = count_rows (\<lambda>e. dl_ErrorType e = DLQErrorTypeParse) q,
     PersistenceErrorCount = count_rows (\<lambda>e. dl_ErrorType e = DLQErrorTypePersistence) q,
     ValidationErrorCount = count_rows (\<lambda>e. dl_ErrorType e = DLQErrorTypeValidation) q,
     UnknownErrorCount = count_rows (\<lambda>e. dl_ErrorType e = DLQErrorTypeUnknown) q,
     ReadyForRetryCount = count_rows (ready_for_retry q) q,
     ExhaustedRetryCount = count_rows (\<lambda>e. is_live e \<and> dl_MaxRetries e \<le> dl_RetryCount e) q,
     OldestPending = min_of (map dl_CreatedAt (filter is_live (dq_rows q))),
     NextScheduledRetryAt = min_of (concat (map (\<lambda>e. case dl_NextRetryAt e of None \<Rightarrow> [] | Some t \<Rightarrow> [t])
       (filter (\<lambda>e. is_live e \<and> dl_RetryCount e < dl_MaxRetries e) (dq_rows q))))\<rparr>"

definition Repo_GetStats :: "DLQStats dlq_op" where
  "Repo_GetStats = dlq_statement (\<lambda>q. Inr (stats_of q, q))"

section \<open>The use case\<close>

text \<open>
  \<open>json.Marshal\<close> of the transaction is the parameter \<open>marshal_tx\<close>, and
  \<open>err.Error()\<close> the parameter \<open>error_text\<close>. The use case holds its base backoff.
\<close>

type_synonym marshal_tx = "Transaction \<Rightarrow> error + string"

abbreviation defaultDLQBaseBackoff :: duration where "defaultDLQBaseBackoff \<equiv> 300000000000"
abbreviation (input) defaultDLQMaxRetries :: int where "defaultDLQMaxRetries \<equiv> 3"

datatype DLQStoreOutcome = DLQStoreOutcomeQueued | DLQStoreOutcomeAlreadyPending

record StoreFailedTransactionResult =
  sr_Outcome :: DLQStoreOutcome
  sr_EntryID :: int
  sr_Status :: string
  sr_ErrorType :: string
  sr_RetryCount :: int
  sr_MaxRetries :: int
  sr_NextRetryAt :: "instant option"
  sr_ResolutionNotes :: string

definition pendingDLQResolutionNotes :: "string \<Rightarrow> string" where
  "pendingDLQResolutionNotes errorType =
     (if errorType = DLQErrorTypeParse then ''queued after parse failure''
      else if errorType = DLQErrorTypeValidation then ''queued after validation failure''
      else if errorType = DLQErrorTypePersistence then ''queued after persistence retries exhausted''
      else ''queued after unknown failure'')"

definition newStoreFailedTransactionResult ::
  "DLQStoreOutcome \<Rightarrow> DeadLetterEntry option \<Rightarrow> StoreFailedTransactionResult" where
  "newStoreFailedTransactionResult outcome entry = (case entry of
       None \<Rightarrow> \<lparr>sr_Outcome = outcome, sr_EntryID = 0, sr_Status = DLQStatusPending,
         sr_ErrorType = DLQErrorTypeUnknown, sr_RetryCount = 0, sr_MaxRetries = 0, sr_NextRetryAt = None,
         sr_ResolutionNotes = ''''\<rparr>
     | Some e \<Rightarrow> \<lparr>sr_Outcome = outcome, sr_EntryID = dl_ID e, sr_Status = dl_Status e,
         sr_ErrorType = dl_ErrorType e, sr_RetryCount = dl_RetryCount e, sr_MaxRetries = dl_MaxRetries e,
         sr_NextRetryAt = dl_NextRetryAt e, sr_ResolutionNotes = dl_ResolutionNotes e\<rparr>)"

definition failed_entry :: "marshal_tx \<Rightarrow> Transaction \<Rightarrow> string \<Rightarrow> string \<Rightarrow> DeadLetterEntry" where
  "failed_entry marshal_tx tx message errorType =
     \<lparr>dl_ID = 0, dl_TransactionHash = tx_Hash tx, dl_TransactionLt = tx_Lt tx,
      dl_RawData = (case marshal_tx tx of Inl _ \<Rightarrow> ''{\"error\": \"serialization failed\"}'' | Inr s \<Rightarrow> s),
      dl_ErrorMessage = message, dl_ErrorType = errorType, dl_RetryCount = 0,
      dl_MaxRetries = defaultDLQMaxRetries, dl_CreatedAt = 0, dl_LastRetryAt = None,
      dl_NextRetryAt = None, dl_ResolvedAt = None, dl_Status = DLQStatusPending,
      dl_ResolutionNotes = pendingDLQResolutionNotes errorType\<rparr>"

definition StoreFailedTransaction ::
  "marshal_tx \<Rightarrow> duration \<Rightarrow> instant \<Rightarrow> Transaction \<Rightarrow> string \<Rightarrow> string \<Rightarrow> StoreFailedTransactionResult dlq_op" where
  "StoreFailedTransaction marshal_tx baseBackoff now tx message errorType q =
     (case DLQ_Create (ScheduleNextRetry now baseBackoff (failed_entry marshal_tx tx message errorType)) q of
        (Inl e, q1) \<Rightarrow> (Inl e, q1)
      | (Inr entry, q1) \<Rightarrow>
          if dl_ID entry = 0
          then (case GetByTransactionHash (tx_Hash tx) (tx_Lt tx) q1 of
                  (Inl e, q2) \<Rightarrow> (Inl e, q2)
                | (Inr (Some existing), q2) \<Rightarrow>
                    (Inr (newStoreFailedTransactionResult DLQStoreOutcomeAlreadyPending (Some existing)), q2)
                | (Inr None, q2) \<Rightarrow>
                    (Inr (newStoreFailedTransactionResult DLQStoreOutcomeAlreadyPending (Some entry)), q2))
          else (Inr (newStoreFailedTransactionResult DLQStoreOutcomeQueued (Some entry)), q1))"

definition GetPendingForRetry :: "int \<Rightarrow> DeadLetterEntry list dlq_op" where
  "GetPendingForRetry limit = Repo_GetPendingForRetry limit"

text \<open>The entry is mutated before the update and stays so when the update fails.\<close>

definition MarkRetryAttempt :: "duration \<Rightarrow> instant \<Rightarrow> DeadLetterEntry \<Rightarrow> dlq
    \<Rightarrow> (error + unit) \<times> DeadLetterEntry \<times> dlq" where
  "MarkRetryAttempt baseBackoff now entry q =
     (let entry' = ScheduleNextRetry now baseBackoff (MarkRetrying now entry) in
      case DLQ_Update entry' q of (r, q') \<Rightarrow> (r, entry', q'))"

definition DLQ_MarkResolved :: "instant \<Rightarrow> int \<Rightarrow> string \<Rightarrow> unit dlq_op" where
  "DLQ_MarkResolved now i notes = DLQ_UpdateStatus now i DLQStatusResolved notes"

definition DLQ_MarkFailed :: "instant \<Rightarrow> int \<Rightarrow> string \<Rightarrow> unit dlq_op" where
  "DLQ_MarkFailed now i notes = DLQ_UpdateStatus now i DLQStatusFailed notes"

definition GetStats :: "DLQStats dlq_op" where
  "GetStats = Repo_GetStats"

definition GetObservability :: "duration \<Rightarrow> (duration \<times> DLQStats) dlq_op" where
  "GetObservability baseBackoff q = (case Repo_GetStats q of
     (Inl e, q') \<Rightarrow> (Inl e, q') | (Inr stats, q') \<Rightarrow> (Inr (baseBackoff, stats), q'))"

definition CheckDuplicate :: "string \<Rightarrow> string \<Rightarrow> bool dlq_op" where
  "CheckDuplicate hash lt q = (case GetByTransactionHash hash lt q of
     (Inl e, q') \<Rightarrow> (Inl e, q') | (Inr entry, q') \<Rightarrow> (Inr (entry \<noteq> None), q'))"

section \<open>Invariant\<close>

text \<open>
  Ids are unique and below the sequence, which is positive; at most one live entry per
  transaction; the rows satisfy the columns' constraints.
\<close>

definition dlq_ok :: "dlq \<Rightarrow> bool" where
  "dlq_ok q \<longleftrightarrow> 0 < dq_next q \<and> distinct (map dl_ID (dq_rows q))
     \<and> (\<forall>e \<in> set (dq_rows q). 0 < dl_ID e \<and> dl_ID e < dq_next q \<and> dlq_columns e = None)
     \<and> (\<forall>e \<in> set (dq_rows q). \<forall>e' \<in> set (dq_rows q). is_live e \<longrightarrow> is_live e' \<longrightarrow>
          same_tx (dl_TransactionHash e) (dl_TransactionLt e) e' \<longrightarrow> dl_ID e = dl_ID e')"

inductive dlq_step :: "dlq \<Rightarrow> dlq \<Rightarrow> bool" where
  store: "dlq_step q (snd (StoreFailedTransaction m b now tx msg ty q))"
| retry: "dlq_step q (snd (snd (MarkRetryAttempt b now entry q)))"
| resolve: "dlq_step q (snd (DLQ_MarkResolved now i notes q))"
| fail: "dlq_step q (snd (DLQ_MarkFailed now i notes q))"
| status: "dlq_step q (snd (DLQ_UpdateStatus now i st notes q))"
| increment: "dlq_step q (snd (IncrementRetryCount now i t q))"
| delete: "dlq_step q (snd (DLQ_Delete i q))"
| read: "r \<in> {snd (DLQ_GetByID i q), snd (GetByTransactionHash h lt q), snd (Repo_GetPendingForRetry n q),
     snd (Repo_GetByStatus s n off q), snd (CountByStatus s q), snd (GetStats q)} \<Longrightarrow> dlq_step q r"
| clock: "dq_now q \<le> t \<Longrightarrow> dlq_step q (q\<lparr>dq_now := t\<rparr>)"

definition preserves :: "'a dlq_op \<Rightarrow> bool" where
  "preserves m \<longleftrightarrow> (\<forall>q. dlq_ok q \<longrightarrow> dlq_ok (snd (m q)))"

lemma dlq_ok_simps [simp]:
  "dlq_ok (q\<lparr>dq_tick := n\<rparr>) = dlq_ok q" "dlq_ok (q\<lparr>dq_now := t\<rparr>) = dlq_ok q"
  by (simp_all add: dlq_ok_def)

lemma dlq_okI:
  assumes "0 < dq_next q" "distinct (map dl_ID (dq_rows q))"
    "\<And>e. e \<in> set (dq_rows q) \<Longrightarrow> 0 < dl_ID e \<and> dl_ID e < dq_next q \<and> dlq_columns e = None"
    "\<And>e e'. e \<in> set (dq_rows q) \<Longrightarrow> e' \<in> set (dq_rows q) \<Longrightarrow> is_live e \<Longrightarrow> is_live e' \<Longrightarrow>
       same_tx (dl_TransactionHash e) (dl_TransactionLt e) e' \<Longrightarrow> dl_ID e = dl_ID e'"
  shows "dlq_ok q"
  unfolding dlq_ok_def using assms by blast

lemma dlq_okD:
  assumes "dlq_ok q"
  shows "0 < dq_next q" "distinct (map dl_ID (dq_rows q))"
    "e \<in> set (dq_rows q) \<Longrightarrow> 0 < dl_ID e \<and> dl_ID e < dq_next q \<and> dlq_columns e = None"
    "e \<in> set (dq_rows q) \<Longrightarrow> e' \<in> set (dq_rows q) \<Longrightarrow> is_live e \<Longrightarrow> is_live e' \<Longrightarrow>
       same_tx (dl_TransactionHash e) (dl_TransactionLt e) e' \<Longrightarrow> dl_ID e = dl_ID e'"
  using assms unfolding dlq_ok_def by blast+

lemma preserves_statement:
  assumes "\<And>q x q'. dlq_ok q \<Longrightarrow> f q = Inr (x, q') \<Longrightarrow> dlq_ok q'"
  shows "preserves (dlq_statement f)"
  unfolding preserves_def
proof (intro allI impI)
  fix q
  assume ok: "dlq_ok q"
  then have "dlq_ok (q\<lparr>dq_tick := Suc (dq_tick q)\<rparr>)" by simp
  from assms [OF this] ok show "dlq_ok (snd (dlq_statement f q))"
    by (cases "f (q\<lparr>dq_tick := Suc (dq_tick q)\<rparr>)") (auto simp: dlq_statement_def Let_def split: option.split)
qed

lemma preserves_read: "(\<And>q x q'. f q = Inr (x, q') \<Longrightarrow> q' = q) \<Longrightarrow> preserves (dlq_statement f)"
  by (rule preserves_statement) blast

lemma insert_entry_ok:
  assumes ok: "dlq_ok q" and run: "insert_entry e q = Inr (x, q')"
  shows "dlq_ok q'"
proof (cases "is_live e \<and> list_ex (\<lambda>r. is_live r \<and> same_tx (dl_TransactionHash e) (dl_TransactionLt e) r) (dq_rows q)")
  case True
  with run have "q' = q\<lparr>dq_next := dq_next q + 1\<rparr>"
    by (auto simp: insert_entry_def Let_def split: option.splits)
  with ok show ?thesis by (intro dlq_okI) (auto dest: dlq_okD)
next
  case False
  define row where "row = e\<lparr>dl_ID := dq_next q, dl_CreatedAt := dq_now q, dl_LastRetryAt := None, dl_ResolvedAt := None\<rparr>"
  from False run have q': "q' = q\<lparr>dq_next := dq_next q + 1, dq_rows := dq_rows q @ [row]\<rparr>"
    and c: "dlq_columns e = None"
    by (auto simp: insert_entry_def Let_def row_def split: option.splits if_splits)
  have row: "dl_ID row = dq_next q" "is_live row = is_live e" "same_tx h l row = same_tx h l e"
    "dl_TransactionHash row = dl_TransactionHash e" "dl_TransactionLt row = dl_TransactionLt e" "dlq_columns row = None" for h l
    using c by (simp_all add: row_def is_live_def same_tx_def dlq_columns_def split: if_splits)
  have clash: "\<not> (is_live row \<and> is_live r \<and> same_tx (dl_TransactionHash row) (dl_TransactionLt row) r)"
    if "r \<in> set (dq_rows q)" for r using False that row by (auto simp: list_ex_iff)
  have ids: "dq_next q \<notin> set (map dl_ID (dq_rows q))" using dlq_okD(3) [OF ok] by fastforce
  have sym: "same_tx (dl_TransactionHash r) (dl_TransactionLt r) row \<longleftrightarrow> same_tx (dl_TransactionHash row) (dl_TransactionLt row) r" for r
    by (auto simp: same_tx_def)
  show ?thesis
  proof (rule dlq_okI)
    show "0 < dq_next q'" using dlq_okD(1) [OF ok] by (simp add: q')
    show "distinct (map dl_ID (dq_rows q'))" using dlq_okD(2) [OF ok] ids row(1) by (simp add: q')
    show "0 < dl_ID r \<and> dl_ID r < dq_next q' \<and> dlq_columns r = None" if "r \<in> set (dq_rows q')" for r
      using that dlq_okD(1) [OF ok] dlq_okD(3) [OF ok, of r] row(1,6) by (auto simp: q')
    show "dl_ID a = dl_ID b" if "a \<in> set (dq_rows q')" "b \<in> set (dq_rows q')" "is_live a" "is_live b"
        "same_tx (dl_TransactionHash a) (dl_TransactionLt a) b" for a b
      using that clash [of a] clash [of b] sym [of a] dlq_okD(4) [OF ok, of a b] by (auto simp: q')
  qed
qed

lemma update_entry_ok:
  assumes "\<And>e. dl_ID (f e) = dl_ID e" "\<And>e. dl_TransactionHash (f e) = dl_TransactionHash e"
    "\<And>e. dl_TransactionLt (f e) = dl_TransactionLt e"
  shows "preserves (update_entry i f)"
  unfolding update_entry_def
proof (rule preserves_statement)
  fix q q' :: dlq and x :: unit
  assume ok: "dlq_ok q"
    and run: "(case find (\<lambda>e. dl_ID e = i) (dq_rows q) of
       None \<Rightarrow> Inl (ErrorString (''entry not found: '' @ FormatInt i))
     | Some e \<Rightarrow> (case dlq_columns (f e) of Some er \<Rightarrow> Inl er
         | None \<Rightarrow> if index_clash (f e) (dq_rows q) then Inl (dlq_sql_error ''23505'')
             else Inr ((), q\<lparr>dq_rows := map (\<lambda>e. if dl_ID e = i then f e else e) (dq_rows q)\<rparr>))) = Inr (x, q')"
  let ?g = "\<lambda>e. if dl_ID e = i then f e else e"
  from run obtain e where e: "find (\<lambda>e. dl_ID e = i) (dq_rows q) = Some e" "dlq_columns (f e) = None"
      "\<not> index_clash (f e) (dq_rows q)" and q': "q' = q\<lparr>dq_rows := map ?g (dq_rows q)\<rparr>"
    by (auto split: option.splits if_splits)
  have dist: "distinct (map dl_ID (dq_rows q))" using ok by (simp add: dlq_ok_def)
  have mem: "e \<in> set (dq_rows q)" "dl_ID e = i" using e(1) by (auto simp: find_Some_iff)
  have uniq: "r = e" if "r \<in> set (dq_rows q)" "dl_ID r = i" for r
    using dist mem that by (metis distinct_map inj_onD)
  have ids: "map dl_ID (map ?g (dq_rows q)) = map dl_ID (dq_rows q)" by (simp add: assms(1))
  have one: "dl_ID r = i" if "r \<in> set (dq_rows q)" "is_live (f e)" "is_live (?g r)"
      "same_tx (dl_TransactionHash e) (dl_TransactionLt e) r" for r
    using e(3) that mem by (cases "dl_ID r = i") (auto simp: index_clash_def list_ex_iff assms)
  have pair: "dl_ID (?g a) = dl_ID (?g b)" if "a \<in> set (dq_rows q)" "b \<in> set (dq_rows q)" "is_live (?g a)" "is_live (?g b)"
      "same_tx (dl_TransactionHash (?g a)) (dl_TransactionLt (?g a)) (?g b)" for a b
  proof -
    have same: "same_tx (dl_TransactionHash a) (dl_TransactionLt a) b" "same_tx (dl_TransactionHash b) (dl_TransactionLt b) a"
      using that(5) by (auto simp: same_tx_def assms split: if_splits)
    consider "dl_ID a = i" | "dl_ID b = i" | "dl_ID a \<noteq> i" "dl_ID b \<noteq> i" by blast
    then show ?thesis
    proof cases
      case 1
      then show ?thesis using one [of b] uniq [of a] that same by (auto simp: assms(1))
    next
      case 2
      then show ?thesis using one [of a] uniq [of b] that same by (auto simp: assms(1))
    next
      case 3
      then show ?thesis using dlq_okD(4) [OF ok that(1,2)] that(3,4) same(1) by simp
    qed
  qed
  have rows: "0 < dl_ID (?g r) \<and> dl_ID (?g r) < dq_next q \<and> dlq_columns (?g r) = None" if "r \<in> set (dq_rows q)" for r
    using dlq_okD(3) [OF ok that] that uniq [of r] e(2) by (auto simp: assms(1))
  show "dlq_ok q'"
  proof (rule dlq_okI)
    show "0 < dq_next q'" using dlq_okD(1) [OF ok] by (simp add: q')
    show "distinct (map dl_ID (dq_rows q'))" using dist ids [symmetric] by (simp add: q' del: map_map)
    show "0 < dl_ID r \<and> dl_ID r < dq_next q' \<and> dlq_columns r = None" if "r \<in> set (dq_rows q')" for r
    proof -
      from that obtain r0 where "r0 \<in> set (dq_rows q)" "r = ?g r0" by (auto simp: q')
      with rows show ?thesis unfolding q' by simp
    qed
    show "dl_ID a = dl_ID b" if "a \<in> set (dq_rows q')" "b \<in> set (dq_rows q')" "is_live a" "is_live b"
        "same_tx (dl_TransactionHash a) (dl_TransactionLt a) b" for a b
    proof -
      from that(1,2) obtain a0 b0 where "a0 \<in> set (dq_rows q)" "b0 \<in> set (dq_rows q)" "a = ?g a0" "b = ?g b0"
        by (auto simp: q')
      with that(3-5) pair show ?thesis by blast
    qed
  qed
qed

lemma preservesD: "preserves m \<Longrightarrow> dlq_ok q \<Longrightarrow> dlq_ok (snd (m q))"
  by (simp add: preserves_def)

lemma preserves_ops:
  "preserves (DLQ_Create entry)" "preserves (GetByTransactionHash h lt)" "preserves (DLQ_Update entry)"
  "preserves (DLQ_UpdateStatus now i st notes)" "preserves (IncrementRetryCount now i t)" "preserves (DLQ_Delete i)"
  "preserves (DLQ_GetByID i)" "preserves (Repo_GetPendingForRetry n)" "preserves (Repo_GetByStatus st n off)"
  "preserves (CountByStatus st)" "preserves Repo_GetStats"
proof -
  have "preserves (dlq_statement (insert_entry e))" for e by (rule preserves_statement) (rule insert_entry_ok)
  then show "preserves (DLQ_Create entry)"
    by (auto simp: preserves_def DLQ_Create_def split: sum.split)
  show "preserves (DLQ_Delete i)" unfolding DLQ_Delete_def
    by (rule preserves_statement, rule dlq_okI) (auto simp: distinct_map_filter split: if_splits dest: dlq_okD)
  show "preserves (DLQ_Update entry)" unfolding DLQ_Update_def by (rule update_entry_ok) simp_all
  show "preserves (DLQ_UpdateStatus now i st notes)" unfolding DLQ_UpdateStatus_def Let_def
    by (rule update_entry_ok) simp_all
  show "preserves (IncrementRetryCount now i t)" unfolding IncrementRetryCount_def by (rule update_entry_ok) simp_all
  show "preserves (GetByTransactionHash h lt)" "preserves (DLQ_GetByID i)" "preserves (CountByStatus st)" "preserves Repo_GetStats"
    unfolding GetByTransactionHash_def DLQ_GetByID_def CountByStatus_def Repo_GetStats_def
    by (rule preserves_read, simp)+
  show "preserves (Repo_GetPendingForRetry n)" "preserves (Repo_GetByStatus st n off)"
    unfolding Repo_GetPendingForRetry_def Repo_GetByStatus_def page_def
    by (rule preserves_read, simp split: if_splits)+
qed

lemma store_preserves: "preserves (StoreFailedTransaction m b now tx msg ty)"
  unfolding preserves_def
proof (intro allI impI)
  fix q
  assume ok: "dlq_ok q"
  let ?c = "DLQ_Create (ScheduleNextRetry now b (failed_entry m tx msg ty)) q"
  let ?g = "GetByTransactionHash (tx_Hash tx) (tx_Lt tx) (snd ?c)"
  have "dlq_ok (snd ?c)" using preserves_ops(1) ok by (rule preservesD)
  moreover from preserves_ops(2) this have "dlq_ok (snd ?g)" by (rule preservesD)
  ultimately show "dlq_ok (snd (StoreFailedTransaction m b now tx msg ty q))"
    by (cases ?c; cases ?g) (auto simp: StoreFailedTransaction_def split: sum.split option.split)
qed

lemma dlq_step_ok: "dlq_step q q' \<Longrightarrow> dlq_ok q \<Longrightarrow> dlq_ok q'"
proof (induction rule: dlq_step.induct)
  case (retry q b now entry)
  then show ?case
    using preservesD [OF preserves_ops(3)] by (simp add: MarkRetryAttempt_def Let_def case_prod_beta)
qed (auto simp: DLQ_MarkResolved_def DLQ_MarkFailed_def GetStats_def
    intro!: preservesD [OF store_preserves] preservesD [OF preserves_ops(2)] preservesD [OF preserves_ops(4)]
      preservesD [OF preserves_ops(5)] preservesD [OF preserves_ops(6)] preservesD [OF preserves_ops(7)]
      preservesD [OF preserves_ops(8)] preservesD [OF preserves_ops(9)] preservesD [OF preserves_ops(10)]
      preservesD [OF preserves_ops(11)])

lemma dlq_steps_ok: "dlq_step\<^sup>*\<^sup>* q q' \<Longrightarrow> dlq_ok q \<Longrightarrow> dlq_ok q'"
  by (induction rule: rtranclp_induct) (auto intro: dlq_step_ok)

section \<open>Properties\<close>

lemma dlq_statement_cases:
  assumes "dlq_statement f q = (r, q')"
  obtains (fault) e where "r = Inl e" "q' = q\<lparr>dq_tick := Suc (dq_tick q)\<rparr>"
    | (ran) x where "r = Inr x" "f (q\<lparr>dq_tick := Suc (dq_tick q)\<rparr>) = Inr (x, q')"
  using assms by (auto simp: dlq_statement_def Let_def split: option.splits sum.splits)

lemma failed_entry_fields [simp]:
  "dl_ID (failed_entry m tx msg ty) = 0" "dl_TransactionHash (failed_entry m tx msg ty) = tx_Hash tx"
  "dl_TransactionLt (failed_entry m tx msg ty) = tx_Lt tx" "dl_Status (failed_entry m tx msg ty) = DLQStatusPending"
  "dl_RetryCount (failed_entry m tx msg ty) = 0" "dl_MaxRetries (failed_entry m tx msg ty) = 3"
  by (simp_all add: failed_entry_def)

text \<open>What \<open>Validate\<close> makes of a fresh entry.\<close>

lemma scheduled_valid:
  assumes "DeadLetter_Validate (ScheduleNextRetry now b (failed_entry m tx msg ty)) = Inr e"
  shows "dl_ID e = 0" "same_tx (tx_Hash tx) (tx_Lt tx) e" "is_live e" "dl_RetryCount e = 0" "dl_MaxRetries e = 3"
    "dl_NextRetryAt e = Some (now + retry_backoff b 0)"
  using assms
  by (auto simp: DeadLetter_Validate_def ScheduleNextRetry_def same_tx_def is_live_def Let_def split: if_splits)

text \<open>The row a successful insert leaves behind, and what it returns.\<close>

lemma insert_entry_run:
  assumes "insert_entry e q = Inr (x, q')" "is_live e"
  shows "if list_ex (\<lambda>r. is_live r \<and> same_tx (dl_TransactionHash e) (dl_TransactionLt e) r) (dq_rows q)
     then x = e \<and> dq_rows q' = dq_rows q
     else dl_ID x = dq_next q \<and> dl_Status x = dl_Status e \<and>
       dq_rows q' = dq_rows q @ [x\<lparr>dl_LastRetryAt := None, dl_ResolvedAt := None\<rparr>]
       \<and> x = e\<lparr>dl_ID := dq_next q, dl_CreatedAt := dq_now q\<rparr>"
  using assms by (auto simp: insert_entry_def Let_def split: option.splits if_splits)


lemma store_cases:
  assumes "dlq_ok q"
  shows "case StoreFailedTransaction m baseBackoff now tx msg ty q of
       (Inl err, q') \<Rightarrow> dq_rows q' = dq_rows q
     | (Inr res, q') \<Rightarrow> (\<exists>e. e \<in> set (dq_rows q') \<and> is_live e \<and> same_tx (tx_Hash tx) (tx_Lt tx) e
           \<and> dl_ID e = sr_EntryID res
           \<and> (if sr_Outcome res = DLQStoreOutcomeQueued
              then dq_rows q' = dq_rows q @ [e] \<and> dl_RetryCount e = 0 \<and> dl_MaxRetries e = 3
                \<and> dl_NextRetryAt e = Some (now + retry_backoff baseBackoff 0)
              else dq_rows q' = dq_rows q))"
proof -
  let ?e = "ScheduleNextRetry now baseBackoff (failed_entry m tx msg ty)"
  obtain r1 q1 where c: "DLQ_Create ?e q = (r1, q1)" by (cases "DLQ_Create ?e q")
  show ?thesis
  proof (cases r1)
    case (Inl err)
    with c have "dq_rows q1 = dq_rows q"
      by (auto simp: DLQ_Create_def split: sum.splits elim!: dlq_statement_cases)
    with Inl c show ?thesis by (simp add: StoreFailedTransaction_def)
  next
    case (Inr x)
    with c obtain e where v: "DeadLetter_Validate ?e = Inr e" and s: "dlq_statement (insert_entry e) q = (Inr x, q1)"
      by (auto simp: DLQ_Create_def split: sum.splits)
    note e = scheduled_valid [OF v]
    from s have ins: "insert_entry e (q\<lparr>dq_tick := Suc (dq_tick q)\<rparr>) = Inr (x, q1)"
      by (auto elim: dlq_statement_cases)
    let ?dup = "list_ex (\<lambda>r. is_live r \<and> same_tx (tx_Hash tx) (tx_Lt tx) r) (dq_rows q)"
    have keys: "dl_TransactionHash e = tx_Hash tx" "dl_TransactionLt e = tx_Lt tx" using e(2) by (simp_all add: same_tx_def)
    note run = insert_entry_run [OF ins e(3), unfolded keys]
    show ?thesis
    proof (cases ?dup)
      case True
      with run e(1) have x: "dl_ID x = 0" and rows: "dq_rows q1 = dq_rows q" by simp_all
      obtain r2 q2 where g: "GetByTransactionHash (tx_Hash tx) (tx_Lt tx) q1 = (r2, q2)" by fastforce
      then have q2: "dq_rows q2 = dq_rows q" and
        r2: "\<And>y. r2 = Inr y \<Longrightarrow> y = find (\<lambda>e. same_tx (tx_Hash tx) (tx_Lt tx) e \<and> is_live e) (dq_rows q)"
        using rows by (auto simp: GetByTransactionHash_def elim!: dlq_statement_cases)
      from True have "find (\<lambda>e. same_tx (tx_Hash tx) (tx_Lt tx) e \<and> is_live e) (dq_rows q) \<noteq> None"
        by (auto simp: find_None_iff list_ex_iff)
      then obtain y where y: "find (\<lambda>e. same_tx (tx_Hash tx) (tx_Lt tx) e \<and> is_live e) (dq_rows q) = Some y" by blast
      then have "y \<in> set (dq_rows q)" "is_live y" "same_tx (tx_Hash tx) (tx_Lt tx) y"
        by (auto simp: find_Some_iff)
      with c Inr x g q2 r2 y show ?thesis
        by (cases r2) (auto simp: StoreFailedTransaction_def newStoreFailedTransactionResult_def)
    next
      case False
      define row where "row = x\<lparr>dl_LastRetryAt := None, dl_ResolvedAt := None\<rparr>"
      from False run have x: "x = e\<lparr>dl_ID := dq_next q, dl_CreatedAt := dq_now q\<rparr>" and rows: "dq_rows q1 = dq_rows q @ [row]"
        by (simp_all add: row_def)
      have "dl_ID x \<noteq> 0" using x dlq_okD(1) [OF assms] by simp
      moreover have "is_live row" "same_tx (tx_Hash tx) (tx_Lt tx) row" "dl_ID row = dl_ID x" "dl_RetryCount row = 0"
          "dl_MaxRetries row = 3" "dl_NextRetryAt row = Some (now + retry_backoff baseBackoff 0)"
        using e(2-6) by (auto simp: row_def x is_live_def same_tx_def)
      ultimately show ?thesis
        using c Inr rows by (auto simp: StoreFailedTransaction_def newStoreFailedTransactionResult_def)
    qed
  qed
qed

text \<open>
  A stored failure is not lost and not duplicated. When \<open>StoreFailedTransaction\<close>
  succeeds, the queue has a live entry for the transaction, with the id it reports: either a
  new last row that may be retried three times, first after the base backoff, or the entry that
  was pending already, and then no row has changed. When it fails no row has changed.
\<close>

theorem dlq_store_outcome:
  assumes "dlq_ok q"
  shows "case StoreFailedTransaction m baseBackoff now tx msg ty q of
       (Inl err, q') \<Rightarrow> dq_rows q' = dq_rows q
     | (Inr res, q') \<Rightarrow> (\<exists>e. e \<in> set (dq_rows q') \<and> is_live e \<and> same_tx (tx_Hash tx) (tx_Lt tx) e
           \<and> dl_ID e = sr_EntryID res
           \<and> (if sr_Outcome res = DLQStoreOutcomeQueued
              then dq_rows q' = dq_rows q @ [e] \<and> dl_RetryCount e = 0 \<and> dl_MaxRetries e = 3
                \<and> dl_NextRetryAt e = Some (now + retry_backoff baseBackoff 0)
              else dq_rows q' = dq_rows q))"
  using assms by (rule store_cases)

text \<open>
  The backoff doubles with every retry and is capped at an hour, for every base of at most
  an hour and up to twenty retries; but the product is an \<open>int64\<close>: with the default base it
  is negative at the twenty-fifth retry, which would schedule the next retry in the past.
\<close>

theorem dlq_backoff_bounds:
  assumes "0 < baseBackoff" and "baseBackoff \<le> Hour" and "0 \<le> n" and "n \<le> 20"
  shows "retry_backoff baseBackoff n = min (baseBackoff * 2 ^ nat n) Hour
     \<and> 0 < retry_backoff baseBackoff n \<and> retry_backoff baseBackoff n \<le> Hour
     \<and> retry_backoff defaultDLQBaseBackoff 25 < 0"
proof -
  have "(2::int) ^ nat n \<le> 2 ^ 20" using assms(4) by (intro power_increasing) auto
  then have le: "baseBackoff * 2 ^ nat n \<le> Hour * 2 ^ 20" using assms(1,2) by (intro mult_mono) auto
  moreover have pos: "0 < baseBackoff * 2 ^ nat n" using assms(1) by simp
  ultimately have "in_i64 (baseBackoff * 2 ^ nat n)" by (simp add: in_i64_def)
  moreover have "go_shl1 (nat n) = 2 ^ nat n" using assms(4) by (intro go_shl1_small) linarith
  ultimately have eq: "retry_backoff baseBackoff n = min (baseBackoff * 2 ^ nat n) Hour"
    by (auto simp: retry_backoff_def Let_def)
  have "retry_backoff defaultDLQBaseBackoff 25 < 0" by code_simp
  with eq pos show ?thesis by auto
qed

theorem dlq_backoff_bounds_witness: "retry_backoff defaultDLQBaseBackoff 2 = 1200000000000"
  using dlq_backoff_bounds [of defaultDLQBaseBackoff 2] by simp

definition sample_tx :: "string \<Rightarrow> string \<Rightarrow> Transaction" where
  "sample_tx lt hash = \<lparr>tx_Type = ''raw.transaction'', tx_Lt = lt, tx_Hash = hash, tx_Utime = 9, tx_Data = '''',
     tx_InMsg = '''', tx_OutMsgs = '''', tx_PrevTransLt = '''', tx_PrevTransHash = '''', tx_Fee = '''',
     tx_StorageFee = '''', tx_OtherFee = ''''\<rparr>"

definition empty_dlq :: dlq where
  "empty_dlq = \<lparr>dq_rows = [], dq_next = 1, dq_now = 0, dq_tick = 0, dq_fault = \<lambda>_. None\<rparr>"

definition no_tx_json :: marshal_tx where "no_tx_json tx = Inr ''{}''"

theorem dlq_store_outcome_witness:
  "\<exists>e. dq_rows (snd (StoreFailedTransaction no_tx_json 60 5 (sample_tx ''8'' ''h'') ''boom'' DLQErrorTypeParse empty_dlq)) = [e]
     \<and> is_live e \<and> dl_NextRetryAt e = Some 65"
proof -
  let ?s = "StoreFailedTransaction no_tx_json 60 5 (sample_tx ''8'' ''h'') ''boom'' DLQErrorTypeParse empty_dlq"
  have ok: "dlq_ok empty_dlq" by (simp add: dlq_ok_def empty_dlq_def)
  have "map_sum id sr_Outcome (fst ?s) = Inr DLQStoreOutcomeQueued" "dq_rows empty_dlq = []" "retry_backoff 60 0 = 60"
    by code_simp+
  then show ?thesis
    using dlq_store_outcome [OF ok, where m = no_tx_json and baseBackoff = 60 and now = 5
      and tx = "sample_tx ''8'' ''h''" and msg = "''boom''" and ty = DLQErrorTypeParse]
    by (cases ?s; cases "fst ?s") auto
qed


end
