(* ===== verification/Subscriber.thy ===== *)
theory Subscriber
  imports Message_Parser Dead_Letter
begin

text \<open>
  \<open>internal/usecase/blockchain_subscriber.go\<close>: the handler the event sources call. It parses
  a transaction into an event, routes the event to the persistence handlers with retries, and
  stores what fails in the dead letter queue. The message parser is an interface in the source and
  a parameter here. The context may be cancelled while the subscriber waits before an attempt or
  after a failed attempt; both are parameters. A transaction is handled at one instant. The back-off
  is computed in \<open>float64\<close> in the source and exactly here. Metrics and logging have no effect.
\<close>

section \<open>State\<close>

record RetryConfig =
  rc_MaxRetries :: int
  rc_InitialBackoff :: duration
  rc_MaxBackoff :: duration
  rc_BackoffMultiplier :: rat

abbreviation (input) defaultMaxRetries :: int where "defaultMaxRetries \<equiv> 3"
abbreviation (input) defaultInitialBackoff :: duration where "defaultInitialBackoff \<equiv> 100000000"
abbreviation (input) defaultMaxBackoff :: duration where "defaultMaxBackoff \<equiv> 2000000000"
abbreviation (input) defaultBackoffMultiplier :: rat where "defaultBackoffMultiplier \<equiv> 2"

definition DefaultRetryConfig :: RetryConfig where
  "DefaultRetryConfig = \<lparr>rc_MaxRetries = defaultMaxRetries, rc_InitialBackoff = defaultInitialBackoff,
     rc_MaxBackoff = defaultMaxBackoff, rc_BackoffMultiplier = defaultBackoffMultiplier\<rparr>"

record observability =
  ob_ParseFailuresTotal :: "64 word"
  ob_ValidationFailuresTotal :: "64 word"
  ob_PersistenceRetryAttemptsTotal :: "64 word"
  ob_PersistenceRetryRecoveredTotal :: "64 word"
  ob_PersistenceFailuresExhausted :: "64 word"
  ob_DLQStoreAttemptsTotal :: "64 word"
  ob_DLQStoredTotal :: "64 word"
  ob_DLQDuplicateTotal :: "64 word"
  ob_DLQStoreFailuresTotal :: "64 word"
  ob_LastFailureType :: string
  ob_LastFailureError :: string
  ob_LastFailureTxHash :: string
  ob_LastFailureTxLt :: string
  ob_LastFailureAt :: "instant option"
  ob_LastRetryOutcome :: string
  ob_LastRetriedEventType :: string
  ob_LastRetriedGameID :: int
  ob_LastRetryAttemptAt :: "instant option"
  ob_LastExhaustedRetryAt :: "instant option"
  ob_LastDLQErrorType :: string
  ob_LastDLQStoreOutcome :: "DLQStoreOutcome option"
  ob_LastDLQStatus :: string
  ob_LastDLQResolutionNotes :: string
  ob_LastDLQStoredTxHash :: string
  ob_LastDLQStoredTxLt :: string
  ob_LastDLQStoredAt :: "instant option"
  ob_LastDLQStoreFailure :: string
  ob_LastDLQStoreFailureTxHash :: string
  ob_LastDLQStoreFailureTxLt :: string
  ob_LastDLQStoreFailureAt :: "instant option"

record subscriber =
  sb_persistence :: persistence
  sb_dlq :: "dlq option"              \<comment> \<open>\<open>dlqUseCase\<close>, nil when not set\<close>
  sb_baseBackoff :: duration
  sb_retryConfig :: RetryConfig
  sb_observability :: observability
  sb_now :: instant
  sb_sent :: "broadcast list"         \<comment> \<open>what the persistence handlers have broadcast\<close>

record subscriber_env =
  se_parser :: "string \<Rightarrow> error + ParsedMessage"
  se_raw_list :: "string \<Rightarrow> string list option"   \<comment> \<open>\<open>json.Unmarshal\<close> into \<open>[]json.RawMessage\<close>\<close>
  se_pa :: parse_addr
  se_marshal :: marshal
  se_marshal_tx :: marshal_tx
  se_doneInWait :: "nat \<Rightarrow> bool"
  se_doneAfter :: "nat \<Rightarrow> bool"

definition SetRetryConfig :: "RetryConfig \<Rightarrow> subscriber \<Rightarrow> subscriber" where
  "SetRetryConfig cfg sb = sb\<lparr>sb_retryConfig :=
     \<lparr>rc_MaxRetries = (if rc_MaxRetries cfg < 0 then defaultMaxRetries else rc_MaxRetries cfg),
      rc_InitialBackoff = (if rc_InitialBackoff cfg \<le> 0 then defaultInitialBackoff else rc_InitialBackoff cfg),
      rc_MaxBackoff = (if rc_MaxBackoff cfg \<le> 0 then defaultMaxBackoff else rc_MaxBackoff cfg),
      rc_BackoffMultiplier = (if rc_BackoffMultiplier cfg \<le> 1 then defaultBackoffMultiplier else rc_BackoffMultiplier cfg)\<rparr>\<rparr>"

text \<open>A new subscriber has no dead letter queue, which \<open>SetDeadLetterQueue\<close> adds, and the default retries.\<close>

definition no_observability :: observability where
  "no_observability = \<lparr>ob_ParseFailuresTotal = 0, ob_ValidationFailuresTotal = 0, ob_PersistenceRetryAttemptsTotal = 0,
     ob_PersistenceRetryRecoveredTotal = 0, ob_PersistenceFailuresExhausted = 0, ob_DLQStoreAttemptsTotal = 0,
     ob_DLQStoredTotal = 0, ob_DLQDuplicateTotal = 0, ob_DLQStoreFailuresTotal = 0, ob_LastFailureType = '''',
     ob_LastFailureError = '''', ob_LastFailureTxHash = '''', ob_LastFailureTxLt = '''', ob_LastFailureAt = None,
     ob_LastRetryOutcome = '''', ob_LastRetriedEventType = '''', ob_LastRetriedGameID = 0, ob_LastRetryAttemptAt = None,
     ob_LastExhaustedRetryAt = None, ob_LastDLQErrorType = '''', ob_LastDLQStoreOutcome = None, ob_LastDLQStatus = '''',
     ob_LastDLQResolutionNotes = '''', ob_LastDLQStoredTxHash = '''', ob_LastDLQStoredTxLt = '''', ob_LastDLQStoredAt = None,
     ob_LastDLQStoreFailure = '''', ob_LastDLQStoreFailureTxHash = '''', ob_LastDLQStoreFailureTxLt = '''',
     ob_LastDLQStoreFailureAt = None\<rparr>"

definition NewBlockchainSubscriberUseCase :: "persistence \<Rightarrow> subscriber" where
  "NewBlockchainSubscriberUseCase p = \<lparr>sb_persistence = p, sb_dlq = None, sb_baseBackoff = defaultDLQBaseBackoff,
     sb_retryConfig = DefaultRetryConfig, sb_observability = no_observability, sb_now = 0, sb_sent = []\<rparr>"

definition SetDeadLetterQueue :: "duration \<Rightarrow> dlq \<Rightarrow> subscriber \<Rightarrow> subscriber" where
  "SetDeadLetterQueue baseBackoff q sb = sb\<lparr>sb_dlq := Some q, sb_baseBackoff := baseBackoff\<rparr>"

section \<open>Observability\<close>

definition observe :: "(observability \<Rightarrow> observability) \<Rightarrow> subscriber \<Rightarrow> subscriber" where
  "observe f sb = sb\<lparr>sb_observability := f (sb_observability sb)\<rparr>"

definition recordParseFailure :: "Transaction \<Rightarrow> error \<Rightarrow> string \<Rightarrow> subscriber \<Rightarrow> subscriber" where
  "recordParseFailure tx err errorType sb = observe (\<lambda>ob.
     (if errorType \<in> {DLQErrorTypeParse, DLQErrorTypePersistence, DLQErrorTypeUnknown}
      then ob\<lparr>ob_ParseFailuresTotal := ob_ParseFailuresTotal ob + 1\<rparr>
      else if errorType = DLQErrorTypeValidation
      then ob\<lparr>ob_ValidationFailuresTotal := ob_ValidationFailuresTotal ob + 1\<rparr> else ob)
     \<lparr>ob_LastFailureType := errorType, ob_LastFailureError := Error err, ob_LastFailureTxHash := tx_Hash tx,
      ob_LastFailureTxLt := tx_Lt tx, ob_LastFailureAt := Some (sb_now sb)\<rparr>) sb"

definition recordRetryAttempt :: "GameEvent \<Rightarrow> error \<Rightarrow> subscriber \<Rightarrow> subscriber" where
  "recordRetryAttempt event err sb = observe (\<lambda>ob. ob
     \<lparr>ob_PersistenceRetryAttemptsTotal := ob_PersistenceRetryAttemptsTotal ob + 1,
      ob_LastFailureType := DLQErrorTypePersistence, ob_LastFailureError := Error err,
      ob_LastRetryOutcome := ''retrying'', ob_LastRetriedEventType := e_EventType event,
      ob_LastRetriedGameID := e_GameID event, ob_LastRetryAttemptAt := Some (sb_now sb)\<rparr>) sb"

definition recordRetryRecovered :: "GameEvent \<Rightarrow> subscriber \<Rightarrow> subscriber" where
  "recordRetryRecovered event sb = observe (\<lambda>ob. ob
     \<lparr>ob_PersistenceRetryRecoveredTotal := ob_PersistenceRetryRecoveredTotal ob + 1,
      ob_LastRetryOutcome := ''recovered'', ob_LastRetriedEventType := e_EventType event,
      ob_LastRetriedGameID := e_GameID event\<rparr>) sb"

definition recordRetryExhausted :: "GameEvent \<Rightarrow> error \<Rightarrow> subscriber \<Rightarrow> subscriber" where
  "recordRetryExhausted event err sb = observe (\<lambda>ob. ob
     \<lparr>ob_PersistenceFailuresExhausted := ob_PersistenceFailuresExhausted ob + 1,
      ob_LastFailureType := DLQErrorTypePersistence, ob_LastFailureError := Error err,
      ob_LastRetryOutcome := ''exhausted'', ob_LastRetriedEventType := e_EventType event,
      ob_LastRetriedGameID := e_GameID event, ob_LastExhaustedRetryAt := Some (sb_now sb)\<rparr>) sb"

definition recordDLQStoreAttempt :: "string \<Rightarrow> subscriber \<Rightarrow> subscriber" where
  "recordDLQStoreAttempt errorType sb = observe (\<lambda>ob. ob
     \<lparr>ob_DLQStoreAttemptsTotal := ob_DLQStoreAttemptsTotal ob + 1, ob_LastDLQErrorType := errorType,
      ob_LastDLQStoreOutcome := None\<rparr>) sb"

definition applyDLQStoreResult :: "instant \<Rightarrow> Transaction \<Rightarrow> string \<Rightarrow> DLQStoreOutcome \<Rightarrow> StoreFailedTransactionResult
    \<Rightarrow> observability \<Rightarrow> observability" where
  "applyDLQStoreResult now tx errorType outcome result ob = ob
     \<lparr>ob_LastDLQErrorType := errorType, ob_LastDLQStoreOutcome := Some outcome,
      ob_LastDLQStatus := sr_Status result, ob_LastDLQResolutionNotes := sr_ResolutionNotes result,
      ob_LastDLQStoredTxHash := tx_Hash tx, ob_LastDLQStoredTxLt := tx_Lt tx, ob_LastDLQStoredAt := Some now\<rparr>"

definition recordDLQStored :: "Transaction \<Rightarrow> string \<Rightarrow> StoreFailedTransactionResult \<Rightarrow> subscriber \<Rightarrow> subscriber" where
  "recordDLQStored tx errorType result sb = observe (\<lambda>ob. applyDLQStoreResult (sb_now sb) tx errorType
     DLQStoreOutcomeQueued result (ob\<lparr>ob_DLQStoredTotal := ob_DLQStoredTotal ob + 1\<rparr>)) sb"

definition recordDLQDuplicate :: "Transaction \<Rightarrow> string \<Rightarrow> StoreFailedTransactionResult \<Rightarrow> subscriber \<Rightarrow> subscriber" where
  "recordDLQDuplicate tx errorType result sb = observe (\<lambda>ob. applyDLQStoreResult (sb_now sb) tx errorType
     DLQStoreOutcomeAlreadyPending result (ob\<lparr>ob_DLQDuplicateTotal := ob_DLQDuplicateTotal ob + 1\<rparr>)) sb"

definition recordDLQStoreFailure :: "Transaction \<Rightarrow> error \<Rightarrow> subscriber \<Rightarrow> subscriber" where
  "recordDLQStoreFailure tx err sb = observe (\<lambda>ob. ob
     \<lparr>ob_DLQStoreFailuresTotal := ob_DLQStoreFailuresTotal ob + 1, ob_LastDLQStoreFailure := Error err,
      ob_LastDLQStoreFailureTxHash := tx_Hash tx, ob_LastDLQStoreFailureTxLt := tx_Lt tx,
      ob_LastDLQStoreFailureAt := Some (sb_now sb)\<rparr>) sb"

section \<open>Parsing a transaction\<close>

definition hasTransactionMessage :: "string \<Rightarrow> bool" where
  "hasTransactionMessage raw \<longleftrightarrow> TrimSpace raw \<noteq> '''' \<and> TrimSpace raw \<noteq> ''null''"

fun out_candidates :: "int \<Rightarrow> string list \<Rightarrow> (string \<times> string) list" where
  "out_candidates i [] = []"
| "out_candidates i (m # ms) = (if hasTransactionMessage m
     then (''out_msgs['' @ FormatInt i @ '']'', m) # out_candidates (i + 1) ms else out_candidates (i + 1) ms)"

definition collectTransactionMessages :: "(string \<Rightarrow> string list option) \<Rightarrow> Transaction \<Rightarrow> error + (string \<times> string) list" where
  "collectTransactionMessages raw_list tx =
     (let inC = (if hasTransactionMessage (tx_InMsg tx) then [(''in_msg'', tx_InMsg tx)] else [])
      in if hasTransactionMessage (tx_OutMsgs tx)
         then (case raw_list (tx_OutMsgs tx) of
             None \<Rightarrow> Inl (Wrapf ''decode out_msgs'' (ErrorString ''json''))
           | Some outMsgs \<Rightarrow> Inr (inC @ out_candidates 0 outMsgs))
         else Inr inC)"

definition isIgnorableMessageParseError :: "error \<Rightarrow> bool" where
  "isIgnorableMessageParseError err \<longleftrightarrow> str_contains (Error err) ''unknown opcode''
     \<or> str_contains (Error err) ''no message body found in in_msg''
     \<or> str_contains (Error err) ''empty in_msg'' \<or> str_contains (Error err) ''message too short''"

text \<open>The first message that parses, or the first error that cannot be ignored.\<close>

fun first_message :: "(string \<Rightarrow> error + ParsedMessage) \<Rightarrow> (string \<times> string) list \<Rightarrow> error option
    \<Rightarrow> error option + ParsedMessage" where
  "first_message parser [] firstParseErr = Inl firstParseErr"
| "first_message parser ((label, payload) # candidates) firstParseErr = (case parser payload of
       Inr parsedMsg \<Rightarrow> Inr parsedMsg
     | Inl err \<Rightarrow>
         if isIgnorableMessageParseError err then first_message parser candidates firstParseErr
         else first_message parser candidates
           (case firstParseErr of None \<Rightarrow> Some (Wrapf label err) | Some e \<Rightarrow> Some e))"

definition parseTransactionMessage ::
    "(string \<Rightarrow> error + ParsedMessage) \<Rightarrow> (string \<Rightarrow> string list option) \<Rightarrow> Transaction \<Rightarrow> error + ParsedMessage" where
  "parseTransactionMessage parser raw_list tx = (case collectTransactionMessages raw_list tx of
       Inl err \<Rightarrow> Inl (Wrapf ''failed to parse TON message envelope'' err)
     | Inr [] \<Rightarrow> Inl errTransactionHasNoGameEvents
     | Inr candidates \<Rightarrow> (case first_message parser candidates None of
           Inr parsedMsg \<Rightarrow> Inr parsedMsg
         | Inl (Some firstParseErr) \<Rightarrow> Inl (Wrapf ''failed to parse TON message'' firstParseErr)
         | Inl None \<Rightarrow> Inl errTransactionHasNoGameEvents))"

definition put_string :: "string \<Rightarrow> string \<Rightarrow> event_data \<Rightarrow> event_data" where
  "put_string key v d = (if v = '''' then d else d(key \<mapsto> VString v))"

definition put_big :: "string \<Rightarrow> int option \<Rightarrow> event_data \<Rightarrow> event_data" where
  "put_big key v d = (case v of None \<Rightarrow> d | Some n \<Rightarrow> d(key \<mapsto> VString (FormatInt n)))"

definition put_uint32 :: "string \<Rightarrow> 32 word \<Rightarrow> event_data \<Rightarrow> event_data" where
  "put_uint32 key v d = (if v = 0 then d else d(key \<mapsto> VUint32 (uint v)))"

definition message_data :: "ParsedMessage \<Rightarrow> event_data" where
  "message_data m =
     put_uint32 ''protocol_version'' (pm_ProtocolVersion m)
     (put_string ''fee_receiver'' (pm_FeeReceiver m)
     (put_big ''min_referrer_payout_value'' (pm_MinReferrerPayoutValue m)
     (put_big ''highest_bid'' (pm_HighestBid m)
     (put_big ''lowest_bid'' (pm_LowestBid m)
     (put_uint32 ''waiting_for_open_bid_seconds'' (pm_WaitingForOpenBidSeconds m)
     (put_uint32 ''referrer_fee_numerator'' (pm_ReferrerFeeNumerator m)
     (put_uint32 ''service_fee_numerator'' (pm_ServiceFeeNumerator m)
     (put_big ''actual'' (pm_Actual m)
     (put_big ''required'' (pm_Required m)
     ((\<lambda>d. if pm_CoinSide m = 0 then d else d(''coin_side'' \<mapsto> VUint8 (uint (pm_CoinSide m))))
     (put_string ''player'' (pm_Player m)
     (put_string ''looser'' (pm_Looser m)
     (put_string ''winner'' (pm_Winner m)
     (put_big ''total_gainings'' (pm_TotalGainings m)
     (put_big ''bet_amount'' (pm_BidValue m)
     (put_string ''player_two'' (pm_PlayerTwo m)
     (put_string ''player_one'' (pm_PlayerOne m)
     [''event_type'' \<mapsto> VString (pm_EventType m), ''game_id'' \<mapsto> VInt64 (pm_GameID m),
      ''opcode'' \<mapsto> VUint32 (uint (pm_Opcode m))])))))))))))))))))"

definition transaction_event :: "Transaction \<Rightarrow> ParsedMessage \<Rightarrow> GameEvent" where
  "transaction_event tx m = \<lparr>e_ID = 0, e_GameID = pm_GameID m, e_EventType = pm_EventType m,
     e_TransactionHash = tx_Hash tx, e_BlockNumber = 0, e_Timestamp = tx_Utime tx * 1000000000, e_Payload = '''',
     e_EventData = Some (message_data m), e_CreatedAt = 0\<rparr>"

definition parseTransaction :: "subscriber_env \<Rightarrow> Transaction \<Rightarrow> error + GameEvent" where
  "parseTransaction env tx = (case parseTransactionMessage (se_parser env) (se_raw_list env) tx of
       Inl err \<Rightarrow> Inl err
     | Inr parsedMsg \<Rightarrow> (case GameEvent_Validate (transaction_event tx parsedMsg) of
           Some err \<Rightarrow> Inl (Wrapf ''event validation failed'' err)
         | None \<Rightarrow> Inr (transaction_event tx parsedMsg)))"

definition classifyParseError :: "error \<Rightarrow> string option" where
  "classifyParseError err =
     (if errors_is err errTransactionHasNoInMsg \<or> str_contains (Error err) (Error errTransactionHasNoInMsg) then None
      else if errors_is err errTransactionHasNoGameEvents \<or> str_contains (Error err) (Error errTransactionHasNoGameEvents) then None
      else if str_contains (Error err) ''unknown opcode'' then None
      else if str_contains (Error err) ''event validation failed'' then Some DLQErrorTypeValidation
      else Some DLQErrorTypeParse)"

section \<open>Routing and retrying\<close>

text \<open>The unknown event type wraps its sentinel after the text, which no caller looks for.\<close>

definition routeEvent :: "subscriber_env \<Rightarrow> GameEvent \<Rightarrow> subscriber \<Rightarrow> error option \<times> GameEvent \<times> subscriber" where
  "routeEvent env event sb =
     (let run = (\<lambda>h. case h (se_pa env) (se_marshal env) event (sb_persistence sb) of
         (r, event', p', bs) \<Rightarrow> (r, event', sb\<lparr>sb_persistence := p', sb_sent := sb_sent sb @ bs\<rparr>)) in
      if e_EventType event = EventGameInitialized then run HandleGameInitialized
      else if e_EventType event = EventGameStarted then run HandleGameStarted
      else if e_EventType event = EventGameFinished then run HandleGameFinished
      else if e_EventType event = EventGameCancelled then run HandleGameCancelled
      else if e_EventType event = EventDraw then run HandleDraw
      else if e_EventType event = EventSecretOpened then run HandleSecretOpened
      else if e_EventType event = EventInsufficientBalance then run HandleInsufficientBalance
      else (Some (ErrorString (''unknown event type: '' @ e_EventType event)), event, sb))"

abbreviation context_cancelled :: error where "context_cancelled \<equiv> ErrorString ''context canceled''"

definition next_backoff :: "RetryConfig \<Rightarrow> duration \<Rightarrow> duration" where
  "next_backoff cfg backoff = (let n = int64_of_float (of_int backoff * rc_BackoffMultiplier cfg)
     in if n > rc_MaxBackoff cfg then rc_MaxBackoff cfg else n)"

definition waitForRetry :: "subscriber_env \<Rightarrow> GameEvent \<Rightarrow> error \<Rightarrow> nat \<Rightarrow> duration \<Rightarrow> subscriber
    \<Rightarrow> (error + duration) \<times> subscriber" where
  "waitForRetry env event lastErr attempt backoff sb =
     (let sb1 = recordRetryAttempt event lastErr sb in
      if se_doneInWait env attempt then (Inl context_cancelled, sb1)
      else (Inr (next_backoff (sb_retryConfig sb) backoff), sb1))"

text \<open>
  The loop from attempt number \<open>attempt\<close> on, with \<open>left\<close> retries left. After
  \<open>SetRetryConfig\<close> there are never fewer than none.
\<close>

fun retry_loop :: "subscriber_env \<Rightarrow> nat \<Rightarrow> nat \<Rightarrow> duration \<Rightarrow> GameEvent \<Rightarrow> subscriber \<Rightarrow> error option \<times> subscriber" where
  "retry_loop env left attempt backoff event sb = (case routeEvent env event sb of
       (None, event', sb1) \<Rightarrow> (None, if attempt > 0 then recordRetryRecovered event' sb1 else sb1)
     | (Some err, event', sb1) \<Rightarrow>
         if se_doneAfter env attempt then (Some context_cancelled, sb1)
         else case left of
             0 \<Rightarrow> (Some (Wrapf (''all '' @ FormatInt (rc_MaxRetries (sb_retryConfig sb1)) @ '' retry attempts failed'') err),
                recordRetryExhausted event' err sb1)
           | Suc l \<Rightarrow> (case waitForRetry env event' err (Suc attempt) backoff sb1 of
                 (Inl e, sb2) \<Rightarrow> (Some e, sb2)
               | (Inr nextBackoff, sb2) \<Rightarrow> retry_loop env l (Suc attempt) nextBackoff event' sb2))"

declare retry_loop.simps [simp del]

definition routeEventWithRetry :: "subscriber_env \<Rightarrow> GameEvent \<Rightarrow> subscriber \<Rightarrow> error option \<times> subscriber" where
  "routeEventWithRetry env event sb =
     retry_loop env (nat (rc_MaxRetries (sb_retryConfig sb))) 0 (rc_InitialBackoff (sb_retryConfig sb)) event sb"

section \<open>Handling a transaction\<close>

definition storeFailedTransaction :: "subscriber_env \<Rightarrow> Transaction \<Rightarrow> error \<Rightarrow> string \<Rightarrow> subscriber \<Rightarrow> subscriber" where
  "storeFailedTransaction env tx err errorType sb = (case sb_dlq sb of
       None \<Rightarrow> sb
     | Some q \<Rightarrow>
         (let sb1 = recordDLQStoreAttempt errorType sb in
          case StoreFailedTransaction (se_marshal_tx env) (sb_baseBackoff sb) (sb_now sb) tx (Error err) errorType q of
            (Inl dlqErr, q') \<Rightarrow> recordDLQStoreFailure tx dlqErr (sb1\<lparr>sb_dlq := Some q'\<rparr>)
          | (Inr result, q') \<Rightarrow>
              if sr_Outcome result = DLQStoreOutcomeAlreadyPending
              then recordDLQDuplicate tx errorType result (sb1\<lparr>sb_dlq := Some q'\<rparr>)
              else recordDLQStored tx errorType result (sb1\<lparr>sb_dlq := Some q'\<rparr>)))"

definition HandleTransaction :: "subscriber_env \<Rightarrow> Transaction \<Rightarrow> subscriber \<Rightarrow> error option \<times> subscriber" where
  "HandleTransaction env tx sb = (case parseTransaction env tx of
       Inl err \<Rightarrow> (case classifyParseError err of
           Some errorType \<Rightarrow> (None, storeFailedTransaction env tx err errorType (recordParseFailure tx err errorType sb))
         | None \<Rightarrow> (None, sb))
     | Inr event \<Rightarrow> (case routeEventWithRetry env event sb of
           (Some err, sb1) \<Rightarrow> (Some (Wrapf ''failed to route event'' err),
             storeFailedTransaction env tx err DLQErrorTypePersistence sb1)
         | (None, sb1) \<Rightarrow> (None, sb1)))"

end
