(* ===== verification/Cell_Parser.thy ===== *)
theory Cell_Parser
  imports Message_Parser "HOL-Library.Monad_Syntax"
begin

text \<open>
  \<open>internal/infrastructure/toncenter/message_parser_v2.go\<close>, the parser of the running
  system, and \<open>test_message_builder.go\<close>, which builds the messages the contracts send. Cells,
  slices and builders are those of \<open>tonutils-go\<close>, which is not under \<open>src/\<close>: its operations
  are the fields of the parameter \<open>lib\<close>. A load returns the value and the rest of the slice;
  a \<open>Must\<close> operation of a builder panics when the value does not fit, which is \<open>None\<close>.
  The parser uses one such operation too, so a panic of the parser is \<open>None\<close>.
\<close>

record ('c, 's, 'b, 'a) tonutils =
  BeginParse :: "'c \<Rightarrow> 's"
  LoadUInt :: "nat \<Rightarrow> 's \<Rightarrow> error + nat \<times> 's"
  LoadBigUInt :: "nat \<Rightarrow> 's \<Rightarrow> error + int \<times> 's"
  LoadAddr :: "'s \<Rightarrow> error + 'a \<times> 's"
  LoadBigCoins :: "'s \<Rightarrow> error + int \<times> 's"
  LoadRef :: "'s \<Rightarrow> error + 's \<times> 's"
  BitsLeft :: "'s \<Rightarrow> nat"
  RefsNum :: "'s \<Rightarrow> nat"
  FromBOC :: "bytes \<Rightarrow> error + 'c"
  ToBOC :: "'c \<Rightarrow> bytes"
  BeginCell :: "'b"
  MustStoreUInt :: "nat \<Rightarrow> nat \<Rightarrow> 'b \<Rightarrow> 'b option"
  MustStoreBigUInt :: "int \<Rightarrow> nat \<Rightarrow> 'b \<Rightarrow> 'b option"
  MustStoreAddr :: "'a \<Rightarrow> 'b \<Rightarrow> 'b option"
  MustStoreBigCoins :: "int \<Rightarrow> 'b \<Rightarrow> 'b option"
  MustStoreRef :: "'c \<Rightarrow> 'b \<Rightarrow> 'b option"
  MustStoreSlice :: "bytes \<Rightarrow> 'b \<Rightarrow> 'b option"
  EndCell :: "'b \<Rightarrow> 'c"
  ParseAddr :: "string \<Rightarrow> 'a option"
  NewAddress :: "byte \<Rightarrow> bytes \<Rightarrow> 'a"
  Addr_String :: "'a \<Rightarrow> string"

section \<open>The parser\<close>

definition safeUint256ToInt64 :: "int \<Rightarrow> string \<Rightarrow> error + int" where
  "safeUint256ToInt64 value fieldName =
     (if value > 2 ^ 63 - 1 then Inl (ErrorString (fieldName @ '' value '' @ FormatInt value
        @ '' exceeds int64 max ('' @ FormatInt (2 ^ 63 - 1) @ '')''))
      else if value < 0 then Inl (ErrorString (fieldName @ '' value '' @ FormatInt value @ '' is negative''))
      else Inr value)"

text \<open>A load with its error wrapped, and the reading of a game id every message starts with.\<close>

definition load :: "('s \<Rightarrow> error + 'v \<times> 's) \<Rightarrow> string \<Rightarrow> 's \<Rightarrow> error + 'v \<times> 's" where
  "load ld what s = (case ld s of Inl err \<Rightarrow> Inl (Wrapf what err) | Inr r \<Rightarrow> Inr r)"

definition load_gameId :: "('c, 's, 'b, 'a) tonutils \<Rightarrow> string \<Rightarrow> 's \<Rightarrow> error + int \<times> 's" where
  "load_gameId lib label s =
     bindR (load (LoadBigUInt lib 256) (label @ '': failed to read gameId'') s) (\<lambda>(gameIDBig, s1).
       case safeUint256ToInt64 gameIDBig ''gameId'' of
         Inl err \<Rightarrow> Inl (Wrapf label err) | Inr gameID \<Rightarrow> Inr (gameID, s1))"

definition parseGameInitializedConfigSnapshotV2 ::
    "('c, 's, 'b, 'a) tonutils \<Rightarrow> ParsedMessage \<Rightarrow> string \<Rightarrow> 's \<Rightarrow> error + ParsedMessage \<times> 's" where
  "parseGameInitializedConfigSnapshotV2 lib msg label s =
     bindR (load (LoadUInt lib 32) (label @ '': failed to read serviceFeeNumerator'') s) (\<lambda>(serviceFee, s1).
     bindR (load (LoadUInt lib 32) (label @ '': failed to read referrerFeeNumerator'') s1) (\<lambda>(referrerFee, s2).
     bindR (load (LoadUInt lib 32) (label @ '': failed to read waitingForOpenBidSeconds'') s2) (\<lambda>(waiting, s3).
     bindR (load (LoadBigCoins lib) (label @ '': failed to read lowestBid'') s3) (\<lambda>(lowestBid, s4).
     bindR (load (LoadRef lib) (label @ '': failed to read config ref'') s4) (\<lambda>(ref, s5).
     bindR (load (LoadBigCoins lib) (label @ '': failed to read highestBid'') ref) (\<lambda>(highestBid, r1).
     bindR (load (LoadBigCoins lib) (label @ '': failed to read minReferrerPayoutValue'') r1) (\<lambda>(minPayout, r2).
     bindR (load (LoadAddr lib) (label @ '': failed to read feeReceiver'') r2) (\<lambda>(feeReceiver, r3).
     bindR (load (LoadUInt lib 32) (label @ '': failed to read protocolVersion'') r3) (\<lambda>(version, r4).
     bindR (if pm_Opcode msg = OpcodeGameInitializedEvent
            then map_sum id (\<lambda>_. ()) (load (LoadUInt lib 32) (label @ '': failed to read timestamp'') r4)
            else Inr ()) (\<lambda>_.
     Inr (msg\<lparr>pm_ServiceFeeNumerator := of_nat serviceFee, pm_ReferrerFeeNumerator := of_nat referrerFee,
       pm_WaitingForOpenBidSeconds := of_nat waiting, pm_LowestBid := Some lowestBid, pm_HighestBid := Some highestBid,
       pm_MinReferrerPayoutValue := Some minPayout, pm_FeeReceiver := Addr_String lib feeReceiver,
       pm_ProtocolVersion := of_nat version\<rparr>, s5)))))))))))"

definition parseGameInitializedNotifyV2 ::
    "('c, 's, 'b, 'a) tonutils \<Rightarrow> ParsedMessage \<Rightarrow> 's \<Rightarrow> error + ParsedMessage \<times> 's" where
  "parseGameInitializedNotifyV2 lib msg s =
     bindR (load_gameId lib EventGameInitialized s) (\<lambda>(gameID, s1).
     bindR (load (LoadAddr lib) (EventGameInitialized @ '': failed to read playerOne'') s1) (\<lambda>(addr, s2).
     bindR (load (LoadBigCoins lib) (EventGameInitialized @ '': failed to read bidValue'') s2) (\<lambda>(bidValue, s3).
     let msg' = msg\<lparr>pm_EventType := EventGameInitialized, pm_GameID := gameID, pm_PlayerOne := Addr_String lib addr,
       pm_BidValue := Some bidValue\<rparr>
     in if BitsLeft lib s3 > 32 \<or> RefsNum lib s3 > 0
        then parseGameInitializedConfigSnapshotV2 lib msg' EventGameInitialized s3
        else Inr (msg', s3))))"

definition parseGameStartedNotifyV2 ::
    "('c, 's, 'b, 'a) tonutils \<Rightarrow> ParsedMessage \<Rightarrow> 's \<Rightarrow> error + ParsedMessage \<times> 's" where
  "parseGameStartedNotifyV2 lib msg s =
     bindR (load_gameId lib EventGameStarted s) (\<lambda>(gameID, s1).
     bindR (load (LoadAddr lib) (EventGameStarted @ '': failed to read playerOne'') s1) (\<lambda>(addr1, s2).
     bindR (load (LoadAddr lib) (EventGameStarted @ '': failed to read playerTwo'') s2) (\<lambda>(addr2, s3).
     bindR (load (LoadBigCoins lib) (EventGameStarted @ '': failed to read totalGainings'') s3) (\<lambda>(totalGainings, s4).
     Inr (msg\<lparr>pm_EventType := EventGameStarted, pm_GameID := gameID, pm_PlayerOne := Addr_String lib addr1,
       pm_PlayerTwo := Addr_String lib addr2, pm_TotalGainings := Some totalGainings\<rparr>, s4)))))"

definition parseGameFinishedNotifyV2 ::
    "('c, 's, 'b, 'a) tonutils \<Rightarrow> ParsedMessage \<Rightarrow> 's \<Rightarrow> error + ParsedMessage \<times> 's" where
  "parseGameFinishedNotifyV2 lib msg s =
     bindR (load_gameId lib EventGameFinished s) (\<lambda>(gameID, s1).
     bindR (load (LoadAddr lib) (EventGameFinished @ '': failed to read winner'') s1) (\<lambda>(winner, s2).
     bindR (load (LoadAddr lib) (EventGameFinished @ '': failed to read looser'') s2) (\<lambda>(looser, s3).
     bindR (load (LoadBigCoins lib) (EventGameFinished @ '': failed to read totalGainings'') s3) (\<lambda>(totalGainings, s4).
     Inr (msg\<lparr>pm_EventType := EventGameFinished, pm_GameID := gameID, pm_Winner := Addr_String lib winner,
       pm_Looser := Addr_String lib looser, pm_TotalGainings := Some totalGainings\<rparr>, s4)))))"

definition parseGameCancelledNotifyV2 ::
    "('c, 's, 'b, 'a) tonutils \<Rightarrow> ParsedMessage \<Rightarrow> 's \<Rightarrow> error + ParsedMessage \<times> 's" where
  "parseGameCancelledNotifyV2 lib msg s =
     bindR (load_gameId lib EventGameCancelled s) (\<lambda>(gameID, s1).
     bindR (load (LoadAddr lib) (EventGameCancelled @ '': failed to read playerOne'') s1) (\<lambda>(addr, s2).
     Inr (msg\<lparr>pm_EventType := EventGameCancelled, pm_GameID := gameID, pm_PlayerOne := Addr_String lib addr\<rparr>, s2)))"

definition parseSecretOpenedNotifyV2 ::
    "('c, 's, 'b, 'a) tonutils \<Rightarrow> ParsedMessage \<Rightarrow> 's \<Rightarrow> error + ParsedMessage \<times> 's" where
  "parseSecretOpenedNotifyV2 lib msg s =
     bindR (load_gameId lib EventSecretOpened s) (\<lambda>(gameID, s1).
     bindR (load (LoadAddr lib) (EventSecretOpened @ '': failed to read player'') s1) (\<lambda>(addr, s2).
     bindR (load (LoadUInt lib 8) (EventSecretOpened @ '': failed to read coinSide'') s2) (\<lambda>(coinSide, s3).
     Inr (msg\<lparr>pm_EventType := EventSecretOpened, pm_GameID := gameID, pm_Player := Addr_String lib addr,
       pm_CoinSide := of_nat coinSide\<rparr>, s3))))"

definition parseDrawNotifyV2 ::
    "('c, 's, 'b, 'a) tonutils \<Rightarrow> ParsedMessage \<Rightarrow> 's \<Rightarrow> error + ParsedMessage \<times> 's" where
  "parseDrawNotifyV2 lib msg s =
     bindR (load_gameId lib EventDraw s) (\<lambda>(gameID, s1).
     Inr (msg\<lparr>pm_EventType := EventDraw, pm_GameID := gameID\<rparr>, s1))"

definition parseInsufficientBalanceNotifyV2 ::
    "('c, 's, 'b, 'a) tonutils \<Rightarrow> ParsedMessage \<Rightarrow> 's \<Rightarrow> error + ParsedMessage \<times> 's" where
  "parseInsufficientBalanceNotifyV2 lib msg s =
     bindR (load_gameId lib EventInsufficientBalance s) (\<lambda>(gameID, s1).
     bindR (load (LoadBigCoins lib) (EventInsufficientBalance @ '': failed to read required'') s1) (\<lambda>(required, s2).
     bindR (load (LoadBigCoins lib) (EventInsufficientBalance @ '': failed to read actual'') s2) (\<lambda>(actual, s3).
     Inr (msg\<lparr>pm_EventType := EventInsufficientBalance, pm_GameID := gameID, pm_Required := Some required,
       pm_Actual := Some actual\<rparr>, s3))))"

definition loadEmittedEventTimestamp :: "('c, 's, 'b, 'a) tonutils \<Rightarrow> string \<Rightarrow> 's \<Rightarrow> error + 's" where
  "loadEmittedEventTimestamp lib eventName s =
     map_sum id snd (load (LoadUInt lib 32) (eventName @ '': failed to read timestamp'') s)"

definition parseGameInitializedEventV2 ::
    "('c, 's, 'b, 'a) tonutils \<Rightarrow> ParsedMessage \<Rightarrow> 's \<Rightarrow> error + ParsedMessage \<times> 's" where
  "parseGameInitializedEventV2 lib msg s =
     bindR (parseGameInitializedNotifyV2 lib msg s) (\<lambda>(parsedMsg, s1).
     if BitsLeft lib s1 \<ge> 32
     then bindR (loadEmittedEventTimestamp lib ''GameInitializedEvent'' s1) (\<lambda>s2. Inr (parsedMsg, s2))
     else Inr (parsedMsg, s1))"

definition parseGameStartedEventV2 ::
    "('c, 's, 'b, 'a) tonutils \<Rightarrow> ParsedMessage \<Rightarrow> 's \<Rightarrow> error + ParsedMessage \<times> 's" where
  "parseGameStartedEventV2 lib msg s =
     bindR (parseGameStartedNotifyV2 lib msg s) (\<lambda>(parsedMsg, s1).
     bindR (loadEmittedEventTimestamp lib ''GameStartedEvent'' s1) (\<lambda>s2. Inr (parsedMsg, s2)))"

definition parseGameFinishedEventV2 ::
    "('c, 's, 'b, 'a) tonutils \<Rightarrow> ParsedMessage \<Rightarrow> 's \<Rightarrow> error + ParsedMessage \<times> 's" where
  "parseGameFinishedEventV2 lib msg s =
     bindR (parseGameFinishedNotifyV2 lib msg s) (\<lambda>(parsedMsg, s1).
     bindR (loadEmittedEventTimestamp lib ''GameFinishedEvent'' s1) (\<lambda>s2. Inr (parsedMsg, s2)))"

definition parseGameCancelledEventV2 ::
    "('c, 's, 'b, 'a) tonutils \<Rightarrow> ParsedMessage \<Rightarrow> 's \<Rightarrow> error + ParsedMessage \<times> 's" where
  "parseGameCancelledEventV2 lib msg s =
     bindR (parseGameCancelledNotifyV2 lib msg s) (\<lambda>(parsedMsg, s1).
     bindR (loadEmittedEventTimestamp lib ''GameCancelledEvent'' s1) (\<lambda>s2. Inr (parsedMsg, s2)))"

definition parseDrawEventV2 ::
    "('c, 's, 'b, 'a) tonutils \<Rightarrow> ParsedMessage \<Rightarrow> 's \<Rightarrow> error + ParsedMessage \<times> 's" where
  "parseDrawEventV2 lib msg s =
     bindR (parseDrawNotifyV2 lib msg s) (\<lambda>(parsedMsg, s1).
     bindR (loadEmittedEventTimestamp lib ''DrawEvent'' s1) (\<lambda>s2. Inr (parsedMsg, s2)))"

definition parseMessageDataFromSlice ::
    "('c, 's, 'b, 'a) tonutils \<Rightarrow> ParsedMessage \<Rightarrow> 's \<Rightarrow> 32 word \<Rightarrow> error + ParsedMessage" where
  "parseMessageDataFromSlice lib msg s opcode = map_sum id fst
     (if opcode = OpcodeGameInitializedNotify then parseGameInitializedNotifyV2 lib msg s
      else if opcode = OpcodeGameInitializedEvent then parseGameInitializedEventV2 lib msg s
      else if opcode = OpcodeGameStartedNotify then parseGameStartedNotifyV2 lib msg s
      else if opcode = OpcodeGameStartedEvent then parseGameStartedEventV2 lib msg s
      else if opcode = OpcodeGameFinishedNotify then parseGameFinishedNotifyV2 lib msg s
      else if opcode = OpcodeGameFinishedEvent then parseGameFinishedEventV2 lib msg s
      else if opcode = OpcodeGameCancelledNotify then parseGameCancelledNotifyV2 lib msg s
      else if opcode = OpcodeGameCancelledEvent then parseGameCancelledEventV2 lib msg s
      else if opcode = OpcodeSecretOpenedNotify then parseSecretOpenedNotifyV2 lib msg s
      else if opcode = OpcodeDrawNotify then parseDrawNotifyV2 lib msg s
      else if opcode = OpcodeDrawEvent then parseDrawEventV2 lib msg s
      else if opcode = OpcodeInsufficientBalanceNotify then parseInsufficientBalanceNotifyV2 lib msg s
      else Inl (unknown_opcode opcode))"

definition parseCellMessage :: "('c, 's, 'b, 'a) tonutils \<Rightarrow> 'c \<Rightarrow> error + ParsedMessage" where
  "parseCellMessage lib c =
     bindR (load (LoadUInt lib 32) ''failed to read opcode'' (BeginParse lib c)) (\<lambda>(opcode, s).
     parseMessageDataFromSlice lib (empty_message\<lparr>pm_Opcode := of_nat opcode\<rparr>) s (of_nat opcode))"

definition raw_opcode :: "bytes \<Rightarrow> 32 word" where
  "raw_opcode data = push_bit 24 (ucast (data ! 0)) OR push_bit 16 (ucast (data ! 1))
     OR push_bit 8 (ucast (data ! 2)) OR ucast (data ! 3)"

definition parseRawData :: "('c, 's, 'b, 'a) tonutils \<Rightarrow> bytes \<Rightarrow> (error + ParsedMessage) option" where
  "parseRawData lib data =
     (if length data < 4 then Some (Inl (message_too_short data))
      else let opcode = raw_opcode data in
        if GetEventTypeForOpcode opcode = None then Some (Inl (unknown_opcode opcode))
        else do {
          builder \<leftarrow> (if length data > 4 then MustStoreSlice lib (drop 4 data) (BeginCell lib) else Some (BeginCell lib));
          Some (parseMessageDataFromSlice lib (empty_message\<lparr>pm_Opcode := opcode\<rparr>)
            (BeginParse lib (EndCell lib builder)) opcode)
        })"

definition ParseInMsg :: "decoders \<Rightarrow> ('c, 's, 'b, 'a) tonutils \<Rightarrow> string \<Rightarrow> (error + ParsedMessage) option" where
  "ParseInMsg dec lib inMsgJSON =
     (if inMsgJSON = '''' \<or> inMsgJSON = ''null'' then Some (Inl (ErrorString ''empty in_msg''))
      else case unmarshal_in_msg dec inMsgJSON of
          None \<Rightarrow> Some (parseLegacyParsedMessage (unmarshal_map dec inMsgJSON))
        | Some inMsg \<Rightarrow>
            if in_Message inMsg = '''' \<and> in_Body inMsg = ''''
            then Some (parseLegacyParsedMessage (unmarshal_map dec inMsgJSON))
            else case message_bytes inMsg of
                Inl err \<Rightarrow> Some (Inl err)
              | Inr bocData \<Rightarrow> (case FromBOC lib bocData of
                    Inl err \<Rightarrow> parseRawData lib bocData
                  | Inr c \<Rightarrow> Some (parseCellMessage lib c)))"

section \<open>The message builder\<close>

definition parseOrDefaultAddress :: "('c, 's, 'b, 'a) tonutils \<Rightarrow> string \<Rightarrow> 'a" where
  "parseOrDefaultAddress lib addrStr = (case ParseAddr lib addrStr of
     None \<Rightarrow> NewAddress lib 0 (replicate 32 0) | Some addr \<Rightarrow> addr)"

definition encode_cell :: "('c, 's, 'b, 'a) tonutils \<Rightarrow> 'b \<Rightarrow> string" where
  "encode_cell lib builder = EncodeToString (ToBOC lib (EndCell lib builder))"

definition BuildGameInitializedNotify :: "('c, 's, 'b, 'a) tonutils \<Rightarrow> int \<Rightarrow> string \<Rightarrow> int \<Rightarrow> string option" where
  "BuildGameInitializedNotify lib gameID playerOne bidValue = do {
     b \<leftarrow> MustStoreUInt lib (unat OpcodeGameInitializedNotify) 32 (BeginCell lib);
     b \<leftarrow> MustStoreBigUInt lib gameID 256 b;
     b \<leftarrow> MustStoreAddr lib (parseOrDefaultAddress lib playerOne) b;
     b \<leftarrow> MustStoreBigCoins lib bidValue b;
     Some (encode_cell lib b) }"

definition BuildGameStartedNotify :: "('c, 's, 'b, 'a) tonutils \<Rightarrow> int \<Rightarrow> string \<Rightarrow> string \<Rightarrow> int \<Rightarrow> string option" where
  "BuildGameStartedNotify lib gameID playerOne playerTwo totalGainings = do {
     b \<leftarrow> MustStoreUInt lib (unat OpcodeGameStartedNotify) 32 (BeginCell lib);
     b \<leftarrow> MustStoreBigUInt lib gameID 256 b;
     b \<leftarrow> MustStoreAddr lib (parseOrDefaultAddress lib playerOne) b;
     b \<leftarrow> MustStoreAddr lib (parseOrDefaultAddress lib playerTwo) b;
     b \<leftarrow> MustStoreBigCoins lib totalGainings b;
     Some (encode_cell lib b) }"

definition BuildGameFinishedNotify :: "('c, 's, 'b, 'a) tonutils \<Rightarrow> int \<Rightarrow> string \<Rightarrow> string \<Rightarrow> int \<Rightarrow> string option" where
  "BuildGameFinishedNotify lib gameID winner looser totalGainings = do {
     b \<leftarrow> MustStoreUInt lib (unat OpcodeGameFinishedNotify) 32 (BeginCell lib);
     b \<leftarrow> MustStoreBigUInt lib gameID 256 b;
     b \<leftarrow> MustStoreAddr lib (parseOrDefaultAddress lib winner) b;
     b \<leftarrow> MustStoreAddr lib (parseOrDefaultAddress lib looser) b;
     b \<leftarrow> MustStoreBigCoins lib totalGainings b;
     Some (encode_cell lib b) }"

definition BuildGameCancelledNotify :: "('c, 's, 'b, 'a) tonutils \<Rightarrow> int \<Rightarrow> string \<Rightarrow> string option" where
  "BuildGameCancelledNotify lib gameID playerOne = do {
     b \<leftarrow> MustStoreUInt lib (unat OpcodeGameCancelledNotify) 32 (BeginCell lib);
     b \<leftarrow> MustStoreBigUInt lib gameID 256 b;
     b \<leftarrow> MustStoreAddr lib (parseOrDefaultAddress lib playerOne) b;
     Some (encode_cell lib b) }"

definition BuildDrawNotify :: "('c, 's, 'b, 'a) tonutils \<Rightarrow> int \<Rightarrow> string option" where
  "BuildDrawNotify lib gameID = do {
     b \<leftarrow> MustStoreUInt lib (unat OpcodeDrawNotify) 32 (BeginCell lib);
     b \<leftarrow> MustStoreBigUInt lib gameID 256 b;
     Some (encode_cell lib b) }"

definition BuildSecretOpenedNotify :: "('c, 's, 'b, 'a) tonutils \<Rightarrow> int \<Rightarrow> string \<Rightarrow> byte \<Rightarrow> string option" where
  "BuildSecretOpenedNotify lib gameID player coinSide = do {
     b \<leftarrow> MustStoreUInt lib (unat OpcodeSecretOpenedNotify) 32 (BeginCell lib);
     b \<leftarrow> MustStoreBigUInt lib gameID 256 b;
     b \<leftarrow> MustStoreAddr lib (parseOrDefaultAddress lib player) b;
     b \<leftarrow> MustStoreUInt lib (unat coinSide) 8 b;
     Some (encode_cell lib b) }"

definition BuildInsufficientBalanceNotify :: "('c, 's, 'b, 'a) tonutils \<Rightarrow> int \<Rightarrow> int \<Rightarrow> int \<Rightarrow> string option" where
  "BuildInsufficientBalanceNotify lib gameID required actual = do {
     b \<leftarrow> MustStoreUInt lib (unat OpcodeInsufficientBalanceNotify) 32 (BeginCell lib);
     b \<leftarrow> MustStoreBigUInt lib gameID 256 b;
     b \<leftarrow> MustStoreBigCoins lib required b;
     b \<leftarrow> MustStoreBigCoins lib actual b;
     Some (encode_cell lib b) }"

definition BuildGameInitializedEvent ::
    "('c, 's, 'b, 'a) tonutils \<Rightarrow> int \<Rightarrow> string \<Rightarrow> int \<Rightarrow> 32 word \<Rightarrow> string option" where
  "BuildGameInitializedEvent lib gameID playerOne bidValue timestamp = do {
     b \<leftarrow> MustStoreUInt lib (unat OpcodeGameInitializedEvent) 32 (BeginCell lib);
     b \<leftarrow> MustStoreBigUInt lib gameID 256 b;
     b \<leftarrow> MustStoreAddr lib (parseOrDefaultAddress lib playerOne) b;
     b \<leftarrow> MustStoreBigCoins lib bidValue b;
     b \<leftarrow> MustStoreUInt lib (unat timestamp) 32 b;
     Some (encode_cell lib b) }"

definition BuildGameInitializedEventWithConfig ::
    "('c, 's, 'b, 'a) tonutils \<Rightarrow> int \<Rightarrow> string \<Rightarrow> int \<Rightarrow> string \<Rightarrow> 32 word \<Rightarrow> string option" where
  "BuildGameInitializedEventWithConfig lib gameID playerOne bidValue feeReceiver timestamp = do {
     b \<leftarrow> MustStoreUInt lib (unat OpcodeGameInitializedEvent) 32 (BeginCell lib);
     b \<leftarrow> MustStoreBigUInt lib gameID 256 b;
     b \<leftarrow> MustStoreAddr lib (parseOrDefaultAddress lib playerOne) b;
     b \<leftarrow> MustStoreBigCoins lib bidValue b;
     b \<leftarrow> MustStoreUInt lib 500 32 b;
     b \<leftarrow> MustStoreUInt lib 300 32 b;
     b \<leftarrow> MustStoreUInt lib 3600 32 b;
     b \<leftarrow> MustStoreBigCoins lib 100000000 b;
     r \<leftarrow> MustStoreBigCoins lib 100000000000 (BeginCell lib);
     r \<leftarrow> MustStoreBigCoins lib 50000000 r;
     r \<leftarrow> MustStoreAddr lib (parseOrDefaultAddress lib feeReceiver) r;
     r \<leftarrow> MustStoreUInt lib 2 32 r;
     r \<leftarrow> MustStoreUInt lib (unat timestamp) 32 r;
     b \<leftarrow> MustStoreRef lib (EndCell lib r) b;
     Some (encode_cell lib b) }"

definition BuildGameStartedEvent ::
    "('c, 's, 'b, 'a) tonutils \<Rightarrow> int \<Rightarrow> string \<Rightarrow> string \<Rightarrow> int \<Rightarrow> 32 word \<Rightarrow> string option" where
  "BuildGameStartedEvent lib gameID playerOne playerTwo totalGainings timestamp = do {
     b \<leftarrow> MustStoreUInt lib (unat OpcodeGameStartedEvent) 32 (BeginCell lib);
     b \<leftarrow> MustStoreBigUInt lib gameID 256 b;
     b \<leftarrow> MustStoreAddr lib (parseOrDefaultAddress lib playerOne) b;
     b \<leftarrow> MustStoreAddr lib (parseOrDefaultAddress lib playerTwo) b;
     b \<leftarrow> MustStoreBigCoins lib totalGainings b;
     b \<leftarrow> MustStoreUInt lib (unat timestamp) 32 b;
     Some (encode_cell lib b) }"

definition BuildGameFinishedEvent ::
    "('c, 's, 'b, 'a) tonutils \<Rightarrow> int \<Rightarrow> string \<Rightarrow> string \<Rightarrow> int \<Rightarrow> 32 word \<Rightarrow> string option" where
  "BuildGameFinishedEvent lib gameID winner looser totalGainings timestamp = do {
     b \<leftarrow> MustStoreUInt lib (unat OpcodeGameFinishedEvent) 32 (BeginCell lib);
     b \<leftarrow> MustStoreBigUInt lib gameID 256 b;
     b \<leftarrow> MustStoreAddr lib (parseOrDefaultAddress lib winner) b;
     b \<leftarrow> MustStoreAddr lib (parseOrDefaultAddress lib looser) b;
     b \<leftarrow> MustStoreBigCoins lib totalGainings b;
     b \<leftarrow> MustStoreUInt lib (unat timestamp) 32 b;
     Some (encode_cell lib b) }"

definition BuildGameCancelledEvent :: "('c, 's, 'b, 'a) tonutils \<Rightarrow> int \<Rightarrow> string \<Rightarrow> 32 word \<Rightarrow> string option" where
  "BuildGameCancelledEvent lib gameID playerOne timestamp = do {
     b \<leftarrow> MustStoreUInt lib (unat OpcodeGameCancelledEvent) 32 (BeginCell lib);
     b \<leftarrow> MustStoreBigUInt lib gameID 256 b;
     b \<leftarrow> MustStoreAddr lib (parseOrDefaultAddress lib playerOne) b;
     b \<leftarrow> MustStoreUInt lib (unat timestamp) 32 b;
     Some (encode_cell lib b) }"

definition BuildDrawEvent :: "('c, 's, 'b, 'a) tonutils \<Rightarrow> int \<Rightarrow> 32 word \<Rightarrow> string option" where
  "BuildDrawEvent lib gameID timestamp = do {
     b \<leftarrow> MustStoreUInt lib (unat OpcodeDrawEvent) 32 (BeginCell lib);
     b \<leftarrow> MustStoreBigUInt lib gameID 256 b;
     b \<leftarrow> MustStoreUInt lib (unat timestamp) 32 b;
     Some (encode_cell lib b) }"

definition BuildOpcodeOnlyMessage :: "('c, 's, 'b, 'a) tonutils \<Rightarrow> 32 word \<Rightarrow> string option" where
  "BuildOpcodeOnlyMessage lib opcode = do {
     b \<leftarrow> MustStoreUInt lib (unat opcode) 32 (BeginCell lib);
     Some (encode_cell lib b) }"

end
