(* ===== verification/Message_Roundtrip.thy ===== *)
theory Message_Roundtrip
  imports Cell_Parser
begin

text \<open>
  The parser reads what the contracts write. The contract of the cell library is the locale
  \<open>cell_library\<close>: loading from a slice gives the fields that were stored in the builder, in
  their order, and references apart from the bits. Under it, parsing inverts every function of the
  message builder. Whatever the library does, a parsed message has the event type of its opcode
  and a game id that fits an \<open>int64\<close>.
\<close>

section \<open>The contract of the cell library\<close>

datatype 'a field = FUInt nat nat | FBigUInt nat int | FAddr 'a | FCoins int

fun field_ok :: "'a field \<Rightarrow> bool" where
  "field_ok (FUInt w v) = (v < 2 ^ w)"
| "field_ok (FBigUInt w v) = (0 \<le> v \<and> v < 2 ^ w)"
| "field_ok (FAddr a) = True"
| "field_ok (FCoins v) = (0 \<le> v \<and> v < 2 ^ 120)"

fun store :: "('c, 's, 'b, 'a) tonutils \<Rightarrow> 'a field \<Rightarrow> 'b \<Rightarrow> 'b option" where
  "store lib (FUInt w v) b = MustStoreUInt lib v w b"
| "store lib (FBigUInt w v) b = MustStoreBigUInt lib v w b"
| "store lib (FAddr a) b = MustStoreAddr lib a b"
| "store lib (FCoins v) b = MustStoreBigCoins lib v b"

fun store_all :: "('c, 's, 'b, 'a) tonutils \<Rightarrow> 'a field list \<Rightarrow> 'b \<Rightarrow> 'b option" where
  "store_all lib [] b = Some b"
| "store_all lib (f # fs) b = Option.bind (store lib f b) (store_all lib fs)"

text \<open>
  \<open>built b fs rs\<close>: the builder holds these fields and references. \<open>slice fs rs\<close> is the
  slice from which they can be read.
\<close>

locale cell_library =
  fixes lib :: "('c, 's, 'b, 'a) tonutils"
    and built :: "'b \<Rightarrow> 'a field list \<Rightarrow> 'c list \<Rightarrow> bool"
    and slice :: "'a field list \<Rightarrow> 'c list \<Rightarrow> 's"
  assumes built_begin: "built (BeginCell lib) [] []"
    and built_store: "built b fs rs \<Longrightarrow> field_ok f \<Longrightarrow> store lib f b = Some b' \<Longrightarrow> built b' (fs @ [f]) rs"
    and built_ref: "built b fs rs \<Longrightarrow> MustStoreRef lib c b = Some b' \<Longrightarrow> built b' fs (rs @ [c])"
    and begin_parse: "built b fs rs \<Longrightarrow> BeginParse lib (EndCell lib b) = slice fs rs"
    and boc: "FromBOC lib (ToBOC lib c) = Inr c" "ToBOC lib c \<noteq> []"
    and load_uint: "v < 2 ^ w \<Longrightarrow> LoadUInt lib w (slice (FUInt w v # fs) rs) = Inr (v, slice fs rs)"
    and load_big_uint: "0 \<le> x \<Longrightarrow> x < 2 ^ w \<Longrightarrow> LoadBigUInt lib w (slice (FBigUInt w x # fs) rs) = Inr (x, slice fs rs)"
    and load_addr: "LoadAddr lib (slice (FAddr a # fs) rs) = Inr (a, slice fs rs)"
    and load_coins: "0 \<le> x \<Longrightarrow> x < 2 ^ 120 \<Longrightarrow> LoadBigCoins lib (slice (FCoins x # fs) rs) = Inr (x, slice fs rs)"
    and load_ref: "LoadRef lib (slice fs (c # rs)) = Inr (BeginParse lib c, slice fs rs)"
    and bits_left: "BitsLeft lib (slice [] rs) = 0" "BitsLeft lib (slice [FUInt w v] rs) = w"
    and refs_num: "RefsNum lib (slice fs rs) = length rs"
begin

lemma built_store_all:
  "built b gs rs \<Longrightarrow> list_all field_ok fs \<Longrightarrow> store_all lib fs b = Some b' \<Longrightarrow> built b' (gs @ fs) rs"
proof (induction fs arbitrary: b gs)
  case (Cons f fs)
  then obtain b1 where b1: "store lib f b = Some b1" "store_all lib fs b1 = Some b'" by (auto simp: bind_eq_Some_conv)
  have "built b1 (gs @ [f]) rs" using Cons.prems b1(1) by (intro built_store) auto
  from Cons.IH [OF this _ b1(2)] Cons.prems show ?case by simp
qed simp

lemmas read_slice = load_uint load_big_uint load_addr load_coins load_ref bits_left refs_num

end

section \<open>The messages\<close>

datatype game_message =
    GameInitializedNotify int string int
  | GameStartedNotify int string string int
  | GameFinishedNotify int string string int
  | GameCancelledNotify int string
  | DrawNotify int
  | SecretOpenedNotify int string byte
  | InsufficientBalanceNotify int int int
  | GameInitializedEvent int string int "32 word"
  | GameInitializedEventWithConfig int string int string "32 word"
  | GameStartedEvent int string string int "32 word"
  | GameFinishedEvent int string string int "32 word"
  | GameCancelledEvent int string "32 word"
  | DrawEvent int "32 word"

fun build :: "('c, 's, 'b, 'a) tonutils \<Rightarrow> game_message \<Rightarrow> string option" where
  "build lib (GameInitializedNotify i p v) = BuildGameInitializedNotify lib i p v"
| "build lib (GameStartedNotify i p q v) = BuildGameStartedNotify lib i p q v"
| "build lib (GameFinishedNotify i p q v) = BuildGameFinishedNotify lib i p q v"
| "build lib (GameCancelledNotify i p) = BuildGameCancelledNotify lib i p"
| "build lib (DrawNotify i) = BuildDrawNotify lib i"
| "build lib (SecretOpenedNotify i p c) = BuildSecretOpenedNotify lib i p c"
| "build lib (InsufficientBalanceNotify i v w) = BuildInsufficientBalanceNotify lib i v w"
| "build lib (GameInitializedEvent i p v t) = BuildGameInitializedEvent lib i p v t"
| "build lib (GameInitializedEventWithConfig i p v f t) = BuildGameInitializedEventWithConfig lib i p v f t"
| "build lib (GameStartedEvent i p q v t) = BuildGameStartedEvent lib i p q v t"
| "build lib (GameFinishedEvent i p q v t) = BuildGameFinishedEvent lib i p q v t"
| "build lib (GameCancelledEvent i p t) = BuildGameCancelledEvent lib i p t"
| "build lib (DrawEvent i t) = BuildDrawEvent lib i t"

text \<open>The arguments of the builder are \<open>int64\<close>; a game id and coins that are not negative.\<close>

fun message_ok :: "game_message \<Rightarrow> bool" where
  "message_ok (GameInitializedNotify i p v) = (i \<in> {0 ..< 2 ^ 63} \<and> v \<in> {0 ..< 2 ^ 63})"
| "message_ok (GameStartedNotify i p q v) = (i \<in> {0 ..< 2 ^ 63} \<and> v \<in> {0 ..< 2 ^ 63})"
| "message_ok (GameFinishedNotify i p q v) = (i \<in> {0 ..< 2 ^ 63} \<and> v \<in> {0 ..< 2 ^ 63})"
| "message_ok (GameCancelledNotify i p) = (i \<in> {0 ..< 2 ^ 63})"
| "message_ok (DrawNotify i) = (i \<in> {0 ..< 2 ^ 63})"
| "message_ok (SecretOpenedNotify i p c) = (i \<in> {0 ..< 2 ^ 63})"
| "message_ok (InsufficientBalanceNotify i v w) = (i \<in> {0 ..< 2 ^ 63} \<and> v \<in> {0 ..< 2 ^ 63} \<and> w \<in> {0 ..< 2 ^ 63})"
| "message_ok (GameInitializedEvent i p v t) = (i \<in> {0 ..< 2 ^ 63} \<and> v \<in> {0 ..< 2 ^ 63})"
| "message_ok (GameInitializedEventWithConfig i p v f t) = (i \<in> {0 ..< 2 ^ 63} \<and> v \<in> {0 ..< 2 ^ 63})"
| "message_ok (GameStartedEvent i p q v t) = (i \<in> {0 ..< 2 ^ 63} \<and> v \<in> {0 ..< 2 ^ 63})"
| "message_ok (GameFinishedEvent i p q v t) = (i \<in> {0 ..< 2 ^ 63} \<and> v \<in> {0 ..< 2 ^ 63})"
| "message_ok (GameCancelledEvent i p t) = (i \<in> {0 ..< 2 ^ 63})"
| "message_ok (DrawEvent i t) = (i \<in> {0 ..< 2 ^ 63})"

definition addr_text :: "('c, 's, 'b, 'a) tonutils \<Rightarrow> string \<Rightarrow> string" where
  "addr_text lib p = Addr_String lib (parseOrDefaultAddress lib p)"

text \<open>What the parser makes of a message, the opcode apart.\<close>

fun meaning :: "('c, 's, 'b, 'a) tonutils \<Rightarrow> game_message \<Rightarrow> ParsedMessage" where
  "meaning lib (GameInitializedNotify i p v) = empty_message\<lparr>pm_Opcode := OpcodeGameInitializedNotify,
     pm_EventType := EventGameInitialized, pm_GameID := i, pm_PlayerOne := addr_text lib p, pm_BidValue := Some v\<rparr>"
| "meaning lib (GameStartedNotify i p q v) = empty_message\<lparr>pm_Opcode := OpcodeGameStartedNotify,
     pm_EventType := EventGameStarted, pm_GameID := i, pm_PlayerOne := addr_text lib p, pm_PlayerTwo := addr_text lib q,
     pm_TotalGainings := Some v\<rparr>"
| "meaning lib (GameFinishedNotify i p q v) = empty_message\<lparr>pm_Opcode := OpcodeGameFinishedNotify,
     pm_EventType := EventGameFinished, pm_GameID := i, pm_Winner := addr_text lib p, pm_Looser := addr_text lib q,
     pm_TotalGainings := Some v\<rparr>"
| "meaning lib (GameCancelledNotify i p) = empty_message\<lparr>pm_Opcode := OpcodeGameCancelledNotify,
     pm_EventType := EventGameCancelled, pm_GameID := i, pm_PlayerOne := addr_text lib p\<rparr>"
| "meaning lib (DrawNotify i) = empty_message\<lparr>pm_Opcode := OpcodeDrawNotify, pm_EventType := EventDraw, pm_GameID := i\<rparr>"
| "meaning lib (SecretOpenedNotify i p c) = empty_message\<lparr>pm_Opcode := OpcodeSecretOpenedNotify,
     pm_EventType := EventSecretOpened, pm_GameID := i, pm_Player := addr_text lib p, pm_CoinSide := c\<rparr>"
| "meaning lib (InsufficientBalanceNotify i v w) = empty_message\<lparr>pm_Opcode := OpcodeInsufficientBalanceNotify,
     pm_EventType := EventInsufficientBalance, pm_GameID := i, pm_Required := Some v, pm_Actual := Some w\<rparr>"
| "meaning lib (GameInitializedEvent i p v t) = empty_message\<lparr>pm_Opcode := OpcodeGameInitializedEvent,
     pm_EventType := EventGameInitialized, pm_GameID := i, pm_PlayerOne := addr_text lib p, pm_BidValue := Some v\<rparr>"
| "meaning lib (GameInitializedEventWithConfig i p v f t) = empty_message\<lparr>pm_Opcode := OpcodeGameInitializedEvent,
     pm_EventType := EventGameInitialized, pm_GameID := i, pm_PlayerOne := addr_text lib p, pm_BidValue := Some v,
       pm_ServiceFeeNumerator := 500, pm_ReferrerFeeNumerator := 300, pm_WaitingForOpenBidSeconds := 3600,
       pm_LowestBid := Some 100000000, pm_HighestBid := Some 100000000000, pm_MinReferrerPayoutValue := Some 50000000,
       pm_FeeReceiver := addr_text lib f, pm_ProtocolVersion := 2\<rparr>"
| "meaning lib (GameStartedEvent i p q v t) = empty_message\<lparr>pm_Opcode := OpcodeGameStartedEvent,
     pm_EventType := EventGameStarted, pm_GameID := i, pm_PlayerOne := addr_text lib p, pm_PlayerTwo := addr_text lib q,
     pm_TotalGainings := Some v\<rparr>"
| "meaning lib (GameFinishedEvent i p q v t) = empty_message\<lparr>pm_Opcode := OpcodeGameFinishedEvent,
     pm_EventType := EventGameFinished, pm_GameID := i, pm_Winner := addr_text lib p, pm_Looser := addr_text lib q,
     pm_TotalGainings := Some v\<rparr>"
| "meaning lib (GameCancelledEvent i p t) = empty_message\<lparr>pm_Opcode := OpcodeGameCancelledEvent,
     pm_EventType := EventGameCancelled, pm_GameID := i, pm_PlayerOne := addr_text lib p\<rparr>"
| "meaning lib (DrawEvent i t) = empty_message\<lparr>pm_Opcode := OpcodeDrawEvent,
     pm_EventType := EventDraw, pm_GameID := i\<rparr>"


section \<open>The layout of the messages\<close>

abbreviation head_fields :: "32 word \<Rightarrow> int \<Rightarrow> 'a field list \<Rightarrow> 'a field list" where
  "head_fields opcode gameID fs \<equiv> FUInt 32 (unat opcode) # FBigUInt 256 gameID # fs"

fun layout :: "('c, 's, 'b, 'a) tonutils \<Rightarrow> game_message \<Rightarrow> 'a field list" where
  "layout lib (GameInitializedNotify i p v) = head_fields OpcodeGameInitializedNotify i
     [FAddr (parseOrDefaultAddress lib p), FCoins v]"
| "layout lib (GameStartedNotify i p q v) = head_fields OpcodeGameStartedNotify i
     [FAddr (parseOrDefaultAddress lib p), FAddr (parseOrDefaultAddress lib q), FCoins v]"
| "layout lib (GameFinishedNotify i p q v) = head_fields OpcodeGameFinishedNotify i
     [FAddr (parseOrDefaultAddress lib p), FAddr (parseOrDefaultAddress lib q), FCoins v]"
| "layout lib (GameCancelledNotify i p) = head_fields OpcodeGameCancelledNotify i [FAddr (parseOrDefaultAddress lib p)]"
| "layout lib (DrawNotify i) = head_fields OpcodeDrawNotify i []"
| "layout lib (SecretOpenedNotify i p c) = head_fields OpcodeSecretOpenedNotify i
     [FAddr (parseOrDefaultAddress lib p), FUInt 8 (unat c)]"
| "layout lib (InsufficientBalanceNotify i v w) = head_fields OpcodeInsufficientBalanceNotify i [FCoins v, FCoins w]"
| "layout lib (GameInitializedEvent i p v t) = head_fields OpcodeGameInitializedEvent i
     [FAddr (parseOrDefaultAddress lib p), FCoins v, FUInt 32 (unat t)]"
| "layout lib (GameInitializedEventWithConfig i p v f t) = head_fields OpcodeGameInitializedEvent i
     [FAddr (parseOrDefaultAddress lib p), FCoins v, FUInt 32 500, FUInt 32 300, FUInt 32 3600, FCoins 100000000]"
| "layout lib (GameStartedEvent i p q v t) = head_fields OpcodeGameStartedEvent i
     [FAddr (parseOrDefaultAddress lib p), FAddr (parseOrDefaultAddress lib q), FCoins v, FUInt 32 (unat t)]"
| "layout lib (GameFinishedEvent i p q v t) = head_fields OpcodeGameFinishedEvent i
     [FAddr (parseOrDefaultAddress lib p), FAddr (parseOrDefaultAddress lib q), FCoins v, FUInt 32 (unat t)]"
| "layout lib (GameCancelledEvent i p t) = head_fields OpcodeGameCancelledEvent i
     [FAddr (parseOrDefaultAddress lib p), FUInt 32 (unat t)]"
| "layout lib (DrawEvent i t) = head_fields OpcodeDrawEvent i [FUInt 32 (unat t)]"

definition config_layout :: "('c, 's, 'b, 'a) tonutils \<Rightarrow> string \<Rightarrow> 32 word \<Rightarrow> 'a field list" where
  "config_layout lib f t = [FCoins 100000000000, FCoins 50000000, FAddr (parseOrDefaultAddress lib f), FUInt 32 2,
     FUInt 32 (unat t)]"

fun config_of :: "game_message \<Rightarrow> (string \<times> 32 word) option" where
  "config_of (GameInitializedEventWithConfig i p v f t) = Some (f, t)"
| "config_of _ = None"

lemmas builder_defs = BuildGameInitializedNotify_def BuildGameStartedNotify_def BuildGameFinishedNotify_def
  BuildGameCancelledNotify_def BuildDrawNotify_def BuildSecretOpenedNotify_def BuildInsufficientBalanceNotify_def
  BuildGameInitializedEvent_def BuildGameInitializedEventWithConfig_def BuildGameStartedEvent_def
  BuildGameFinishedEvent_def BuildGameCancelledEvent_def BuildDrawEvent_def

text \<open>The builder stores the layout of a message, and the configuration in a reference.\<close>

lemma build_layout:
  "build lib m = Option.bind (store_all lib (layout lib m) (BeginCell lib)) (\<lambda>b. case config_of m of
       None \<Rightarrow> Some (encode_cell lib b)
     | Some (f, t) \<Rightarrow> Option.bind (store_all lib (config_layout lib f t) (BeginCell lib)) (\<lambda>r.
         Option.bind (MustStoreRef lib (EndCell lib r) b) (\<lambda>b. Some (encode_cell lib b))))"
  by (cases m) (simp_all add: builder_defs config_layout_def bind_assoc)

lemma word32_lt: "unat (w :: 32 word) < 2 ^ 32"
  using unsigned_less [of w] by simp

lemma word8_lt: "unat (w :: 8 word) < 2 ^ 8"
  using unsigned_less [of w] by simp

lemma layout_ok: "message_ok m \<Longrightarrow> list_all field_ok (layout lib m)" "list_all field_ok (config_layout lib f t)"
  by (cases m) (use word32_lt word8_lt in \<open>auto simp: config_layout_def\<close>)

lemmas parser_defs = load_def load_gameId_def safeUint256ToInt64_def parseGameInitializedConfigSnapshotV2_def
  parseGameInitializedNotifyV2_def parseGameStartedNotifyV2_def parseGameFinishedNotifyV2_def
  parseGameCancelledNotifyV2_def parseSecretOpenedNotifyV2_def parseDrawNotifyV2_def
  parseInsufficientBalanceNotifyV2_def loadEmittedEventTimestamp_def parseGameInitializedEventV2_def
  parseGameStartedEventV2_def parseGameFinishedEventV2_def parseGameCancelledEventV2_def parseDrawEventV2_def

context cell_library
begin

lemma load_gameId_slice:
  "i \<in> {0 ..< 2 ^ 63} \<Longrightarrow> load_gameId lib label (slice (FBigUInt 256 i # fs) rs) = Inr (i, slice fs rs)"
proof -
  assume i: "i \<in> {0 ..< 2 ^ 63}"
  then have "i < 2 ^ 256" using order_less_trans [of i "2 ^ 63" "2 ^ 256"] by simp
  then have "LoadBigUInt lib 256 (slice (FBigUInt 256 i # fs) rs) = Inr (i, slice fs rs)"
    using i by (intro load_big_uint) simp_all
  then show ?thesis using i by (simp add: load_gameId_def load_def safeUint256ToInt64_def)
qed

lemma load_coins_int64:
  "v \<in> {0 ..< 2 ^ 63} \<Longrightarrow> LoadBigCoins lib (slice (FCoins v # fs) rs) = Inr (v, slice fs rs)"
  by (simp add: load_coins)

text \<open>A message without a configuration is read back from its layout.\<close>

lemma parse_layout:
  assumes "message_ok m" "config_of m = None" "BeginParse lib c = slice (layout lib m) []"
  shows "parseCellMessage lib c = Inr (meaning lib m)"
  using assms word32_lt word8_lt
  by (cases m) (simp_all add: parseCellMessage_def parseMessageDataFromSlice_def parser_defs(1,4-) load_gameId_slice
      load_coins_int64 load_addr load_uint bits_left refs_num addr_text_def)

end

context cell_library
begin

lemma parse_config:
  assumes "message_ok m" "config_of m = Some (f, t)" "BeginParse lib c = slice (layout lib m) [r]"
    "BeginParse lib r = slice (config_layout lib f t) []"
  shows "parseCellMessage lib c = Inr (meaning lib m)"
  using assms word32_lt
  by (cases m) (simp_all add: parseCellMessage_def parseMessageDataFromSlice_def parser_defs(1,4-) load_gameId_slice
      load_coins load_addr load_uint load_ref bits_left refs_num addr_text_def config_layout_def)

text \<open>Whatever the builder encodes, the parser decodes.\<close>

lemma parse_build:
  assumes "message_ok m" "build lib m = Some text"
  obtains c where "text = EncodeToString (ToBOC lib c)" "parseCellMessage lib c = Inr (meaning lib m)"
proof -
  from assms(2) obtain b where b: "store_all lib (layout lib m) (BeginCell lib) = Some b"
    by (auto simp: build_layout bind_eq_Some_conv)
  have built: "built b (layout lib m) []" using built_store_all [OF built_begin layout_ok(1) [OF assms(1)] b] by simp
  show ?thesis
  proof (cases "config_of m")
    case None
    with assms(2) b have "text = EncodeToString (ToBOC lib (EndCell lib b))" by (simp add: build_layout encode_cell_def)
    then show ?thesis using parse_layout [OF assms(1) None begin_parse [OF built]] by (rule that)
  next
    case (Some x)
    then obtain f t where cfg: "config_of m = Some (f, t)" by (cases x) auto
    with assms(2) b obtain r b' where r: "store_all lib (config_layout lib f t) (BeginCell lib) = Some r"
      and b': "MustStoreRef lib (EndCell lib r) b = Some b'" and tx: "text = EncodeToString (ToBOC lib (EndCell lib b'))"
      by (auto simp: build_layout encode_cell_def bind_eq_Some_conv)
    have "built r (config_layout lib f t) []" using built_store_all [OF built_begin layout_ok(2) r] by simp
    then have "BeginParse lib (EndCell lib r) = slice (config_layout lib f t) []" by (rule begin_parse)
    moreover have "BeginParse lib (EndCell lib b') = slice (layout lib m) [EndCell lib r]"
      using begin_parse [OF built_ref [OF built b']] by simp
    ultimately have "parseCellMessage lib (EndCell lib b') = Inr (meaning lib m)" by (intro parse_config [OF assms(1) cfg])
    with tx show ?thesis by (rule that)
  qed
qed

lemma parse_in_msg:
  assumes "message_ok m" "build lib m = Some text"
    "inMsgJSON \<noteq> ''null''" "inMsgJSON \<noteq> ''''" "unmarshal_in_msg dec inMsgJSON = Some x" "in_Message x = text"
  shows "ParseInMsg dec lib inMsgJSON = Some (Inr (meaning lib m))"
proof -
  obtain c where c: "text = EncodeToString (ToBOC lib c)" "parseCellMessage lib c = Inr (meaning lib m)"
    by (rule parse_build [OF assms(1,2)])
  then show ?thesis using assms(3-6) boc by (simp add: ParseInMsg_def message_bytes_def)
qed

end

section \<open>What every parsed message satisfies\<close>

definition typed :: "ParsedMessage \<Rightarrow> string \<Rightarrow> ParsedMessage \<Rightarrow> bool" where
  "typed msg eventType m \<longleftrightarrow> pm_EventType m = eventType \<and> pm_Opcode m = pm_Opcode msg \<and> pm_GameID m \<in> {0 ..< 2 ^ 63}"

lemma load_gameId_range: "load_gameId lib label s = Inr (i, s') \<Longrightarrow> i \<in> {0 ..< 2 ^ 63}"
  by (auto simp: load_gameId_def safeUint256ToInt64_def split: sum.splits if_splits)

lemma config_typed:
  "parseGameInitializedConfigSnapshotV2 lib msg' label s = Inr (m, s') \<Longrightarrow> typed msg ty msg' \<Longrightarrow> typed msg ty m"
  by (auto simp: parseGameInitializedConfigSnapshotV2_def typed_def split: if_splits)

lemma notify_typed:
  "parseGameInitializedNotifyV2 lib msg s = Inr (m, s') \<Longrightarrow> typed msg EventGameInitialized m"
  "parseGameStartedNotifyV2 lib msg s = Inr (m, s') \<Longrightarrow> typed msg EventGameStarted m"
  "parseGameFinishedNotifyV2 lib msg s = Inr (m, s') \<Longrightarrow> typed msg EventGameFinished m"
  "parseGameCancelledNotifyV2 lib msg s = Inr (m, s') \<Longrightarrow> typed msg EventGameCancelled m"
  "parseSecretOpenedNotifyV2 lib msg s = Inr (m, s') \<Longrightarrow> typed msg EventSecretOpened m"
  "parseDrawNotifyV2 lib msg s = Inr (m, s') \<Longrightarrow> typed msg EventDraw m"
  "parseInsufficientBalanceNotifyV2 lib msg s = Inr (m, s') \<Longrightarrow> typed msg EventInsufficientBalance m"
  by (auto simp: parseGameInitializedNotifyV2_def parseGameStartedNotifyV2_def parseGameFinishedNotifyV2_def
      parseGameCancelledNotifyV2_def parseSecretOpenedNotifyV2_def parseDrawNotifyV2_def
      parseInsufficientBalanceNotifyV2_def Let_def typed_def dest!: load_gameId_range split: if_splits
      dest: config_typed [of _ _ _ _ _ _ msg, unfolded typed_def])

lemma event_typed:
  "parseGameInitializedEventV2 lib msg s = Inr (m, s') \<Longrightarrow> typed msg EventGameInitialized m"
  "parseGameStartedEventV2 lib msg s = Inr (m, s') \<Longrightarrow> typed msg EventGameStarted m"
  "parseGameFinishedEventV2 lib msg s = Inr (m, s') \<Longrightarrow> typed msg EventGameFinished m"
  "parseGameCancelledEventV2 lib msg s = Inr (m, s') \<Longrightarrow> typed msg EventGameCancelled m"
  "parseDrawEventV2 lib msg s = Inr (m, s') \<Longrightarrow> typed msg EventDraw m"
  by (auto simp: parseGameInitializedEventV2_def parseGameStartedEventV2_def parseGameFinishedEventV2_def
      parseGameCancelledEventV2_def parseDrawEventV2_def dest: notify_typed split: if_splits)

lemma body_typed:
  assumes "parseMessageDataFromSlice lib msg s opcode = Inr m"
  shows "\<exists>ty. GetEventTypeForOpcode opcode = Some ty \<and> typed msg ty m"
  using assms notify_typed [of lib msg s m] event_typed [of lib msg s m]
  unfolding parseMessageDataFromSlice_def GetEventTypeForOpcode_def
  by (auto split: if_splits simp: map_sum_def split: sum.splits)

lemma cell_typed:
  "parseCellMessage lib c = Inr m \<Longrightarrow> GetEventTypeForOpcode (pm_Opcode m) = Some (pm_EventType m) \<and> pm_GameID m \<in> {0 ..< 2 ^ 63}"
  by (auto simp: parseCellMessage_def typed_def dest!: body_typed)

lemma raw_typed:
  "parseRawData lib data = Some (Inr m) \<Longrightarrow> GetEventTypeForOpcode (pm_Opcode m) = Some (pm_EventType m) \<and> pm_GameID m \<in> {0 ..< 2 ^ 63}"
  by (auto simp: parseRawData_def typed_def Let_def bind_eq_Some_conv split: if_splits dest!: body_typed)

lemma opcode_event_valid: "GetEventTypeForOpcode opcode = Some ty \<Longrightarrow> ty \<in> set validEventTypes"
  by (auto simp: GetEventTypeForOpcode_def validEventTypes_def split: if_splits)

end
