(* ===== verification/Tvm_Cells.thy ===== *)
theory Tvm_Cells
  imports Message_Roundtrip
begin

text \<open>
  Cells at the level of bits: at most 1023 bits and four references, unsigned integers in big
  endian order, coins as a four-bit length and that many bytes, an address as the tag of a standard
  internal address, its work chain and its hash. The operations on them satisfy the contract
  \<open>cell_library\<close>, so the round trip of the message parser holds for bit strings. The theory also
  has two facts on messages that are not cells: how the opcode of raw bytes is read, and that
  storing them can panic.
\<close>

section \<open>Bits\<close>

fun to_bits :: "nat \<Rightarrow> nat \<Rightarrow> bool list" where
  "to_bits 0 v = []"
| "to_bits (Suc w) v = to_bits w (v div 2) @ [odd v]"

definition bits_value :: "bool list \<Rightarrow> nat" where
  "bits_value bs = foldl (\<lambda>acc b. 2 * acc + of_bool b) 0 bs"

lemma length_to_bits [simp]: "length (to_bits w v) = w"
  by (induction w arbitrary: v) auto

lemma bits_value_to_bits: "v < 2 ^ w \<Longrightarrow> bits_value (to_bits w v) = v"
proof (induction w arbitrary: v)
  case (Suc w)
  then have "bits_value (to_bits w (v div 2)) = v div 2" by (intro Suc.IH) auto
  then show ?case by (simp add: bits_value_def)
qed (simp add: bits_value_def)

fun byte_length :: "nat \<Rightarrow> nat" where
  "byte_length v = (if v = 0 then 0 else Suc (byte_length (v div 256)))"

declare byte_length.simps [simp del]

lemma byte_length_bound: "v < 2 ^ (8 * byte_length v)"
proof (induction v rule: byte_length.induct)
  case (1 v)
  show ?case
  proof (cases "v = 0")
    case False
    then have "v div 256 < 2 ^ (8 * byte_length (v div 256))" by (rule 1)
    then show ?thesis using False by (simp add: byte_length.simps [of v] power_add)
  qed (simp add: byte_length.simps)
qed

lemma byte_length_le: "v < 2 ^ (8 * n) \<Longrightarrow> byte_length v \<le> n"
proof (induction n arbitrary: v)
  case (Suc n)
  then have "v div 256 < 2 ^ (8 * n)" by (simp add: power_add)
  then have "byte_length (v div 256) \<le> n" by (rule Suc.IH)
  then show ?case by (simp add: byte_length.simps [of v])
qed (simp add: byte_length.simps)

section \<open>Cells\<close>

datatype cell = Cell (cell_bits: "bool list") (cell_refs: "cell list")

type_synonym slice_bits = "bool list \<times> cell list"
type_synonym tvm_addr = "byte \<times> 256 word"

fun encode_field :: "tvm_addr field \<Rightarrow> bool list" where
  "encode_field (FUInt w v) = to_bits w v"
| "encode_field (FBigUInt w v) = to_bits w (nat v)"
| "encode_field (FAddr a) = [True, False, False] @ to_bits 8 (unat (fst a)) @ to_bits 256 (unat (snd a))"
| "encode_field (FCoins v) = to_bits 4 (byte_length (nat v)) @ to_bits (8 * byte_length (nat v)) (nat v)"

definition not_enough :: error where "not_enough = ErrorString ''not enough data in reader''"

definition take_bits :: "nat \<Rightarrow> slice_bits \<Rightarrow> error + nat \<times> slice_bits" where
  "take_bits w s = (if length (fst s) < w then Inl not_enough
     else Inr (bits_value (take w (fst s)), drop w (fst s), snd s))"

definition put_bits :: "bool list \<Rightarrow> slice_bits \<Rightarrow> slice_bits option" where
  "put_bits bs b = (if length (fst b) + length bs > 1023 then None else Some (fst b @ bs, snd b))"

text \<open>A serialisation: bits as bytes 0 and 1, each reference between the bytes 2 and 3.\<close>

fun serialize :: "cell \<Rightarrow> bytes" where
  "serialize (Cell bs rs) = map (\<lambda>b. if b then 1 else 0) bs @ concat (map (\<lambda>r. 2 # serialize r @ [3]) rs)"

fun deserialize :: "bytes \<Rightarrow> slice_bits list \<Rightarrow> error + cell" where
  "deserialize [] [(bs, rs)] = Inr (Cell bs rs)"
| "deserialize (c # cs) ((bs, rs) # stk) =
     (if c = 0 then deserialize cs ((bs @ [False], rs) # stk)
      else if c = 1 then deserialize cs ((bs @ [True], rs) # stk)
      else if c = 2 then deserialize cs (([], []) # (bs, rs) # stk)
      else if c = 3 then (case stk of (bs', rs') # stk' \<Rightarrow> deserialize cs ((bs', rs' @ [Cell bs rs]) # stk')
        | [] \<Rightarrow> Inl not_enough)
      else Inl not_enough)"
| "deserialize _ _ = Inl not_enough"

definition tvm :: "(cell, slice_bits, slice_bits, tvm_addr) tonutils" where
  "tvm = \<lparr>BeginParse = (\<lambda>c. (cell_bits c, cell_refs c)),
     LoadUInt = take_bits,
     LoadBigUInt = (\<lambda>w s. map_sum id (\<lambda>(v, s'). (int v, s')) (take_bits w s)),
     LoadAddr = (\<lambda>s. if length (fst s) < 267 \<or> take 3 (fst s) \<noteq> [True, False, False] then Inl not_enough
       else Inr ((of_nat (bits_value (take 8 (drop 3 (fst s)))), of_nat (bits_value (take 256 (drop 11 (fst s))))),
         drop 267 (fst s), snd s)),
     LoadBigCoins = (\<lambda>s. bindR (take_bits 4 s) (\<lambda>(n, s1). map_sum id (\<lambda>(v, s'). (int v, s')) (take_bits (8 * n) s1))),
     LoadRef = (\<lambda>s. case snd s of [] \<Rightarrow> Inl not_enough | c # rs \<Rightarrow> Inr ((cell_bits c, cell_refs c), fst s, rs)),
     BitsLeft = (\<lambda>s. length (fst s)), RefsNum = (\<lambda>s. length (snd s)),
     FromBOC = (\<lambda>bs. case bs of c # cs \<Rightarrow> if c = 181 then deserialize cs [([], [])] else Inl not_enough | [] \<Rightarrow> Inl not_enough),
     ToBOC = (\<lambda>c. 181 # serialize c),
     BeginCell = ([], []),
     MustStoreUInt = (\<lambda>v w. put_bits (to_bits w v)),
     MustStoreBigUInt = (\<lambda>v w. put_bits (to_bits w (nat v))),
     MustStoreAddr = (\<lambda>a. put_bits (encode_field (FAddr a))),
     MustStoreBigCoins = (\<lambda>v. put_bits (encode_field (FCoins v))),
     MustStoreRef = (\<lambda>c b. if length (snd b) \<ge> 4 then None else Some (fst b, snd b @ [c])),
     MustStoreSlice = (\<lambda>bs. put_bits (concat (map (\<lambda>b. to_bits 8 (unat b)) bs))),
     EndCell = (\<lambda>b. Cell (fst b) (snd b)),
     ParseAddr = (\<lambda>s. if s = '''' then None else Some (0, of_nat (foldl (\<lambda>acc c. 256 * acc + of_char c) 0 s))),
     NewAddress = (\<lambda>w h. (w, of_nat (bytes_value h))),
     Addr_String = (\<lambda>a. FormatInt (sint (fst a)) @ '':'' @ FormatInt (uint (snd a)))\<rparr>"

definition tvm_slice :: "tvm_addr field list \<Rightarrow> cell list \<Rightarrow> slice_bits" where
  "tvm_slice fs rs = (concat (map encode_field fs), rs)"

definition tvm_built :: "slice_bits \<Rightarrow> tvm_addr field list \<Rightarrow> cell list \<Rightarrow> bool" where
  "tvm_built b fs rs \<longleftrightarrow> b = tvm_slice fs rs"

lemma deserialize_bits:
  "deserialize (map (\<lambda>b. if b then 1 else 0) xs @ cs) ((bs, rs) # stk) = deserialize cs ((bs @ xs, rs) # stk)"
  by (induction xs arbitrary: bs) auto

lemma deserialize_serialize:
  "deserialize (serialize c @ cs) ((bs, rs) # stk) = deserialize cs ((bs @ cell_bits c, rs @ cell_refs c) # stk)"
proof (induction c arbitrary: cs bs rs stk)
  case (Cell xs ys)
  have "deserialize (concat (map (\<lambda>r. 2 # serialize r @ [3]) ys) @ cs) ((bs', rs) # stk)
      = deserialize cs ((bs', rs @ ys) # stk)" for bs'
    using Cell by (induction ys arbitrary: rs) auto
  then show ?case by (simp add: deserialize_bits)
qed

section \<open>The bit-level library keeps the contract\<close>

lemma take_bits_field: "v < 2 ^ w \<Longrightarrow> take_bits w (to_bits w v @ xs, rs) = Inr (v, xs, rs)"
  by (simp add: take_bits_def bits_value_to_bits)

lemma load_addr_field:
  "LoadAddr tvm ([True, False, False] @ to_bits 8 (unat (fst a)) @ to_bits 256 (unat (snd a)) @ xs, rs) = Inr (a, xs, rs)"
proof -
  have "unat (snd a) < 2 ^ 256" using unsigned_less [of "snd a"] by simp
  then show ?thesis using word8_lt [of "fst a"] bits_value_to_bits [of _ 256] by (simp add: tvm_def bits_value_to_bits)
qed

lemma load_coins_field:
  assumes "0 \<le> x" "x < 2 ^ 120"
  shows "LoadBigCoins tvm (encode_field (FCoins x) @ xs, rs) = Inr (x, xs, rs)"
proof -
  have "nat x < 2 ^ (8 * 15)" using assms by (simp add: nat_less_iff)
  then have "byte_length (nat x) < 2 ^ 4" using byte_length_le [of "nat x" 15] by simp
  then show ?thesis using take_bits_field [OF byte_length_bound, of "nat x"] assms(1)
    by (simp add: tvm_def take_bits_field)
qed

lemma tvm_store: "store tvm f b = put_bits (encode_field f) b"
  by (cases f) (simp_all add: tvm_def)

lemma tvm_boc: "FromBOC tvm (ToBOC tvm c) = Inr c"
  using deserialize_serialize [of c "[]" "[]" "[]" "[]"] by (simp add: tvm_def)

interpretation bit_cells: cell_library tvm tvm_built tvm_slice
proof unfold_locales
  show "LoadAddr tvm (tvm_slice (FAddr a # fs) rs) = Inr (a, tvm_slice fs rs)" for a fs rs
    using load_addr_field [of a] by (simp add: tvm_slice_def)
  show "LoadBigCoins tvm (tvm_slice (FCoins x # fs) rs) = Inr (x, tvm_slice fs rs)" if "0 \<le> x" "x < 2 ^ 120" for x fs rs
    using load_coins_field [OF that] by (simp add: tvm_slice_def del: encode_field.simps)
  show "LoadUInt tvm w (tvm_slice (FUInt w v # fs) rs) = Inr (v, tvm_slice fs rs)" if "v < 2 ^ w" for v w fs rs
    using take_bits_field [OF that] by (simp add: tvm_slice_def tvm_def)
  show "LoadBigUInt tvm w (tvm_slice (FBigUInt w x # fs) rs) = Inr (x, tvm_slice fs rs)" if "0 \<le> x" "x < 2 ^ w" for x w fs rs
    using take_bits_field [of "nat x" w] that by (simp add: tvm_slice_def tvm_def nat_less_iff)
  show "tvm_built b' (fs @ [f]) rs" if "tvm_built b fs rs" "field_ok f" "store tvm f b = Some b'" for b fs rs f b'
    using that by (auto simp: tvm_built_def tvm_slice_def tvm_store put_bits_def split: if_splits)
qed (auto simp: tvm_built_def tvm_slice_def tvm_boc, auto simp: tvm_def split: if_splits)

section \<open>Witnesses\<close>

definition sample_message :: game_message where
  "sample_message = GameInitializedEventWithConfig 42 ''a'' 1000 ''f'' 7"

definition sample_text :: string where
  "sample_text = (case build tvm sample_message of Some t \<Rightarrow> t | None \<Rightarrow> [])"

definition sample_decoders :: decoders where
  "sample_decoders = \<lparr>unmarshal_in_msg = (\<lambda>s. Some \<lparr>in_Message = sample_text, in_Body = []\<rparr>), unmarshal_map = (\<lambda>s. None)\<rparr>"

lemma tvm_store_all:
  "length (fst b) + length (concat (map encode_field fs)) \<le> 1023 \<Longrightarrow>
     store_all tvm fs b = Some (fst b @ concat (map encode_field fs), snd b)"
  by (induction fs arbitrary: b) (auto simp: tvm_store put_bits_def)

lemma sample_built: "build tvm sample_message = Some sample_text"
proof -
  let ?bits = "\<lambda>fs. concat (map encode_field fs)"
  have len: "length (?bits (layout tvm sample_message)) \<le> 1023" "length (?bits (config_layout tvm ''f'' 7)) \<le> 1023"
    by (simp_all add: sample_message_def config_layout_def byte_length.simps)
  have "store_all tvm (layout tvm sample_message) (BeginCell tvm) = Some (?bits (layout tvm sample_message), [])"
    "store_all tvm (config_layout tvm ''f'' 7) (BeginCell tvm) = Some (?bits (config_layout tvm ''f'' 7), [])"
    using len tvm_store_all [of "([], [])"] by (simp_all add: tvm_def)
  then have "build tvm sample_message \<noteq> None"
    unfolding build_layout by (simp add: sample_message_def, simp add: tvm_def)
  then show ?thesis by (auto simp: sample_text_def)
qed

section \<open>Properties\<close>

text \<open>
  C19. Round trip: for every cell library that keeps its contract, a game message with a
  non-negative game id and non-negative amounts that the message builder has encoded (any of the
  seven notifications and six factory events, with and without configuration) is parsed back to
  the event it means, field by field, from the TON Center envelope around its base64 text.
\<close>

theorem message_roundtrip:
  assumes "cell_library lib built sl" "message_ok m" "build lib m = Some text"
    "inMsgJSON \<noteq> ''null''" "inMsgJSON \<noteq> ''''" "unmarshal_in_msg dec inMsgJSON = Some x" "in_Message x = text"
  shows "ParseInMsg dec lib inMsgJSON = Some (Inr (meaning lib m))"
  using assms by (rule cell_library.parse_in_msg)

theorem message_roundtrip_witness:
  "ParseInMsg sample_decoders tvm ''{}'' = Some (Inr (meaning tvm sample_message))
   \<and> pm_GameID (meaning tvm sample_message) = 42"
proof -
  have "message_ok sample_message" by (simp add: sample_message_def)
  with message_roundtrip [OF bit_cells.cell_library_axioms _ sample_built, of "''{}''" sample_decoders] show ?thesis
    by (simp add: sample_decoders_def sample_message_def)
qed

text \<open>
  C20. Whatever the cell library answers, a message body that is parsed gets the event type that
  belongs to its opcode, which is one of the valid event types, and a game id that is not negative
  and fits an \<open>int64\<close>; larger ids are rejected, never wrapped.
\<close>

theorem parsed_message_typed:
  assumes "ParseInMsg dec lib inMsgJSON = Some (Inr msg)" "unmarshal_in_msg dec inMsgJSON = Some x"
    "in_Message x \<noteq> '''' \<or> in_Body x \<noteq> ''''"
  shows "GetEventTypeForOpcode (pm_Opcode msg) = Some (pm_EventType msg)
     \<and> contains validEventTypes (pm_EventType msg) \<and> 0 \<le> pm_GameID msg \<and> pm_GameID msg < 2 ^ 63"
proof -
  have "GetEventTypeForOpcode (pm_Opcode msg) = Some (pm_EventType msg) \<and> pm_GameID msg \<in> {0 ..< 2 ^ 63}"
    using assms by (auto simp: ParseInMsg_def dest: cell_typed raw_typed split: if_splits sum.splits)
  then show ?thesis using opcode_event_valid [of "pm_Opcode msg"] by simp
qed

theorem parsed_message_typed_witness:
  "GetEventTypeForOpcode OpcodeGameInitializedEvent = Some EventGameInitialized \<and> pm_GameID (meaning tvm sample_message) < 2 ^ 63"
proof -
  have "message_ok sample_message" by (simp add: sample_message_def)
  then have "ParseInMsg sample_decoders tvm ''{}'' = Some (Inr (meaning tvm sample_message))"
    using bit_cells.parse_in_msg [OF _ sample_built, of "''{}''" sample_decoders] by (simp add: sample_decoders_def)
  moreover obtain c where "sample_text = EncodeToString (ToBOC tvm c)"
    by (rule bit_cells.parse_build [OF \<open>message_ok sample_message\<close> sample_built])
  then have "sample_text \<noteq> []" using bit_cells.boc(2) [of c] EncodeToString_Nil_iff [of "ToBOC tvm c"] by simp
  ultimately show ?thesis
    using parsed_message_typed [of sample_decoders tvm "''{}''" _ "\<lparr>in_Message = sample_text, in_Body = []\<rparr>"]
    by (simp add: sample_decoders_def sample_message_def)
qed

section \<open>Messages that are not cells\<close>

lemma byte_below: "push_bit 8 x AND (ucast (d :: byte) :: 32 word) = 0"
  by (rule bit_eqI) (auto simp: bit_simps dest: bit_imp_le_length)

lemma append_byte: "of_nat (256 * n + unat (d :: byte)) = push_bit 8 (of_nat n) OR (ucast d :: 32 word)"
  by (subst disjunctive_add_eq_or [OF byte_below, symmetric]) (simp add: push_bit_eq_mult)

text \<open>
  The two readings of an opcode agree: the shifts and disjunctions of the cell parser give
  the big endian number of the byte decoder, for every message of at least four bytes.
\<close>

theorem raw_opcode_big_endian:
  assumes "4 \<le> length data"
  shows "raw_opcode data = BigEndian_Uint32 data"
proof -
  from assms obtain a b c d rest where data: "data = a # b # c # d # rest"
    by (auto simp: numeral_eq_Suc Suc_le_length_iff)
  have "BigEndian_Uint32 data = of_nat (256 * (256 * (256 * (256 * 0 + unat a) + unat b) + unat c) + unat d)"
    by (simp add: BigEndian_Uint32_def bytes_value_def data)
  also have "\<dots> = raw_opcode data"
    by (simp only: append_byte push_bit_or push_bit_push_bit) (simp add: raw_opcode_def data or.assoc push_bit_or)
  finally show ?thesis by simp
qed

theorem raw_opcode_big_endian_witness:
  "raw_opcode [235, 41, 32, 151, 0] = BigEndian_Uint32 [235, 41, 32, 151, 0]
   \<and> raw_opcode [235, 41, 32, 151, 0] = OpcodeGameInitializedNotify"
  using raw_opcode_big_endian [of "[235, 41, 32, 151, 0]"] by (simp add: BigEndian_Uint32_def bytes_value_def)

text \<open>
  A message can stop the program: a base64 text whose bytes are not a cell, but start with
  the opcode of a game event and have more than 127 bytes after it, makes the parser panic, for
  every cell library whose \<open>MustStoreSlice\<close> panics on more than 1023 bits. No caller recovers.
\<close>

theorem raw_message_panics:
  assumes "\<forall>d. 1023 < 8 * length d \<longrightarrow> MustStoreSlice lib d (BeginCell lib) = None"
    "FromBOC lib data = Inl err" "131 < length data" "GetEventTypeForOpcode (raw_opcode data) = Some ty"
    "unmarshal_in_msg dec inMsgJSON = Some x" "in_Message x = EncodeToString data"
    "inMsgJSON \<noteq> ''''" "inMsgJSON \<noteq> ''null''"
  shows "ParseInMsg dec lib inMsgJSON = None"
proof -
  have "data \<noteq> []" using assms(3) by auto
  then have "ParseInMsg dec lib inMsgJSON = parseRawData lib data"
    using assms(2,5-8) by (simp add: ParseInMsg_def message_bytes_def)
  also have "MustStoreSlice lib (drop 4 data) (BeginCell lib) = None" using assms(1,3) by simp
  then have "parseRawData lib data = None" using assms(3,4) by (simp add: parseRawData_def Let_def)
  finally show ?thesis .
qed

definition panic_data :: bytes where
  "panic_data = [18, 244, 4, 135] @ replicate 128 0"

theorem raw_message_panics_witness:
  "ParseInMsg \<lparr>unmarshal_in_msg = (\<lambda>s. Some \<lparr>in_Message = EncodeToString panic_data, in_Body = []\<rparr>), unmarshal_map = (\<lambda>s. None)\<rparr>
     tvm ''{}'' = None"
proof -
  have big: "MustStoreSlice tvm d (BeginCell tvm) = None" if "1023 < 8 * length d" for d
    using that by (simp add: tvm_def put_bits_def length_concat comp_def sum_list_triv)
  have op: "raw_opcode panic_data = OpcodeDrawNotify"
    by (simp add: raw_opcode_def panic_data_def)
  show ?thesis
    by (rule raw_message_panics [of tvm panic_data not_enough EventDraw _ _ "\<lparr>in_Message = EncodeToString panic_data, in_Body = []\<rparr>"])
      (use big op in \<open>auto simp: GetEventTypeForOpcode_def panic_data_def tvm_def\<close>)
qed

end
