(* ===== verification/Poller.thy ===== *)
theory Poller
  imports Ton_Transactions Entities
begin

text \<open>
  The event sources: \<open>internal/infrastructure/toncenter/poller.go\<close> (HTTP polling with
  backfilling of gaps, adaptive intervals and a checkpoint) and
  \<open>websocket_subscriber.go\<close>. The TON Center server is not under \<open>src/\<close>: it is the
  parameter \<open>client\<close>, which answers the request with a given number, and
  \<open>po_requests\<close> counts the requests. The event handler is a parameter that works on a
  state of its own. Calls of \<open>onLtUpdated\<close> are returned as a list. The backfill loop may
  run forever against a server that repeats itself, so a poll is a partial function: not
  returning is \<open>None\<close>. \<open>sort.Slice\<close> is not stable; where the source sorts by logical
  time alone the model keeps the order of equal times.
\<close>

abbreviation MinPollInterval :: duration where "MinPollInterval \<equiv> 5000000000"
abbreviation MaxPollInterval :: duration where "MaxPollInterval \<equiv> 30000000000"
abbreviation BackoffInitial :: duration where "BackoffInitial \<equiv> 1000000000"
abbreviation BackoffMax :: duration where "BackoffMax \<equiv> 16000000000"

type_synonym tx_client = "nat \<Rightarrow> (nat \<times> string) option \<Rightarrow> error + Transaction list"
type_synonym 's tx_handler = "Transaction \<Rightarrow> 's \<Rightarrow> error option \<times> 's"

record poller =
  po_currentInterval :: duration
  po_minInterval :: duration
  po_maxInterval :: duration
  po_lastProcessedLt :: string
  po_backoffDuration :: duration
  po_consecutiveErrors :: int
  po_requests :: nat

definition normalizePollIntervals :: "duration \<Rightarrow> duration \<Rightarrow> duration \<times> duration" where
  "normalizePollIntervals minInterval maxInterval =
     (let lo = (if minInterval \<le> 0 then MinPollInterval else minInterval);
          hi = (if maxInterval \<le> 0 then MaxPollInterval else maxInterval)
      in (lo, if hi < lo then lo else hi))"

definition NewPollerWithIntervals :: "duration \<Rightarrow> duration \<Rightarrow> poller" where
  "NewPollerWithIntervals minInterval maxInterval =
     (case normalizePollIntervals minInterval maxInterval of (lo, hi) \<Rightarrow>
        \<lparr>po_currentInterval = hi, po_minInterval = lo, po_maxInterval = hi, po_lastProcessedLt = ''0'',
         po_backoffDuration = 0, po_consecutiveErrors = 0, po_requests = 0\<rparr>)"

definition NewPoller :: poller where
  "NewPoller = NewPollerWithIntervals MinPollInterval MaxPollInterval"

definition adjustInterval :: "bool \<Rightarrow> poller \<Rightarrow> poller" where
  "adjustInterval hasActivity p =
     (if hasActivity
      then let c = go_div (i64 (po_currentInterval p * 2)) 3
           in p\<lparr>po_currentInterval := (if c < po_minInterval p then po_minInterval p else c)\<rparr>
      else let c = go_div (i64 (po_currentInterval p * 3)) 2
           in p\<lparr>po_currentInterval := (if c > po_maxInterval p then po_maxInterval p else c)\<rparr>)"

text \<open>The sleep of \<open>handleError\<close> has no effect on the state.\<close>

definition handleError :: "poller \<Rightarrow> poller" where
  "handleError p =
     (let b = (if po_backoffDuration p = 0 then BackoffInitial
               else let d = i64 (po_backoffDuration p * 2) in if d > BackoffMax then BackoffMax else d)
      in adjustInterval False (p\<lparr>po_consecutiveErrors := po_consecutiveErrors p + 1, po_backoffDuration := b\<rparr>))"

definition newer :: "string \<Rightarrow> Transaction list \<Rightarrow> Transaction list" where
  "newer checkpoint txs = filter (\<lambda>tx. compareLt (tx_Lt tx) checkpoint) txs"

text \<open>
  The backfill loop: from the oldest transaction found so far, ask for the transactions before
  it until the gap to the checkpoint is bridged. A failed request ends the poll.
\<close>

definition has_gap :: "string \<Rightarrow> Transaction \<Rightarrow> bool" where
  "has_gap checkpoint oldest \<longleftrightarrow> tx_PrevTransLt oldest \<noteq> '''' \<and> tx_PrevTransLt oldest \<noteq> ''0''
     \<and> compareLt (tx_PrevTransLt oldest) checkpoint"

partial_function (option) backfill ::
  "tx_client \<Rightarrow> string \<Rightarrow> nat \<Rightarrow> Transaction list \<Rightarrow> Transaction \<Rightarrow> ((error + Transaction list) \<times> nat) option" where
  "backfill client checkpoint n newTxs oldestTx =
     (if \<not> has_gap checkpoint oldestTx then Some (Inr newTxs, n)
      else case ParseUint64 (tx_PrevTransLt oldestTx) of
          None \<Rightarrow> Some (Inr newTxs, n)
        | Some prevLt \<Rightarrow> (case client n (Some (prevLt, tx_PrevTransHash oldestTx)) of
              Inl err \<Rightarrow> Some (Inl err, Suc n)
            | Inr backfilledTxs \<Rightarrow>
                if newer checkpoint backfilledTxs = [] then Some (Inr newTxs, Suc n)
                else let merged = fst (normalizeTransactionsByLt (newTxs @ newer checkpoint backfilledTxs) True)
                     in backfill client checkpoint (Suc n) merged (hd merged)))"

declare backfill.simps [code]

text \<open>
  The processing loop: the checkpoint, the last logical time it was set to, whether a
  transaction failed, and the handler's state.
\<close>

fun process :: "'s tx_handler \<Rightarrow> Transaction list \<Rightarrow> string \<Rightarrow> string option \<Rightarrow> 's
    \<Rightarrow> string \<times> string option \<times> bool \<times> 's" where
  "process handler [] lt ok s = (lt, ok, False, s)"
| "process handler (tx # txs) lt ok s = (case handler tx s of
       (Some e, s') \<Rightarrow> (lt, ok, True, s')
     | (None, s') \<Rightarrow> if compareLt (tx_Lt tx) lt then process handler txs (tx_Lt tx) (Some (tx_Lt tx)) s'
         else process handler txs lt ok s')"

text \<open>\<open>lastSuccessfulLt != ""\<close> guards the callback.\<close>

definition callbacks :: "string option \<Rightarrow> string list" where
  "callbacks ok = (case ok of None \<Rightarrow> [] | Some lt \<Rightarrow> if lt = '''' then [] else [lt])"

definition process_batch :: "'s tx_handler \<Rightarrow> Transaction list \<Rightarrow> poller \<Rightarrow> 's \<Rightarrow> poller \<times> 's \<times> string list" where
  "process_batch handler txs p s = (case process handler txs (po_lastProcessedLt p) None s of
     (lt, ok, hasFailure, s') \<Rightarrow>
       (adjustInterval (\<not> hasFailure) (p\<lparr>po_lastProcessedLt := lt\<rparr>), s', callbacks ok))"

definition by_lt :: "Transaction list \<Rightarrow> Transaction list" where
  "by_lt txs = sort_key (\<lambda>tx. big_int (tx_Lt tx)) txs"

definition poll :: "tx_client \<Rightarrow> 's tx_handler \<Rightarrow> poller \<Rightarrow> 's \<Rightarrow> (poller \<times> 's \<times> string list) option" where
  "poll client handler p s =
     (let p1 = p\<lparr>po_requests := Suc (po_requests p)\<rparr> in
      case client (po_requests p) None of
        Inl err \<Rightarrow> Some (handleError p1, s, [])
      | Inr txs \<Rightarrow>
          (let p2 = p1\<lparr>po_consecutiveErrors := 0, po_backoffDuration := BackoffInitial\<rparr>;
               newTxs = fst (normalizeTransactionsByLt (newer (po_lastProcessedLt p) txs) True)
           in if newTxs = [] then Some (adjustInterval False p2, s, [])
              else let sorted = by_lt newTxs in
                if po_lastProcessedLt p \<noteq> ''0''
                then (case backfill client (po_lastProcessedLt p) (po_requests p2) sorted (hd sorted) of
                        None \<Rightarrow> None
                      | Some (Inl err, n) \<Rightarrow> Some (handleError (p2\<lparr>po_requests := n\<rparr>), s, [])
                      | Some (Inr all, n) \<Rightarrow> Some (process_batch handler all (p2\<lparr>po_requests := n\<rparr>) s))
                else Some (process_batch handler sorted p2 s)))"

definition GetLastProcessedLt :: "poller \<Rightarrow> string" where
  "GetLastProcessedLt p = po_lastProcessedLt p"

definition SetLastProcessedLt :: "string \<Rightarrow> poller \<Rightarrow> poller" where
  "SetLastProcessedLt lt p = p\<lparr>po_lastProcessedLt := normalizeLt lt\<rparr>"

section \<open>The WebSocket subscriber\<close>

record ws_subscriber =
  ws_lastProcessedLt :: string
  ws_lastProcessedHash :: string

definition NewWebSocketSubscriber :: ws_subscriber where
  "NewWebSocketSubscriber = \<lparr>ws_lastProcessedLt = ''0'', ws_lastProcessedHash = ''''\<rparr>"

text \<open>
  \<open>HandleTransaction\<close> with its handler, which may be absent; the result has the calls of
  the callback. The subscriber's lock is released while the handler runs; messages are handled
  one after the other by the read loop, so the checkpoint read again afterwards is the same.
\<close>

definition WS_HandleTransaction :: "'s tx_handler option \<Rightarrow> Transaction \<Rightarrow> ws_subscriber \<Rightarrow> 's
    \<Rightarrow> error option \<times> ws_subscriber \<times> 's \<times> string list" where
  "WS_HandleTransaction handler tx w s =
     (let txLt = normalizeLt (tx_Lt tx); lastProcessedLt = normalizeLt (ws_lastProcessedLt w) in
      if txLt = lastProcessedLt then (None, w, s, [])
      else if \<not> compareLt txLt lastProcessedLt then (None, w, s, [])
      else case (case handler of None \<Rightarrow> (None, s) | Some h \<Rightarrow> h tx s) of
          (Some err, s') \<Rightarrow> (Some err, w, s', [])
        | (None, s') \<Rightarrow>
            if compareLt txLt (normalizeLt (ws_lastProcessedLt w))
            then (None, w\<lparr>ws_lastProcessedLt := txLt, ws_lastProcessedHash := tx_Hash tx\<rparr>, s', [txLt])
            else (None, w, s', []))"

definition WS_SetLastProcessedLt :: "string \<Rightarrow> ws_subscriber \<Rightarrow> ws_subscriber" where
  "WS_SetLastProcessedLt lt w = w\<lparr>ws_lastProcessedLt := normalizeLt lt, ws_lastProcessedHash := ''''\<rparr>"

end
