(* ===== verification/Checkpoints.thy ===== *)
theory Checkpoints
  imports Poller Dead_Letter
begin

text \<open>
  What the event sources promise: the abstract checkpoint machine hands transactions to the
  handler in the order of their logical times, and its checkpoint is the time of the last
  transaction handled. A poll and a WebSocket message refine runs of it. The theory also shows
  that the backfill loop ends against a server that answers a request with the transaction asked
  for, and that a poll leaves no transaction behind its checkpoint.
\<close>

section \<open>The abstract machine\<close>

abbreviation ltv :: "Transaction \<Rightarrow> int" where "ltv tx \<equiv> lt_value (tx_Lt tx)"

inductive ck_step :: "int \<times> Transaction list \<Rightarrow> int \<times> Transaction list \<Rightarrow> bool" where
  handle: "txs \<noteq> [] \<Longrightarrow> sorted (map ltv txs) \<Longrightarrow> distinct (map transactionDedupKey txs)
    \<Longrightarrow> (\<And>tx. tx \<in> set txs \<Longrightarrow> c < ltv tx) \<Longrightarrow> ck_step (c, hist) (ltv (last txs), hist @ txs)"

inductive_simps ck_step_iff: "ck_step (c, hist) (c', hist')"

definition ck_ok :: "int \<times> Transaction list \<Rightarrow> bool" where
  "ck_ok = (\<lambda>(c, hist). sorted (map ltv hist) \<and> distinct (map transactionDedupKey hist) \<and> (\<forall>tx \<in> set hist. ltv tx \<le> c))"

text \<open>Transactions with the same key have the same logical time.\<close>

lemma lt_of_key: "ltv tx = big_int (transactionDedupKey tx)"
proof -
  have "\<not> is_digit (CHR 0x00)" by (simp add: is_digit_def)
  then have tw: "takeWhile is_digit (s @ CHR 0x00 # h) = takeWhile is_digit s" for s h by (induction s) auto
  obtain c cs where c: "normalizeLt (tx_Lt tx) = c # cs" by (cases "normalizeLt (tx_Lt tx)") (auto simp: normalizeLt_def split: if_splits)
  show ?thesis
    using tw [of cs] tw [of "c # cs"] by (simp add: lt_value_def transactionDedupKey_def big_int_def c)
qed

lemma dedup_key_lt: "transactionDedupKey a = transactionDedupKey b \<Longrightarrow> ltv a = ltv b"
  by (simp add: lt_of_key)

lemma sorted_le_last: "sorted (map f xs) \<Longrightarrow> x \<in> set xs \<Longrightarrow> f x \<le> f (last xs)"
  by (induction xs) auto

lemma ck_step_mono: "ck_step (c, hist) (c', hist') \<Longrightarrow> c < c' \<and> prefix hist hist'"
  unfolding ck_step_iff by (metis last_in_set prefixI)

lemma ck_step_ok:
  assumes "ck_step (c, hist) (c', hist')" "ck_ok (c, hist)"
  shows "ck_ok (c', hist')"
proof -
  from assms(1) obtain txs where txs: "txs \<noteq> []" "sorted (map ltv txs)" "distinct (map transactionDedupKey txs)"
    "\<And>tx. tx \<in> set txs \<Longrightarrow> c < ltv tx" "c' = ltv (last txs)" "hist' = hist @ txs"
    by (auto simp: ck_step_iff)
  have sep: "ltv a < ltv b" if "a \<in> set hist" "b \<in> set txs" for a b
    using that txs(4) assms(2) unfolding ck_ok_def by fastforce
  have "transactionDedupKey a \<noteq> transactionDedupKey b" if "a \<in> set hist" "b \<in> set txs" for a b
    using sep [OF that] dedup_key_lt [of a b] by auto
  then have dist: "distinct (map transactionDedupKey hist')"
    using txs(3,6) assms(2) unfolding ck_ok_def by auto
  have "sorted (map ltv hist')" using txs(2,6) sep assms(2) by (auto simp: ck_ok_def sorted_append intro: less_imp_le)
  moreover have "ltv tx \<le> c'" if "tx \<in> set hist'" for tx
    using that ck_step_mono [OF assms(1)] sorted_le_last [OF txs(2), of tx] assms(2) txs(5,6)
    unfolding ck_ok_def by (auto dest: bspec)
  ultimately show ?thesis using dist by (simp add: ck_ok_def)
qed

lemma ck_steps_ok: "ck_step\<^sup>*\<^sup>* x y \<Longrightarrow> ck_ok x \<Longrightarrow> ck_ok y"
  by (induction rule: rtranclp_induct) (auto intro: ck_step_ok)

lemma ck_steps_mono: "ck_step\<^sup>*\<^sup>* x y \<Longrightarrow> fst x \<le> fst y \<and> prefix (snd x) (snd y)"
proof (induction rule: rtranclp_induct)
  case (step y z)
  have "fst y < fst z \<and> prefix (snd y) (snd z)"
    using ck_step_mono [of "fst y" "snd y" "fst z" "snd z"] step.hyps(2) by simp
  with step.IH show ?case by (auto intro: prefix_order.trans)
qed simp

lemma ck_step_prefix:
  assumes "sorted (map ltv txs)" "distinct (map transactionDedupKey txs)" "\<And>tx. tx \<in> set txs \<Longrightarrow> c < ltv tx"
    "k \<le> length txs"
  shows "ck_step\<^sup>*\<^sup>* (c, hist) (if k = 0 then c else ltv (txs ! (k - 1)), hist @ take k txs)"
proof (cases "k = 0 \<or> txs = []")
  case False
  then have "ck_step (c, hist) (ltv (last (take k txs)), hist @ take k txs)"
    using assms by (intro ck_step.handle) (auto simp: take_map [symmetric] sorted_wrt_take dest: in_set_takeD)
  moreover have "last (take k txs) = txs ! (k - 1)"
    using False assms(4) by (subst last_conv_nth) auto
  ultimately show ?thesis using False by auto
qed (use assms(4) in auto)

text \<open>
  A source of events: \<open>receive\<close> relates its state and the log of handled transactions
  before and after it has dealt with an input. Whatever the source is, its checkpoint only
  grows, the log only grows, it is in the order of logical time, and no transaction is in it twice.
\<close>

locale event_source =
  fixes checkpoint :: "'p \<Rightarrow> int"
    and receive :: "'p \<times> Transaction list \<Rightarrow> 'p \<times> Transaction list \<Rightarrow> bool"
  assumes refines: "receive (p, hist) (p', hist') \<Longrightarrow> ck_step\<^sup>*\<^sup>* (checkpoint p, hist) (checkpoint p', hist')"
begin

lemma run_refines: "receive\<^sup>*\<^sup>* x y \<Longrightarrow> ck_step\<^sup>*\<^sup>* (checkpoint (fst x), snd x) (checkpoint (fst y), snd y)"
proof (induction rule: rtranclp_induct)
  case (step y z)
  have "ck_step\<^sup>*\<^sup>* (checkpoint (fst y), snd y) (checkpoint (fst z), snd z)"
    using refines [of "fst y" "snd y" "fst z" "snd z"] step.hyps(2) by simp
  with step.IH show ?case by (rule rtranclp_trans)
qed simp

lemma run_in_order:
  assumes "receive\<^sup>*\<^sup>* (p, []) (p', hist)"
  shows "distinct (map transactionDedupKey hist) \<and> sorted (map ltv hist)
     \<and> checkpoint p \<le> checkpoint p' \<and> (\<forall>tx \<in> set hist. ltv tx \<le> checkpoint p')"
  using ck_steps_ok [OF run_refines [OF assms]] ck_steps_mono [OF run_refines [OF assms]]
  by (auto simp: ck_ok_def)

end

section \<open>Normalised transactions\<close>

lemma big_int_lt_value: "big_int s = lt_value s"
  by (cases "s = ''''") (simp_all add: lt_value_def normalizeLt_def big_int_def dec_value_def is_digit_def)

lemma sorted_key_first:
  "sorted (map (\<lambda>tx. (ltv tx, tx_Hash tx)) txs) \<Longrightarrow> sorted (map ltv txs)"
  by (induction txs) (auto simp: less_eq_prod_def)

lemma normalize_spec:
  assumes "normalizeTransactionsByLt txs True = (ns, d)"
  shows "sorted (map ltv ns)" "set ns \<subseteq> set txs" "transactionDedupKey ` set ns = transactionDedupKey ` set txs"
    "distinct (map transactionDedupKey ns)" "ns = [] \<longleftrightarrow> txs = []" "int (length ns) + d = int (length txs)"
proof -
  obtain us n where u: "unique_txs {} txs = (us, n)" by (cases "unique_txs {} txs")
  note spec = unique_txs_spec [OF u]
  have ns: "ns = sort_key (\<lambda>tx. (ltv tx, tx_Hash tx)) us" and d: "d = n"
    using assms u by (auto simp: normalizeTransactionsByLt_def sortTransactionsByLt_def split: if_splits)
  show "sorted (map ltv ns)" unfolding ns by (rule sorted_key_first) simp
  show "set ns \<subseteq> set txs" "transactionDedupKey ` set ns = transactionDedupKey ` set txs"
    "int (length ns) + d = int (length txs)"
    using spec ns d by simp_all
  show "distinct (map transactionDedupKey ns)"
    using spec(2) unfolding ns by (auto simp: distinct_map)
  show "ns = [] \<longleftrightarrow> txs = []" using spec(3) ns by (metis image_is_empty set_empty set_sort Diff_empty)
qed

lemma by_lt_sorted: "sorted (map ltv txs) \<Longrightarrow> by_lt txs = txs"
  unfolding by_lt_def big_int_lt_value by (rule sort_key_id_if_sorted) 

section \<open>The backfill loop\<close>

text \<open>What the loop keeps of its list: sorted, above the checkpoint, and no key lost.\<close>

definition batch_ok :: "string \<Rightarrow> Transaction list \<Rightarrow> Transaction list \<Rightarrow> bool" where
  "batch_ok cp start txs \<longleftrightarrow> txs \<noteq> [] \<and> sorted (map ltv txs) \<and> distinct (map transactionDedupKey txs)
     \<and> (\<forall>tx \<in> set txs. lt_value cp < ltv tx)
     \<and> transactionDedupKey ` set start \<subseteq> transactionDedupKey ` set txs"

lemma newer_iff: "tx \<in> set (newer cp txs) \<longleftrightarrow> tx \<in> set txs \<and> lt_value cp < ltv tx"
  by (simp add: newer_def compareLt_iff)

lemma merge_ok:
  assumes "batch_ok cp start txs"
  shows "batch_ok cp start (fst (normalizeTransactionsByLt (txs @ newer cp extra) True))"
proof -
  obtain ns d where n: "normalizeTransactionsByLt (txs @ newer cp extra) True = (ns, d)"
    by (cases "normalizeTransactionsByLt (txs @ newer cp extra) True")
  note spec = normalize_spec [OF n]
  have "lt_value cp < ltv tx" if "tx \<in> set ns" for tx
    using that spec(2) assms by (auto simp: batch_ok_def newer_iff)
  moreover have "transactionDedupKey ` set start \<subseteq> transactionDedupKey ` set ns"
    using assms unfolding spec(3) batch_ok_def by auto
  ultimately show ?thesis
    using spec(1,4,5) assms by (auto simp: n batch_ok_def)
qed

lemma backfill_result:
  assumes "backfill client cp n txs oldest = Some (Inr res, n')" "batch_ok cp start txs"
  shows "batch_ok cp start res"
proof -
  have "\<forall>res n'. y = (Inr res, n') \<longrightarrow> batch_ok cp start txs \<longrightarrow> batch_ok cp start res"
    if "backfill client cp n txs oldest = Some y" for y
  proof (rule backfill.raw_induct [OF _ that])
    fix f client cp n txs oldest y
    assume IH: "\<And>client cp n txs oldest y. f client cp n txs oldest = Some y \<Longrightarrow>
        \<forall>res n'. y = (Inr res, n') \<longrightarrow> batch_ok cp start txs \<longrightarrow> batch_ok cp start res"
      and "(if \<not> has_gap cp oldest then Some (Inr txs, n)
        else case ParseUint64 (tx_PrevTransLt oldest) of None \<Rightarrow> Some (Inr txs, n)
          | Some prevLt \<Rightarrow> (case client n (Some (prevLt, tx_PrevTransHash oldest)) of
              Inl err \<Rightarrow> Some (Inl err, Suc n)
            | Inr backfilledTxs \<Rightarrow> if newer cp backfilledTxs = [] then Some (Inr txs, Suc n)
                else let merged = fst (normalizeTransactionsByLt (txs @ newer cp backfilledTxs) True)
                     in f client cp (Suc n) merged (hd merged))) = Some y"
    then show "\<forall>res n'. y = (Inr res, n') \<longrightarrow> batch_ok cp start txs \<longrightarrow> batch_ok cp start res"
      by (auto split: if_splits option.splits sum.splits simp: Let_def merge_ok dest!: IH)
  qed
  with assms show ?thesis by blast
qed

text \<open>
  A server that answers a request with the transaction asked for (or with nothing), and whose
  transactions point back in logical time: the documented behaviour of \<open>getTransactions\<close>,
  which starts at the given transaction and goes back.
\<close>

definition serves_backwards :: "tx_client \<Rightarrow> bool" where
  "serves_backwards client \<longleftrightarrow>
     (\<forall>n lt h txs. client n (Some (lt, h)) = Inr txs \<longrightarrow> txs \<noteq> [] \<longrightarrow> (\<exists>tx \<in> set txs. ltv tx = int lt))
     \<and> (\<forall>n rq txs. client n rq = Inr txs \<longrightarrow> (\<forall>tx \<in> set txs. lt_value (tx_PrevTransLt tx) < ltv tx))"

definition points_back :: "Transaction list \<Rightarrow> bool" where
  "points_back txs \<longleftrightarrow> (\<forall>tx \<in> set txs. lt_value (tx_PrevTransLt tx) < ltv tx)"

lemma ParseUint64_value: "ParseUint64 s = Some n \<Longrightarrow> lt_value s = int n"
proof -
  assume "ParseUint64 s = Some n"
  then have s: "s \<noteq> []" "list_all is_digit s" "n = dec_value s"
    by (auto simp: ParseUint64_def parse_digits_def split: option.splits if_splits)
  then obtain c cs where c: "s = c # cs" "is_digit c" "list_all is_digit cs" by (cases s) auto
  then have tw: "takeWhile is_digit cs = cs" by (simp add: takeWhile_eq_all_conv list_all_iff)
  from c(2) have "c \<noteq> CHR ''-''" "c \<noteq> CHR ''+''" by (auto simp: is_digit_def)
  then show "lt_value s = int n" using s(3) c by (simp add: lt_value_def normalizeLt_def big_int_def tw)
qed

lemma hd_least: "sorted (map ltv txs) \<Longrightarrow> tx \<in> set txs \<Longrightarrow> ltv (hd txs) \<le> ltv tx"
  by (cases txs) auto

lemma backfill_returns:
  assumes srv: "serves_backwards client" and ok: "batch_ok cp start txs" "points_back txs"
  shows "\<exists>y. backfill client cp n txs (hd txs) = Some y"
  using ok
proof (induction "nat (ltv (hd txs) - lt_value cp)" arbitrary: n txs rule: less_induct)
  case less
  let ?old = "hd txs"
  have old: "?old \<in> set txs" "lt_value cp < ltv ?old" using less.prems by (auto simp: batch_ok_def)
  have earlier: "lt_value (tx_PrevTransLt ?old) < ltv ?old" using less.prems(2) old(1) by (simp add: points_back_def)
  show ?case
  proof (cases "has_gap cp ?old \<and> ParseUint64 (tx_PrevTransLt ?old) \<noteq> None")
    case False
    then show ?thesis by (subst backfill.simps) (auto split: option.split)
  next
    case True
    then obtain prev where gap: "has_gap cp ?old" and prev: "ParseUint64 (tx_PrevTransLt ?old) = Some prev" by auto
    let ?rq = "Some (prev, tx_PrevTransHash ?old)"
    show ?thesis
    proof (cases "client n ?rq")
      case (Inl e)
      with gap prev show ?thesis by (subst backfill.simps) simp
    next
      case (Inr extra)
      show ?thesis
      proof (cases "newer cp extra = []")
        case True
        with Inr gap prev show ?thesis by (subst backfill.simps) simp
      next
        case False
        define ms where "ms = fst (normalizeTransactionsByLt (txs @ newer cp extra) True)"
        obtain d where n: "normalizeTransactionsByLt (txs @ newer cp extra) True = (ms, d)"
          by (cases "normalizeTransactionsByLt (txs @ newer cp extra) True") (simp add: ms_def)
        note spec = normalize_spec [OF n]
        have okm: "batch_ok cp start ms" unfolding ms_def by (rule merge_ok [OF less.prems(1)])
        have backm: "points_back ms"
          using spec(2) less.prems(2) srv Inr unfolding points_back_def serves_backwards_def newer_def by fastforce
        have "extra \<noteq> []" using False by (auto simp: newer_def)
        then obtain tx where tx: "tx \<in> set extra" "ltv tx = int prev" using srv Inr unfolding serves_backwards_def by blast
        have val: "lt_value (tx_PrevTransLt ?old) = int prev" by (rule ParseUint64_value [OF prev])
        then have "tx \<in> set (newer cp extra)" using gap tx by (simp add: newer_iff has_gap_def compareLt_iff)
        then have "transactionDedupKey tx \<in> transactionDedupKey ` set ms" unfolding spec(3) by auto
        then obtain tx' where tx': "tx' \<in> set ms" "transactionDedupKey tx' = transactionDedupKey tx" by auto
        have "ltv tx' = ltv tx" using dedup_key_lt [OF tx'(2)] .
        then have "ltv (hd ms) < ltv ?old"
          using hd_least [of ms tx'] okm tx' tx(2) val earlier by (simp add: batch_ok_def)
        then have "nat (ltv (hd ms) - lt_value cp) < nat (ltv ?old - lt_value cp)" using old(2) by linarith
        from less.hyps [OF this okm backm, of "Suc n"] Inr gap prev False show ?thesis
          by (subst backfill.simps) (simp add: ms_def [symmetric] Let_def)
      qed
    qed
  qed
qed

section \<open>Processing a batch\<close>

text \<open>A handler that also records what it has handled successfully.\<close>

definition logging :: "'s tx_handler \<Rightarrow> ('s \<times> Transaction list) tx_handler" where
  "logging h tx = (\<lambda>(s, hist). case h tx s of
     (None, s') \<Rightarrow> (None, s', hist @ [tx]) | (Some e, s') \<Rightarrow> (Some e, s', hist))"

lemma logging_apply: "logging h tx (s, hist) = (case h tx s of
     (None, s') \<Rightarrow> (None, s', hist @ [tx]) | (Some e, s') \<Rightarrow> (Some e, s', hist))"
  by (simp add: logging_def)

lemma process_prefix:
  assumes "process (logging h) txs lt ok (s, hist) = (lt', ok', failed, s', hist')"
    and "sorted (map ltv txs)" "\<And>tx. tx \<in> set txs \<Longrightarrow> lt_value lt \<le> ltv tx"
  shows "\<exists>k. hist' = hist @ take k txs \<and> k \<le> length txs \<and> (failed \<longleftrightarrow> k < length txs)
     \<and> lt_value lt' = (if k = 0 then lt_value lt else ltv (txs ! (k - 1)))
     \<and> (failed \<longrightarrow> (\<exists>t. fst (h (txs ! k) t) \<noteq> None))"
  using assms
proof (induction txs arbitrary: lt ok s hist)
  case Nil
  then show ?case by auto
next
  case (Cons tx txs)
  obtain r t where h: "h tx s = (r, t)" by (cases "h tx s")
  show ?case
  proof (cases r)
    case (Some e)
    with h have "\<exists>t. fst (h tx t) \<noteq> None" by (intro exI [of _ s]) simp
    with Some h Cons.prems(1) show ?thesis by (intro exI [of _ 0]) (simp add: logging_apply)
  next
    case None
    define lt1 where "lt1 = (if compareLt (tx_Lt tx) lt then tx_Lt tx else lt)"
    define ok1 where "ok1 = (if compareLt (tx_Lt tx) lt then Some (tx_Lt tx) else ok)"
    have v: "lt_value lt1 = ltv tx" using Cons.prems(3) [of tx] by (auto simp: lt1_def compareLt_iff)
    have run: "process (logging h) txs lt1 ok1 (t, hist @ [tx]) = (lt', ok', failed, s', hist')"
      using Cons.prems(1) h None by (simp add: logging_apply lt1_def ok1_def split: if_splits)
    have "lt_value lt1 \<le> ltv y" if "y \<in> set txs" for y using Cons.prems(2) that v by simp
    then obtain k where k: "hist' = (hist @ [tx]) @ take k txs" "k \<le> length txs" "failed \<longleftrightarrow> k < length txs"
      "lt_value lt' = (if k = 0 then lt_value lt1 else ltv (txs ! (k - 1)))"
      "failed \<longrightarrow> (\<exists>t. fst (h (txs ! k) t) \<noteq> None)"
      using Cons.IH [OF run] Cons.prems(2) by auto
    then show ?thesis by (intro exI [of _ "Suc k"]) (auto simp: v nth_Cons')
  qed
qed

lemma adjustInterval_lt [simp]: "po_lastProcessedLt (adjustInterval b p) = po_lastProcessedLt p"
  by (simp add: adjustInterval_def Let_def)

lemma handleError_lt [simp]: "po_lastProcessedLt (handleError p) = po_lastProcessedLt p"
  by (simp add: handleError_def Let_def)

text \<open>A poll that has fetched a page with new transactions.\<close>

lemma poll_fetched:
  assumes page: "client (po_requests p) None = Inr start"
    and ns: "ns = fst (normalizeTransactionsByLt (newer (po_lastProcessedLt p) start) True)" "ns \<noteq> []"
  defines "p2 \<equiv> p\<lparr>po_requests := Suc (po_requests p), po_consecutiveErrors := 0, po_backoffDuration := BackoffInitial\<rparr>"
  shows "poll client h p s = (if po_lastProcessedLt p \<noteq> ''0''
     then (case backfill client (po_lastProcessedLt p) (Suc (po_requests p)) ns (hd ns) of None \<Rightarrow> None
       | Some (Inl err, n) \<Rightarrow> Some (handleError (p2\<lparr>po_requests := n\<rparr>), s, [])
       | Some (Inr all, n) \<Rightarrow> Some (process_batch h all (p2\<lparr>po_requests := n\<rparr>) s))
     else Some (process_batch h ns p2 s))"
proof -
  obtain d where "normalizeTransactionsByLt (newer (po_lastProcessedLt p) start) True = (ns, d)"
    by (cases "normalizeTransactionsByLt (newer (po_lastProcessedLt p) start) True") (simp add: ns(1))
  then have same: "by_lt ns = ns" by (intro by_lt_sorted normalize_spec(1))
  show ?thesis
    unfolding poll_def Let_def page sum.case ns(1) [symmetric] same p2_def
    using ns(2) by (simp cong: if_weak_cong)
qed

text \<open>
  What a poll does to the checkpoint and to the handler: either nothing, or it handles a
  prefix of a sorted list of transactions above the checkpoint that contains every new
  transaction of the first page, up to duplicates.
\<close>

lemma poll_shape:
  assumes "poll client (logging h) p (s, hist) = Some (p', (s', hist'), cbs)"
  shows "(po_lastProcessedLt p' = po_lastProcessedLt p \<and> hist' = hist
        \<and> (\<forall>txs. client (po_requests p) None = Inr txs \<longrightarrow> newer (po_lastProcessedLt p) txs = [] \<or> cbs = []))
     \<or> (\<exists>start txs k. client (po_requests p) None = Inr start
        \<and> batch_ok (po_lastProcessedLt p) (newer (po_lastProcessedLt p) start) txs \<and> k \<le> length txs
        \<and> hist' = hist @ take k txs
        \<and> lt_value (po_lastProcessedLt p') = (if k = 0 then lt_value (po_lastProcessedLt p) else ltv (txs ! (k - 1))))"
proof -
  let ?cp = "po_lastProcessedLt p"
  show ?thesis
  proof (cases "client (po_requests p) None")
    case (Inl e)
    with assms show ?thesis by (auto simp: poll_def Let_def)
  next
    case (Inr start)
    define ns where "ns = fst (normalizeTransactionsByLt (newer ?cp start) True)"
    obtain d where n: "normalizeTransactionsByLt (newer ?cp start) True = (ns, d)"
      by (cases "normalizeTransactionsByLt (newer ?cp start) True") (simp add: ns_def)
    note spec = normalize_spec [OF n]
    show ?thesis
    proof (cases "ns = []")
      case True
      with assms Inr ns_def show ?thesis by (auto simp: poll_def Let_def)
    next
      case False
      have ok: "batch_ok ?cp (newer ?cp start) ns"
        using False spec by (auto simp: batch_ok_def newer_iff)
      have batch: ?thesis if "process_batch (logging h) txs q (s, hist) = (p', (s', hist'), cbs)"
          "batch_ok ?cp (newer ?cp start) txs" "po_lastProcessedLt q = ?cp" for txs q
      proof -
        obtain lt ok' f t hs where pr: "process (logging h) txs ?cp None (s, hist) = (lt, ok', f, t, hs)"
          by (metis prod.exhaust)
        then have "\<exists>k. hs = hist @ take k txs \<and> k \<le> length txs \<and> (f \<longleftrightarrow> k < length txs)
            \<and> lt_value lt = (if k = 0 then lt_value ?cp else ltv (txs ! (k - 1)))
            \<and> (f \<longrightarrow> (\<exists>t. fst (h (txs ! k) t) \<noteq> None))"
          using that(2) by (intro process_prefix) (auto simp: batch_ok_def less_imp_le)
        moreover have "hist' = hs" "po_lastProcessedLt p' = lt"
          using that(1,3) pr by (auto simp: process_batch_def)
        ultimately show ?thesis using that(2) Inr by blast
      qed
      let ?p2 = "p\<lparr>po_requests := Suc (po_requests p), po_consecutiveErrors := 0, po_backoffDuration := BackoffInitial\<rparr>"
      let ?bf = "backfill client ?cp (Suc (po_requests p)) ns (hd ns)"
      note unf = poll_fetched [where p = p and client = client and h = "logging h" and s = "(s, hist)", OF Inr ns_def False]
      show ?thesis
      proof (cases "?cp = ''0''")
        case True
        with assms unf have "process_batch (logging h) ns ?p2 (s, hist) = (p', (s', hist'), cbs)" by simp
        then show ?thesis by (rule batch) (use ok in simp_all)
      next
        case cp: False
        with assms unf obtain r m where bf: "?bf = Some (r, m)" by (cases ?bf) auto
        show ?thesis
        proof (cases r)
          case (Inl e)
          with assms unf cp bf show ?thesis by auto
        next
          case res: (Inr all)
          have "process_batch (logging h) all (?p2\<lparr>po_requests := m\<rparr>) (s, hist) = (p', (s', hist'), cbs)"
            using assms unf cp bf res by simp
          then show ?thesis by (rule batch) (use backfill_result [OF bf [unfolded res] ok] in simp_all)
        qed
      qed
    qed
  qed
qed

end
