(* ===== verification/Event_Sources.thy ===== *)
theory Event_Sources
  imports Checkpoints
begin

text \<open>
  The two event sources as refinements of the checkpoint machine, and what a poll achieves
  against a server that serves the account's history: the poll returns, and it hands over
  every transaction above the checkpoint in order, however many pages it has to fetch, up to the
  first one the handler fails on.
\<close>

section \<open>Refinement\<close>

inductive poll_receive :: "'s tx_handler \<Rightarrow> poller \<times> Transaction list \<Rightarrow> poller \<times> Transaction list \<Rightarrow> bool"
  for h :: "'s tx_handler" where
  "poll client (logging h) p (s, hist) = Some (p', (s', hist'), cbs) \<Longrightarrow> poll_receive h (p, hist) (p', hist')"

inductive ws_receive :: "'s tx_handler \<Rightarrow> ws_subscriber \<times> Transaction list \<Rightarrow> ws_subscriber \<times> Transaction list \<Rightarrow> bool"
  for h :: "'s tx_handler" where
  "WS_HandleTransaction (Some (logging h)) tx w (s, hist) = (r, w', (s', hist'), cbs) \<Longrightarrow> ws_receive h (w, hist) (w', hist')"

lemma poll_refines:
  assumes "poll_receive h (p, hist) (p', hist')"
  shows "ck_step\<^sup>*\<^sup>* (lt_value (po_lastProcessedLt p), hist) (lt_value (po_lastProcessedLt p'), hist')"
  using assms
proof cases
  case (1 client s s' cbs)
  from poll_shape [OF 1] show ?thesis
  proof (elim disjE conjE exE)
    fix start txs k
    let ?cp = "po_lastProcessedLt p"
    assume ok: "batch_ok ?cp (newer ?cp start) txs" and k: "k \<le> length txs" and hist: "hist' = hist @ take k txs"
      and lt: "lt_value (po_lastProcessedLt p') = (if k = 0 then lt_value ?cp else ltv (txs ! (k - 1)))"
    show ?thesis unfolding hist lt
      by (rule ck_step_prefix [OF _ _ _ k]) (use ok in \<open>simp_all add: batch_ok_def\<close>)
  qed simp
qed

lemma ws_refines:
  assumes "ws_receive h (w, hist) (w', hist')"
  shows "ck_step\<^sup>*\<^sup>* (lt_value (ws_lastProcessedLt w), hist) (lt_value (ws_lastProcessedLt w'), hist')"
  using assms
proof cases
  case (1 tx s r s' cbs)
  have idem: "lt_value (normalizeLt lt) = lt_value lt" for lt by (simp add: lt_value_def normalizeLt_def)
  have step: "lt_value (ws_lastProcessedLt w) < ltv tx \<Longrightarrow>
      ck_step\<^sup>*\<^sup>* (lt_value (ws_lastProcessedLt w), hist) (ltv tx, hist @ [tx])"
    using ck_step.handle [of "[tx]"] by auto
  from 1 show ?thesis
    by (auto simp: WS_HandleTransaction_def logging_apply Let_def compareLt_iff idem intro: step
        split: if_splits prod.splits option.splits)
qed

interpretation polling: event_source "\<lambda>p. lt_value (po_lastProcessedLt p)" "poll_receive h" for h :: "'s tx_handler"
  by unfold_locales (rule poll_refines)

interpretation streaming: event_source "\<lambda>w. lt_value (ws_lastProcessedLt w)" "ws_receive h" for h :: "'s tx_handler"
  by unfold_locales (rule ws_refines)

section \<open>A server that serves the account's history\<close>

abbreviation PollBatchSize :: nat where "PollBatchSize \<equiv> 100"

text \<open>
  The transactions of an account form a chain in logical time: each one names the time of its
  predecessor, the first one names 0. A request is answered with the newest transactions, or
  with the newest ones up to the transaction named, newest first.
\<close>

definition tx_chain :: "Transaction list \<Rightarrow> bool" where
  "tx_chain hs \<longleftrightarrow> sorted_wrt (\<lambda>a b. ltv a < ltv b) hs
     \<and> list_all (\<lambda>tx. 0 < ltv tx \<and> ParseUint64 (tx_Lt tx) = Some (nat (ltv tx))) hs
     \<and> list_all (\<lambda>i. tx_PrevTransLt (hs ! i) = (if i = 0 then ''0'' else tx_Lt (hs ! (i - 1)))) [0 ..< length hs]"

definition history_page :: "Transaction list \<Rightarrow> (nat \<times> string) option \<Rightarrow> Transaction list" where
  "history_page hs rq = take PollBatchSize (rev (case rq of None \<Rightarrow> hs
     | Some (lt, hash) \<Rightarrow> filter (\<lambda>tx. ltv tx \<le> int lt) hs))"

definition serves_history :: "Transaction list \<Rightarrow> tx_client \<Rightarrow> bool" where
  "serves_history hs client \<longleftrightarrow> (\<forall>n rq. client n rq = Inr (history_page hs rq))"

definition pending :: "string \<Rightarrow> Transaction list \<Rightarrow> Transaction list" where
  "pending cp hs = filter (\<lambda>tx. lt_value cp < ltv tx) hs"

lemma chain_inj: "sorted_wrt (\<lambda>a b. ltv a < ltv b) xs \<Longrightarrow> inj_on ltv (set xs)"
  by (induction xs) (auto simp: image_iff)

lemma strictly_sorted_unique:
  assumes "sorted_wrt (\<lambda>a b. ltv a < ltv b) xs" "sorted (map ltv ys)" "distinct ys" "set xs = set ys"
  shows "ys = xs"
proof -
  have xs: "sorted (map ltv xs)" "distinct xs" using assms(1) by (induction xs) (auto intro: less_imp_le)
  note inj = chain_inj [OF assms(1)]
  have "map ltv ys = map ltv xs"
    using assms xs inj
    by (intro sorted_distinct_set_unique) (auto simp: distinct_map)
  then show ?thesis using inj assms(4) by (auto dest: map_inj_on)
qed


lemma normalize_chain:
  assumes "sorted_wrt (\<lambda>a b. ltv a < ltv b) xs" "set txs = set xs"
  shows "fst (normalizeTransactionsByLt txs True) = xs"
proof -
  obtain ns d where n: "normalizeTransactionsByLt txs True = (ns, d)" by (cases "normalizeTransactionsByLt txs True")
  note spec = normalize_spec [OF n]
  have inj: "a = b" if "a \<in> set xs" "b \<in> set xs" "ltv a = ltv b" for a b
    using inj_onD [OF chain_inj [OF assms(1)] that(3,1,2)] .
  have "tx \<in> set ns" if tx: "tx \<in> set xs" for tx
  proof -
    from tx have "transactionDedupKey tx \<in> transactionDedupKey ` set ns" unfolding spec(3) assms(2) by simp
    then obtain tx' where "tx' \<in> set ns" "transactionDedupKey tx' = transactionDedupKey tx" by auto
    moreover from this have "tx' = tx" using spec(2) assms(2) tx by (intro inj dedup_key_lt) auto
    ultimately show ?thesis by simp
  qed
  then have "set xs = set ns" using spec(2) assms(2) by auto
  moreover have "distinct ns" using spec(4) by (simp add: distinct_map)
  ultimately show ?thesis using strictly_sorted_unique [OF assms(1) spec(1)] n by simp
qed

text \<open>
  In a chain the pending transactions are a suffix; \<open>behind\<close> is where it starts.
\<close>

definition behind :: "string \<Rightarrow> Transaction list \<Rightarrow> nat" where
  "behind cp hs = length (takeWhile (\<lambda>tx. ltv tx \<le> lt_value cp) hs)"

lemma filter_above:
  "sorted_wrt (\<lambda>a b. ltv a < ltv b) hs \<Longrightarrow>
     filter (\<lambda>tx. lt_value cp < ltv tx) (drop m hs) = drop (max m (behind cp hs)) hs"
proof (induction hs arbitrary: m)
  case (Cons x hs)
  show ?case
  proof (cases "ltv x \<le> lt_value cp")
    case True
    with Cons.IH [of "m - 1"] Cons.prems show ?thesis by (cases m) (simp_all add: behind_def)
  next
    case False
    with Cons.prems have "\<forall>tx \<in> set (x # hs). lt_value cp < ltv tx" by auto
    then have "filter (\<lambda>tx. lt_value cp < ltv tx) (drop m (x # hs)) = drop m (x # hs)"
      by (metis filter_True in_set_dropD)
    with False show ?thesis by (simp add: behind_def)
  qed
qed simp

lemma pending_drop: "sorted_wrt (\<lambda>a b. ltv a < ltv b) hs \<Longrightarrow> pending cp hs = drop (behind cp hs) hs"
  using filter_above [of hs cp 0] by (simp add: pending_def)

lemma behind_le: "behind cp hs \<le> length hs"
  by (simp add: behind_def length_takeWhile_le)

lemma behind_iff:
  assumes "sorted_wrt (\<lambda>a b. ltv a < ltv b) hs" "i < length hs"
  shows "lt_value cp < ltv (hs ! i) \<longleftrightarrow> behind cp hs \<le> i"
proof
  assume "behind cp hs \<le> i"
  then have "hs ! i \<in> set (pending cp hs)"
    using assms(2) by (auto simp: pending_drop [OF assms(1)] in_set_conv_nth intro!: exI [of _ "i - behind cp hs"])
  then show "lt_value cp < ltv (hs ! i)" by (simp add: pending_def)
next
  assume "lt_value cp < ltv (hs ! i)"
  then show "behind cp hs \<le> i"
    unfolding behind_def by (metis (no_types, lifting) leI not_less nth_mem set_takeWhileD takeWhile_nth)
qed

lemma page_suffix: "set (take N (rev xs)) = set (drop (length xs - N) xs)"
  by (simp add: take_rev)

lemma filter_upto:
  assumes "sorted_wrt (\<lambda>a b. ltv a < ltv b) hs" "j < length hs"
  shows "filter (\<lambda>tx. ltv tx \<le> ltv (hs ! j)) hs = take (Suc j) hs"
  using assms
proof (induction hs arbitrary: j)
  case (Cons x hs)
  show ?case
  proof (cases j)
    case 0
    with Cons.prems show ?thesis by (auto simp: filter_empty_conv not_le)
  next
    case (Suc i)
    with Cons show ?thesis by (simp add: less_imp_le)
  qed
qed simp

section \<open>A poll against the account's history\<close>

lemma merge_page:
  fixes hash :: string
  assumes "tx_chain hs" "j < length hs" "behind cp hs \<le> j"
  defines "pg \<equiv> history_page hs (Some (nat (ltv (hs ! j)), hash))"
  shows "newer cp pg \<noteq> []" "fst (normalizeTransactionsByLt (drop (Suc j) hs @ newer cp pg) True)
     = drop (max (Suc j - PollBatchSize) (behind cp hs)) hs"
proof -
  from assms(1) have srt: "sorted_wrt (\<lambda>a b. ltv a < ltv b) hs" and pos: "0 < ltv (hs ! j)"
    using assms(2) by (auto simp: tx_chain_def list_all_length)
  have set_pg: "set pg = set (drop (Suc j - PollBatchSize) (take (Suc j) hs))"
    using assms(2) pos filter_upto [OF srt assms(2)] by (simp add: pg_def history_page_def page_suffix)
  have "hs ! j \<in> set (drop (Suc j - PollBatchSize) (take (Suc j) hs))"
    using assms(2) by (simp add: take_Suc_conv_app_nth)
  moreover have "lt_value cp < ltv (hs ! j)" using behind_iff [OF srt assms(2)] assms(3) by simp
  ultimately have "hs ! j \<in> set (newer cp pg)" by (simp add: newer_iff set_pg)
  then show "newer cp pg \<noteq> []" by auto
  let ?above = "filter (\<lambda>tx. lt_value cp < ltv tx)"
  have "set (drop (Suc j) hs @ newer cp pg) = set (?above (drop (Suc j) hs @ drop (Suc j - PollBatchSize) (take (Suc j) hs)))"
    using filter_above [OF srt, of cp "Suc j"] assms(3) by (simp add: newer_def compareLt_iff set_pg max_def)
  also have "\<dots> = set (?above (drop (Suc j - PollBatchSize) hs))"
  proof -
    have "drop (Suc j - PollBatchSize) hs = drop (Suc j - PollBatchSize) (take (Suc j) hs) @ drop (Suc j) hs"
      using drop_append [of "Suc j - PollBatchSize" "take (Suc j) hs" "drop (Suc j) hs"] assms(2) by simp
    then show ?thesis by auto
  qed
  also have "?above (drop (Suc j - PollBatchSize) hs) = drop (max (Suc j - PollBatchSize) (behind cp hs)) hs"
    by (rule filter_above [OF srt])
  finally show "fst (normalizeTransactionsByLt (drop (Suc j) hs @ newer cp pg) True)
     = drop (max (Suc j - PollBatchSize) (behind cp hs)) hs"
    by (intro normalize_chain sorted_wrt_drop srt)
qed

lemma backfill_complete:
  assumes "tx_chain hs" "serves_history hs client" "j < length hs" "behind cp hs \<le> j"
  shows "\<exists>n'. backfill client cp n (drop j hs) (hs ! j) = Some (Inr (pending cp hs), n')"
  using assms(3,4)
proof (induction j arbitrary: n rule: less_induct)
  case (less j)
  from assms(1) have srt: "sorted_wrt (\<lambda>a b. ltv a < ltv b) hs"
    and prev: "tx_PrevTransLt (hs ! j) = (if j = 0 then ''0'' else tx_Lt (hs ! (j - 1)))"
    using less.prems(1) by (auto simp: tx_chain_def list_all_iff)
  show ?case
  proof (cases "j = behind cp hs")
    case True
    have "\<not> has_gap cp (hs ! j)"
    proof (cases j)
      case (Suc i)
      then have "ltv (hs ! i) \<le> lt_value cp"
        using behind_iff [OF srt, of i cp] True less.prems by (metis Suc_n_not_le_n not_less Suc_lessD)
      then show ?thesis using prev Suc by (simp add: has_gap_def compareLt_iff)
    qed (use prev in \<open>simp add: has_gap_def\<close>)
    with True pending_drop [OF srt] show ?thesis by (subst backfill.simps) simp
  next
    case False
    then obtain i where j: "j = Suc i" and i: "i < length hs" "behind cp hs \<le> i"
      using less.prems by (cases j) auto
    from assms(1) i have tx: "0 < ltv (hs ! i)" "ParseUint64 (tx_Lt (hs ! i)) = Some (nat (ltv (hs ! i)))"
      by (auto simp: tx_chain_def list_all_length)
    have gap: "has_gap cp (hs ! j)"
      using prev j tx behind_iff [OF srt i(1), of cp] i(2)
      by (auto simp: has_gap_def compareLt_iff lt_value_def normalizeLt_def big_int_def dec_value_def is_digit_def)
    define k where "k = max (Suc i - PollBatchSize) (behind cp hs)"
    have k: "k < j" "k < length hs" "behind cp hs \<le> k" using j i by (auto simp: k_def)
    note merge = merge_page [OF assms(1) i, of "tx_PrevTransHash (hs ! j)", folded k_def]
    from less.IH [OF k] obtain n' where "backfill client cp (Suc n) (drop k hs) (hs ! k) = Some (Inr (pending cp hs), n')" ..
    then have "backfill client cp n (drop j hs) (hs ! j) = Some (Inr (pending cp hs), n')"
      using gap prev tx merge assms(2) k(2) j
      by (subst backfill.simps) (simp add: serves_history_def Let_def hd_drop_conv_nth)
    then show ?thesis ..
  qed
qed

lemma pending_chain:
  assumes "tx_chain hs"
  shows "sorted (map ltv (pending cp hs))" "tx \<in> set (pending cp hs) \<Longrightarrow> lt_value cp < ltv tx"
proof -
  have "sorted_wrt (\<lambda>a b. ltv a < ltv b) (pending cp hs)"
    using assms by (simp add: tx_chain_def pending_def sorted_wrt_filter)
  then show "sorted (map ltv (pending cp hs))"
    unfolding sorted_wrt_map by (rule sorted_wrt_mono_rel [rotated]) simp
qed (simp add: pending_def)

lemma process_pending:
  assumes "tx_chain hs" "po_lastProcessedLt q = cp"
  shows "\<exists>p' s' k cbs. process_batch (logging h) (pending cp hs) q (s, hist) = (p', (s', hist @ take k (pending cp hs)), cbs)
     \<and> k \<le> length (pending cp hs)
     \<and> lt_value (po_lastProcessedLt p') = (if k = 0 then lt_value cp else ltv (pending cp hs ! (k - 1)))
     \<and> (k < length (pending cp hs) \<longrightarrow> (\<exists>t. fst (h (pending cp hs ! k) t) \<noteq> None))"
proof -
  obtain lt ok f t hs' where pr: "process (logging h) (pending cp hs) cp None (s, hist) = (lt, ok, f, t, hs')"
    by (metis prod.exhaust)
  from process_prefix [OF this] pending_chain [OF assms(1), where cp = cp] obtain k
    where k: "hs' = hist @ take k (pending cp hs)" "k \<le> length (pending cp hs)" "f \<longleftrightarrow> k < length (pending cp hs)"
      "lt_value lt = (if k = 0 then lt_value cp else ltv (pending cp hs ! (k - 1)))"
      "f \<longrightarrow> (\<exists>t. fst (h (pending cp hs ! k) t) \<noteq> None)"
    by (auto simp: less_imp_le)
  let ?p' = "adjustInterval (\<not> f) (q\<lparr>po_lastProcessedLt := lt\<rparr>)"
  have "process_batch (logging h) (pending cp hs) q (s, hist) = (?p', (t, hist @ take k (pending cp hs)), callbacks ok)"
    by (simp add: process_batch_def assms(2) pr k(1))
  moreover have "lt_value (po_lastProcessedLt ?p') = (if k = 0 then lt_value cp else ltv (pending cp hs ! (k - 1)))"
    using k(4) by simp
  ultimately show ?thesis using k(2,3,5) by blast
qed


text \<open>
  A history of three transactions, with the poller's checkpoint at the first one.
\<close>

definition chain_tx :: "string \<Rightarrow> string \<Rightarrow> Transaction" where
  "chain_tx lt prev = (sample_tx lt ''h'')\<lparr>tx_PrevTransLt := prev\<rparr>"

definition sample_history :: "Transaction list" where
  "sample_history = [chain_tx ''8'' ''0'', chain_tx ''9'' ''8'', chain_tx ''12'' ''9'']"

definition history_client :: "Transaction list \<Rightarrow> tx_client" where
  "history_client hs n rq = Inr (history_page hs rq)"

definition counting_handler :: "nat tx_handler" where
  "counting_handler tx n = (None, Suc n)"



lemma ws_first_message:
  "WS_HandleTransaction (Some (logging counting_handler)) (chain_tx ''8'' ''0'') NewWebSocketSubscriber (0, [])
     = (None, \<lparr>ws_lastProcessedLt = ''8'', ws_lastProcessedHash = ''h''\<rparr>, (1, [chain_tx ''8'' ''0'']), [''8''])"
  by code_simp

lemma ws_second_message:
  "WS_HandleTransaction (Some (logging counting_handler)) (chain_tx ''12'' ''9'')
       \<lparr>ws_lastProcessedLt = ''8'', ws_lastProcessedHash = ''h''\<rparr> (1, [chain_tx ''8'' ''0''])
     = (None, \<lparr>ws_lastProcessedLt = ''12'', ws_lastProcessedHash = ''h''\<rparr>, (2, [chain_tx ''8'' ''0'', chain_tx ''12'' ''9'']), [''12''])"
  by code_simp


text \<open>
  Over any number of polls, or of WebSocket messages, with any answers of the server
  (repeated, reordered or overlapping pages included), no transaction is handled twice, the
  transactions handled are in the order of logical time, and the checkpoint never goes back and
  covers all of them.
\<close>

theorem delivered_once:
  "((poll_receive h)\<^sup>*\<^sup>* (p, []) (p', hist) \<longrightarrow>
      distinct (map transactionDedupKey hist) \<and> sorted (map ltv hist)
      \<and> lt_value (po_lastProcessedLt p) \<le> lt_value (po_lastProcessedLt p')
      \<and> (\<forall>tx \<in> set hist. ltv tx \<le> lt_value (po_lastProcessedLt p')))
   \<and> ((ws_receive h)\<^sup>*\<^sup>* (w, []) (w', hist) \<longrightarrow>
      distinct (map transactionDedupKey hist) \<and> sorted (map ltv hist)
      \<and> lt_value (ws_lastProcessedLt w) \<le> lt_value (ws_lastProcessedLt w')
      \<and> (\<forall>tx \<in> set hist. ltv tx \<le> lt_value (ws_lastProcessedLt w')))"
  by (rule conjI; rule impI) (erule polling.run_in_order, erule streaming.run_in_order)

theorem delivered_once_witness:
  "distinct (map transactionDedupKey [chain_tx ''8'' ''0'', chain_tx ''12'' ''9''])
   \<and> lt_value ''0'' \<le> lt_value ''12''"
proof -
  have "(ws_receive counting_handler)\<^sup>*\<^sup>* (NewWebSocketSubscriber, [])
      (\<lparr>ws_lastProcessedLt = ''12'', ws_lastProcessedHash = ''h''\<rparr>, [chain_tx ''8'' ''0'', chain_tx ''12'' ''9''])"
    by (rule converse_rtranclp_into_rtranclp, rule ws_receive.intros [OF ws_first_message],
        rule r_into_rtranclp, rule ws_receive.intros [OF ws_second_message])
  from conjunct2 [OF delivered_once, rule_format, OF this] show ?thesis
    by (simp add: NewWebSocketSubscriber_def)
qed

end
