(* ===== verification/Persistence_Invariants.thy ===== *)
theory Persistence_Invariants
  imports Game_Persistence
begin

text \<open>
  What every handler of \<open>game_persistence.go\<close> keeps of the tables, whatever event it is
  given and whichever statements fail. The contract of an invariant with the statements the
  handlers send is a locale; the handlers are proved to keep such an invariant once, and the
  locale is interpreted for the integrity of the tables and for two facts about games.
\<close>

section \<open>The contract of a table invariant\<close>

text \<open>What \<open>HandleGameInitialized\<close> puts into the games table.\<close>

definition waiting_game :: "Game \<Rightarrow> bool" where
  "waiting_game g \<longleftrightarrow> g_Status g = GameStatusWaitingForOpponent \<and> g_PlayerTwoAddress g = None
     \<and> g_PlayerOneReferrer g = None \<and> g_PlayerTwoReferrer g = None
     \<and> g_WinnerAddress g = None \<and> g_PayoutAmount g = None"

locale table_invariant =
  fixes P :: "tables \<Rightarrow> bool"
  assumes keep_create: "waiting_game g \<Longrightarrow> keepsDB P (CreateOrIgnore g)"
    and keep_join: "keepsDB P (JoinGame k w h t)"
    and keep_reveal: "keepsDB P (RevealChoice k w c h t)"
    and keep_complete: "keepsDB P (CompleteGame k w a h t)"
    and keep_cancel: "keepsDB P (CancelGame k h t)"
    and keep_upsert: "keeps P upsertH"
    and keep_ensure: "keepsDB P (EnsureUserByWallet w)"
    and keep_played: "keepsDB P (IncrementGamesPlayed w)"
    and keep_wins: "keepsDB P (IncrementWins w)"
    and keep_losses: "keepsDB P (IncrementLosses w)"
    and keep_referrals: "keepsDB P (IncrementReferrals w n)"

lemma keepsDB_GetByID: "keepsDB P (GetByID k)"
  unfolding GetByID_def by (intro keepsDB_wrap keepsDB_statement) (auto split: option.splits)

lemma keeps_check: "keeps P (checkEvent t)" "keeps P (serializeEventData marshal)" "keeps P (dataH f)"
proof -
  show "keeps P (checkEvent t)" by (simp add: keeps_def checkEvent_def Let_def split: option.split)
  show "keeps P (serializeEventData marshal)"
    by (simp add: keeps_def serializeEventData_def Let_def split: option.split sum.split)
  show "keeps P (dataH f)" unfolding dataH_def by (intro keeps_wrap keeps_bind keeps_basic)
qed

lemma keeps_getGame: "keeps P getGameH"
  unfolding getGameH_def by (intro keeps_bind keeps_wrap keeps_liftDB keeps_basic keepsDB_GetByID)

lemma keeps_if: "(c \<Longrightarrow> keeps P a) \<Longrightarrow> (\<not> c \<Longrightarrow> keeps P b) \<Longrightarrow> keeps P (if c then a else b)"
  by simp

lemma keeps_option: "keeps P a \<Longrightarrow> (\<And>x. keeps P (f x)) \<Longrightarrow> keeps P (case y of None \<Rightarrow> a | Some x \<Rightarrow> f x)"
  by (simp split: option.split)

lemmas keeps_intros = keeps_bind keeps_wrap keeps_liftDB keeps_basic keepsDB_GetByID keeps_check
  keeps_getGame keeps_if keeps_option keeps_WithTx

context table_invariant
begin

lemma keeps_persist: "keeps P persistEvent"
  unfolding persistEvent_def by (intro keeps_intros keep_upsert)

lemma keeps_ensure: "keeps P (ensureUser users w)"
  unfolding ensureUser_def by (intro keeps_intros keep_ensure)

lemma keeps_initialized: "keeps P (HandleGameInitialized_db marshal users)"
  unfolding HandleGameInitialized_db_def Let_def
  by (intro keeps_intros keeps_persist keeps_ensure keep_create) (simp add: waiting_game_def)

lemma keeps_started: "keeps P (HandleGameStarted_db marshal users)"
  unfolding HandleGameStarted_db_def by (intro keeps_intros keeps_persist keeps_ensure keep_join)

lemma keeps_finish_steps: "keeps P (finish_steps users winner loser payout ref earnings)"
  unfolding finish_steps_def complete_steps_def stats_steps_def loser_steps_def referrer_steps_def
  by (intro keeps_intros keeps_persist keep_complete keep_played keep_wins keep_losses keep_referrals)

lemma keeps_finished: "keeps P (HandleGameFinished_db marshal users tx)"
  unfolding HandleGameFinished_db_def Let_def by (intro keeps_intros keeps_finish_steps)

lemma keeps_draw: "keeps P (HandleDraw_db marshal users)"
  unfolding HandleDraw_db_def by (intro keeps_intros keeps_persist keep_complete keep_played)

lemma keeps_cancelled: "keeps P (HandleGameCancelled_db marshal)"
  unfolding HandleGameCancelled_db_def by (intro keeps_intros keeps_persist keep_cancel)

lemma keeps_secret: "keeps P (HandleSecretOpened_db marshal)"
  unfolding HandleSecretOpened_db_def by (intro keeps_intros keeps_persist keep_reveal)

lemma keeps_insufficient: "keeps P (HandleInsufficientBalance_db marshal)"
  unfolding HandleInsufficientBalance_db_def by (intro keeps_intros keep_upsert)

end

section \<open>Effects leave the tables alone\<close>

definition quiet :: "effect \<Rightarrow> bool" where
  "quiet a \<longleftrightarrow> (\<forall>p. tables (p_db (fst (a p))) = tables (p_db p))"

lemma quiet_then: "quiet a \<Longrightarrow> quiet b \<Longrightarrow> quiet (thenP a b)"
  by (simp add: quiet_def thenP_def case_prod_beta)

lemma GetByID_tables: "tables (snd (GetByID k db)) = tables db"
  using keepsDB_GetByID [of "\<lambda>t. t = tables db" k] by (simp add: keepsDB_def)

lemma quiet_broadcast: "quiet (broadcastGameUpdate k t)"
  unfolding quiet_def
proof
  fix p
  show "tables (p_db (fst (broadcastGameUpdate k t p))) = tables (p_db p)"
    using GetByID_tables [of k "p_db p"]
    by (cases "GetByID k (p_db p)") (auto simp: broadcastGameUpdate_def split: sum.split)
qed

lemma quiet_releases:
  "quiet (releaseJoinReservation pa k)" "quiet (releaseCancelReservationIfUnavailable pa k)"
  "quiet (releaseRevealReservationIfAny pa k)" "quiet (releaseExpiredClaimIfResolved pa k)" "quiet skipP"
  by (simp_all add: quiet_def releaseJoinReservation_def releaseCancelReservationIfUnavailable_def
      releaseRevealReservationIfAny_def releaseExpiredClaimIfResolved_def skipP_def case_prod_beta
      split: option.split)

lemma quiet_terminal: "quiet (terminal_effects pa t k)"
  unfolding terminal_effects_def by (intro quiet_then quiet_broadcast quiet_releases)

lemmas quiet_intros = quiet_then quiet_broadcast quiet_releases quiet_terminal

lemma run_handler_tables:
  assumes "\<And>k. quiet (after k)"
  shows "tables (p_db (fst (snd (snd (run_handler work after event p))))) =
     tables (snd (snd (work p (event, p_db p))))"
  using assms
  by (auto simp: run_handler_def quiet_def case_prod_beta split: prod.split sum.split option.split)

section \<open>The handlers as steps\<close>

text \<open>
  One event handled by one handler. The event may be any event, also one that an earlier,
  failed attempt has already mutated; claims and the clock may change in between.
\<close>

inductive persist_step :: "parse_addr \<Rightarrow> marshal \<Rightarrow> persistence \<Rightarrow> persistence \<Rightarrow> bool"
  for pa :: parse_addr and marshal :: marshal where
  handle: "h \<in> {HandleGameInitialized pa marshal, HandleGameStarted pa marshal,
       HandleGameFinished pa marshal, HandleDraw pa marshal, HandleGameCancelled pa marshal,
       HandleSecretOpened pa marshal, HandleInsufficientBalance pa marshal} \<Longrightarrow>
     persist_step pa marshal p (fst (snd (snd (h event p))))"
| claims: "persist_step pa marshal p
     (p\<lparr>p_now := now, p_join := j, p_cancel := c, p_reveal := r, p_expired := x\<rparr>)"

context table_invariant
begin

lemma persist_step_keeps:
  assumes "persist_step pa marshal p p'" "P (tables (p_db p))"
  shows "P (tables (p_db p'))"
  using assms
proof (cases rule: persist_step.cases)
  case (handle h event)
  have quiets: "\<And>k. quiet (thenP (broadcastGameUpdate k t) (releaseExpiredClaimIfResolved pa k))"
    "\<And>k. quiet (thenP (releaseJoinReservation pa k) (thenP (releaseCancelReservationIfUnavailable pa k)
        (thenP (broadcastGameUpdate k t) (releaseExpiredClaimIfResolved pa k))))"
    "\<And>k. quiet (thenP (terminal_effects pa t k) (releaseExpiredClaimIfResolved pa k))"
    "\<And>k. quiet (terminal_effects pa t k)"
    "\<And>k. quiet (thenP (broadcastGameUpdate k t) (thenP (releaseCancelReservationIfUnavailable pa k)
        (releaseExpiredClaimIfResolved pa k)))"
    "\<And>k :: int. quiet skipP" for t
    by (intro quiet_intros)+
  have work: "P (tables (snd (snd (w (event, p_db p)))))" if "keeps P w" for w :: "int option hop"
    using that assms(2) by (simp add: keeps_def)
  show ?thesis
    using handle
    by (auto simp: HandleGameInitialized_def HandleGameStarted_def HandleGameFinished_def HandleDraw_def
        HandleGameCancelled_def HandleSecretOpened_def HandleInsufficientBalance_def
        run_handler_tables quiets
        intro!: work keeps_initialized keeps_started keeps_finished keeps_draw keeps_cancelled
          keeps_secret keeps_insufficient)
qed auto

lemma persist_run_keeps:
  "(persist_step pa marshal)\<^sup>*\<^sup>* p p' \<Longrightarrow> P (tables (p_db p)) \<Longrightarrow> P (tables (p_db p'))"
  by (induction rule: rtranclp_induct) (auto intro: persist_step_keeps)

end

section \<open>The integrity of the tables\<close>

text \<open>
  Primary keys and the event key are unique, every event belongs to a stored game, every
  player of a stored game is a stored user, and the rows satisfy the column constraints.
\<close>

fun tables_ok :: "tables \<Rightarrow> bool" where
  "tables_ok (gs, es, us) \<longleftrightarrow> distinct (map g_GameID gs) \<and> distinct (map event_key es)
     \<and> distinct (map ur_WalletAddress us)
     \<and> (\<forall>e \<in> set es. e_GameID e \<in> g_GameID ` set gs \<and> event_columns e = None)
     \<and> (\<forall>g \<in> set gs. game_columns g = None \<and> g_PlayerOneAddress g \<in> ur_WalletAddress ` set us
          \<and> (\<forall>p. g_PlayerTwoAddress g = Some p \<longrightarrow> p \<in> ur_WalletAddress ` set us))"

lemma game_row_None: "game_row db k = None \<longleftrightarrow> k \<notin> g_GameID ` set (db_games db)"
  by (auto simp: game_row_def find_None_iff)

lemma game_row_Some: "game_row db k = Some g \<Longrightarrow> g \<in> set (db_games db) \<and> g_GameID g = k"
  by (auto simp: game_row_def find_Some_iff)

lemma user_by_wallet_None: "user_by_wallet db w = None \<longleftrightarrow> w \<notin> ur_WalletAddress ` set (db_users db)"
  by (auto simp: user_by_wallet_def find_None_iff)

lemma game_players_known_iff:
  "game_players_known db g \<longleftrightarrow> g_PlayerOneAddress g \<in> ur_WalletAddress ` set (db_users db)
     \<and> (\<forall>p. g_PlayerTwoAddress g = Some p \<longrightarrow> p \<in> ur_WalletAddress ` set (db_users db))"
  by (auto simp: game_players_known_def user_by_wallet_None [THEN not_iff [THEN iffD2]]
      user_by_wallet_None split: option.splits)

lemma keepsDB_update_game:
  assumes "\<And>db g. P (tables db) \<Longrightarrow> g \<in> set (db_games db) \<Longrightarrow> g_GameID g = k \<Longrightarrow> check_game db (f g) = None \<Longrightarrow>
     P (map (\<lambda>g. if g_GameID g = k then f g else g) (db_games db), db_events db, db_users db)"
  shows "keepsDB P (update_game k f)"
  unfolding update_game_def
proof (rule keepsDB_statement)
  fix db x db'
  assume P: "P (tables db)" and run: "(case game_row db k of None \<Rightarrow> Inr ((), db)
       | Some g \<Rightarrow> (case check_game db (f g) of Some e \<Rightarrow> Inl e
         | None \<Rightarrow> Inr ((), db\<lparr>db_games := map (\<lambda>g. if g_GameID g = k then f g else g) (db_games db)\<rparr>)))
       = Inr (x, db')"
  show "P (tables db')"
  proof (cases "game_row db k")
    case None
    with run P show ?thesis by simp
  next
    case (Some g)
    with run have "check_game db (f g) = None"
      and db': "db' = db\<lparr>db_games := map (\<lambda>g. if g_GameID g = k then f g else g) (db_games db)\<rparr>"
      by (auto split: option.splits)
    with assms [OF P, of g] game_row_Some [OF Some] show ?thesis by (simp add: db')
  qed
qed

lemma keepsDB_update_user:
  assumes "\<And>db. P (tables db) \<Longrightarrow> P (db_games db, db_events db, map (\<lambda>u. if ur_WalletAddress u = w
     then (f u)\<lparr>ur_UpdatedAt := db_now db\<rparr> else u) (db_users db))"
  shows "keepsDB P (update_user w f)"
  unfolding update_user_def
  by (rule keepsDB_statement) (auto simp: assms split: option.splits if_splits)

lemma check_game_None: "check_game db g = None \<longleftrightarrow> game_columns g = None \<and> game_players_known db g"
  by (simp add: check_game_def split: option.split)

lemma tables_ok_games:
  assumes "tables_ok (gs, es, us)" "map g_GameID gs' = map g_GameID gs"
    and "\<And>g. g \<in> set gs' \<Longrightarrow> game_columns g = None \<and> g_PlayerOneAddress g \<in> ur_WalletAddress ` set us
      \<and> (\<forall>p. g_PlayerTwoAddress g = Some p \<longrightarrow> p \<in> ur_WalletAddress ` set us)"
  shows "tables_ok (gs', es, us)"
proof -
  have "g_GameID ` set gs' = g_GameID ` set gs" by (metis assms(2) list.set_map)
  with assms show ?thesis by simp
qed

lemma tables_ok_users:
  assumes "tables_ok (gs, es, us)" "map ur_WalletAddress us' = map ur_WalletAddress us"
  shows "tables_ok (gs, es, us')"
proof -
  have "ur_WalletAddress ` set us' = ur_WalletAddress ` set us" by (metis assms(2) list.set_map)
  with assms show ?thesis by simp
qed

lemma tables_ok_update_game:
  assumes "\<And>g. g_GameID (f g) = g_GameID g"
  shows "keepsDB tables_ok (update_game k f)"
proof (rule keepsDB_update_game)
  fix db g
  assume ok: "tables_ok (tables db)" and g: "g \<in> set (db_games db)" "g_GameID g = k"
    and check: "check_game db (f g) = None"
  let ?gs = "map (\<lambda>g. if g_GameID g = k then f g else g) (db_games db)"
  have dist: "distinct (map g_GameID (db_games db))" using ok by (simp add: tables_def)
  have ids: "map g_GameID ?gs = map g_GameID (db_games db)" by (simp add: assms)
  have "g' = g" if "g' \<in> set (db_games db)" "g_GameID g' = k" for g'
    using dist that g by (auto simp: distinct_map inj_on_def)
  then have "set ?gs \<subseteq> insert (f g) (set (db_games db))" by auto
  moreover have "game_columns (f g) = None \<and> game_players_known db (f g)" using check by (simp add: check_game_None)
  ultimately have rows: "game_columns g' = None \<and> game_players_known db g'" if "g' \<in> set ?gs" for g'
    using ok that by (auto simp: tables_def game_players_known_iff)
  show "tables_ok (?gs, db_events db, db_users db)"
  proof (rule tables_ok_games [OF _ ids])
    show "tables_ok (db_games db, db_events db, db_users db)" using ok by (simp only: tables_def)
  qed (use rows game_players_known_iff in blast)
qed

lemma tables_ok_update_user:
  assumes "\<And>u. ur_WalletAddress (f u) = ur_WalletAddress u"
  shows "keepsDB tables_ok (update_user w f)"
proof (rule keepsDB_update_user)
  fix db
  assume ok: "tables_ok (tables db)"
  let ?us = "map (\<lambda>u. if ur_WalletAddress u = w then (f u)\<lparr>ur_UpdatedAt := db_now db\<rparr> else u) (db_users db)"
  have ids: "map ur_WalletAddress ?us = map ur_WalletAddress (db_users db)" by (simp add: assms)
  show "tables_ok (db_games db, db_events db, ?us)"
    by (rule tables_ok_users [OF _ ids]) (use ok in \<open>simp only: tables_def\<close>)
qed

lemma inserted_game_same [simp]:
  "game_columns (inserted_game db g) = game_columns g" "g_GameID (inserted_game db g) = g_GameID g"
  "g_PlayerOneAddress (inserted_game db g) = g_PlayerOneAddress g"
  "g_PlayerTwoAddress (inserted_game db g) = g_PlayerTwoAddress g"
  by (simp_all add: inserted_game_def game_columns_def)

lemma insert_game_done:
  "insert_game g db = Inr (x, db') \<Longrightarrow> tables db' = tables db
   \<or> (tables db' = (db_games db @ [inserted_game db g], db_events db, db_users db)
       \<and> game_row db (g_GameID g) = None \<and> game_columns g = None \<and> game_players_known db g)"
  by (auto simp: insert_game_def split: option.splits if_splits)

lemma keepsDB_create:
  assumes "\<And>db. P (tables db) \<Longrightarrow> game_row db (g_GameID g) = None \<Longrightarrow> game_columns g = None \<Longrightarrow>
     game_players_known db g \<Longrightarrow> P (db_games db @ [inserted_game db g], db_events db, db_users db)"
  shows "keepsDB P (CreateOrIgnore g)"
proof -
  have "keepsDB P (statement (insert_game g))"
  proof (rule keepsDB_statement)
    fix db x db'
    assume "P (tables db)" "insert_game g db = Inr (x, db')"
    with insert_game_done [of g db x db'] assms [of db] show "P (tables db')" by auto
  qed
  then show ?thesis
    by (auto simp: CreateOrIgnore_def keepsDB_basic intro: keepsDB_wrap split: option.split)
qed

lemma tables_ok_create: "keepsDB tables_ok (CreateOrIgnore g)"
  by (rule keepsDB_create) (auto simp: tables_def game_row_None game_players_known_iff)

lemma event_row_same [simp]:
  "event_key (event\<lparr>e_ID := i, e_CreatedAt := t\<rparr>) = event_key event"
  "event_columns (event\<lparr>e_ID := i, e_CreatedAt := t\<rparr>) = event_columns event"
  by (simp_all add: event_key_def event_columns_def)

lemma tick_same [simp]:
  "event_recorded (db\<lparr>db_tick := n\<rparr>) event = event_recorded db event"
  "game_row (db\<lparr>db_tick := n\<rparr>) k = game_row db k" "user_by_wallet (db\<lparr>db_tick := n\<rparr>) w = user_by_wallet db w"
  by (simp_all add: event_recorded_def game_row_def user_by_wallet_def)

lemma insert_event_done:
  "insert_event event db = Inr (x, db') \<Longrightarrow>
     (x = None \<and> tables db' = tables db \<and> event_recorded db event)
   \<or> (\<exists>row. x = Some row \<and> tables db' = (db_games db, db_events db @ [row], db_users db)
        \<and> \<not> event_recorded db event \<and> row = event\<lparr>e_ID := db_next_event db, e_CreatedAt := db_now db\<rparr>
        \<and> event_columns event = None \<and> game_row db (e_GameID event) \<noteq> None)"
  by (auto simp: insert_event_def Let_def tables_def split: option.splits if_splits)

lemma Upsert_state:
  "tables (snd (Upsert event db)) = tables db
   \<or> (\<exists>row. tables (snd (Upsert event db)) = (db_games db, db_events db @ [row], db_users db)
        \<and> \<not> event_recorded db event \<and> event_key row = event_key event \<and> event_columns row = None
        \<and> game_row db (e_GameID event) \<noteq> None)"
proof (cases "GameEvent_Validate event")
  case (Some e)
  then show ?thesis by (simp add: Upsert_def failDB_def)
next
  case None
  have snd: "snd (Upsert event db) = snd (statement (insert_event event) db)"
    using None by (simp add: Upsert_def split: prod.split sum.split option.split)
  show ?thesis
  proof (cases rule: statement_cases [of "insert_event event" db])
    case (ran x db')
    then have db': "snd (Upsert event db) = db'" by (simp add: snd)
    from insert_event_done [OF ran(1)] show ?thesis unfolding db' by auto
  qed (simp_all add: snd)
qed

lemma tables_ok_upsert: "keeps tables_ok upsertH"
  unfolding keeps_def
proof (intro allI impI)
  fix s :: "GameEvent \<times> db"
  assume ok: "tables_ok (tables (snd s))"
  have "snd (snd (upsertH s)) = snd (Upsert (fst s) (snd s))"
    by (simp add: upsertH_def split: prod.split sum.split)
  with ok Upsert_state [of "fst s" "snd s"] show "tables_ok (tables (snd (snd (upsertH s))))"
    by (auto simp: tables_def event_recorded_def game_row_None event_key_def)
qed

lemma tables_ok_ensure: "keepsDB tables_ok (EnsureUserByWallet w)"
  unfolding EnsureUserByWallet_def
  by (intro keepsDB_wrap keepsDB_statement)
    (auto simp: tables_def Let_def user_by_wallet_None split: if_splits)

lemma keepsDB_RevealChoice:
  assumes "keepsDB P (update_game k (\<lambda>g. g\<lparr>g_RevealedAt := Some t, g_RevealTxHash := Some h, g_PlayerOneChoice := c\<rparr>))"
    and "keepsDB P (update_game k (\<lambda>g. g\<lparr>g_RevealedAt := Some t, g_RevealTxHash := Some h, g_PlayerTwoChoice := Some c\<rparr>))"
  shows "keepsDB P (RevealChoice k w c h t)"
  unfolding RevealChoice_def
proof (rule keepsDB_bind)
  fix game
  show "keepsDB P (if g_PlayerOneAddress game = w
       then wrapDB ''execute query'' (update_game k (\<lambda>g. g\<lparr>g_RevealedAt := Some t,
              g_RevealTxHash := Some h, g_PlayerOneChoice := c\<rparr>))
       else if g_PlayerTwoAddress game = Some w
       then wrapDB ''execute query'' (update_game k (\<lambda>g. g\<lparr>g_RevealedAt := Some t,
              g_RevealTxHash := Some h, g_PlayerTwoChoice := Some c\<rparr>))
       else failDB (ErrorString (''player '' @ w @ '' not found in game '' @ FormatInt k)))"
    using assms by (simp add: keepsDB_wrap keepsDB_basic)
qed (intro keepsDB_wrap keepsDB_GetByID)

interpretation integrity: table_invariant tables_ok
  by unfold_locales
    (simp_all add: tables_ok_create JoinGame_def CompleteGame_def CancelGame_def IncrementGamesPlayed_def
      IncrementWins_def IncrementLosses_def IncrementReferrals_def keepsDB_wrap tables_ok_update_game
      tables_ok_update_user keepsDB_RevealChoice tables_ok_upsert tables_ok_ensure)

section \<open>Facts about every stored game\<close>

text \<open>
  An invariant of the rows of the games table alone, kept by the rows a handler creates and
  by the changes it makes to a row.
\<close>

locale game_invariant =
  fixes Q :: "Game \<Rightarrow> bool"
  assumes new: "waiting_game g \<Longrightarrow> Q (g\<lparr>g_CreatedAt := t\<rparr>)"
    and join: "Q g \<Longrightarrow> Q (g\<lparr>g_PlayerTwoAddress := Some w, g_JoinedAt := Some t, g_JoinTxHash := Some h,
        g_Status := GameStatusWaitingForOpenBids, g_PlayerOneChoice := CoinSideClosed,
        g_PlayerTwoChoice := Some CoinSideClosed\<rparr>)"
    and reveal: "Q g \<Longrightarrow> Q (g\<lparr>g_RevealedAt := Some t, g_RevealTxHash := Some h, g_PlayerOneChoice := c\<rparr>)"
      "Q g \<Longrightarrow> Q (g\<lparr>g_RevealedAt := Some t, g_RevealTxHash := Some h, g_PlayerTwoChoice := Some c\<rparr>)"
    and complete: "Q g \<Longrightarrow> Q (g\<lparr>g_WinnerAddress := x, g_PayoutAmount := y, g_CompletedAt := Some t,
        g_CompleteTxHash := Some h, g_Status := GameStatusPaid\<rparr>)"

definition all_games :: "(Game \<Rightarrow> bool) \<Rightarrow> tables \<Rightarrow> bool" where
  "all_games Q t \<longleftrightarrow> (\<forall>g \<in> set (fst t). Q g)"

lemma all_games_update_game: "(\<And>g. Q g \<Longrightarrow> Q (f g)) \<Longrightarrow> keepsDB (all_games Q) (update_game k f)"
  by (rule keepsDB_update_game) (auto simp: all_games_def tables_def)

lemma all_games_update_user: "keepsDB (all_games Q) (update_user w f)"
  by (rule keepsDB_update_user) (simp add: all_games_def tables_def)

lemma all_games_upsert: "keeps (all_games Q) upsertH"
  unfolding keeps_def
proof (intro allI impI)
  fix s :: "GameEvent \<times> db"
  assume ok: "all_games Q (tables (snd s))"
  have "snd (snd (upsertH s)) = snd (Upsert (fst s) (snd s))"
    by (simp add: upsertH_def split: prod.split sum.split)
  with ok Upsert_state [of "fst s" "snd s"] show "all_games Q (tables (snd (snd (upsertH s))))"
    by (auto simp: tables_def all_games_def)
qed

lemma all_games_create:
  assumes "\<And>t. Q (g\<lparr>g_CreatedAt := t\<rparr>)"
  shows "keepsDB (all_games Q) (CreateOrIgnore g)"
  by (rule keepsDB_create) (auto simp: all_games_def tables_def inserted_game_def assms)

lemma all_games_ensure: "keepsDB (all_games Q) (EnsureUserByWallet w)"
  unfolding EnsureUserByWallet_def
  by (intro keepsDB_wrap keepsDB_statement) (auto simp: tables_def all_games_def Let_def split: if_splits)

context game_invariant
begin

lemma cancelled:
  assumes "Q g"
  shows "Q (g\<lparr>g_Status := GameStatusPaid, g_CompletedAt := Some t, g_WinnerAddress := None,
    g_PayoutAmount := None, g_CompleteTxHash := Some h\<rparr>)"
proof -
  have "g\<lparr>g_Status := GameStatusPaid, g_CompletedAt := Some t, g_WinnerAddress := None,
      g_PayoutAmount := None, g_CompleteTxHash := Some h\<rparr> =
    g\<lparr>g_WinnerAddress := None, g_PayoutAmount := None, g_CompletedAt := Some t,
      g_CompleteTxHash := Some h, g_Status := GameStatusPaid\<rparr>"
    by (rule Game.equality) simp_all
  with complete [OF assms] show ?thesis by metis
qed

end

sublocale game_invariant \<subseteq> rows: table_invariant "all_games Q"
  by unfold_locales
    (simp_all add: all_games_create new JoinGame_def CompleteGame_def CancelGame_def IncrementGamesPlayed_def
      IncrementWins_def IncrementLosses_def IncrementReferrals_def keepsDB_wrap all_games_update_game
      all_games_update_user keepsDB_RevealChoice all_games_upsert all_games_ensure
      join reveal complete cancelled)

text \<open>No game ever reaches the status \<open>Ended\<close>; no game ever has a referrer.\<close>

definition never_ended :: "Game \<Rightarrow> bool" where
  "never_ended g \<longleftrightarrow> g_Status g \<in> {GameStatusWaitingForOpponent, GameStatusWaitingForOpenBids, GameStatusPaid}"

definition no_referrer :: "Game \<Rightarrow> bool" where
  "no_referrer g \<longleftrightarrow> g_PlayerOneReferrer g = None \<and> g_PlayerTwoReferrer g = None"

interpretation ended: game_invariant never_ended
  by unfold_locales (simp_all add: never_ended_def waiting_game_def)

interpretation referrer: game_invariant no_referrer
  by unfold_locales (simp_all add: no_referrer_def waiting_game_def)

section \<open>Properties\<close>

text \<open>
  A database that nothing has been written to, a use case over it, two players and the event
  that creates a game, for the instances below.
\<close>

definition empty_db :: db where
  "empty_db = \<lparr>db_games = [], db_events = [], db_users = [], db_next_event = 1, db_next_user = 1,
     db_now = 0, db_tick = 0, db_fault = (\<lambda>_. None)\<rparr>"

definition empty_persistence :: persistence where
  "empty_persistence = \<lparr>p_db = empty_db, p_userRepo = True, p_txManager = True, p_broadcast = True,
     p_join = None, p_cancel = None, p_reveal = None, p_expired = None, p_now = 0\<rparr>"

definition player_a :: wallet where "player_a = ''EQ'' @ replicate 46 (CHR ''a'')"
definition player_b :: wallet where "player_b = ''EQ'' @ replicate 46 (CHR ''b'')"

definition no_json :: marshal where "no_json d = Inr ''{}''"

definition init_event :: GameEvent where
  "init_event = \<lparr>e_ID = 0, e_GameID = 7, e_EventType = EventGameInitialized, e_TransactionHash = ''h1'',
     e_BlockNumber = 1, e_Timestamp = 5, e_Payload = '''',
     e_EventData = Some [''game_id'' \<mapsto> VInt64 7, ''player_one'' \<mapsto> VString player_a, ''bet_amount'' \<mapsto> VInt64 1000],
     e_CreatedAt = 0\<rparr>"

definition initialized_persistence :: persistence where
  "initialized_persistence = fst (snd (snd (HandleGameInitialized no_addr no_json init_event empty_persistence)))"

lemma empty_tables [simp]: "tables (p_db empty_persistence) = ([], [], [])"
  by (simp add: empty_persistence_def empty_db_def tables_def)

lemma initialized_reachable: "(persist_step no_addr no_json)\<^sup>*\<^sup>* empty_persistence initialized_persistence"
  unfolding initialized_persistence_def
  by (rule r_into_rtranclp [of "persist_step no_addr no_json"]) (rule persist_step.handle, simp)

lemma initialized_game: "map_option g_Status (game_row (p_db initialized_persistence) 7) = Some GameStatusWaitingForOpponent"
  by code_simp



text \<open>How the claim use cases read the games table.\<close>

definition repo_of :: "db \<Rightarrow> int \<Rightarrow> error + Game option" where
  "repo_of db k = (case game_row db k of
     None \<Rightarrow> Inl (Wrapf ''execute query'' ErrNoRows) | Some g \<Rightarrow> Inr (Some g))"

text \<open>
  C11. No handler ever sets the status \<open>Ended\<close>: every stored game waits for an opponent,
  waits for open bids or is paid. So the expired-claim use case, which requires an ended game,
  refuses every claim.
\<close>

theorem ended_unreachable:
  assumes "(persist_step pa marshal)\<^sup>*\<^sup>* p p'" and "tables (p_db p) = ([], [], [])"
  shows "(\<forall>g. game_row (p_db p') k = Some g \<longrightarrow> g_Status g \<noteq> GameStatusEnded)
     \<and> (\<exists>e. fst (Claim pa' (repo_of (p_db p')) now k w st) = Inl e)"
proof -
  have "all_games never_ended (tables (p_db p'))"
    using ended.rows.persist_run_keeps [OF assms(1)] assms(2) by (simp add: all_games_def)
  then have status: "g_Status g \<noteq> GameStatusEnded" if "game_row (p_db p') k = Some g" for g
    using game_row_Some [OF that] by (auto simp: all_games_def tables_def never_ended_def)
  then have "\<exists>e. Claim_check pa' (repo_of (p_db p')) k w = Inl e"
    by (auto simp: Claim_check_def repo_of_def Let_def split: option.splits)
  with status show ?thesis by (auto simp: Claim_def)
qed

theorem ended_unreachable_witness:
  "\<exists>e. fst (Claim no_addr (repo_of (p_db initialized_persistence)) 5 7 player_a sample_store) = Inl e"
  using ended_unreachable [OF initialized_reachable, of 7 no_addr 5 player_a sample_store] by simp

text \<open>
  No handler ever stores a referrer, so for every stored game and every winner the
  referrer of \<open>HandleGameFinished\<close> is nil and its earnings are 0: the branch that updates
  the referral statistics never runs.
\<close>

theorem referrals_unreachable:
  assumes "(persist_step pa marshal)\<^sup>*\<^sup>* p p'" and "tables (p_db p) = ([], [], [])"
    and "game_row (p_db p') k = Some g"
  shows "game_referrer g winner = None \<and> referrer_earnings g (game_referrer g winner) = 0"
proof -
  have "all_games no_referrer (tables (p_db p'))"
    using referrer.rows.persist_run_keeps [OF assms(1)] assms(2) by (simp add: all_games_def)
  then have "no_referrer g" using game_row_Some [OF assms(3)] by (auto simp: all_games_def tables_def)
  then show ?thesis by (simp add: no_referrer_def game_referrer_def referrer_earnings_def)
qed

theorem referrals_unreachable_witness:
  "\<exists>g. game_row (p_db initialized_persistence) 7 = Some g \<and> game_referrer g player_a = None"
proof -
  obtain g where "game_row (p_db initialized_persistence) 7 = Some g" using initialized_game by auto
  with referrals_unreachable [OF initialized_reachable, of 7 g player_a] show ?thesis by simp
qed

end
