(* ===== verification/Persistence_Outcomes.thy ===== *)
theory Persistence_Outcomes
  imports Persistence_Invariants
begin

text \<open>
  What a handler call does to the tables on each of its outcomes, and what its failures in
  the middle leave behind. The lemmas of the first section invert a successful sequence of
  statements into the changes of the tables.
\<close>

section \<open>Successful statements\<close>

lemma bindH_Inr: "bindH m f s = (Inr y, s'') \<longleftrightarrow> (\<exists>x s'. m s = (Inr x, s') \<and> f x s' = (Inr y, s''))"
  by (cases "m s"; cases "fst (m s)") (auto simp: bindH_def)

lemma wrapH_Inr: "wrapH msg m s = (Inr x, s') \<longleftrightarrow> m s = (Inr x, s')"
  by (cases "m s"; cases "fst (m s)") (auto simp: wrapH_def)

lemma wrapDB_Inr: "wrapDB msg m db = (Inr x, db') \<longleftrightarrow> m db = (Inr x, db')"
  by (cases "m db"; cases "fst (m db)") (auto simp: wrapDB_def)

lemma liftDB_Inr: "liftDB m (ev, db) = (Inr x, ev', db') \<longleftrightarrow> ev' = ev \<and> m db = (Inr x, db')"
  by (auto simp: liftDB_def split: prod.splits)

lemma basic_Inr:
  "returnH y s = (Inr x, s') \<longleftrightarrow> x = y \<and> s' = s" "eventH s = (Inr e, s') \<longleftrightarrow> e = fst s \<and> s' = s"
  "failH er s = (Inr x, s') \<longleftrightarrow> False" "liftR r s = (Inr x, s') \<longleftrightarrow> r = Inr x \<and> s' = s"
  by (auto simp: returnH_def eventH_def failH_def liftR_def)

lemma statement_Inr:
  "statement f db = (Inr x, db') \<longleftrightarrow> db_fault db (db_tick db) = None \<and> f (db\<lparr>db_tick := Suc (db_tick db)\<rparr>) = Inr (x, db')"
  by (auto simp: statement_def Let_def split: option.splits sum.splits)

lemmas run_simps = bindH_Inr wrapH_Inr wrapDB_Inr liftDB_Inr basic_Inr

lemma update_game_run:
  assumes "update_game k f db = (Inr u, db')"
  shows "tables db' = (map (\<lambda>g. if g_GameID g = k then f g else g) (db_games db), db_events db, db_users db)"
    and "db_now db' = db_now db"
proof -
  have "map (\<lambda>g. if g_GameID g = k then f g else g) (db_games db) = db_games db" if "game_row db k = None"
    using that by (intro map_idI) (auto simp: game_row_None)
  then show "tables db' = (map (\<lambda>g. if g_GameID g = k then f g else g) (db_games db), db_events db, db_users db)"
    "db_now db' = db_now db"
    using assms by (auto simp: update_game_def statement_Inr tables_def split: option.splits)
qed

text \<open>The row of a wallet after an update of some wallet.\<close>

definition bump :: "wallet \<Rightarrow> (user_row \<Rightarrow> user_row) \<Rightarrow> instant \<Rightarrow> user_row \<Rightarrow> user_row" where
  "bump w f t u = (if ur_WalletAddress u = w then (f u)\<lparr>ur_UpdatedAt := t\<rparr> else u)"

lemma update_user_run:
  assumes "update_user w f db = (Inr u, db')"
  shows "tables db' = (db_games db, db_events db, map (bump w f (db_now db)) (db_users db))"
    and "db_now db' = db_now db"
proof -
  have "map (bump w f (db_now db)) (db_users db) = db_users db" if "user_by_wallet db w = None"
    using that by (intro map_idI) (auto simp: user_by_wallet_None bump_def)
  moreover have "(\<lambda>u. if ur_WalletAddress u = w then (f u)\<lparr>ur_UpdatedAt := t\<rparr> else u) = bump w f t" for t
    by (simp add: fun_eq_iff bump_def)
  ultimately show "tables db' = (db_games db, db_events db, map (bump w f (db_now db)) (db_users db))"
    "db_now db' = db_now db"
    using assms by (auto simp: update_user_def statement_Inr tables_def split: option.splits if_splits)
qed

text \<open>
  The text the driver uses for an empty result is not the text of a failure; that is the
  documented behaviour of the driver that \<open>Upsert\<close> relies on when it compares texts.
\<close>

definition faults_distinct :: "db \<Rightarrow> bool" where
  "faults_distinct db \<longleftrightarrow> (\<forall>n. db_fault db n \<noteq> Some ''no rows in result set'')"

lemma upsertH_run:
  assumes "upsertH (ev, db) = (Inr u, ev', db')" "faults_distinct db"
  shows "if event_recorded db ev then ev' = ev \<and> tables db' = tables db
     else tables db' = (db_games db, db_events db @ [ev'], db_users db)
       \<and> ev' = ev\<lparr>e_ID := db_next_event db, e_CreatedAt := db_now db\<rparr>"
    and "db_now db' = db_now db"
proof -
  have valid: "GameEvent_Validate ev = None"
    using assms(1) by (auto simp: upsertH_def Upsert_def failDB_def split: option.splits)
  have rows: "event_columns ev \<noteq> Some ErrNoRows" by (simp add: event_columns_def)
  let ?db = "db\<lparr>db_tick := Suc (db_tick db)\<rparr>"
  obtain y where ran: "insert_event ev ?db = Inr (y, db')" and ev': "ev' = (case y of None \<Rightarrow> ev | Some row \<Rightarrow> row)"
    using assms valid rows
    by (cases rule: statement_cases [of "insert_event ev" db])
      (auto simp: upsertH_def Upsert_def faults_distinct_def statement_def insert_event_def Let_def
        split: option.splits if_splits)
  from insert_event_done [OF ran] ev'
  show "if event_recorded db ev then ev' = ev \<and> tables db' = tables db
     else tables db' = (db_games db, db_events db @ [ev'], db_users db)
       \<and> ev' = ev\<lparr>e_ID := db_next_event db, e_CreatedAt := db_now db\<rparr>"
    by auto
  show "db_now db' = db_now db"
    using ran by (auto simp: insert_event_def Let_def split: option.splits if_splits)
qed

section \<open>A finished game\<close>

definition finish_game :: "wallet \<Rightarrow> int \<Rightarrow> GameEvent \<Rightarrow> Game \<Rightarrow> Game" where
  "finish_game winner payout event g = g\<lparr>
     g_WinnerAddress := (if winner \<noteq> '''' then Some winner else None),
     g_PayoutAmount := (if payout > 0 then Some payout else None),
     g_CompletedAt := Some (e_Timestamp event), g_CompleteTxHash := Some (e_TransactionHash event),
     g_Status := GameStatusPaid\<rparr>"

definition finish_user :: "wallet \<Rightarrow> wallet \<Rightarrow> wallet option \<Rightarrow> int \<Rightarrow> instant \<Rightarrow> user_row \<Rightarrow> user_row" where
  "finish_user winner loser ref earnings t u =
     (let played = (\<lambda>u. u\<lparr>ur_TotalGamesPlayed := ur_TotalGamesPlayed u + 1\<rparr>);
          u1 = bump winner (\<lambda>u. u\<lparr>ur_TotalWins := ur_TotalWins u + 1\<rparr>) t (bump winner played t u);
          u2 = (if loser = '''' then u1
                else bump loser (\<lambda>u. u\<lparr>ur_TotalLosses := ur_TotalLosses u + 1\<rparr>) t (bump loser played t u1))
      in case ref of None \<Rightarrow> u2
         | Some r \<Rightarrow> if r \<noteq> '''' \<and> earnings > 0
             then bump r (\<lambda>u. u\<lparr>ur_TotalReferrals := ur_TotalReferrals u + 1,
                    ur_TotalReferralEarnings := ur_TotalReferralEarnings u + earnings\<rparr>) t u2
             else u2)"

text \<open>The counters of a user.\<close>

definition counters :: "user_row \<Rightarrow> int \<times> int \<times> int \<times> int \<times> int" where
  "counters u = (ur_TotalGamesPlayed u, ur_TotalWins u, ur_TotalLosses u, ur_TotalReferrals u,
     ur_TotalReferralEarnings u)"

definition counters_of :: "db \<Rightarrow> wallet \<Rightarrow> (int \<times> int \<times> int \<times> int \<times> int) option" where
  "counters_of db w = map_option counters (user_by_wallet db w)"

lemma finish_user_wallet [simp]: "ur_WalletAddress (finish_user a b r n t u) = ur_WalletAddress u"
  by (simp add: finish_user_def bump_def Let_def split: option.split)

lemma counters_finish_user:
  "ur_WalletAddress u = w \<Longrightarrow> counters (finish_user winner loser ref earnings t u) =
     (ur_TotalGamesPlayed u + of_bool (w = winner) + of_bool (loser \<noteq> '''' \<and> w = loser),
      ur_TotalWins u + of_bool (w = winner), ur_TotalLosses u + of_bool (loser \<noteq> '''' \<and> w = loser),
      ur_TotalReferrals u + of_bool (ref = Some w \<and> w \<noteq> '''' \<and> earnings > 0),
      ur_TotalReferralEarnings u + (if ref = Some w \<and> w \<noteq> '''' \<and> earnings > 0 then earnings else 0))"
  by (auto simp: finish_user_def bump_def Let_def counters_def split: option.split)

lemma find_map_key:
  assumes "\<And>x. key (h x) = key x"
  shows "find (\<lambda>x. key x = k) (map h xs) = map_option h (find (\<lambda>x. key x = k) xs)"
  by (induction xs) (auto simp: assms)

lemma increments_run:
  "IncrementGamesPlayed w db = (Inr x, db') \<Longrightarrow> tables db' = (db_games db, db_events db,
     map (bump w (\<lambda>u. u\<lparr>ur_TotalGamesPlayed := ur_TotalGamesPlayed u + 1\<rparr>) (db_now db)) (db_users db))
     \<and> db_now db' = db_now db"
  "IncrementWins w db = (Inr x, db') \<Longrightarrow> tables db' = (db_games db, db_events db,
     map (bump w (\<lambda>u. u\<lparr>ur_TotalWins := ur_TotalWins u + 1\<rparr>) (db_now db)) (db_users db))
     \<and> db_now db' = db_now db"
  "IncrementLosses w db = (Inr x, db') \<Longrightarrow> tables db' = (db_games db, db_events db,
     map (bump w (\<lambda>u. u\<lparr>ur_TotalLosses := ur_TotalLosses u + 1\<rparr>) (db_now db)) (db_users db))
     \<and> db_now db' = db_now db"
  "IncrementReferrals w n db = (Inr x, db') \<Longrightarrow> tables db' = (db_games db, db_events db,
     map (bump w (\<lambda>u. u\<lparr>ur_TotalReferrals := ur_TotalReferrals u + 1,
       ur_TotalReferralEarnings := ur_TotalReferralEarnings u + n\<rparr>) (db_now db)) (db_users db))
     \<and> db_now db' = db_now db"
  by (simp_all add: IncrementGamesPlayed_def IncrementWins_def IncrementLosses_def IncrementReferrals_def
      wrapDB_Inr update_user_run)

lemma CompleteGame_run:
  "CompleteGame k winner payout h t db = (Inr x, db') \<Longrightarrow>
     tables db' = (map (\<lambda>g. if g_GameID g = k then g\<lparr>
       g_WinnerAddress := (if winner \<noteq> '''' then Some winner else None),
       g_PayoutAmount := (if payout > 0 then Some payout else None),
       g_CompletedAt := Some t, g_CompleteTxHash := Some h, g_Status := GameStatusPaid\<rparr> else g) (db_games db),
       db_events db, db_users db) \<and> db_now db' = db_now db"
  by (simp add: CompleteGame_def wrapDB_Inr update_game_run)

lemma tables_eq: "tables db = (gs, es, us) \<longleftrightarrow> db_games db = gs \<and> db_events db = es \<and> db_users db = us"
  by (auto simp: tables_def)

lemma persistEvent_run:
  assumes "persistEvent (ev, db) = (Inr fresh, ev', db')" "faults_distinct db"
    and "e_ID ev = 0" "db_next_event db \<noteq> 0"
  shows "if event_recorded db ev then \<not> fresh \<and> ev' = ev \<and> tables db' = tables db
     else fresh \<and> tables db' = (db_games db, db_events db @ [ev'], db_users db)
       \<and> ev' = ev\<lparr>e_ID := db_next_event db, e_CreatedAt := db_now db\<rparr>"
    and "db_now db' = db_now db"
proof -
  have up: "upsertH (ev, db) = (Inr (), ev', db')" and fresh: "fresh \<longleftrightarrow> e_ID ev' \<noteq> 0"
    using assms(1) by (auto simp: persistEvent_def run_simps)
  from upsertH_run [OF up assms(2)] fresh assms(3,4)
  show "if event_recorded db ev then \<not> fresh \<and> ev' = ev \<and> tables db' = tables db
     else fresh \<and> tables db' = (db_games db, db_events db @ [ev'], db_users db)
       \<and> ev' = ev\<lparr>e_ID := db_next_event db, e_CreatedAt := db_now db\<rparr>"
    and "db_now db' = db_now db"
    by (auto split: if_splits)
qed

lemma loser_steps_run:
  "loser_steps loser (ev, db) = (Inr x, ev', db') \<Longrightarrow> ev' = ev \<and> db_now db' = db_now db
     \<and> tables db' = (db_games db, db_events db, map (\<lambda>u. if loser = '''' then u
        else bump loser (\<lambda>u. u\<lparr>ur_TotalLosses := ur_TotalLosses u + 1\<rparr>) (db_now db)
          (bump loser (\<lambda>u. u\<lparr>ur_TotalGamesPlayed := ur_TotalGamesPlayed u + 1\<rparr>) (db_now db) u)) (db_users db))"
  by (cases "loser = ''''") (auto simp: loser_steps_def run_simps tables_eq dest!: increments_run(1,3))

lemma referrer_steps_run:
  "referrer_steps ref earnings (ev, db) = (Inr x, ev', db') \<Longrightarrow> ev' = ev
     \<and> tables db' = (db_games db, db_events db, map (\<lambda>u. case ref of None \<Rightarrow> u
         | Some r \<Rightarrow> if r \<noteq> '''' \<and> earnings > 0
             then bump r (\<lambda>u. u\<lparr>ur_TotalReferrals := ur_TotalReferrals u + 1,
                    ur_TotalReferralEarnings := ur_TotalReferralEarnings u + earnings\<rparr>) (db_now db) u
             else u) (db_users db))"
  by (auto simp: referrer_steps_def run_simps tables_eq dest!: increments_run(4) split: option.splits if_splits)

lemma stats_steps_run:
  assumes "stats_steps True winner loser ref earnings (ev, db) = (Inr x, ev', db')"
  shows "ev' = ev \<and> tables db' = (db_games db, db_events db,
     map (finish_user winner loser ref earnings (db_now db)) (db_users db))"
proof -
  from assms obtain db1 db2 ev3 db3 where w1: "IncrementGamesPlayed winner db = (Inr (), db1)"
    and w2: "IncrementWins winner db1 = (Inr (), db2)" and l: "loser_steps loser (ev, db2) = (Inr (), ev3, db3)"
    and r: "referrer_steps ref earnings (ev3, db3) = (Inr (), ev', db')"
    by (auto simp: stats_steps_def run_simps)
  from increments_run(1) [OF w1] increments_run(2) [OF w2] loser_steps_run [OF l] referrer_steps_run [OF r]
  show ?thesis by (auto simp: tables_eq finish_user_def Let_def split: option.splits)
qed

lemma finish_steps_run:
  assumes run: "finish_steps True winner loser payout ref earnings (ev, db) = (Inr r, ev', db')"
    and db: "faults_distinct db" "e_ID ev = 0" "db_next_event db \<noteq> 0"
  shows "if event_recorded db ev then r = None \<and> tables db' = tables db
     else r = Some (e_GameID ev) \<and> (\<exists>row. event_key row = event_key ev \<and>
       tables db' = (map (\<lambda>g. if g_GameID g = e_GameID ev then finish_game winner payout ev g else g) (db_games db),
         db_events db @ [row], map (finish_user winner loser ref earnings (db_now db)) (db_users db)))"
proof -
  obtain fresh ev1 db1 where p: "persistEvent (ev, db) = (Inr fresh, ev1, db1)"
    and rest: "(if \<not> fresh then returnH None else complete_steps True winner loser payout ref earnings)
      (ev1, db1) = (Inr r, ev', db')"
    using run by (auto simp: finish_steps_def bindH_Inr)
  note persist = persistEvent_run [OF p db]
  show ?thesis
  proof (cases "event_recorded db ev")
    case True
    with persist rest show ?thesis by (simp add: basic_Inr)
  next
    case False
    with persist have fresh: fresh and ev1: "ev1 = ev\<lparr>e_ID := db_next_event db, e_CreatedAt := db_now db\<rparr>"
      and t1: "tables db1 = (db_games db, db_events db @ [ev1], db_users db)" by auto
    from rest fresh obtain db2 where
      c: "CompleteGame (e_GameID ev1) winner payout (e_TransactionHash ev1) (e_Timestamp ev1) db1 = (Inr (), db2)"
      and st: "stats_steps True winner loser ref earnings (ev1, db2) = (Inr (), ev', db')"
      and r: "r = Some (e_GameID ev1)"
      by (auto simp: complete_steps_def run_simps)
    from CompleteGame_run [OF c] stats_steps_run [OF st] t1 persist(2) False r
    show ?thesis by (auto simp: tables_eq ev1 finish_game_def intro!: exI [of _ ev1])
  qed
qed

text \<open>An operation that reports an error and has then changed no table.\<close>

definition atomic :: "'a hop \<Rightarrow> bool" where
  "atomic m \<longleftrightarrow> (\<forall>s e. fst (m s) = Inl e \<longrightarrow> tables (snd (snd (m s))) = tables (snd s))"

lemma atomicD: "atomic m \<Longrightarrow> m s = (Inl e, ev', db') \<Longrightarrow> tables db' = tables (snd s)"
  by (metis atomic_def fst_conv snd_conv)

lemma atomic_WithTx: "atomic (WithTx m)"
  using WithTx_error by (auto simp: atomic_def)

lemma atomic_bind:
  assumes "\<And>T. keeps (\<lambda>t. t = T) m" "\<And>x. atomic (f x)"
  shows "atomic (bindH m f)"
  unfolding atomic_def
proof (intro allI impI)
  fix s e
  assume err: "fst (bindH m f s) = Inl e"
  obtain r s' where m: "m s = (r, s')" by (cases "m s")
  then have "tables (snd s') = tables (snd s)"
    using assms(1) [of "tables (snd s)"] by (simp add: keeps_def) (metis prod.collapse snd_conv)
  with m err assms(2) show "tables (snd (snd (bindH m f s))) = tables (snd s)"
    by (cases r; cases s') (auto simp: bindH_def atomic_def)
qed

lemma HandleGameFinished_atomic: "atomic (HandleGameFinished_db marshal users True)"
  unfolding HandleGameFinished_db_def Let_def
  by (intro atomic_bind keeps_intros) (simp add: atomic_WithTx)

lemma GetByID_run:
  "GetByID k db = (Inr g, db') \<longleftrightarrow> game_row db k = Some g \<and> db_fault db (db_tick db) = None
     \<and> db' = db\<lparr>db_tick := Suc (db_tick db)\<rparr>"
  by (auto simp: GetByID_def wrapDB_Inr statement_Inr split: option.splits)

lemma serialize_run:
  "serializeEventData marshal (ev, db) = (Inr x, ev', db') \<Longrightarrow> db' = db \<and> (\<exists>pl. ev' = ev\<lparr>e_Payload := pl\<rparr>)"
  by (cases ev) (auto simp: serializeEventData_def Let_def split: if_splits option.splits sum.splits)

lemma event_payload_same [simp]:
  "event_key (ev\<lparr>e_Payload := pl\<rparr>) = event_key ev" "event_map (ev\<lparr>e_Payload := pl\<rparr>) = event_map ev"
  "event_recorded db (ev\<lparr>e_Payload := pl\<rparr>) = event_recorded db ev"
  "finish_game w a (ev\<lparr>e_Payload := pl\<rparr>) = finish_game w a ev"
  by (simp_all add: event_key_def event_map_def event_recorded_def finish_game_def fun_eq_iff)

lemma dataH_run: "dataH f (ev, db) = (Inr x, ev', db') \<longleftrightarrow> f (event_map ev) = Inr x \<and> ev' = ev \<and> db' = db"
  by (auto simp: dataH_def run_simps)

lemma checkEvent_run:
  "checkEvent t (ev, db) = (Inr x, ev', db') \<longleftrightarrow> GameEvent_Validate ev = None \<and> e_EventType ev = t \<and> ev' = ev \<and> db' = db"
  by (auto simp: checkEvent_def Let_def split: option.splits if_splits)

lemma getGameH_run:
  "getGameH (ev, db) = (Inr g, ev', db') \<longleftrightarrow> game_row db (e_GameID ev) = Some g \<and> db_fault db (db_tick db) = None
     \<and> ev' = ev \<and> db' = db\<lparr>db_tick := Suc (db_tick db)\<rparr>"
  by (auto simp: getGameH_def run_simps GetByID_run)

lemmas handler_runs = checkEvent_run getGameH_run dataH_run run_simps

text \<open>What the tables become when a finished game is recorded.\<close>

definition finished_tables :: "db \<Rightarrow> GameEvent \<Rightarrow> Game \<Rightarrow> wallet \<Rightarrow> GameEvent \<Rightarrow> tables" where
  "finished_tables db ev g winner row =
     (map (\<lambda>h. if g_GameID h = e_GameID ev then finish_game winner (finish_payout (event_map ev)) ev h else h) (db_games db),
      db_events db @ [row],
      map (finish_user winner (game_loser g winner) (game_referrer g winner)
        (referrer_earnings g (game_referrer g winner)) (db_now db)) (db_users db))"

lemma HandleGameFinished_run:
  assumes run: "HandleGameFinished_db marshal True True (ev, db) = (Inr r, ev', db')"
    and db: "faults_distinct db" "e_ID ev = 0" "db_next_event db \<noteq> 0"
  shows "if event_recorded db ev then r = None \<and> tables db' = tables db
     else r = Some (e_GameID ev) \<and> (\<exists>g winner row. game_row db (e_GameID ev) = Some g
       \<and> extractString (event_map ev) ''winner'' = Inr winner \<and> event_key row = event_key ev
       \<and> tables db' = finished_tables db ev g winner row)"
proof -
  let ?db1 = "db\<lparr>db_tick := Suc (db_tick db)\<rparr>"
  from run obtain g pl winner where g: "game_row db (e_GameID ev) = Some g"
    and w: "extractString (event_map ev) ''winner'' = Inr winner"
    and tx: "WithTx (finish_steps True winner (game_loser g winner) (finish_payout (event_map ev))
        (game_referrer g winner) (referrer_earnings g (game_referrer g winner)))
        (ev\<lparr>e_Payload := pl\<rparr>, ?db1) = (Inr r, ev', db')"
    by (auto simp: HandleGameFinished_db_def handler_runs Let_def dest!: serialize_run)
  obtain db2 where steps: "finish_steps True winner (game_loser g winner) (finish_payout (event_map ev))
        (game_referrer g winner) (referrer_earnings g (game_referrer g winner))
        (ev\<lparr>e_Payload := pl\<rparr>, ?db1\<lparr>db_tick := Suc (db_tick ?db1)\<rparr>) = (Inr r, ev', db2)"
    and db': "tables db' = tables db2"
    by (rule WithTx_done [of "finish_steps True winner (game_loser g winner) (finish_payout (event_map ev))
        (game_referrer g winner) (referrer_earnings g (game_referrer g winner))"
        "(ev\<lparr>e_Payload := pl\<rparr>, ?db1)" r]) (use tx in auto)
  from finish_steps_run [OF steps] db g w show ?thesis
    by (auto simp: db' finished_tables_def faults_distinct_def split: if_splits)
qed

section \<open>Duplicates\<close>

text \<open>Steps that touch neither the tables nor the identity of the event.\<close>

definition calm :: "'a hop \<Rightarrow> bool" where
  "calm m \<longleftrightarrow> (\<forall>ev db. case m (ev, db) of (r, ev', db') \<Rightarrow> tables db' = tables db
     \<and> db_fault db' = db_fault db \<and> event_key ev' = event_key ev \<and> e_ID ev' = e_ID ev)"

text \<open>On a recorded event that carries no id, the operation changes no table and reports on no game.\<close>

definition dup_safe :: "int option hop \<Rightarrow> bool" where
  "dup_safe m \<longleftrightarrow> (\<forall>ev db. event_recorded db ev \<longrightarrow> e_ID ev = 0 \<longrightarrow> faults_distinct db \<longrightarrow>
     tables (snd (snd (m (ev, db)))) = tables db \<and> (\<forall>k. fst (m (ev, db)) \<noteq> Inr (Some k)))"

lemma recorded_same:
  "tables db' = tables db \<Longrightarrow> event_key ev' = event_key ev \<Longrightarrow> event_recorded db' ev' = event_recorded db ev"
  by (simp add: event_recorded_def tables_def)

lemma calm_steps: "calm (checkEvent t)" "calm getGameH" "calm (serializeEventData marshal)" "calm (dataH f)" "calm eventH"
proof -
  show "calm (checkEvent t)" by (simp add: calm_def checkEvent_def Let_def split: option.split)
  show "calm eventH" by (simp add: calm_def eventH_def)
  show "calm (dataH f)" by (simp add: calm_def dataH_def bindH_def wrapH_def eventH_def liftR_def split: sum.split)
  show "calm (serializeEventData marshal)"
    by (simp add: calm_def serializeEventData_def Let_def split: option.split sum.split)
  show "calm getGameH"
    by (simp add: calm_def getGameH_def bindH_def wrapH_def eventH_def liftDB_def GetByID_def wrapDB_def
        statement_def Let_def split: sum.split option.split)
qed

lemma dup_safe_bind:
  assumes "calm m" "\<And>x. dup_safe (f x)"
  shows "dup_safe (bindH m f)"
  unfolding dup_safe_def
proof (intro allI impI)
  fix ev db
  assume ev: "event_recorded db ev" "e_ID ev = 0" "faults_distinct db"
  obtain r ev' db' where m: "m (ev, db) = (r, ev', db')" by (cases "m (ev, db)")
  then have same: "tables db' = tables db" "db_fault db' = db_fault db" "event_key ev' = event_key ev" "e_ID ev' = e_ID ev"
    using assms(1) by (auto simp: calm_def split: prod.splits)
  then have "event_recorded db' ev'" "e_ID ev' = 0" "faults_distinct db'"
    using ev by (simp_all add: recorded_same [OF same(1,3)] faults_distinct_def)
  then have "dup_safe n \<Longrightarrow> tables (snd (snd (n (ev', db')))) = tables db' \<and> (\<forall>k. fst (n (ev', db')) \<noteq> Inr (Some k))" for n
    by (simp add: dup_safe_def)
  with assms(2) m same show "tables (snd (snd (bindH m f (ev, db)))) = tables db
      \<and> (\<forall>k. fst (bindH m f (ev, db)) \<noteq> Inr (Some k))"
    by (cases r) (auto simp: bindH_def)
qed

lemma upsertH_dup:
  assumes "event_recorded db ev" "faults_distinct db"
  shows "tables (snd (snd (upsertH (ev, db)))) = tables db \<and> fst (snd (upsertH (ev, db))) = ev"
proof (cases "upsertH (ev, db)")
  case (fields r ev' db')
  show ?thesis
  proof (cases r)
    case (Inl e)
    with fields show ?thesis
      using Upsert_state [of ev db] assms(1) by (auto simp: upsertH_def split: prod.splits sum.splits)
  next
    case (Inr u)
    with fields upsertH_run(1) [of ev db u ev' db'] assms show ?thesis by simp
  qed
qed

lemma dup_safe_persist: "dup_safe (bindH persistEvent (\<lambda>fresh. if \<not> fresh then returnH None else g))"
  unfolding dup_safe_def
proof (intro allI impI)
  fix ev db
  assume ev: "event_recorded db ev" "e_ID ev = 0" "faults_distinct db"
  obtain r ev' db' where up: "upsertH (ev, db) = (r, ev', db')" by (cases "upsertH (ev, db)")
  with upsertH_dup [OF ev(1,3)] have "tables db' = tables db" "ev' = ev" by auto
  with up ev(2) show "tables (snd (snd (bindH persistEvent (\<lambda>fresh. if \<not> fresh then returnH None else g) (ev, db)))) = tables db
      \<and> (\<forall>k. fst (bindH persistEvent (\<lambda>fresh. if \<not> fresh then returnH None else g) (ev, db)) \<noteq> Inr (Some k))"
    by (cases r) (simp_all add: persistEvent_def bindH_def wrapH_def eventH_def returnH_def)
qed

lemma dup_safe_audit: "dup_safe (bindH (wrapH msg upsertH) (\<lambda>_. returnH None))"
  unfolding dup_safe_def
proof (intro allI impI)
  fix ev db
  assume ev: "event_recorded db ev" "faults_distinct db"
  obtain r ev' db' where up: "upsertH (ev, db) = (r, ev', db')" by (cases "upsertH (ev, db)")
  with upsertH_dup [OF ev] have "tables db' = tables db" by simp
  with up show "tables (snd (snd (bindH (wrapH msg upsertH) (\<lambda>_. returnH None) (ev, db)))) = tables db
      \<and> (\<forall>k. fst (bindH (wrapH msg upsertH) (\<lambda>_. returnH None) (ev, db)) \<noteq> Inr (Some k))"
    by (cases r) (simp_all add: bindH_def wrapH_def returnH_def)
qed

lemma dup_safe_WithTx:
  assumes "dup_safe m"
  shows "dup_safe (WithTx m)"
  unfolding dup_safe_def
proof (intro allI impI)
  fix ev db
  assume ev: "event_recorded db ev" "e_ID ev = 0" "faults_distinct db"
  show "tables (snd (snd (WithTx m (ev, db)))) = tables db \<and> (\<forall>k. fst (WithTx m (ev, db)) \<noteq> Inr (Some k))"
  proof (cases "fst (WithTx m (ev, db))")
    case (Inl e)
    then show ?thesis using WithTx_error [OF Inl] by simp
  next
    case (Inr x)
    obtain db2 where m: "m (ev, db\<lparr>db_tick := Suc (db_tick db)\<rparr>) = (Inr x, fst (snd (WithTx m (ev, db))), db2)"
        "tables (snd (snd (WithTx m (ev, db)))) = tables db2"
      using WithTx_done [OF Inr] by auto
    moreover have "event_recorded (db\<lparr>db_tick := Suc (db_tick db)\<rparr>) ev" "faults_distinct (db\<lparr>db_tick := Suc (db_tick db)\<rparr>)"
      using ev by (simp_all add: faults_distinct_def)
    ultimately show ?thesis using assms ev(2) Inr unfolding dup_safe_def by (metis fst_conv snd_conv tables_upd(1))
  qed
qed

lemma dup_safe_if: "dup_safe a \<Longrightarrow> dup_safe b \<Longrightarrow> dup_safe (if c then a else b)"
  by simp

lemmas dup_intros = dup_safe_persist dup_safe_audit dup_safe_if dup_safe_WithTx dup_safe_bind calm_steps

lemma handlers_dup_safe:
  "dup_safe (HandleGameStarted_db marshal users)" "dup_safe (HandleGameFinished_db marshal users tx)"
  "dup_safe (HandleDraw_db marshal users)" "dup_safe (HandleGameCancelled_db marshal)"
  "dup_safe (HandleSecretOpened_db marshal)" "dup_safe (HandleInsufficientBalance_db marshal)"
  unfolding HandleGameStarted_db_def HandleGameFinished_db_def finish_steps_def HandleDraw_db_def
    HandleGameCancelled_db_def HandleSecretOpened_db_def HandleInsufficientBalance_db_def Let_def
  by (intro dup_intros)+

section \<open>Properties\<close>

lemma game_row_tables: "tables db = (gs, es, us) \<Longrightarrow> game_row db k = find (\<lambda>g. g_GameID g = k) gs"
  by (simp add: game_row_def tables_def)

lemma game_row_mapped:
  assumes "db_games db' = map (\<lambda>g. if g_GameID g = k then f g else g) (db_games db)" "\<And>g. g_GameID (f g) = g_GameID g"
  shows "game_row db' j = (if j = k then map_option f (game_row db k) else game_row db j)"
proof -
  have "game_row db' j = map_option (\<lambda>g. if g_GameID g = k then f g else g) (game_row db j)"
    unfolding game_row_def assms(1) by (rule find_map_key) (simp add: assms(2))
  then show ?thesis by (cases "game_row db j") (auto dest: game_row_Some)
qed

lemma counters_of_mapped:
  assumes "db_users db' = map h (db_users db)" "\<And>u. ur_WalletAddress (h u) = ur_WalletAddress u"
  shows "counters_of db' w = map_option (\<lambda>u. counters (h u)) (user_by_wallet db w)"
  unfolding counters_of_def user_by_wallet_def assms(1)
  by (simp add: find_map_key [where key = ur_WalletAddress, OF assms(2)] option.map_comp comp_def)

definition finish_counters :: "Game \<Rightarrow> wallet \<Rightarrow> wallet \<Rightarrow> int \<times> int \<times> int \<times> int \<times> int \<Rightarrow> int \<times> int \<times> int \<times> int \<times> int" where
  "finish_counters g winner w = (\<lambda>(played, wins, losses, referrals, earned).
     let loser = game_loser g winner; ref = game_referrer g winner;
         earnings = referrer_earnings g ref; refs = (ref = Some w \<and> w \<noteq> '''' \<and> earnings > 0)
     in (played + of_bool (w = winner) + of_bool (loser \<noteq> '''' \<and> w = loser),
         wins + of_bool (w = winner), losses + of_bool (loser \<noteq> '''' \<and> w = loser),
         referrals + of_bool refs, earned + (if refs then earnings else 0)))"

lemma counters_finish_user_eq:
  "ur_WalletAddress u = w \<Longrightarrow> counters (finish_user winner (game_loser g winner) (game_referrer g winner)
     (referrer_earnings g (game_referrer g winner)) t u) = finish_counters g winner w (counters u)"
  unfolding finish_counters_def counters_def [of u] Let_def prod.case by (rule counters_finish_user)

lemma finished_tables_spec:
  assumes "tables db' = finished_tables db ev g winner row"
  shows "event_key row = event_key ev \<Longrightarrow> event_recorded db' ev"
    and "game_row db (e_GameID ev) = Some g \<Longrightarrow> game_row db' (e_GameID ev) =
       Some (finish_game winner (finish_payout (event_map ev)) ev g)"
    and "k \<noteq> e_GameID ev \<Longrightarrow> game_row db' k = game_row db k"
    and "counters_of db' w = map_option (finish_counters g winner w) (counters_of db w)"
proof -
  have gs: "game_row db' j = (if j = e_GameID ev
      then map_option (finish_game winner (finish_payout (event_map ev)) ev) (game_row db (e_GameID ev)) else game_row db j)" for j
    by (rule game_row_mapped) (use assms in \<open>simp_all add: finished_tables_def tables_eq finish_game_def\<close>)
  show "event_key row = event_key ev \<Longrightarrow> event_recorded db' ev"
    using assms by (simp add: finished_tables_def tables_eq event_recorded_def)
  show "game_row db (e_GameID ev) = Some g \<Longrightarrow> game_row db' (e_GameID ev) =
       Some (finish_game winner (finish_payout (event_map ev)) ev g)"
    by (simp add: gs)
  show "k \<noteq> e_GameID ev \<Longrightarrow> game_row db' k = game_row db k" by (simp add: gs)
  have us: "counters_of db' w = map_option (\<lambda>u. counters (finish_user winner (game_loser g winner)
      (game_referrer g winner) (referrer_earnings g (game_referrer g winner)) (db_now db) u)) (user_by_wallet db w)"
    by (rule counters_of_mapped) (use assms in \<open>simp_all add: finished_tables_def tables_eq\<close>)
  show "counters_of db' w = map_option (finish_counters g winner w) (counters_of db w)"
  proof (cases "user_by_wallet db w")
    case None
    with us show ?thesis by (simp add: counters_of_def [of db])
  next
    case (Some u)
    then have "ur_WalletAddress u = w" by (auto simp: user_by_wallet_def find_Some_iff)
    with us Some show ?thesis by (simp add: counters_of_def [of db] counters_finish_user_eq)
  qed
qed

text \<open>
  C12. \<open>HandleGameFinished\<close> with the transaction manager is atomic and exactly once. If it
  reports an error, or if the event was recorded before, no table has changed. Otherwise the
  event is recorded, the game is paid with the winner, payout and transaction of the event, no
  other game has changed, and the counters of every user have moved by exactly this game: one
  game played for winner and loser, one win, one loss, and the referrer's share, if any.
\<close>

theorem finished_exactly_once:
  assumes "p_txManager p" and "p_userRepo p" and "faults_distinct (p_db p)"
    and "db_next_event (p_db p) \<noteq> 0" and "e_ID event = 0"
  shows "case HandleGameFinished pa marshal event p of (err, event', p', bs) \<Rightarrow>
     if err \<noteq> None \<or> event_recorded (p_db p) event then tables (p_db p') = tables (p_db p)
     else \<exists>g winner. game_row (p_db p) (e_GameID event) = Some g
       \<and> extractString (event_map event) ''winner'' = Inr winner
       \<and> event_recorded (p_db p') event
       \<and> game_row (p_db p') (e_GameID event)
           = Some (finish_game winner (finish_payout (event_map event)) event g)
       \<and> (\<forall>k. k \<noteq> e_GameID event \<longrightarrow> game_row (p_db p') k = game_row (p_db p) k)
       \<and> (\<forall>w. counters_of (p_db p') w = map_option (finish_counters g winner w) (counters_of (p_db p) w))"
proof -
  let ?work = "HandleGameFinished_db marshal True True"
  obtain r ev' db' where run: "?work (event, p_db p) = (r, ev', db')" by (cases "?work (event, p_db p)")
  obtain err ev2 p' bs where h: "HandleGameFinished pa marshal event p = (err, ev2, p', bs)"
    by (cases "HandleGameFinished pa marshal event p")
  have tabs: "tables (p_db p') = tables db'"
    using run_handler_tables [of "\<lambda>k. thenP (terminal_effects pa ''game_finished'' k) (releaseExpiredClaimIfResolved pa k)"
        "\<lambda>p. HandleGameFinished_db marshal (p_userRepo p) (p_txManager p)" event p] run h assms(1,2)
    by (simp add: HandleGameFinished_def quiet_intros)
  have err: "err \<noteq> None \<longleftrightarrow> isl r"
    using h run assms(1,2)
    by (auto simp: HandleGameFinished_def run_handler_def case_prod_beta split: sum.splits option.splits)
  show ?thesis
  proof (cases r)
    case (Inl e)
    with run have "tables db' = tables (p_db p)"
      using atomicD [OF HandleGameFinished_atomic, of marshal True "(event, p_db p)" e ev' db'] by simp
    with Inl tabs err h show ?thesis by simp
  next
    case (Inr x)
    note out = HandleGameFinished_run [OF run [unfolded Inr] assms(3,5,4)]
    show ?thesis
    proof (cases "event_recorded (p_db p) event")
      case True
      with out tabs h show ?thesis by simp
    next
      case False
      with out obtain g winner row where g: "game_row (p_db p) (e_GameID event) = Some g"
        and w: "extractString (event_map event) ''winner'' = Inr winner" and row: "event_key row = event_key event"
        and fin: "tables (p_db p') = finished_tables (p_db p) event g winner row" unfolding tabs by auto
      have "err = None" using err Inr by simp
      moreover have "\<exists>g winner. game_row (p_db p) (e_GameID event) = Some g
          \<and> extractString (event_map event) ''winner'' = Inr winner \<and> event_recorded (p_db p') event
          \<and> game_row (p_db p') (e_GameID event) = Some (finish_game winner (finish_payout (event_map event)) event g)
          \<and> (\<forall>k. k \<noteq> e_GameID event \<longrightarrow> game_row (p_db p') k = game_row (p_db p) k)
          \<and> (\<forall>w. counters_of (p_db p') w = map_option (finish_counters g winner w) (counters_of (p_db p) w))"
        by (intro exI [of _ g] exI [of _ winner] conjI allI impI g w finished_tables_spec(1) [OF fin row]
            finished_tables_spec(2) [OF fin g] finished_tables_spec(3) [OF fin] finished_tables_spec(4) [OF fin])
      ultimately show ?thesis unfolding h prod.case using False by (simp only: if_False) simp
    qed
  qed
qed

text \<open>The game of the sample database, joined and finished.\<close>

definition sample_event :: "string \<Rightarrow> string \<Rightarrow> event_data \<Rightarrow> GameEvent" where
  "sample_event t h d = \<lparr>e_ID = 0, e_GameID = 7, e_EventType = t, e_TransactionHash = h,
     e_BlockNumber = 2, e_Timestamp = 9, e_Payload = '''', e_EventData = Some d, e_CreatedAt = 0\<rparr>"

definition started_event :: GameEvent where
  "started_event = sample_event EventGameStarted ''h2'' [''player_two'' \<mapsto> VString player_b]"

definition finished_event :: GameEvent where
  "finished_event = sample_event EventGameFinished ''h3''
     [''winner'' \<mapsto> VString player_a, ''total_gainings'' \<mapsto> VString ''1900'']"

definition draw_event :: GameEvent where
  "draw_event = sample_event EventDraw ''h4'' Map.empty"

definition started_persistence :: persistence where
  "started_persistence = fst (snd (snd (HandleGameStarted no_addr no_json started_event initialized_persistence)))"

definition finished_persistence :: persistence where
  "finished_persistence = fst (snd (snd (HandleGameFinished no_addr no_json finished_event started_persistence)))"

lemma started_state:
  "p_txManager started_persistence" "p_userRepo started_persistence" "db_next_event (p_db started_persistence) \<noteq> 0"
  "fst (HandleGameFinished no_addr no_json finished_event started_persistence) = None"
  "\<not> event_recorded (p_db started_persistence) finished_event"
  "extractString (event_map finished_event) ''winner'' = Inr player_a" "e_ID finished_event = 0"
  "e_GameID finished_event = 7" "player_a \<noteq> ''''"
  by code_simp+

lemma started_faults: "faults_distinct (p_db started_persistence)"
proof -
  have "db_fault (p_db started_persistence) n = None" for n by code_simp
  then show ?thesis by (simp add: faults_distinct_def)
qed

theorem finished_exactly_once_witness:
  "\<exists>g. game_row (p_db finished_persistence) 7 = Some g \<and> g_Status g = GameStatusPaid \<and> g_WinnerAddress g = Some player_a"
  using finished_exactly_once [OF started_state(1,2) started_faults started_state(3,7), of no_addr no_json] started_state
  by (auto simp: finished_persistence_def finish_game_def split: prod.splits)

text \<open>
  C13. A handler that is given a fresh copy of an event it has recorded before changes no
  table, makes no announcement and releases no claim: every handler except
  \<open>HandleGameInitialized\<close>, which inserts before it looks, is idempotent under redelivery.
\<close>

theorem duplicate_event_ignored:
  assumes "event_recorded (p_db p) event" and "e_ID event = 0" and "faults_distinct (p_db p)"
    and "h \<in> {HandleGameStarted pa marshal, HandleGameFinished pa marshal, HandleDraw pa marshal,
           HandleGameCancelled pa marshal, HandleSecretOpened pa marshal, HandleInsufficientBalance pa marshal}"
  shows "case h event p of (err, event', p', bs) \<Rightarrow> tables (p_db p') = tables (p_db p) \<and> bs = []
     \<and> p_join p' = p_join p \<and> p_cancel p' = p_cancel p \<and> p_reveal p' = p_reveal p \<and> p_expired p' = p_expired p"
proof -
  have gen: "case run_handler work after event p of (err, event', p', bs) \<Rightarrow> tables (p_db p') = tables (p_db p) \<and> bs = []
     \<and> p_join p' = p_join p \<and> p_cancel p' = p_cancel p \<and> p_reveal p' = p_reveal p \<and> p_expired p' = p_expired p"
    if safe: "dup_safe (work p)" for work after
  proof (cases "work p (event, p_db p)")
    case (fields r ev' db')
    then have "tables db' = tables (p_db p)" "\<And>k. r \<noteq> Inr (Some k)"
      using safe assms(1-3) unfolding dup_safe_def by (metis fst_conv snd_conv)+
    with fields show ?thesis
      by (cases r) (auto simp: run_handler_def split: option.splits)
  qed
  note defs = HandleGameStarted_def HandleGameFinished_def HandleDraw_def HandleGameCancelled_def
    HandleSecretOpened_def HandleInsufficientBalance_def
  obtain work after where "h = run_handler work after" "dup_safe (work p)"
    using assms(4) handlers_dup_safe unfolding defs by blast
  with gen show ?thesis by simp
qed

theorem duplicate_event_ignored_witness:
  "tables (p_db (fst (snd (snd (HandleGameFinished no_addr no_json finished_event finished_persistence)))))
     = tables (p_db finished_persistence)"
proof -
  have "event_recorded (p_db finished_persistence) finished_event" by code_simp
  moreover have "db_fault (p_db finished_persistence) n = None" for n by code_simp
  ultimately show ?thesis
    using duplicate_event_ignored [of finished_persistence finished_event
        "HandleGameFinished no_addr no_json" no_addr no_json] started_state(7)
    by (simp add: faults_distinct_def case_prod_beta)
qed

end
