(* ===== verification/Handler_Outcomes.thy ===== *)
theory Handler_Outcomes
  imports Persistence_Outcomes
begin

text \<open>
  The functional behaviour of the handlers that work without a transaction
  (\<open>HandleGameStarted\<close>, \<open>HandleDraw\<close>, \<open>HandleGameCancelled\<close>,
  \<open>HandleSecretOpened\<close>), the claims they release, and what a failure between their
  statements leaves behind.
\<close>

section \<open>Inverting a successful run\<close>

text \<open>The common middle of the handlers: a recorded event ends the work.\<close>

definition freshly :: "int option hop \<Rightarrow> int option hop" where
  "freshly g = bindH persistEvent (\<lambda>fresh. if \<not> fresh then returnH None else g)"

lemma fresh_run:
  assumes run: "freshly g (ev, db) = (Inr r, ev', db')"
    and db: "faults_distinct db" "e_ID ev = 0" "db_next_event db \<noteq> 0"
  shows "if event_recorded db ev then r = None \<and> tables db' = tables db
     else \<exists>row db1. row = ev\<lparr>e_ID := db_next_event db, e_CreatedAt := db_now db\<rparr>
       \<and> tables db1 = (db_games db, db_events db @ [row], db_users db) \<and> g (row, db1) = (Inr r, ev', db')"
proof -
  obtain fresh ev1 db1 where p: "persistEvent (ev, db) = (Inr fresh, ev1, db1)"
    and rest: "(if \<not> fresh then returnH None else g) (ev1, db1) = (Inr r, ev', db')"
    using run by (auto simp: freshly_def bindH_Inr)
  show ?thesis
    using persistEvent_run [OF p db] rest by (auto simp: basic_Inr split: if_splits)
qed

lemma ensureUser_run:
  "ensureUser users w (ev, db) = (Inr x, ev', db') \<Longrightarrow>
     ev' = ev \<and> db_games db' = db_games db \<and> db_events db' = db_events db"
  by (auto simp: ensureUser_def EnsureUserByWallet_def run_simps statement_Inr Let_def split: if_splits)

text \<open>The rows the statements of the handlers write.\<close>

definition join_game :: "GameEvent \<Rightarrow> wallet \<Rightarrow> Game \<Rightarrow> Game" where
  "join_game event playerTwo g = g\<lparr>g_PlayerTwoAddress := Some playerTwo, g_JoinedAt := Some (e_Timestamp event),
     g_JoinTxHash := Some (e_TransactionHash event), g_Status := GameStatusWaitingForOpenBids,
     g_PlayerOneChoice := CoinSideClosed, g_PlayerTwoChoice := Some CoinSideClosed\<rparr>"

definition cancel_game :: "GameEvent \<Rightarrow> Game \<Rightarrow> Game" where
  "cancel_game event g = g\<lparr>g_Status := GameStatusPaid, g_CompletedAt := Some (e_Timestamp event),
     g_WinnerAddress := None, g_PayoutAmount := None, g_CompleteTxHash := Some (e_TransactionHash event)\<rparr>"

definition reveal_game :: "GameEvent \<Rightarrow> wallet \<Rightarrow> int \<Rightarrow> Game \<Rightarrow> Game" where
  "reveal_game event player side g =
     (let g' = g\<lparr>g_RevealedAt := Some (e_Timestamp event), g_RevealTxHash := Some (e_TransactionHash event)\<rparr>
      in if g_PlayerOneAddress g = player then g'\<lparr>g_PlayerOneChoice := side\<rparr>
         else g'\<lparr>g_PlayerTwoChoice := Some side\<rparr>)"

lemma rewrites_keep_id [simp]:
  "g_GameID (join_game ev p g) = g_GameID g" "g_GameID (cancel_game ev g) = g_GameID g"
  "g_GameID (reveal_game ev w c g) = g_GameID g" "g_GameID (finish_game w n ev g) = g_GameID g"
  by (simp_all add: join_game_def cancel_game_def reveal_game_def finish_game_def Let_def)

lemma rewrites_of_row [simp]:
  "join_game (ev\<lparr>e_ID := i, e_CreatedAt := t\<rparr>) p = join_game ev p"
  "cancel_game (ev\<lparr>e_ID := i, e_CreatedAt := t\<rparr>) = cancel_game ev"
  "reveal_game (ev\<lparr>e_ID := i, e_CreatedAt := t\<rparr>) w c = reveal_game ev w c"
  "finish_game a n (ev\<lparr>e_ID := i, e_CreatedAt := t\<rparr>) = finish_game a n ev"
  "join_game (ev\<lparr>e_Payload := pl\<rparr>) p = join_game ev p" "cancel_game (ev\<lparr>e_Payload := pl\<rparr>) = cancel_game ev"
  "reveal_game (ev\<lparr>e_Payload := pl\<rparr>) w c = reveal_game ev w c"
  by (simp_all add: fun_eq_iff join_game_def cancel_game_def reveal_game_def finish_game_def)

text \<open>One game is rewritten and one event is recorded; the users are another matter.\<close>

definition one_game :: "db \<Rightarrow> GameEvent \<Rightarrow> (Game \<Rightarrow> Game) \<Rightarrow> db \<Rightarrow> bool" where
  "one_game db event f db' \<longleftrightarrow>
     db_games db' = map (\<lambda>g. if g_GameID g = e_GameID event then f g else g) (db_games db)
     \<and> (\<exists>row. event_key row = event_key event \<and> db_events db' = db_events db @ [row])"

lemma one_game_spec:
  assumes "one_game db event f db'" "\<And>g. g_GameID (f g) = g_GameID g"
  shows "event_recorded db' event" "game_row db' k = (if k = e_GameID event then map_option f (game_row db k) else game_row db k)"
  using assms(1) game_row_mapped [of db' "e_GameID event" f db k] assms(2)
  by (auto simp: one_game_def event_recorded_def)

lemma event_key_row [simp]: "event_key (ev\<lparr>e_ID := i, e_CreatedAt := t\<rparr>) = event_key ev"
  by (simp add: event_key_def)

lemma JoinGame_run:
  "JoinGame k w h t db = (Inr x, db') \<Longrightarrow> tables db' = (map (\<lambda>g. if g_GameID g = k then
     g\<lparr>g_PlayerTwoAddress := Some w, g_JoinedAt := Some t, g_JoinTxHash := Some h,
       g_Status := GameStatusWaitingForOpenBids, g_PlayerOneChoice := CoinSideClosed,
       g_PlayerTwoChoice := Some CoinSideClosed\<rparr> else g) (db_games db), db_events db, db_users db)"
  by (simp add: JoinGame_def wrapDB_Inr update_game_run)

lemma CancelGame_run:
  "CancelGame k h t db = (Inr x, db') \<Longrightarrow> tables db' = (map (\<lambda>g. if g_GameID g = k then
     g\<lparr>g_Status := GameStatusPaid, g_CompletedAt := Some t, g_WinnerAddress := None,
       g_PayoutAmount := None, g_CompleteTxHash := Some h\<rparr> else g) (db_games db), db_events db, db_users db)"
  by (simp add: CancelGame_def wrapDB_Inr update_game_run)

section \<open>The handlers\<close>

lemma started_run:
  assumes run: "HandleGameStarted_db marshal users (ev, db) = (Inr r, ev', db')"
    and db: "faults_distinct db" "e_ID ev = 0" "db_next_event db \<noteq> 0"
  shows "if event_recorded db ev then r = None \<and> tables db' = tables db
     else r = Some (e_GameID ev) \<and> game_row db (e_GameID ev) \<noteq> None
       \<and> (\<exists>p2. extractString (event_map ev) ''player_two'' = Inr p2 \<and> one_game db ev (join_game ev p2) db')"
proof -
  let ?db1 = "db\<lparr>db_tick := Suc (db_tick db)\<rparr>"
  define rest where "rest = (\<lambda>p2. bindH (wrapH ''failed to ensure player two user'' (ensureUser users p2)) (\<lambda>_.
     bindH eventH (\<lambda>event. bindH (wrapH ''failed to join game'' (liftDB
       (JoinGame (e_GameID event) p2 (e_TransactionHash event) (e_Timestamp event)))) (\<lambda>_. returnH (Some (e_GameID event))))))"
  from run obtain pl p2 where g: "game_row db (e_GameID ev) \<noteq> None"
    and p2: "extractString (event_map ev) ''player_two'' = Inr p2"
    and up: "freshly (rest p2) (ev\<lparr>e_Payload := pl\<rparr>, ?db1) = (Inr r, ev', db')"
    unfolding HandleGameStarted_db_def freshly_def [symmetric]
    by (auto simp: rest_def handler_runs dest!: serialize_run)
  have fin: "r = Some (e_GameID row) \<and> db_games db' = map (\<lambda>g. if g_GameID g = e_GameID row then join_game row p2 g else g) (db_games db1)
      \<and> db_events db' = db_events db1" if "rest p2 (row, db1) = (Inr r, ev', db')" for row db1
    using that by (auto simp: rest_def run_simps tables_eq join_game_def dest!: ensureUser_run JoinGame_run)
  from fresh_run [OF up] db g p2 show ?thesis
    by (auto simp: faults_distinct_def one_game_def tables_eq split: if_splits dest!: fin)
qed

lemma cancelled_run:
  assumes run: "HandleGameCancelled_db marshal (ev, db) = (Inr r, ev', db')"
    and db: "faults_distinct db" "e_ID ev = 0" "db_next_event db \<noteq> 0"
  shows "if event_recorded db ev then r = None \<and> tables db' = tables db
     else r = Some (e_GameID ev) \<and> game_row db (e_GameID ev) \<noteq> None \<and> one_game db ev (cancel_game ev) db'
       \<and> db_users db' = db_users db"
proof -
  let ?db1 = "db\<lparr>db_tick := Suc (db_tick db)\<rparr>"
  define rest where "rest = bindH eventH (\<lambda>event. bindH (wrapH ''failed to cancel game'' (liftDB
       (CancelGame (e_GameID event) (e_TransactionHash event) (e_Timestamp event)))) (\<lambda>_. returnH (Some (e_GameID event))))"
  from run obtain pl where g: "game_row db (e_GameID ev) \<noteq> None"
    and up: "freshly rest (ev\<lparr>e_Payload := pl\<rparr>, ?db1) = (Inr r, ev', db')"
    unfolding HandleGameCancelled_db_def freshly_def [symmetric]
    by (auto simp: rest_def handler_runs dest!: serialize_run)
  have fin: "r = Some (e_GameID row) \<and> db_games db' = map (\<lambda>g. if g_GameID g = e_GameID row then cancel_game row g else g) (db_games db1)
      \<and> db_events db' = db_events db1 \<and> db_users db' = db_users db1" if "rest (row, db1) = (Inr r, ev', db')" for row db1
    using that by (auto simp: rest_def run_simps tables_eq cancel_game_def dest!: CancelGame_run)
  from fresh_run [OF up] db g show ?thesis
    by (auto simp: faults_distinct_def one_game_def tables_eq split: if_splits dest!: fin)
qed

lemma counters_bump:
  assumes "db_users db' = map (bump p (\<lambda>u. u\<lparr>ur_TotalGamesPlayed := ur_TotalGamesPlayed u + 1\<rparr>) t) (db_users db)"
  shows "counters_of db' w = map_option (\<lambda>(played, rest). (played + of_bool (w = p), rest)) (counters_of db w)"
proof -
  have "counters_of db' w = map_option (\<lambda>u. counters (bump p (\<lambda>u. u\<lparr>ur_TotalGamesPlayed := ur_TotalGamesPlayed u + 1\<rparr>) t u))
      (user_by_wallet db w)"
    by (rule counters_of_mapped [OF assms]) (simp add: bump_def)
  moreover have "ur_WalletAddress u = w" if "user_by_wallet db w = Some u" for u
    using that by (auto simp: user_by_wallet_def find_Some_iff)
  ultimately show ?thesis
    by (cases "user_by_wallet db w") (auto simp: counters_of_def [of db] bump_def counters_def)
qed

lemma counters_same: "db_users db' = db_users db \<Longrightarrow> counters_of db' w = counters_of db w"
  by (simp add: counters_of_def user_by_wallet_def)

text \<open>A draw counts as one game played for each player.\<close>

definition draw_counters :: "Game \<Rightarrow> wallet \<Rightarrow> int \<times> int \<times> int \<times> int \<times> int \<Rightarrow> int \<times> int \<times> int \<times> int \<times> int" where
  "draw_counters g w = (\<lambda>(played, rest).
     (played + of_bool (w = g_PlayerOneAddress g) + of_bool (g_PlayerTwoAddress g = Some w), rest))"

definition draw_stats :: "Game \<Rightarrow> unit hop" where
  "draw_stats g = bindH (wrapH ''failed to increment games played for player 1''
       (liftDB (IncrementGamesPlayed (g_PlayerOneAddress g)))) (\<lambda>_.
     case g_PlayerTwoAddress g of
       None \<Rightarrow> returnH ()
     | Some p2 \<Rightarrow> wrapH ''failed to increment games played for player 2'' (liftDB (IncrementGamesPlayed p2)))"

lemma draw_stats_run:
  assumes "draw_stats g (ev, db) = (Inr x, ev', db')"
  shows "ev' = ev \<and> db_games db' = db_games db \<and> db_events db' = db_events db
     \<and> counters_of db' w = map_option (draw_counters g w) (counters_of db w)"
proof -
  from assms obtain db1 where p1: "IncrementGamesPlayed (g_PlayerOneAddress g) db = (Inr (), db1)"
    and p2: "(case g_PlayerTwoAddress g of None \<Rightarrow> returnH ()
       | Some p2 \<Rightarrow> wrapH ''failed to increment games played for player 2'' (liftDB (IncrementGamesPlayed p2))) (ev, db1) = (Inr x, ev', db')"
    by (auto simp: draw_stats_def run_simps)
  have c1: "counters_of db1 w = map_option (\<lambda>(played, rest). (played + of_bool (w = g_PlayerOneAddress g), rest)) (counters_of db w)"
    using increments_run(1) [OF p1] by (intro counters_bump [where t = "db_now db"]) (simp add: tables_eq)
  show ?thesis
  proof (cases "g_PlayerTwoAddress g")
    case None
    with p2 c1 increments_run(1) [OF p1] show ?thesis by (simp add: basic_Inr draw_counters_def tables_eq)
  next
    case (Some q)
    with p2 have "IncrementGamesPlayed q db1 = (Inr x, db')" "ev' = ev" by (auto simp: run_simps)
    note i2 = increments_run(1) [OF this(1)]
    have "counters_of db' w = map_option (\<lambda>(played, rest). (played + of_bool (w = q), rest)) (counters_of db1 w)"
      using i2 by (intro counters_bump [where t = "db_now db1"]) (simp add: tables_eq)
    with c1 Some \<open>ev' = ev\<close> i2 increments_run(1) [OF p1] show ?thesis
      by (cases "counters_of db w") (auto simp: draw_counters_def tables_eq)
  qed
qed

text \<open>What \<open>HandleDraw\<close> does once the event is recorded.\<close>

definition draw_rest :: "int option hop" where
  "draw_rest = bindH eventH (\<lambda>event.
     bindH (wrapH ''failed to complete game (draw)'' (liftDB (CompleteGame (e_GameID event) '''' 0
         (e_TransactionHash event) (e_Timestamp event)))) (\<lambda>_.
     bindH (wrapH ''failed to get game for stats update'' (liftDB (GetByID (e_GameID event)))) (\<lambda>game.
     bindH (wrapH ''failed to increment games played for player 1''
         (liftDB (IncrementGamesPlayed (g_PlayerOneAddress game)))) (\<lambda>_.
     bindH (case g_PlayerTwoAddress game of
         None \<Rightarrow> returnH ()
       | Some p2 \<Rightarrow> wrapH ''failed to increment games played for player 2'' (liftDB (IncrementGamesPlayed p2))) (\<lambda>_.
     returnH (Some (e_GameID event)))))))"

lemma draw_rest_run:
  assumes ran: "draw_rest (row, db1) = (Inr r, ev', db')" and g1: "game_row db1 (e_GameID row) = Some g"
  shows "r = Some (e_GameID row) \<and> db_games db' = map (\<lambda>g. if g_GameID g = e_GameID row then finish_game '''' 0 row g else g) (db_games db1)
     \<and> db_events db' = db_events db1 \<and> (\<forall>w. counters_of db' w = map_option (draw_counters g w) (counters_of db1 w))"
proof -
  from ran obtain db2 h db3 ev3 where c: "CompleteGame (e_GameID row) '''' 0 (e_TransactionHash row) (e_Timestamp row) db1 = (Inr (), db2)"
    and h: "GetByID (e_GameID row) db2 = (Inr h, db3)" and st: "draw_stats h (row, db3) = (Inr (), ev', db')"
    and r: "r = Some (e_GameID row)"
    by (auto simp: draw_rest_def draw_stats_def run_simps)
  note c' = CompleteGame_run [OF c]
  from c' have t2: "db_games db2 = map (\<lambda>g. if g_GameID g = e_GameID row then finish_game '''' 0 row g else g) (db_games db1)"
    "db_events db2 = db_events db1" "db_users db2 = db_users db1" by (simp_all add: tables_eq finish_game_def cong: if_cong)
  have "game_row db2 (e_GameID row) = Some (finish_game '''' 0 row g)"
    using game_row_mapped [OF t2(1), of "e_GameID row"] g1 by simp
  with h have hg: "h = finish_game '''' 0 row g" and t3: "tables db3 = tables db2" by (auto simp: GetByID_run)
  have "draw_counters h = draw_counters g" by (simp add: hg draw_counters_def finish_game_def fun_eq_iff)
  with draw_stats_run [OF st] t2 t3 r show ?thesis
    by (auto simp: tables_eq counters_same [of db3 db1] tables_def)
qed

lemma draw_run:
  assumes run: "HandleDraw_db marshal True (ev, db) = (Inr r, ev', db')"
    and db: "faults_distinct db" "e_ID ev = 0" "db_next_event db \<noteq> 0"
  shows "if event_recorded db ev then r = None \<and> tables db' = tables db
     else r = Some (e_GameID ev) \<and> one_game db ev (finish_game '''' 0 ev) db'
       \<and> (\<exists>g. game_row db (e_GameID ev) = Some g
            \<and> (\<forall>w. counters_of db' w = map_option (draw_counters g w) (counters_of db w)))"
proof -
  let ?db1 = "db\<lparr>db_tick := Suc (db_tick db)\<rparr>"
  from run obtain pl g where g: "game_row db (e_GameID ev) = Some g"
    and up: "freshly draw_rest (ev\<lparr>e_Payload := pl\<rparr>, ?db1) = (Inr r, ev', db')"
    unfolding HandleDraw_db_def freshly_def [symmetric]
    by (auto simp: draw_rest_def handler_runs dest!: serialize_run)
  show ?thesis
  proof (cases "event_recorded db ev")
    case True
    with fresh_run [OF up] db show ?thesis by (simp add: faults_distinct_def)
  next
    case False
    with fresh_run [OF up] db obtain row db1 where
        eq: "row = ev\<lparr>e_Payload := pl\<rparr>\<lparr>e_ID := db_next_event ?db1, e_CreatedAt := db_now ?db1\<rparr>"
      and t1: "tables db1 = (db_games db, db_events db @ [row], db_users db)" and ran: "draw_rest (row, db1) = (Inr r, ev', db')"
      by (auto simp: faults_distinct_def)
    have row: "event_key row = event_key ev" "e_GameID row = e_GameID ev" "finish_game '''' 0 row = finish_game '''' 0 ev"
      unfolding eq by (simp_all add: event_key_def finish_game_def fun_eq_iff)
    have "game_row db1 (e_GameID row) = Some g" using g t1 row by (simp add: tables_eq game_row_def)
    from draw_rest_run [OF ran this] row t1 g False show ?thesis
      by (auto simp: one_game_def tables_eq counters_same [of db1 db])
  qed
qed

section \<open>Claims released by a handler\<close>

definition store_ok :: "parse_addr \<Rightarrow> claim_store option \<Rightarrow> bool" where
  "store_ok pa s = (case s of None \<Rightarrow> True | Some st \<Rightarrow> store_inv pa st)"

definition no_claim :: "claim_store option \<Rightarrow> instant \<Rightarrow> int \<Rightarrow> bool" where
  "no_claim s now k = (case s of None \<Rightarrow> True | Some st \<Rightarrow> active_claim st now k = None)"

lemma lookups: "GetReservation = active_claim" "Cancel_Get = active_claim" "Reveal_Get = active_claim" "peekActiveClaim = active_claim"
  by (simp_all add: fun_eq_iff claim_simps)

lemma releases_clear:
  "store_ok pa (p_join p) \<Longrightarrow> t = p_now p \<Longrightarrow> no_claim (p_join (fst (releaseJoinReservation pa k p))) t k"
  "store_ok pa (p_cancel p) \<Longrightarrow> t = p_now p \<Longrightarrow> no_claim (p_cancel (fst (releaseCancelReservationIfUnavailable pa k p))) t k"
  "store_ok pa (p_reveal p) \<Longrightarrow> t = p_now p \<Longrightarrow> no_claim (p_reveal (fst (releaseRevealReservationIfAny pa k p))) t k"
  "store_ok pa (p_expired p) \<Longrightarrow> t = p_now p \<Longrightarrow> no_claim (p_expired (fst (releaseExpiredClaimIfResolved pa k p))) t k"
  using join_claims.release_get [of pa _ "p_now p" k] cancel_claims.release_get [of pa _ "p_now p" k]
    reveal_claims.release_get [of pa _ "p_now p" k] expired_claims.release_get [of pa _ "p_now p" k]
  by (auto simp: store_ok_def no_claim_def lookups releaseJoinReservation_def releaseCancelReservationIfUnavailable_def
      releaseRevealReservationIfAny_def releaseExpiredClaimIfResolved_def case_prod_beta split: option.splits)

lemma release_frames [simp]:
  "p_now (fst (releaseJoinReservation pa k p)) = p_now p" "p_now (fst (releaseCancelReservationIfUnavailable pa k p)) = p_now p"
  "p_now (fst (releaseRevealReservationIfAny pa k p)) = p_now p" "p_now (fst (releaseExpiredClaimIfResolved pa k p)) = p_now p"
  "p_cancel (fst (releaseJoinReservation pa k p)) = p_cancel p" "p_expired (fst (releaseJoinReservation pa k p)) = p_expired p"
  "p_join (fst (releaseCancelReservationIfUnavailable pa k p)) = p_join p"
  "p_reveal (fst (releaseCancelReservationIfUnavailable pa k p)) = p_reveal p"
  "p_expired (fst (releaseCancelReservationIfUnavailable pa k p)) = p_expired p"
  "p_cancel (fst (releaseRevealReservationIfAny pa k p)) = p_cancel p"
  "p_expired (fst (releaseRevealReservationIfAny pa k p)) = p_expired p"
  "p_join (fst (releaseExpiredClaimIfResolved pa k p)) = p_join p" "p_cancel (fst (releaseExpiredClaimIfResolved pa k p)) = p_cancel p"
  "p_reveal (fst (releaseExpiredClaimIfResolved pa k p)) = p_reveal p"
  by (auto simp: releaseJoinReservation_def releaseCancelReservationIfUnavailable_def
      releaseRevealReservationIfAny_def releaseExpiredClaimIfResolved_def case_prod_beta split: option.splits)

lemma broadcast_frames [simp]:
  "p_now (fst (broadcastGameUpdate k t p)) = p_now p" "p_join (fst (broadcastGameUpdate k t p)) = p_join p"
  "p_cancel (fst (broadcastGameUpdate k t p)) = p_cancel p" "p_reveal (fst (broadcastGameUpdate k t p)) = p_reveal p"
  "p_expired (fst (broadcastGameUpdate k t p)) = p_expired p"
  by (auto simp: broadcastGameUpdate_def split: prod.splits sum.splits)

lemma thenP_fst: "fst (thenP a b p) = fst (b (fst (a p)))"
  by (simp add: thenP_def case_prod_beta)

text \<open>A call that reports success has run its work, and its effects when it reports on a game.\<close>

lemma run_handler_ok:
  assumes "run_handler work after event p = (None, event', p', bs)"
  obtains r db' where "work p (event, p_db p) = (Inr r, event', db')"
    "p' = (case r of None \<Rightarrow> p\<lparr>p_db := db'\<rparr> | Some k \<Rightarrow> fst (after k (p\<lparr>p_db := db'\<rparr>)))"
proof (cases "work p (event, p_db p)")
  case (fields r ev db)
  with assms show thesis
    by (cases r) (auto simp: run_handler_def case_prod_beta split: option.splits intro!: that [of _ db])
qed

text \<open>The hypotheses under which a handler call is the first delivery of an event.\<close>

definition first_delivery :: "persistence \<Rightarrow> GameEvent \<Rightarrow> bool" where
  "first_delivery p event \<longleftrightarrow> faults_distinct (p_db p) \<and> e_ID event = 0 \<and> db_next_event (p_db p) \<noteq> 0
     \<and> \<not> event_recorded (p_db p) event"

lemma tables_game_row: "tables db' = tables db \<Longrightarrow> game_row db' k = game_row db k"
  by (simp add: tables_def game_row_def)

lemma tables_counters: "tables db' = tables db \<Longrightarrow> counters_of db' w = counters_of db w"
  by (rule counters_same) (simp add: tables_def)

lemma tables_recorded: "tables db' = tables db \<Longrightarrow> event_recorded db' e = event_recorded db e"
  by (rule recorded_same) simp_all

lemmas same_tables = tables_game_row tables_counters tables_recorded

lemma quietD: "quiet f \<Longrightarrow> tables (p_db (fst (f p))) = tables (p_db p)"
  by (simp add: quiet_def)

section \<open>Properties\<close>

text \<open>
  C14. A first \<open>HandleGameStarted\<close> that reports success records the event and joins the
  stored game: player two, join instant and transaction are those of the event, both choices
  are closed, the status is WAITING_FOR_OPEN_BIDS, no other game has changed; and no join
  reservation, cancel reservation or expired claim on the game is active afterwards.
\<close>

theorem started_outcome:
  assumes "HandleGameStarted pa marshal event p = (None, event', p', bs)" and "first_delivery p event"
    and "store_ok pa (p_join p)" and "store_ok pa (p_cancel p)" and "store_ok pa (p_expired p)"
  shows "(\<exists>g playerTwo. game_row (p_db p) (e_GameID event) = Some g
       \<and> extractString (event_map event) ''player_two'' = Inr playerTwo
       \<and> game_row (p_db p') (e_GameID event) = Some (join_game event playerTwo g))
     \<and> (\<forall>k. k \<noteq> e_GameID event \<longrightarrow> game_row (p_db p') k = game_row (p_db p) k)
     \<and> event_recorded (p_db p') event
     \<and> no_claim (p_join p') (p_now p) (e_GameID event) \<and> no_claim (p_cancel p') (p_now p) (e_GameID event)
     \<and> no_claim (p_expired p') (p_now p) (e_GameID event)"
proof -
  let ?after = "\<lambda>k. thenP (releaseJoinReservation pa k) (thenP (releaseCancelReservationIfUnavailable pa k)
       (thenP (broadcastGameUpdate k ''game_started'') (releaseExpiredClaimIfResolved pa k)))"
  obtain r db' where w: "HandleGameStarted_db marshal (p_userRepo p) (event, p_db p) = (Inr r, event', db')"
    and p': "p' = (case r of None \<Rightarrow> p\<lparr>p_db := db'\<rparr> | Some k \<Rightarrow> fst (?after k (p\<lparr>p_db := db'\<rparr>)))"
    using assms(1) unfolding HandleGameStarted_def by (rule run_handler_ok) auto
  from started_run [OF w] assms(2) obtain g p2 where r: "r = Some (e_GameID event)"
    and g: "game_row (p_db p) (e_GameID event) = Some g" "extractString (event_map event) ''player_two'' = Inr p2"
    and one: "one_game (p_db p) event (join_game event p2) db'"
    by (auto simp: first_delivery_def)
  have "quiet (?after k)" for k by (intro quiet_intros)
  then have tabs: "tables (p_db p') = tables db'" unfolding p' r by (simp add: quietD)
  from one_game_spec [OF one] g same_tables [OF tabs] assms(3-5) show ?thesis
    by (auto simp: p' r thenP_fst releases_clear)
qed

theorem started_outcome_witness:
  "\<exists>g. game_row (p_db started_persistence) 7 = Some g \<and> g_Status g = GameStatusWaitingForOpenBids
     \<and> g_PlayerTwoAddress g = Some player_b"
proof -
  let ?h = "HandleGameStarted no_addr no_json started_event initialized_persistence"
  have ok: "fst ?h = None" "e_GameID started_event = 7" "p_join initialized_persistence = None" "p_cancel initialized_persistence = None"
    "p_expired initialized_persistence = None" "extractString (event_map started_event) ''player_two'' = Inr player_b"
    by code_simp+
  have "db_fault (p_db initialized_persistence) n = None" for n by code_simp
  moreover have "e_ID started_event = 0" "db_next_event (p_db initialized_persistence) \<noteq> 0"
    "\<not> event_recorded (p_db initialized_persistence) started_event" by code_simp+
  ultimately have "first_delivery initialized_persistence started_event"
    by (simp add: first_delivery_def faults_distinct_def)
  then show ?thesis
    using started_outcome [of no_addr no_json started_event initialized_persistence "fst (snd ?h)" "fst (snd (snd ?h))" "snd (snd (snd ?h))"] ok
    by (cases ?h) (auto simp: started_persistence_def store_ok_def join_game_def)
qed

text \<open>
  A first \<open>HandleDraw\<close> that reports success records the event, completes the stored
  game with no winner and no payout (status PAID), changes no other game and adds one game
  played to each of the two players and nothing to anyone else.
\<close>

theorem draw_outcome:
  assumes "HandleDraw pa marshal event p = (None, event', p', bs)" and "first_delivery p event" and "p_userRepo p"
  shows "\<exists>g. game_row (p_db p) (e_GameID event) = Some g
     \<and> game_row (p_db p') (e_GameID event) = Some (finish_game '''' 0 event g)
     \<and> (\<forall>k. k \<noteq> e_GameID event \<longrightarrow> game_row (p_db p') k = game_row (p_db p) k)
     \<and> event_recorded (p_db p') event
     \<and> (\<forall>w. counters_of (p_db p') w = map_option (draw_counters g w) (counters_of (p_db p) w))"
proof -
  let ?after = "\<lambda>k. thenP (terminal_effects pa ''draw'' k) (releaseExpiredClaimIfResolved pa k)"
  obtain r db' where w: "HandleDraw_db marshal True (event, p_db p) = (Inr r, event', db')"
    and p': "p' = (case r of None \<Rightarrow> p\<lparr>p_db := db'\<rparr> | Some k \<Rightarrow> fst (?after k (p\<lparr>p_db := db'\<rparr>)))"
    using assms(1) unfolding HandleDraw_def by (rule run_handler_ok) (use assms(3) in auto)
  from draw_run [OF w] assms(2) obtain g where r: "r = Some (e_GameID event)"
    and g: "game_row (p_db p) (e_GameID event) = Some g"
    and one: "one_game (p_db p) event (finish_game '''' 0 event) db'"
    and c: "\<forall>w. counters_of db' w = map_option (draw_counters g w) (counters_of (p_db p) w)"
    by (auto simp: first_delivery_def)
  have "quiet (?after k)" for k by (intro quiet_intros)
  then have tabs: "tables (p_db p') = tables db'" unfolding p' r by (simp add: quietD)
  from one_game_spec [OF one] g c same_tables [OF tabs] show ?thesis by auto
qed

lemma started_first_draw: "first_delivery started_persistence draw_event"
proof -
  have "e_ID draw_event = 0" "\<not> event_recorded (p_db started_persistence) draw_event" by code_simp+
  with started_state(3) started_faults show ?thesis by (simp add: first_delivery_def)
qed

theorem draw_outcome_witness:
  "\<exists>g. game_row (p_db (fst (snd (snd (HandleDraw no_addr no_json draw_event started_persistence))))) 7 = Some g
     \<and> g_Status g = GameStatusPaid \<and> g_WinnerAddress g = None"
proof -
  let ?h = "HandleDraw no_addr no_json draw_event started_persistence"
  have ok: "fst ?h = None" "e_GameID draw_event = 7" by code_simp+
  then show ?thesis
    using draw_outcome [of no_addr no_json draw_event started_persistence "fst (snd ?h)" "fst (snd (snd ?h))" "snd (snd (snd ?h))"]
      started_first_draw started_state(2)
    by (cases ?h) (auto simp: finish_game_def)
qed

text \<open>The terminal handlers report on the game of the event when it is new.\<close>

lemma terminal_clears:
  assumes "store_ok pa (p_cancel p)" "store_ok pa (p_reveal p)"
  shows "no_claim (p_cancel (fst (terminal_effects pa t k p))) (p_now p) k"
    and "no_claim (p_reveal (fst (terminal_effects pa t k p))) (p_now p) k"
  using assms by (simp_all add: terminal_effects_def thenP_fst releases_clear)

lemma terminal_handler_clears:
  assumes h: "run_handler work after event p = (None, event', p', bs)"
    and r: "\<And>r ev' db'. work p (event, p_db p) = (Inr r, ev', db') \<Longrightarrow> r = Some (e_GameID event)"
    and after: "\<And>k p. p_cancel (fst (after k p)) = p_cancel (fst (terminal_effects pa t k p))"
      "\<And>k p. p_reveal (fst (after k p)) = p_reveal (fst (terminal_effects pa t k p))"
    and st: "store_ok pa (p_cancel p)" "store_ok pa (p_reveal p)"
  shows "no_claim (p_cancel p') (p_now p) (e_GameID event) \<and> no_claim (p_reveal p') (p_now p) (e_GameID event)"
proof -
  from h obtain db' where p': "p' = fst (after (e_GameID event) (p\<lparr>p_db := db'\<rparr>))"
    by (rule run_handler_ok) (auto dest: r)
  show ?thesis using terminal_clears [of pa "p\<lparr>p_db := db'\<rparr>" t "e_GameID event"] st by (simp add: p' after)
qed

text \<open>
  C15. Once a game is over no claim on it survives: after a first delivery of a finished, draw
  or cancelled event that reports success, no cancel reservation and no reveal reservation on
  the game of the event is active.
\<close>

theorem terminal_releases_claims:
  assumes "h \<in> {HandleGameFinished pa marshal, HandleDraw pa marshal, HandleGameCancelled pa marshal}"
    and "h event p = (None, event', p', bs)" and "first_delivery p event" and "p_userRepo p" and "p_txManager p"
    and "store_ok pa (p_cancel p)" and "store_ok pa (p_reveal p)"
  shows "no_claim (p_cancel p') (p_now p) (e_GameID event) \<and> no_claim (p_reveal p') (p_now p) (e_GameID event)"
proof -
  have new: "faults_distinct (p_db p)" "e_ID event = 0" "db_next_event (p_db p) \<noteq> 0" "\<not> event_recorded (p_db p) event"
    using assms(3) by (simp_all add: first_delivery_def)
  have frame: "p_cancel (fst (thenP (terminal_effects pa t k) (releaseExpiredClaimIfResolved pa k) q)) = p_cancel (fst (terminal_effects pa t k q))"
    "p_reveal (fst (thenP (terminal_effects pa t k) (releaseExpiredClaimIfResolved pa k) q)) = p_reveal (fst (terminal_effects pa t k q))" for t k q
    by (simp_all add: thenP_fst)
  from assms(1) consider "h = HandleGameFinished pa marshal" | "h = HandleDraw pa marshal" | "h = HandleGameCancelled pa marshal"
    by auto
  then show ?thesis
  proof cases
    case 1
    with assms(2) have "HandleGameFinished pa marshal event p = (None, event', p', bs)" by simp
    then show ?thesis unfolding HandleGameFinished_def
      by (rule terminal_handler_clears)
        (use frame assms(4-7) new in \<open>auto dest!: HandleGameFinished_run\<close>)
  next
    case 2
    with assms(2) have "HandleDraw pa marshal event p = (None, event', p', bs)" by simp
    then show ?thesis unfolding HandleDraw_def
      by (rule terminal_handler_clears) (use frame assms(4-7) new in \<open>auto dest!: draw_run\<close>)
  next
    case 3
    with assms(2) have "HandleGameCancelled pa marshal event p = (None, event', p', bs)" by simp
    then show ?thesis unfolding HandleGameCancelled_def
      by (rule terminal_handler_clears) (use assms(4-7) new in \<open>auto dest!: cancelled_run\<close>)
  qed
qed

definition claimed_persistence :: persistence where
  "claimed_persistence = started_persistence\<lparr>p_cancel := Some sample_store, p_reveal := Some sample_store, p_now := 10\<rparr>"

theorem terminal_releases_claims_witness:
  "no_claim (p_reveal (fst (snd (snd (HandleGameFinished no_addr no_json finished_event claimed_persistence))))) 10 7
   \<and> \<not> no_claim (p_reveal claimed_persistence) 10 7"
proof -
  let ?h = "HandleGameFinished no_addr no_json finished_event claimed_persistence"
  have ok: "fst ?h = None" "p_now claimed_persistence = 10" by code_simp+
  have db: "p_db claimed_persistence = p_db started_persistence" by (simp add: claimed_persistence_def)
  then have "first_delivery claimed_persistence finished_event" "p_userRepo claimed_persistence" "p_txManager claimed_persistence"
    using started_state started_faults by (simp_all add: first_delivery_def claimed_persistence_def)
  then have "no_claim (p_reveal (fst (snd (snd ?h)))) 10 7"
    using terminal_releases_claims [of "HandleGameFinished no_addr no_json" no_addr no_json finished_event claimed_persistence
        "fst (snd ?h)" "fst (snd (snd ?h))" "snd (snd (snd ?h))"] ok started_state(8) sample_store_inv
    by (cases ?h) (simp add: store_ok_def claimed_persistence_def)
  moreover have "\<not> no_claim (p_reveal claimed_persistence) 10 7"
    by (simp add: no_claim_def claimed_persistence_def active_claim_def)
  ultimately show ?thesis by blast
qed

section \<open>Failures between the statements\<close>

text \<open>A database whose \<open>n\<close>-th next statement fails, and one with no failures ahead.\<close>

definition failing_at :: "nat \<Rightarrow> persistence \<Rightarrow> persistence" where
  "failing_at n p = p\<lparr>p_db := (p_db p)\<lparr>db_fault :=
     (\<lambda>i. if i = db_tick (p_db p) + n then Some ''connection reset'' else None)\<rparr>\<rparr>"

definition healthy :: "persistence \<Rightarrow> persistence" where
  "healthy p = p\<lparr>p_db := (p_db p)\<lparr>db_fault := (\<lambda>_. None)\<rparr>\<rparr>"

definition lost_start :: "error option \<times> GameEvent \<times> persistence \<times> broadcast list" where
  "lost_start = HandleGameStarted no_addr no_json started_event (failing_at 3 initialized_persistence)"

definition redelivered_start :: "error option \<times> GameEvent \<times> persistence \<times> broadcast list" where
  "redelivered_start = HandleGameStarted no_addr no_json started_event (healthy (fst (snd (snd lost_start))))"

text \<open>
  \<open>HandleGameStarted\<close> is not safe under a failure between its statements: when the
  event is recorded and the join statement then fails, the handler reports an error, but a
  fresh delivery of the same event is taken for a duplicate, reports success and joins
  nothing: the game waits for an opponent for ever.
\<close>

theorem started_lost_update:
  "fst lost_start \<noteq> None \<and> fst redelivered_start = None
   \<and> map_option g_Status (game_row (p_db (fst (snd (snd redelivered_start)))) 7) = Some GameStatusWaitingForOpponent
   \<and> event_recorded (p_db (fst (snd (snd redelivered_start)))) started_event"
proof (intro conjI)
  show "fst lost_start \<noteq> None" by code_simp
  show "fst redelivered_start = None" by code_simp
  show "map_option g_Status (game_row (p_db (fst (snd (snd redelivered_start)))) 7) = Some GameStatusWaitingForOpponent"
    by code_simp
  show "event_recorded (p_db (fst (snd (snd redelivered_start)))) started_event" by code_simp
qed

definition failed_draw :: "error option \<times> GameEvent \<times> persistence \<times> broadcast list" where
  "failed_draw = HandleDraw no_addr no_json draw_event (failing_at 5 started_persistence)"

definition retried_draw :: "error option \<times> GameEvent \<times> persistence \<times> broadcast list" where
  "retried_draw = HandleDraw no_addr no_json (fst (snd failed_draw)) (healthy (fst (snd (snd failed_draw))))"

text \<open>
  \<open>HandleDraw\<close> counts a game twice when it is retried: if its last statement fails,
  the event keeps the id of the row that was inserted, so a retry with the same event object
  does not look like a duplicate, and player one is credited with a second game played.
\<close>

theorem draw_counts_twice:
  "fst failed_draw \<noteq> None \<and> fst retried_draw = None
   \<and> map_option fst (counters_of (p_db started_persistence) player_a) = Some 0
   \<and> map_option fst (counters_of (p_db (fst (snd (snd retried_draw)))) player_a) = Some 2
   \<and> map_option fst (counters_of (p_db (fst (snd (snd retried_draw)))) player_b) = Some 1"
proof (intro conjI)
  show "fst failed_draw \<noteq> None" by code_simp
  show "fst retried_draw = None" by code_simp
  show "map_option fst (counters_of (p_db started_persistence) player_a) = Some 0" by code_simp
  show "map_option fst (counters_of (p_db (fst (snd (snd retried_draw)))) player_a) = Some 2" by code_simp
  show "map_option fst (counters_of (p_db (fst (snd (snd retried_draw)))) player_b) = Some 1" by code_simp
qed

definition late_start :: GameEvent where
  "late_start = sample_event EventGameStarted ''h9'' [''player_two'' \<mapsto> VString player_b]"

text \<open>
  No handler consults \<open>CanTransitionTo\<close>: a started event that arrives after the game
  was finished moves the paid game back to WAITING_FOR_OPEN_BIDS, a transition
  \<open>CanTransitionTo\<close> forbids, and keeps the winner of the finished game in the row.
\<close>

theorem started_reopens_paid_game:
  "let reopened = fst (snd (snd (HandleGameStarted no_addr no_json late_start finished_persistence)))
   in \<exists>g g'. game_row (p_db finished_persistence) 7 = Some g \<and> game_row (p_db reopened) 7 = Some g'
     \<and> g_Status g = GameStatusPaid \<and> g_Status g' = GameStatusWaitingForOpenBids
     \<and> \<not> CanTransitionTo g (g_Status g') \<and> g_WinnerAddress g' = Some player_a"
proof -
  let ?reopened = "fst (snd (snd (HandleGameStarted no_addr no_json late_start finished_persistence)))"
  have "map_option g_Status (game_row (p_db finished_persistence) 7) = Some GameStatusPaid" by code_simp
  moreover have "map_option (\<lambda>g. (g_Status g, g_WinnerAddress g)) (game_row (p_db ?reopened) 7)
      = Some (GameStatusWaitingForOpenBids, Some player_a)" by code_simp
  ultimately show ?thesis by (auto simp: Let_def CanTransitionTo_iff)
qed

end
