(* ===== verification/Pipeline.thy ===== *)
theory Pipeline
  imports Subscriber Tvm_Cells Event_Sources Handler_Outcomes
begin

text \<open>
  The event pipeline from a transaction to the database: what \<open>HandleTransaction\<close> does on each
  branch, that a failed transaction is kept in the dead letter queue, that retries are bounded, and
  that a message the contracts send becomes an event with the fields its handler reads.
\<close>

section \<open>Retrying\<close>

lemma observe_simps [simp]:
  "sb_dlq (observe f sb) = sb_dlq sb" "sb_persistence (observe f sb) = sb_persistence sb"
  "sb_retryConfig (observe f sb) = sb_retryConfig sb" "sb_observability (observe f sb) = f (sb_observability sb)"
  "sb_now (observe f sb) = sb_now sb"
  by (simp_all add: observe_def)

lemmas record_defs = recordParseFailure_def recordRetryAttempt_def recordRetryRecovered_def recordRetryExhausted_def
  recordDLQStoreAttempt_def recordDLQStored_def recordDLQDuplicate_def recordDLQStoreFailure_def applyDLQStoreResult_def

lemma routeEvent_frame:
  assumes "routeEvent env event sb = (r, event', sb')"
  shows "sb_dlq sb' = sb_dlq sb" "sb_observability sb' = sb_observability sb" "sb_retryConfig sb' = sb_retryConfig sb"
    "sb_now sb' = sb_now sb"
  using assms by (auto simp: routeEvent_def Let_def split: if_splits prod.splits)

lemma waitForRetry_frame:
  assumes "waitForRetry env event err n backoff sb = (r, sb')"
  shows "sb_dlq sb' = sb_dlq sb" "sb_retryConfig sb' = sb_retryConfig sb"
    "ob_DLQStoreFailuresTotal (sb_observability sb') = ob_DLQStoreFailuresTotal (sb_observability sb)"
    "ob_PersistenceRetryAttemptsTotal (sb_observability sb') = ob_PersistenceRetryAttemptsTotal (sb_observability sb) + 1"
    "ob_PersistenceFailuresExhausted (sb_observability sb') = ob_PersistenceFailuresExhausted (sb_observability sb)"
  using assms by (auto simp: waitForRetry_def Let_def recordRetryAttempt_def split: if_splits)

definition persisted :: "subscriber_env \<Rightarrow> persistence \<Rightarrow> bool" where
  "persisted env p \<longleftrightarrow> (\<exists>ev sb ev' sb'. routeEvent env ev sb = (None, ev', sb') \<and> sb_persistence sb' = p)"

lemma retry_success:
  assumes "routeEvent env event sb = (None, ev1, sb1)" "retry_loop env left attempt backoff event sb = (r, sb')"
  shows "r = None" "persisted env (sb_persistence sb')" "sb_dlq sb' = sb_dlq sb" "sb_retryConfig sb' = sb_retryConfig sb"
    "ob_DLQStoreFailuresTotal (sb_observability sb') = ob_DLQStoreFailuresTotal (sb_observability sb)"
    "ob_PersistenceRetryAttemptsTotal (sb_observability sb') = ob_PersistenceRetryAttemptsTotal (sb_observability sb)"
proof -
  from assms have "r = None" and sb': "sb' = (if attempt > 0 then recordRetryRecovered ev1 sb1 else sb1)"
    by (simp_all add: retry_loop.simps)
  then have "sb_persistence sb' = sb_persistence sb1" by (simp add: recordRetryRecovered_def)
  with assms(1) show "persisted env (sb_persistence sb')" unfolding persisted_def by metis
qed (use assms routeEvent_frame [OF assms(1)] in \<open>auto simp: retry_loop.simps recordRetryRecovered_def\<close>)

lemma retry_loop_outcome:
  assumes "retry_loop env left attempt backoff event sb = (r, sb')"
  shows "sb_dlq sb' = sb_dlq sb \<and> sb_retryConfig sb' = sb_retryConfig sb
     \<and> ob_DLQStoreFailuresTotal (sb_observability sb') = ob_DLQStoreFailuresTotal (sb_observability sb)
     \<and> (\<exists>k \<le> left. ob_PersistenceRetryAttemptsTotal (sb_observability sb')
           = ob_PersistenceRetryAttemptsTotal (sb_observability sb) + of_nat k
         \<and> (r = None \<longrightarrow> persisted env (sb_persistence sb'))
         \<and> ((\<exists>p e. r = Some (Wrapf p e)) \<longrightarrow> k = left))"
  using assms
proof (induction left arbitrary: attempt backoff event sb)
  case 0
  obtain r1 ev1 sb1 where rt: "routeEvent env event sb = (r1, ev1, sb1)" by (cases "routeEvent env event sb")
  note frame = routeEvent_frame [OF rt]
  show ?case
  proof (cases r1)
    case None
    with retry_success [OF rt [unfolded None] 0] show ?thesis by auto
  next
    case (Some err)
    with 0 rt frame show ?thesis by (auto simp: retry_loop.simps [of env 0] recordRetryExhausted_def split: if_splits)
  qed
next
  case (Suc left)
  obtain r1 ev1 sb1 where rt: "routeEvent env event sb = (r1, ev1, sb1)" by (cases "routeEvent env event sb")
  note frame = routeEvent_frame [OF rt]
  show ?case
  proof (cases r1)
    case None
    with retry_success [OF rt [unfolded None] Suc.prems] show ?thesis by (auto intro!: exI [of _ 0])
  next
    case (Some err)
    obtain w sb2 where w: "waitForRetry env ev1 err (Suc attempt) backoff sb1 = (w, sb2)"
      by (cases "waitForRetry env ev1 err (Suc attempt) backoff sb1")
    note wf = waitForRetry_frame [OF w]
    show ?thesis
    proof (cases "se_doneAfter env attempt")
      case True
      with Suc.prems rt Some frame show ?thesis
        by (auto simp: retry_loop.simps [of env "Suc left"] intro!: exI [of _ 0])
    next
      case False
      show ?thesis
      proof (cases w)
        case (Inl e)
        with Suc.prems rt Some False w have "r = Some e" "sb' = sb2" by (auto simp: retry_loop.simps [of env "Suc left"])
        moreover from Inl w have "e = context_cancelled" by (auto simp: waitForRetry_def Let_def split: if_splits)
        ultimately show ?thesis using frame wf by (auto intro!: exI [of _ 1])
      next
        case (Inr nb)
        with Suc.prems rt Some False w have "retry_loop env left (Suc attempt) nb ev1 sb2 = (r, sb')"
          by (auto simp: retry_loop.simps [of env "Suc left"])
        from Suc.IH [OF this] obtain k where k: "k \<le> left" "ob_PersistenceRetryAttemptsTotal (sb_observability sb')
            = ob_PersistenceRetryAttemptsTotal (sb_observability sb2) + of_nat k"
          "r = None \<longrightarrow> persisted env (sb_persistence sb')"
          "(\<exists>p e. r = Some (Wrapf p e)) \<longrightarrow> k = left"
          and fr: "sb_dlq sb' = sb_dlq sb2" "sb_retryConfig sb' = sb_retryConfig sb2"
          "ob_DLQStoreFailuresTotal (sb_observability sb') = ob_DLQStoreFailuresTotal (sb_observability sb2)"
          by blast
        show ?thesis
          using k fr frame wf by (intro conjI exI [of _ "Suc k"]) auto
      qed
    qed
  qed
qed

section \<open>Failed transactions\<close>

lemma storeFailed_kept:
  fixes env :: subscriber_env and tx :: Transaction and err :: error and ty :: string
  assumes "sb_dlq sb = Some q" "dlq_ok q"
  defines "sb' \<equiv> storeFailedTransaction env tx err ty sb"
  shows "\<exists>q'. sb_dlq sb' = Some q' \<and>
     ((\<exists>e \<in> set (dq_rows q'). is_live e \<and> same_tx (tx_Hash tx) (tx_Lt tx) e)
      \<or> dq_rows q' = dq_rows q \<and> ob_DLQStoreFailuresTotal (sb_observability sb')
          = ob_DLQStoreFailuresTotal (sb_observability sb) + 1)"
proof -
  obtain r q' where run: "StoreFailedTransaction (se_marshal_tx env) (sb_baseBackoff sb) (sb_now sb) tx (Error err) ty q = (r, q')"
    by (cases "StoreFailedTransaction (se_marshal_tx env) (sb_baseBackoff sb) (sb_now sb) tx (Error err) ty q")
  note kept = store_cases [OF assms(2), where m = "se_marshal_tx env" and baseBackoff = "sb_baseBackoff sb" and now = "sb_now sb"
      and tx = tx and msg = "Error err" and ty = ty, unfolded run]
  show ?thesis
  proof (cases r)
    case (Inl e)
    with run kept assms(1) show ?thesis
      by (simp add: sb'_def storeFailedTransaction_def Let_def recordDLQStoreFailure_def recordDLQStoreAttempt_def)
  next
    case (Inr res)
    with kept have "\<exists>e \<in> set (dq_rows q'). is_live e \<and> same_tx (tx_Hash tx) (tx_Lt tx) e" by auto
    moreover from Inr run assms(1) have "sb_dlq sb' = Some q'"
      by (simp add: sb'_def storeFailedTransaction_def Let_def recordDLQStored_def recordDLQDuplicate_def)
    ultimately show ?thesis by blast
  qed
qed

lemma route_outcome:
  assumes "routeEventWithRetry env event sb = (r, sb')"
  shows "sb_dlq sb' = sb_dlq sb"
    "ob_DLQStoreFailuresTotal (sb_observability sb') = ob_DLQStoreFailuresTotal (sb_observability sb)"
    "\<exists>k \<le> nat (rc_MaxRetries (sb_retryConfig sb)). ob_PersistenceRetryAttemptsTotal (sb_observability sb')
       = ob_PersistenceRetryAttemptsTotal (sb_observability sb) + of_nat k
     \<and> (r = None \<longrightarrow> persisted env (sb_persistence sb'))"
  using retry_loop_outcome [OF assms [unfolded routeEventWithRetry_def]] by auto

text \<open>
  C22. A transaction that cannot be handled is kept. When a message of a game cannot be parsed
  or validated, or its event cannot be stored after all retries, the dead letter queue has a live
  entry for the transaction afterwards, unless the queue's own statement failed: then its rows are
  unchanged, and the failure is counted.
\<close>

theorem failed_transaction_kept:
  assumes "HandleTransaction env tx sb = (r, sb')" "sb_dlq sb = Some q" "dlq_ok q"
    "r \<noteq> None \<or> (\<exists>err ty. parseTransaction env tx = Inl err \<and> classifyParseError err = Some ty)"
  shows "\<exists>q'. sb_dlq sb' = Some q' \<and>
     ((\<exists>e \<in> set (dq_rows q'). is_live e \<and> same_tx (tx_Hash tx) (tx_Lt tx) e)
      \<or> dq_rows q' = dq_rows q \<and> ob_DLQStoreFailuresTotal (sb_observability sb')
          = ob_DLQStoreFailuresTotal (sb_observability sb) + 1)"
proof (cases "parseTransaction env tx")
  case (Inl err)
  with assms(1,4) obtain ty where "classifyParseError err = Some ty" by (auto simp: HandleTransaction_def split: option.splits)
  with Inl assms(1) have "sb' = storeFailedTransaction env tx err ty (recordParseFailure tx err ty sb)"
    by (simp add: HandleTransaction_def)
  with storeFailed_kept [of "recordParseFailure tx err ty sb" q env tx err ty] assms(2,3) show ?thesis
    by (auto simp: recordParseFailure_def)
next
  case (Inr event)
  obtain r1 sb1 where rt: "routeEventWithRetry env event sb = (r1, sb1)" by (cases "routeEventWithRetry env event sb")
  with Inr assms(1,4) obtain err where "r1 = Some err" by (auto simp: HandleTransaction_def split: option.splits)
  with Inr rt assms(1) have "sb' = storeFailedTransaction env tx err DLQErrorTypePersistence sb1"
    by (simp add: HandleTransaction_def)
  with storeFailed_kept [of sb1 q env tx err DLQErrorTypePersistence] route_outcome [OF rt] assms(2,3) show ?thesis
    by simp
qed

section \<open>From a contract's message to the event its handler reads\<close>

text \<open>The message's game, and the fields the handler of its event extracts.\<close>

fun game_of :: "game_message \<Rightarrow> int" where
  "game_of (GameInitializedNotify i p v) = i"
| "game_of (GameStartedNotify i p q v) = i"
| "game_of (GameFinishedNotify i p q v) = i"
| "game_of (GameCancelledNotify i p) = i"
| "game_of (DrawNotify i) = i"
| "game_of (SecretOpenedNotify i p c) = i"
| "game_of (InsufficientBalanceNotify i v w) = i"
| "game_of (GameInitializedEvent i p v t) = i"
| "game_of (GameInitializedEventWithConfig i p v f t) = i"
| "game_of (GameStartedEvent i p q v t) = i"
| "game_of (GameFinishedEvent i p q v t) = i"
| "game_of (GameCancelledEvent i p t) = i"
| "game_of (DrawEvent i t) = i"

fun handler_reads :: "('c, 's, 'b, 'a) tonutils \<Rightarrow> game_message \<Rightarrow> event_data \<Rightarrow> bool" where
  "handler_reads lib (GameInitializedNotify i p v) d \<longleftrightarrow> extractInt64 d ''game_id'' = Inr i
     \<and> extractString d ''player_one'' = Inr (addr_text lib p) \<and> extractInt64 d ''bet_amount'' = Inr v"
| "handler_reads lib (GameInitializedEvent i p v t) d \<longleftrightarrow> extractInt64 d ''game_id'' = Inr i
     \<and> extractString d ''player_one'' = Inr (addr_text lib p) \<and> extractInt64 d ''bet_amount'' = Inr v"
| "handler_reads lib (GameInitializedEventWithConfig i p v f t) d \<longleftrightarrow> extractInt64 d ''game_id'' = Inr i
     \<and> extractString d ''player_one'' = Inr (addr_text lib p) \<and> extractInt64 d ''bet_amount'' = Inr v
     \<and> extractOptionalInt64 d ''service_fee_numerator'' 0 = Inr 500
     \<and> extractOptionalInt64 d ''referrer_fee_numerator'' 0 = Inr 300
     \<and> extractOptionalInt64 d ''waiting_for_open_bid_seconds'' 0 = Inr 3600
     \<and> extractOptionalInt64 d ''lowest_bid'' 0 = Inr 100000000
     \<and> extractOptionalInt64 d ''highest_bid'' 0 = Inr 100000000000
     \<and> extractOptionalInt64 d ''min_referrer_payout_value'' 0 = Inr 50000000
     \<and> extractOptionalString d ''fee_receiver'' '''' = Inr (addr_text lib f)
     \<and> extractOptionalInt64 d ''protocol_version'' 1 = Inr 2"
| "handler_reads lib (GameStartedNotify i p q v) d \<longleftrightarrow> extractString d ''player_two'' = Inr (addr_text lib q)"
| "handler_reads lib (GameStartedEvent i p q v t) d \<longleftrightarrow> extractString d ''player_two'' = Inr (addr_text lib q)"
| "handler_reads lib (GameFinishedNotify i p q v) d \<longleftrightarrow> extractString d ''winner'' = Inr (addr_text lib p) \<and> finish_payout d = v"
| "handler_reads lib (GameFinishedEvent i p q v t) d \<longleftrightarrow> extractString d ''winner'' = Inr (addr_text lib p) \<and> finish_payout d = v"
| "handler_reads lib (SecretOpenedNotify i p c) d \<longleftrightarrow> extractString d ''player'' = Inr (addr_text lib p)
     \<and> (c \<noteq> 0 \<longrightarrow> extractInt64 d ''coin_side'' = Inr (uint c))"
| "handler_reads lib _ d \<longleftrightarrow> True"

lemma big_roundtrip: "v \<in> {0 ..< 2 ^ 63} \<Longrightarrow> ParseInt64 (FormatInt v) = Some v"
  by (rule ParseInt64_FormatInt) (simp add: in_i64_def)

lemma message_data_reads:
  assumes "message_ok m" "\<And>s. addr_text lib s \<noteq> ''''"
  shows "handler_reads lib m (message_data (meaning lib m))"
  using assms
  by (cases m) (simp_all add: message_data_def put_string_def put_big_def put_uint32_def empty_message_def
      extractInt64_def extractString_def extractOptionalInt64_def extractOptionalString_def finish_payout_def
      big_roundtrip [simplified])

lemma meaning_event:
  "pm_GameID (meaning lib m) = game_of m" "pm_EventType (meaning lib m) \<in> set validEventTypes"
  by (cases m; simp add: validEventTypes_def)+

text \<open>The parser of the running system, as the interface the subscriber calls.\<close>

definition runs_parser :: "decoders \<Rightarrow> ('c, 's, 'b, 'a) tonutils \<Rightarrow> subscriber_env \<Rightarrow> bool" where
  "runs_parser dec lib env \<longleftrightarrow> (\<forall>s r. ParseInMsg dec lib s = Some r \<longrightarrow> se_parser env s = r)"

lemma first_candidate:
  assumes "hasTransactionMessage (tx_InMsg tx)" "se_parser env (tx_InMsg tx) = Inr msg"
    "hasTransactionMessage (tx_OutMsgs tx) \<longrightarrow> se_raw_list env (tx_OutMsgs tx) \<noteq> None"
  shows "parseTransactionMessage (se_parser env) (se_raw_list env) tx = Inr msg"
  using assms by (auto simp: parseTransactionMessage_def collectTransactionMessages_def Let_def split: option.split)


text \<open>
  A plain transfer is taken for a broken game message: an incoming message without a body
  that is not in the legacy JSON form of the tests fails with an error the subscriber does not
  ignore, so every such transaction is recorded as a parse failure and stored in the dead letter
  queue. The error for a missing body, which the subscriber would ignore, stands behind a test that
  such a message does not reach.
\<close>

theorem plain_transfer_dead_lettered:
  assumes "runs_parser dec lib env" "hasTransactionMessage (tx_InMsg tx)" "\<not> hasTransactionMessage (tx_OutMsgs tx)"
    "unmarshal_in_msg dec (tx_InMsg tx) = Some \<lparr>in_Message = '''', in_Body = ''''\<rparr>"
    "unmarshal_map dec (tx_InMsg tx) = Some data" "data ''event_type'' = None"
  shows "\<exists>err. HandleTransaction env tx sb
       = (None, storeFailedTransaction env tx err DLQErrorTypeParse (recordParseFailure tx err DLQErrorTypeParse sb))"
proof -
  let ?e = "ErrorString ''missing or invalid event_type in legacy JSON''"
  let ?err = "Wrapf ''failed to parse TON message'' (Wrapf ''in_msg'' ?e)"
  have "tx_InMsg tx \<noteq> ''''" "tx_InMsg tx \<noteq> ''null''"
    using assms(2) by (auto simp: hasTransactionMessage_def TrimSpace_def is_space_def)
  then have "ParseInMsg dec lib (tx_InMsg tx) = Some (Inl ?e)"
    using assms(4-6) by (simp add: ParseInMsg_def parseLegacyParsedMessage_def)
  then have "se_parser env (tx_InMsg tx) = Inl ?e" using assms(1) by (simp add: runs_parser_def)
  moreover have "\<not> isIgnorableMessageParseError ?e" by code_simp
  ultimately have "parseTransactionMessage (se_parser env) (se_raw_list env) tx = Inl ?err"
    using assms(2,3) by (simp add: parseTransactionMessage_def collectTransactionMessages_def Let_def)
  then have "parseTransaction env tx = Inl ?err" by (simp add: parseTransaction_def)
  moreover have "classifyParseError ?err = Some DLQErrorTypeParse" by code_simp
  ultimately show ?thesis by (intro exI [of _ ?err]) (simp add: HandleTransaction_def)
qed


section \<open>Witnesses\<close>

definition sample_subscriber :: subscriber where
  "sample_subscriber = SetDeadLetterQueue defaultDLQBaseBackoff empty_dlq (NewBlockchainSubscriberUseCase empty_persistence)"

definition parser_env :: "(string \<Rightarrow> error + ParsedMessage) \<Rightarrow> subscriber_env" where
  "parser_env parser = \<lparr>se_parser = parser, se_raw_list = (\<lambda>s. Some []), se_pa = Some, se_marshal = no_json,
     se_marshal_tx = no_tx_json, se_doneInWait = (\<lambda>n. False), se_doneAfter = (\<lambda>n. False)\<rparr>"

definition runtime_parser :: "decoders \<Rightarrow> string \<Rightarrow> error + ParsedMessage" where
  "runtime_parser dec s = (case ParseInMsg dec tvm s of Some r \<Rightarrow> r | None \<Rightarrow> Inl (ErrorString ''panic''))"

definition pipeline_tx :: Transaction where
  "pipeline_tx = (sample_tx ''8'' ''h'')\<lparr>tx_InMsg := ''{}''\<rparr>"

lemma runtime_parser_runs: "runs_parser dec tvm (parser_env (runtime_parser dec))"
  by (simp add: runs_parser_def parser_env_def runtime_parser_def)

lemma pipeline_messages: "hasTransactionMessage (tx_InMsg pipeline_tx)" "\<not> hasTransactionMessage (tx_OutMsgs pipeline_tx)"
  by code_simp+


definition empty_decoders :: decoders where
  "empty_decoders = \<lparr>unmarshal_in_msg = (\<lambda>s. Some \<lparr>in_Message = '''', in_Body = ''''\<rparr>), unmarshal_map = (\<lambda>s. Some Map.empty)\<rparr>"

theorem plain_transfer_dead_lettered_witness:
  "\<exists>err. HandleTransaction (parser_env (runtime_parser empty_decoders)) pipeline_tx sample_subscriber
     = (None, storeFailedTransaction (parser_env (runtime_parser empty_decoders)) pipeline_tx err DLQErrorTypeParse
         (recordParseFailure pipeline_tx err DLQErrorTypeParse sample_subscriber))"
  by (rule plain_transfer_dead_lettered [OF runtime_parser_runs pipeline_messages, where data = Map.empty]) (simp_all add: empty_decoders_def)

definition broken_env :: subscriber_env where
  "broken_env = parser_env (\<lambda>s. Inl (ErrorString ''boom''))"

theorem failed_transaction_kept_witness:
  "\<exists>q'. sb_dlq (snd (HandleTransaction broken_env pipeline_tx sample_subscriber)) = Some q'
     \<and> (\<exists>e \<in> set (dq_rows q'). is_live e \<and> same_tx ''h'' ''8'' e)"
proof -
  let ?run = "HandleTransaction broken_env pipeline_tx sample_subscriber"
  let ?err = "Wrapf ''failed to parse TON message'' (Wrapf ''in_msg'' (ErrorString ''boom''))"
  have "case parseTransaction broken_env pipeline_tx of Inl e \<Rightarrow> e = ?err | Inr _ \<Rightarrow> False" by code_simp
  then have failed: "parseTransaction broken_env pipeline_tx = Inl ?err" by (simp split: sum.splits)
  have ty: "classifyParseError ?err = Some DLQErrorTypeParse" by code_simp
  have none: "ob_DLQStoreFailuresTotal (sb_observability (snd ?run)) = 0" by code_simp
  have "dlq_ok empty_dlq" by (simp add: dlq_ok_def empty_dlq_def)
  with failed_transaction_kept [of broken_env pipeline_tx sample_subscriber "fst ?run" "snd ?run" empty_dlq] failed ty none
  show ?thesis by (auto simp: sample_subscriber_def SetDeadLetterQueue_def NewBlockchainSubscriberUseCase_def no_observability_def
      pipeline_tx_def sample_tx_def)
qed


end
