(* ===== verification/Game_Query.thy ===== *)
theory Game_Query
  imports Database Wallet "HOL-Library.Multiset"
begin

text \<open>
  The reads of the game repository by player (\<open>game_repository.go\<close>) and the query use case
  (\<open>internal/usecase/game_query.go\<close>): lists of games by status and by player, newest activity
  first, in pages. A query by player compares the stored addresses with every spelling of the wallet
  that the TON address library prints; the library is the parameter \<open>lib\<close>, and what the code relies on
  is \<open>address_contract\<close>. A use case that panics returns \<open>None\<close> as its value.
\<close>

section \<open>Spellings of a wallet\<close>

record 'a address_lib =
  al_ParseAddr :: "string \<Rightarrow> 'a option"
  al_ParseRawAddr :: "string \<Rightarrow> 'a option"
  al_StringRaw :: "'a \<Rightarrow> string"
  al_String :: "'a \<Rightarrow> string"
  al_Friendly :: "bool \<Rightarrow> bool \<Rightarrow> 'a \<Rightarrow> string"   \<comment> \<open>\<open>Copy().Testnet(t).Bounce(b).String()\<close>\<close>

text \<open>The parser that wallet normalisation uses.\<close>

definition raw_parser :: "'a address_lib \<Rightarrow> parse_addr" where
  "raw_parser lib s = map_option (al_StringRaw lib) (al_ParseAddr lib s)"

definition appendVariant :: "string list \<Rightarrow> string \<Rightarrow> string list" where
  "appendVariant variants candidate =
     (let trimmedCandidate = TrimSpace candidate in
      if trimmedCandidate = '''' then variants
      else if trimmedCandidate \<in> set variants then variants
      else variants @ [trimmedCandidate])"

definition buildWalletAddressVariants :: "'a address_lib \<Rightarrow> wallet \<Rightarrow> string list" where
  "buildWalletAddressVariants lib walletAddress =
     (let trimmedWalletAddress = TrimSpace walletAddress in
      if trimmedWalletAddress = '''' then []
      else let variants = appendVariant [] trimmedWalletAddress in
        case (case al_ParseAddr lib trimmedWalletAddress of
                None \<Rightarrow> al_ParseRawAddr lib trimmedWalletAddress | Some a \<Rightarrow> Some a) of
          None \<Rightarrow> variants
        | Some a \<Rightarrow> foldl appendVariant variants
            [al_StringRaw lib a, al_String lib a, al_Friendly lib False True a, al_Friendly lib False False a,
             al_Friendly lib True True a, al_Friendly lib True False a])"

definition buildPlayerAddressPredicate :: "'a address_lib \<Rightarrow> wallet \<Rightarrow> (Game \<Rightarrow> bool) option" where
  "buildPlayerAddressPredicate lib walletAddress =
     (let variants = buildWalletAddressVariants lib walletAddress in
      if variants = [] then None
      else Some (\<lambda>g. g_PlayerOneAddress g \<in> set variants
        \<or> (case g_PlayerTwoAddress g of None \<Rightarrow> False | Some p2 \<Rightarrow> p2 \<in> set variants)))"

definition GetByPlayerAddress :: "'a address_lib \<Rightarrow> wallet \<Rightarrow> Game list db_op" where
  "GetByPlayerAddress lib walletAddress = (case buildPlayerAddressPredicate lib walletAddress of
       None \<Rightarrow> returnDB []
     | Some p \<Rightarrow> queryGames p)"

definition GetByPlayer :: "'a address_lib \<Rightarrow> wallet \<Rightarrow> Game list db_op" where
  "GetByPlayer = GetByPlayerAddress"

definition GetByPlayerAndStatuses :: "'a address_lib \<Rightarrow> wallet \<Rightarrow> int list \<Rightarrow> Game list db_op" where
  "GetByPlayerAndStatuses lib walletAddress statuses =
     (if statuses = [] then returnDB []
      else case buildPlayerAddressPredicate lib walletAddress of
          None \<Rightarrow> returnDB []
        | Some p \<Rightarrow> queryGames (\<lambda>g. p g \<and> g_Status g \<in> set statuses))"

section \<open>The query use case\<close>

text \<open>The zero \<open>time.Time\<close>, the first of January of the year 1.\<close>

definition zero_time :: instant where
  "zero_time = - 62135596800000000000"

definition latestGameActivity :: "Game option \<Rightarrow> instant" where
  "latestGameActivity game = (case game of
       None \<Rightarrow> zero_time
     | Some g \<Rightarrow> (case g_CompletedAt g of Some t \<Rightarrow> t
         | None \<Rightarrow> (case g_RevealedAt g of Some t \<Rightarrow> t
         | None \<Rightarrow> (case g_JoinedAt g of Some t \<Rightarrow> t | None \<Rightarrow> g_CreatedAt g))))"

definition sortGamesByMostRecentActivity :: "Game list \<Rightarrow> Game list" where
  "sortGamesByMostRecentActivity games = stable_newest_first (\<lambda>g. latestGameActivity (Some g)) games"

definition getGamesForStatus :: "int \<Rightarrow> Game list db_op" where
  "getGamesForStatus status = bindDB (GetByStatus status) (\<lambda>games.
     if status \<noteq> GameStatusEnded then returnDB (sortGamesByMostRecentActivity games)
     else bindDB (GetByStatus GameStatusPaid) (\<lambda>paidGames.
       returnDB (sortGamesByMostRecentActivity (games @ paidGames))))"

definition ListGames :: "int \<Rightarrow> int \<Rightarrow> int \<Rightarrow> Game list option db_op" where
  "ListGames status limit offset =
     (if status < GameStatusUninitialized \<or> status > GameStatusPaid
        then failDB (ErrorString ''invalid status: must be 0-4'')
      else if limit \<le> 0 then failDB (ErrorString ''limit must be positive'')
      else if offset < 0 then failDB (ErrorString ''offset cannot be negative'')
      else bindDB (getGamesForStatus status) (\<lambda>games. returnDB (paginate games limit offset)))"

definition GetGameByID :: "int \<Rightarrow> Game db_op" where
  "GetGameByID gameID = (if gameID \<le> 0 then failDB (ErrorString ''gameID must be positive'') else GetByID gameID)"

definition GetGamesByPlayerPage :: "'a address_lib \<Rightarrow> wallet \<Rightarrow> int \<Rightarrow> int \<Rightarrow> (Game list option \<times> int) db_op" where
  "GetGamesByPlayerPage lib walletAddress limit offset =
     (if walletAddress = '''' then failDB (ErrorString ''wallet address is required'')
      else if limit \<le> 0 then failDB (ErrorString ''limit must be positive'')
      else if offset < 0 then failDB (ErrorString ''offset cannot be negative'')
      else bindDB (GetByPlayer lib walletAddress) (\<lambda>games0.
        let games = sortGamesByMostRecentActivity games0
        in returnDB (paginate games limit offset, int (length games))))"

definition GetGamesByPlayer :: "'a address_lib \<Rightarrow> wallet \<Rightarrow> int \<Rightarrow> int \<Rightarrow> Game list option db_op" where
  "GetGamesByPlayer lib walletAddress limit offset =
     bindDB (GetGamesByPlayerPage lib walletAddress limit offset) (\<lambda>(games, total). returnDB games)"

section \<open>Reading by player\<close>

text \<open>
  The documented behaviour of the address library: a printed address parses to an address with the
  same raw form, the printed forms are determined by the raw form and the two flags, the raw form
  is lower case, is not a printed form, and is what \<open>ParseRawAddr\<close> reads.
\<close>

definition address_contract :: "'a address_lib \<Rightarrow> bool" where
  "address_contract lib \<longleftrightarrow>
     (\<forall>t b a. \<exists>a'. al_ParseAddr lib (al_Friendly lib t b a) = Some a' \<and> al_StringRaw lib a' = al_StringRaw lib a)
     \<and> (\<forall>a. \<exists>t b. al_String lib a = al_Friendly lib t b a)
     \<and> (\<forall>a a'. al_StringRaw lib a = al_StringRaw lib a'
          \<longrightarrow> (\<forall>t b. al_Friendly lib t b a = al_Friendly lib t b a'))
     \<and> (\<forall>a. al_ParseAddr lib (al_StringRaw lib a) = None
          \<and> (\<exists>a'. al_ParseRawAddr lib (al_StringRaw lib a) = Some a' \<and> al_StringRaw lib a' = al_StringRaw lib a))
     \<and> (\<forall>a. ToLower (al_StringRaw lib a) = al_StringRaw lib a \<and> TrimSpace (al_StringRaw lib a) = al_StringRaw lib a
          \<and> al_StringRaw lib a \<noteq> [])
     \<and> (\<forall>t b a. TrimSpace (al_Friendly lib t b a) = al_Friendly lib t b a \<and> al_Friendly lib t b a \<noteq> [])"

text \<open>A text that names a wallet, up to white space, and an address the chain parser stores.\<close>

definition spells :: "'a address_lib \<Rightarrow> wallet \<Rightarrow> 'a \<Rightarrow> bool" where
  "spells lib w a \<longleftrightarrow> TrimSpace w = al_StringRaw lib a \<or> (\<exists>t b. TrimSpace w = al_Friendly lib t b a)"

definition stored_form :: "'a address_lib \<Rightarrow> wallet \<Rightarrow> bool" where
  "stored_form lib p \<longleftrightarrow> (\<exists>a. p = al_String lib a)"

definition players_stored :: "'a address_lib \<Rightarrow> Game \<Rightarrow> bool" where
  "players_stored lib g \<longleftrightarrow> stored_form lib (g_PlayerOneAddress g)
     \<and> (\<forall>p2. g_PlayerTwoAddress g = Some p2 \<longrightarrow> stored_form lib p2)"

lemma contractD:
  assumes "address_contract lib"
  shows "\<exists>a'. al_ParseAddr lib (al_Friendly lib t b a) = Some a' \<and> al_StringRaw lib a' = al_StringRaw lib a"
    "\<exists>t b. al_String lib a = al_Friendly lib t b a"
    "al_StringRaw lib a = al_StringRaw lib a' \<Longrightarrow> al_Friendly lib t b a = al_Friendly lib t b a'"
    "al_ParseAddr lib (al_StringRaw lib a) = None"
    "\<exists>a'. al_ParseRawAddr lib (al_StringRaw lib a) = Some a' \<and> al_StringRaw lib a' = al_StringRaw lib a"
    "ToLower (al_StringRaw lib a) = al_StringRaw lib a" "TrimSpace (al_StringRaw lib a) = al_StringRaw lib a"
    "al_StringRaw lib a \<noteq> []" "TrimSpace (al_Friendly lib t b a) = al_Friendly lib t b a" "al_Friendly lib t b a \<noteq> []"
proof -
  note C = assms [unfolded address_contract_def]
  note C1 = C [THEN conjunct1, rule_format] and C2 = C [THEN conjunct2, THEN conjunct1, rule_format]
    and C3 = C [THEN conjunct2, THEN conjunct2, THEN conjunct1, rule_format]
    and C4 = C [THEN conjunct2, THEN conjunct2, THEN conjunct2, THEN conjunct1, rule_format]
    and C5 = C [THEN conjunct2, THEN conjunct2, THEN conjunct2, THEN conjunct2, THEN conjunct1, rule_format]
    and C6 = C [THEN conjunct2, THEN conjunct2, THEN conjunct2, THEN conjunct2, THEN conjunct2, rule_format]
  show "\<exists>a'. al_ParseAddr lib (al_Friendly lib t b a) = Some a' \<and> al_StringRaw lib a' = al_StringRaw lib a" by (rule C1)
  show "\<exists>t b. al_String lib a = al_Friendly lib t b a" by (rule C2)
  show "al_StringRaw lib a = al_StringRaw lib a' \<Longrightarrow> al_Friendly lib t b a = al_Friendly lib t b a'" by (rule C3)
  show "al_ParseAddr lib (al_StringRaw lib a) = None"
    "\<exists>a'. al_ParseRawAddr lib (al_StringRaw lib a) = Some a' \<and> al_StringRaw lib a' = al_StringRaw lib a"
    using C4 [of a] by auto
  show "ToLower (al_StringRaw lib a) = al_StringRaw lib a" "TrimSpace (al_StringRaw lib a) = al_StringRaw lib a"
    "al_StringRaw lib a \<noteq> []" using C5 [of a] by auto
  show "TrimSpace (al_Friendly lib t b a) = al_Friendly lib t b a" "al_Friendly lib t b a \<noteq> []" using C6 by auto
qed

lemma normalize_spelling:
  assumes lib: "address_contract lib" and "spells lib w a"
  shows "normalizeReservationWallet (raw_parser lib) w = al_StringRaw lib a"
proof (cases "TrimSpace w = al_StringRaw lib a")
  case True
  then show ?thesis using contractD(4,6,8) [OF lib, of a]
    by (simp add: normalizeReservationWallet_def raw_parser_def Let_def)
next
  case False
  with assms(2) obtain t b where w: "TrimSpace w = al_Friendly lib t b a" by (auto simp: spells_def)
  then show ?thesis using contractD(1,10) [OF lib, of t b a]
    by (auto simp: normalizeReservationWallet_def raw_parser_def Let_def)
qed

lemma spells_stored: "address_contract lib \<Longrightarrow> spells lib (al_String lib a) a"
  using contractD(2,9) [of lib] by (metis spells_def)

lemma set_appendVariant: "TrimSpace c = c \<Longrightarrow> c \<noteq> [] \<Longrightarrow> set (appendVariant vs c) = insert c (set vs)"
  by (auto simp: appendVariant_def)

lemma set_variants:
  assumes lib: "address_contract lib" and w: "spells lib w a"
  shows "set (buildWalletAddressVariants lib w) = insert (al_StringRaw lib a) {al_Friendly lib t b a |t b. True}"
proof -
  have "\<exists>a'. (case al_ParseAddr lib (TrimSpace w) of None \<Rightarrow> al_ParseRawAddr lib (TrimSpace w) | Some x \<Rightarrow> Some x) = Some a'
      \<and> al_StringRaw lib a' = al_StringRaw lib a"
    using w contractD(1,4,5) [OF lib] unfolding spells_def by (metis option.case)
  then obtain a' where p: "(case al_ParseAddr lib (TrimSpace w) of None \<Rightarrow> al_ParseRawAddr lib (TrimSpace w) | Some x \<Rightarrow> Some x) = Some a'"
    and raw: "al_StringRaw lib a' = al_StringRaw lib a" by blast
  have fr: "al_Friendly lib t b a' = al_Friendly lib t b a" for t b by (rule contractD(3) [OF lib raw])
  have st: "\<exists>t b. al_String lib a' = al_Friendly lib t b a" using contractD(2) [OF lib, of a'] fr by simp
  have ne: "TrimSpace w \<noteq> []" using w contractD(8,10) [OF lib] by (auto simp: spells_def)
  have trim: "TrimSpace (al_String lib a') = al_String lib a' \<and> al_String lib a' \<noteq> []"
    using st contractD(9,10) [OF lib] by metis
  have "set (buildWalletAddressVariants lib w) = {TrimSpace w, al_StringRaw lib a, al_String lib a', al_Friendly lib False True a,
      al_Friendly lib False False a, al_Friendly lib True True a, al_Friendly lib True False a}"
    using ne trim contractD(7-10) [OF lib]
    by (auto simp: buildWalletAddressVariants_def Let_def p raw fr set_appendVariant)
  moreover have "{al_Friendly lib t b a |t b. True} = {al_Friendly lib False True a, al_Friendly lib False False a,
      al_Friendly lib True True a, al_Friendly lib True False a}" by (auto, metis (full_types))
  moreover have "TrimSpace w \<in> insert (al_StringRaw lib a) {al_Friendly lib t b a |t b. True}"
    using w by (auto simp: spells_def)
  ultimately show ?thesis using st by auto
qed

lemma variant_iff:
  assumes lib: "address_contract lib" and w: "spells lib w a" and p: "stored_form lib p"
  shows "p \<in> set (buildWalletAddressVariants lib w) \<longleftrightarrow> normalizeReservationWallet (raw_parser lib) p = al_StringRaw lib a"
proof -
  obtain a0 where a0: "p = al_String lib a0" using p by (auto simp: stored_form_def)
  obtain t b where pf: "p = al_Friendly lib t b a0" using contractD(2) [OF lib] a0 by blast
  have n: "normalizeReservationWallet (raw_parser lib) p = al_StringRaw lib a0"
    unfolding a0 by (rule normalize_spelling [OF lib spells_stored [OF lib]])
  show ?thesis
  proof
    assume "p \<in> set (buildWalletAddressVariants lib w)"
    then consider "p = al_StringRaw lib a" | t' b' where "p = al_Friendly lib t' b' a"
      by (auto simp: set_variants [OF lib w])
    then show "normalizeReservationWallet (raw_parser lib) p = al_StringRaw lib a"
      by cases (rule normalize_spelling [OF lib], simp add: spells_def contractD(7,9) [OF lib], blast?)+
  next
    assume "normalizeReservationWallet (raw_parser lib) p = al_StringRaw lib a"
    with n have "al_StringRaw lib a0 = al_StringRaw lib a" by simp
    then have "p = al_Friendly lib t b a" using pf contractD(3) [OF lib] by metis
    then show "p \<in> set (buildWalletAddressVariants lib w)" by (auto simp: set_variants [OF lib w])
  qed
qed

lemma player_predicate:
  assumes "address_contract lib" "spells lib w a"
  obtains p where "buildPlayerAddressPredicate lib w = Some p"
    "\<And>g. players_stored lib g \<Longrightarrow> p g \<longleftrightarrow> isGameParticipant (raw_parser lib) g (normalizeReservationWallet (raw_parser lib) w)"
proof -
  have "buildWalletAddressVariants lib w \<noteq> []" using set_variants [OF assms] by auto
  then have "buildPlayerAddressPredicate lib w = Some (\<lambda>g. g_PlayerOneAddress g \<in> set (buildWalletAddressVariants lib w)
      \<or> (case g_PlayerTwoAddress g of None \<Rightarrow> False | Some p2 \<Rightarrow> p2 \<in> set (buildWalletAddressVariants lib w)))"
    by (simp add: buildPlayerAddressPredicate_def Let_def)
  then show thesis
    by (rule that) (auto simp: isGameParticipant_iff normalize_spelling [OF assms]
        players_stored_def variant_iff [OF assms] split: option.splits)
qed

section \<open>Pages\<close>

lemma paginate_spec:
  assumes "0 \<le> offset" "0 < limit" "in_i64 offset" "in_i64 limit"
  shows "paginate xs limit offset =
     (if offset < int (length xs) \<and> 2 ^ 63 \<le> offset + limit then None else Some (take (nat limit) (drop (nat offset) xs)))"
proof (cases "2 ^ 63 \<le> offset + limit")
  case True
  have "(offset + limit + 2 ^ 63) mod 2 ^ 64 = (offset + limit + 2 ^ 63 - 2 ^ 64 + 2 ^ 64) mod 2 ^ 64" by (simp add: algebra_simps)
  also have "\<dots> = (offset + limit + 2 ^ 63 - 2 ^ 64) mod 2 ^ 64" by (rule mod_add_self2)
  also have "\<dots> = offset + limit + 2 ^ 63 - 2 ^ 64"
    by (rule mod_pos_pos_trivial) (use True assms in \<open>auto simp: in_i64_def\<close>)
  finally have "i64 (offset + limit) = offset + limit - 2 ^ 64" by (simp add: i64_def)
  with True assms show ?thesis
    by (auto simp: paginate_def Let_def go_slice_def in_i64_def)
next
  case False
  with assms show ?thesis by (simp add: paginate_page in_i64_def)
qed

lemma GetByStatus_run:
  assumes "\<forall>n. db_fault db n = None"
  obtains db' where "GetByStatus s db = (Inr (stable_newest_first g_CreatedAt (filter (\<lambda>g. g_Status g = s) (db_games db))), db')"
    "db_games db' = db_games db" "\<forall>n. db_fault db' n = None"
  using assms that by (simp add: GetByStatus_def queryGames_def wrapDB_def statement_def Let_def)

lemma queryGames_run:
  assumes "\<forall>n. db_fault db n = None"
  shows "queryGames p db = (Inr (stable_newest_first g_CreatedAt (filter p (db_games db))), db\<lparr>db_tick := Suc (db_tick db)\<rparr>)"
  using assms by (simp add: queryGames_def wrapDB_def statement_def Let_def)

lemma mset_newest_first [simp]: "mset (stable_newest_first t xs) = mset xs"
  by (simp add: stable_newest_first_def)

text \<open>Which games a list by status holds: the list of ended games holds the paid ones too.\<close>

definition listed :: "int \<Rightarrow> Game \<Rightarrow> bool" where
  "listed status g \<longleftrightarrow> g_Status g = status \<or> status = GameStatusEnded \<and> g_Status g = GameStatusPaid"

lemma getGamesForStatus_run:
  assumes "\<forall>n. db_fault db n = None"
  obtains games db' where "getGamesForStatus s db = (Inr games, db')" "mset games = filter_mset (listed s) (mset (db_games db))"
    "sorted_wrt (\<lambda>a b. latestGameActivity (Some b) \<le> latestGameActivity (Some a)) games"
proof -
  obtain db1 where r1: "GetByStatus s db = (Inr (stable_newest_first g_CreatedAt (filter (\<lambda>g. g_Status g = s) (db_games db))), db1)"
    and d1: "db_games db1 = db_games db" "\<forall>n. db_fault db1 n = None" by (rule GetByStatus_run [OF assms])
  obtain db2 where r2: "GetByStatus 4 db1 = (Inr (stable_newest_first g_CreatedAt (filter (\<lambda>g. g_Status g = 4) (db_games db1))), db2)"
    by (rule GetByStatus_run [OF d1(2)])
  have disj: "filter_mset (\<lambda>g. g_Status g = 3) M + filter_mset (\<lambda>g. g_Status g = 4) M
      = filter_mset (\<lambda>g. g_Status g = 3 \<or> g_Status g = 4) M" for M :: "Game multiset"
    by (induction M) auto
  show thesis
  proof (cases "s = 3")
    case True
    with r1 r2 d1 show thesis
      by (intro that [of "sortGamesByMostRecentActivity (stable_newest_first g_CreatedAt (filter (\<lambda>g. g_Status g = s) (db_games db))
            @ stable_newest_first g_CreatedAt (filter (\<lambda>g. g_Status g = 4) (db_games db)))" db2])
        (auto simp: getGamesForStatus_def bindDB_def returnDB_def sortGamesByMostRecentActivity_def listed_def [abs_def] disj
          sorted_stable_newest_first)
  next
    case False
    with r1 show thesis
      by (intro that [of "sortGamesByMostRecentActivity (stable_newest_first g_CreatedAt (filter (\<lambda>g. g_Status g = s) (db_games db)))" db1])
        (auto simp: getGamesForStatus_def bindDB_def returnDB_def sortGamesByMostRecentActivity_def listed_def [abs_def]
          sorted_stable_newest_first)
  qed
qed

text \<open>
  For every valid status there is one list of the stored games with that status (and, for the
  status ENDED, of the paid games as well), most recent activity first, such that every call of
  \<open>ListGames\<close> with a positive limit and a non-negative offset returns the page of that list, except
  that it panics when the offset is inside the list and offset plus limit leaves the range of
  \<open>int\<close>: the limit has no upper bound.
\<close>

theorem list_games_page:
  assumes "0 \<le> status" "status \<le> 4" and calm: "\<forall>n. db_fault db n = None"
  shows "\<exists>games. mset games = filter_mset (listed status) (mset (db_games db))
     \<and> sorted_wrt (\<lambda>a b. latestGameActivity (Some b) \<le> latestGameActivity (Some a)) games
     \<and> (\<forall>limit offset. 0 < limit \<and> 0 \<le> offset \<and> in_i64 limit \<and> in_i64 offset \<longrightarrow>
          fst (ListGames status limit offset db) = Inr (if offset < int (length games) \<and> 2 ^ 63 \<le> offset + limit then None
            else Some (take (nat limit) (drop (nat offset) games))))"
proof -
  obtain games db' where run: "getGamesForStatus status db = (Inr games, db')"
    and games: "mset games = filter_mset (listed status) (mset (db_games db))"
      "sorted_wrt (\<lambda>a b. latestGameActivity (Some b) \<le> latestGameActivity (Some a)) games"
    by (rule getGamesForStatus_run [OF calm])
  have "fst (ListGames status limit offset db) = Inr (if offset < int (length games) \<and> 2 ^ 63 \<le> offset + limit then None
      else Some (take (nat limit) (drop (nat offset) games)))"
    if "0 < limit \<and> 0 \<le> offset \<and> in_i64 limit \<and> in_i64 offset" for limit offset
    using that assms(1,2) run by (simp add: ListGames_def bindDB_def returnDB_def paginate_spec)
  with games show ?thesis by blast
qed

text \<open>
  C26. For a wallet in any spelling that the address library prints, \<open>GetGamesByPlayerPage\<close> reports
  the number of all games in which that wallet takes part, whatever spelling the request uses, and
  the pages are those of one list of exactly these games, most recent activity first.
\<close>

theorem player_games_exact:
  assumes lib: "address_contract lib" and w: "spells lib w a" and calm: "\<forall>n. db_fault db n = None"
    and stored: "\<forall>g \<in> set (db_games db). players_stored lib g"
  shows "\<exists>games. mset games = filter_mset
         (\<lambda>g. isGameParticipant (raw_parser lib) g (normalizeReservationWallet (raw_parser lib) w)) (mset (db_games db))
     \<and> sorted_wrt (\<lambda>a b. latestGameActivity (Some b) \<le> latestGameActivity (Some a)) games
     \<and> (\<forall>limit offset. 0 < limit \<and> 0 \<le> offset \<and> in_i64 limit \<and> in_i64 offset \<longrightarrow>
          fst (GetGamesByPlayerPage lib w limit offset db) = Inr (if offset < int (length games) \<and> 2 ^ 63 \<le> offset + limit
            then None else Some (take (nat limit) (drop (nat offset) games)), int (length games)))"
proof -
  obtain p where p: "buildPlayerAddressPredicate lib w = Some p"
    "\<And>g. players_stored lib g \<Longrightarrow> p g \<longleftrightarrow> isGameParticipant (raw_parser lib) g (normalizeReservationWallet (raw_parser lib) w)"
    by (rule player_predicate [OF lib w]) blast
  define games where "games = sortGamesByMostRecentActivity (stable_newest_first g_CreatedAt (filter p (db_games db)))"
  have ne: "w \<noteq> []" using w contractD(8,10) [OF lib] unfolding spells_def TrimSpace_def by (metis dropWhile.simps(1) rev.simps(1))
  have "mset games = filter_mset
      (\<lambda>g. isGameParticipant (raw_parser lib) g (normalizeReservationWallet (raw_parser lib) w)) (mset (db_games db))"
    using stored p(2) by (auto simp: games_def sortGamesByMostRecentActivity_def intro!: filter_mset_cong)
  moreover have "sorted_wrt (\<lambda>a b. latestGameActivity (Some b) \<le> latestGameActivity (Some a)) games"
    by (simp add: games_def sortGamesByMostRecentActivity_def sorted_stable_newest_first)
  moreover have "fst (GetGamesByPlayerPage lib w limit offset db) = Inr (if offset < int (length games) \<and> 2 ^ 63 \<le> offset + limit
      then None else Some (take (nat limit) (drop (nat offset) games)), int (length games))"
    if "0 < limit \<and> 0 \<le> offset \<and> in_i64 limit \<and> in_i64 offset" for limit offset
    using that ne queryGames_run [OF calm, of p]
    by (simp add: GetGamesByPlayerPage_def GetByPlayer_def GetByPlayerAddress_def p(1) bindDB_def returnDB_def paginate_spec
        games_def Let_def)
  ultimately show ?thesis by blast
qed

subsection \<open>An instance of the address library\<close>

text \<open>
  Addresses with decimal account numbers in the place of account hashes, printed with the four prefixes that the
  TON formats use.
\<close>

definition demo_flags :: "string \<Rightarrow> (bool \<times> bool) option" where
  "demo_flags p = map_of [(''EQ'', (False, True)), (''UQ'', (False, False)), (''kQ'', (True, True)), (''0Q'', (True, False))] p"

definition demo_prefix :: "bool \<Rightarrow> bool \<Rightarrow> string" where
  "demo_prefix t b = (if t then (if b then ''kQ'' else ''0Q'') else (if b then ''EQ'' else ''UQ''))"

definition demo_lib :: "(bool \<times> bool \<times> nat) address_lib" where
  "demo_lib = \<lparr>
     al_ParseAddr = (\<lambda>s. case demo_flags (take 2 s) of None \<Rightarrow> None
       | Some (t, b) \<Rightarrow> map_option (\<lambda>n. (t, b, n)) (parse_digits (drop 2 s))),
     al_ParseRawAddr = (\<lambda>s. if take 2 s = ''0:'' then map_option (\<lambda>n. (False, True, n)) (parse_digits (drop 2 s)) else None),
     al_StringRaw = (\<lambda>(t, b, n). ''0:'' @ nat_dec n),
     al_String = (\<lambda>(t, b, n). demo_prefix t b @ nat_dec n),
     al_Friendly = (\<lambda>t b (t', b', n). demo_prefix t b @ nat_dec n)\<rparr>"

lemma digits_solid: "list_all (\<lambda>c. \<not> is_space c) (nat_dec n)" "ToLower (nat_dec n) = nat_dec n"
proof -
  have d: "list_all is_digit (nat_dec n)" by (rule nat_dec_digits)
  have "is_digit c \<Longrightarrow> \<not> is_space c \<and> lower_char c = c" for c
    by (auto simp: is_digit_def is_space_def lower_char_def)
  with d show "list_all (\<lambda>c. \<not> is_space c) (nat_dec n)" "ToLower (nat_dec n) = nat_dec n"
    by (auto simp: list_all_iff ToLower_def intro!: map_idI)
qed

lemma TrimSpace_digits: "\<not> is_space x \<Longrightarrow> \<not> is_space y \<Longrightarrow> TrimSpace (x # y # nat_dec n) = x # y # nat_dec n"
  by (rule TrimSpace_solid) (simp add: digits_solid)

lemma demo_lib_contract: "address_contract demo_lib"
  unfolding address_contract_def
proof (intro conjI allI, goal_cases)
  case (1 t b a)
  then show ?case by (cases a) (auto simp: demo_lib_def demo_prefix_def demo_flags_def)
next
  case (2 a)
  then show ?case by (cases a) (auto simp: demo_lib_def)
next
  case (3 a a')
  have inj: "nat_dec n = nat_dec m \<Longrightarrow> n = m" for n m using dec_value_nat_dec by metis
  show ?case by (cases a; cases a') (auto simp: demo_lib_def dest: inj)
next
  case (4 a)
  then show ?case by (cases a) (simp add: demo_lib_def demo_flags_def)
next
  case (5 a)
  then show ?case by (cases a) (simp add: demo_lib_def)
next
  case (6 a)
  then show ?case by (cases a) (simp add: demo_lib_def digits_solid ToLower_def [of "_ # _"] lower_char_def flip: ToLower_def)
next
  case (7 a)
  then show ?case by (cases a) (simp add: demo_lib_def TrimSpace_digits is_space_def)
next
  case (8 a)
  then show ?case by (cases a) (simp add: demo_lib_def)
next
  case (9 t b a)
  then show ?case by (cases a) (simp add: demo_lib_def demo_prefix_def TrimSpace_digits is_space_def)
next
  case (10 t b a)
  then show ?case by (cases a) (simp add: demo_lib_def demo_prefix_def)
qed

definition demo_game :: "int \<Rightarrow> int \<Rightarrow> wallet \<Rightarrow> wallet option \<Rightarrow> instant \<Rightarrow> Game" where
  "demo_game k s p1 p2 t = \<lparr>g_GameID = k, g_Status = s, g_PlayerOneAddress = p1, g_PlayerTwoAddress = p2,
     g_PlayerOneChoice = 1, g_PlayerTwoChoice = None, g_PlayerOneReferrer = None, g_PlayerTwoReferrer = None,
     g_BetAmount = 5, g_WinnerAddress = None, g_PayoutAmount = None, g_ServiceFeeNumerator = 0, g_ReferrerFeeNumerator = 0,
     g_WaitingTimeoutSeconds = 0, g_LowestBidAllowed = 0, g_HighestBidAllowed = 0, g_MinReferrerPayoutValue = 0,
     g_ProtocolVersion = 0, g_FeeReceiverAddress = [], g_CreatedAt = t, g_JoinedAt = None, g_RevealedAt = None,
     g_CompletedAt = None, g_InitTxHash = ''h'', g_JoinTxHash = None, g_RevealTxHash = None, g_CompleteTxHash = None\<rparr>"

definition demo_db :: db where
  "demo_db = \<lparr>db_games = [demo_game 1 1 ''EQ7'' None 10, demo_game 2 2 ''EQ8'' (Some ''EQ7'') 20, demo_game 3 1 ''EQ8'' None 30],
     db_events = [], db_users = [], db_next_event = 1, db_next_user = 1, db_now = 0, db_tick = 0, db_fault = (\<lambda>_. None)\<rparr>"

lemma demo_stored: "\<forall>g \<in> set (db_games demo_db). players_stored demo_lib g"
proof -
  have "al_String demo_lib (False, True, 7) = ''EQ7''" "al_String demo_lib (False, True, 8) = ''EQ8''" by code_simp+
  then have "stored_form demo_lib ''EQ7''" "stored_form demo_lib ''EQ8''"
    unfolding stored_form_def by metis+
  then show ?thesis by (auto simp: demo_db_def demo_game_def players_stored_def)
qed

theorem list_games_page_witness:
  "fst (ListGames 1 (2 ^ 63 - 1) 1 demo_db) = Inr None \<and> (\<exists>gs. fst (ListGames 1 1 0 demo_db) = Inr (Some gs) \<and> length gs = 1)"
proof -
  obtain games where g: "mset games = filter_mset (listed 1) (mset (db_games demo_db))"
    "\<forall>limit offset. 0 < limit \<and> 0 \<le> offset \<and> in_i64 limit \<and> in_i64 offset \<longrightarrow>
       fst (ListGames 1 limit offset demo_db) = Inr (if offset < int (length games) \<and> 2 ^ 63 \<le> offset + limit then None
         else Some (take (nat limit) (drop (nat offset) games)))"
    using list_games_page [of 1 demo_db] by (auto simp: demo_db_def)
  have "size (mset games) = 2" unfolding g(1) by (simp add: demo_db_def demo_game_def listed_def)
  then have "length games = 2" by simp
  with g(2) [rule_format, of "2 ^ 63 - 1" 1] g(2) [rule_format, of 1 0] show ?thesis by (auto simp: in_i64_def)
qed

theorem player_games_exact_witness:
  "\<exists>page. fst (GetGamesByPlayerPage demo_lib '' 0:7 '' 5 0 demo_db) = Inr (Some page, 2)"
proof -
  have w: "spells demo_lib '' 0:7 '' (False, True, 7)"
    unfolding spells_def by (rule disjI1) code_simp
  obtain games where g: "mset games = filter_mset (\<lambda>g. isGameParticipant (raw_parser demo_lib) g
        (normalizeReservationWallet (raw_parser demo_lib) '' 0:7 '')) (mset (db_games demo_db))"
    "\<forall>limit offset. 0 < limit \<and> 0 \<le> offset \<and> in_i64 limit \<and> in_i64 offset \<longrightarrow>
       fst (GetGamesByPlayerPage demo_lib '' 0:7 '' limit offset demo_db) = Inr (if offset < int (length games) \<and> 2 ^ 63 \<le> offset + limit
         then None else Some (take (nat limit) (drop (nat offset) games)), int (length games))"
    using player_games_exact [OF demo_lib_contract w _ demo_stored] by (auto simp: demo_db_def)
  have "normalizeReservationWallet (raw_parser demo_lib) '' 0:7 '' = ''0:7''"
    "normalizeReservationWallet (raw_parser demo_lib) ''EQ7'' = ''0:7''" "normalizeReservationWallet (raw_parser demo_lib) ''EQ8'' = ''0:8''"
    by code_simp+
  then have "size (mset games) = 2" unfolding g(1) by (simp add: demo_db_def demo_game_def isGameParticipant_iff)
  then have "length games = 2" by simp
  with g(2) [rule_format, of 5 0] show ?thesis by (auto simp: in_i64_def)
qed

end
