(* ===== verification/Activity.thy ===== *)
theory Activity
  imports Game_Query Join_Reservation Cancel_Reservation Reveal_Reservation Expired_Claim
begin

text \<open>
  The activity queues: \<open>internal/entity/player_activity.go\<close> and
  \<open>internal/usecase/game_activity.go\<close>. The use case reads games through the repository interface
  (the record \<open>game_reads\<close>) and claims through the four claim use cases; looking up an expired claim
  may release it, so the stores are threaded through. One instant stands for all clock readings of a
  call. A Go map of queues is a map with the queue keys as strings, and reading a missing key gives
  the empty list.
\<close>

section \<open>Entities\<close>

abbreviation (input) ActivityQueueJoinable :: string where "ActivityQueueJoinable \<equiv> ''joinable''"
abbreviation (input) ActivityQueueMyActive :: string where "ActivityQueueMyActive \<equiv> ''my-active''"
abbreviation (input) ActivityQueueRevealRequired :: string where "ActivityQueueRevealRequired \<equiv> ''reveal-required''"
abbreviation (input) ActivityQueueExpiredAttention :: string where "ActivityQueueExpiredAttention \<equiv> ''expired-attention''"
abbreviation (input) ActivityQueueHistory :: string where "ActivityQueueHistory \<equiv> ''history''"

datatype PlayerActivityNextAction =
    ActivityNextActionJoin | ActivityNextActionResumeJoin | ActivityNextActionWaitForJoinWindow
  | ActivityNextActionResumeCancel | ActivityNextActionWaitForCancel | ActivityNextActionWaitForOpponent
  | ActivityNextActionReveal | ActivityNextActionResumeReveal | ActivityNextActionWaitForReveal
  | ActivityNextActionReviewResult | ActivityNextActionResumeReview | ActivityNextActionWaitForReview
  | ActivityNextActionBrowseHistory

datatype ActionClaimType =
  ActionClaimTypeJoin | ActionClaimTypeCancel | ActionClaimTypeReveal | ActionClaimTypeExpiredFollowUp

datatype ActionClaimStatus = ActionClaimStatusActive | ActionClaimStatusReleased | ActionClaimStatusExpired

record ActionClaim =
  ac_ClaimType :: ActionClaimType
  ac_GameID :: int
  ac_HolderWallet :: wallet
  ac_Status :: ActionClaimStatus
  ac_CreatedAt :: instant
  ac_ExpiresAt :: instant
  ac_ReleaseReason :: string

record PlayerActivityGame =
  pag_Game :: Game
  pag_QueueKey :: string
  pag_NextAction :: PlayerActivityNextAction
  pag_RequiresAttention :: bool
  pag_IsOwnedByPlayer :: bool
  pag_LatestActivityAt :: instant
  pag_ActiveClaims :: "ActionClaim list"

record GameplayQueue =
  gq_Key :: string
  gq_Title :: string
  gq_AttentionRequired :: bool
  gq_TotalCount :: int
  gq_Items :: "PlayerActivityGame list"

record PlayerActivitySummary =
  pas_WalletAddress :: wallet
  pas_JoinableCount :: int
  pas_MyActiveCount :: int
  pas_RevealRequiredCount :: int
  pas_ExpiredAttentionCount :: int
  pas_HistoryCount :: int
  pas_LastActivityAt :: "instant option"

text \<open>The titles are UTF-8 text.\<close>

definition ActivityQueueTitle :: "string \<Rightarrow> string" where
  "ActivityQueueTitle queueKey = map char_of (
     if queueKey = ActivityQueueJoinable then [208, 156, 208, 190, 208, 182, 208, 189, 208, 190, 32, 208, 191, 209, 128, 208, 184, 209, 129, 208, 190, 208,
        181, 208, 180, 208, 184, 208, 189, 208, 184, 209, 130, 209, 140, 209, 129, 209, 143] else
     if queueKey = ActivityQueueMyActive then [208, 156, 208, 190, 208, 184, 32, 208, 176, 208, 186, 209, 130, 208, 184, 208, 178, 208, 189, 209, 139, 208,
        181] else
     if queueKey = ActivityQueueRevealRequired then [208, 157, 209, 131, 208, 182, 208, 189, 208, 190, 32, 209, 128, 208, 176, 209, 129, 208, 186, 209, 128, 209,
        139, 209, 130, 209, 140] else
     if queueKey = ActivityQueueExpiredAttention then [208, 162, 209, 128, 208, 181, 208, 177, 209, 131, 209, 142, 209, 130, 32, 208, 178, 208, 189, 208, 184, 208,
        188, 208, 176, 208, 189, 208, 184, 209, 143] else
     if queueKey = ActivityQueueHistory then [208, 152, 209, 129, 209, 130, 208, 190, 209, 128, 208, 184, 209, 143] else
     [208, 144, 208, 186, 209, 130, 208, 184, 208, 178, 208, 189, 208, 190, 209, 129, 209, 130, 209, 140] :: nat list)"

definition QueueRequiresAttention :: "string \<Rightarrow> bool" where
  "QueueRequiresAttention queueKey \<longleftrightarrow> queueKey \<in> {ActivityQueueRevealRequired, ActivityQueueExpiredAttention}"

definition IsValidActivityQueueKey :: "string \<Rightarrow> bool" where
  "IsValidActivityQueueKey queueKey \<longleftrightarrow> queueKey \<in> {ActivityQueueJoinable, ActivityQueueMyActive,
     ActivityQueueRevealRequired, ActivityQueueExpiredAttention, ActivityQueueHistory}"

section \<open>The use case\<close>

record game_reads =
  gr_GetByID :: "int \<Rightarrow> error + Game option"
  gr_GetByStatus :: "int \<Rightarrow> error + Game list"
  gr_GetByPlayerAndStatuses :: "wallet \<Rightarrow> int list \<Rightarrow> error + Game list"

record GameActivityConfig =
  DefaultLimit :: int
  MaxLimit :: int

record activity_uc =
  act_gameRepo :: game_reads
  act_reservationUC :: "claim_store option"
  act_cancelReservationUC :: "claim_store option"
  act_revealReservationUC :: "claim_store option"
  act_expiredClaimUC :: "claim_store option"
  act_config :: GameActivityConfig

definition NewGameActivityUseCase :: "game_reads \<Rightarrow> claim_store option \<Rightarrow> claim_store option \<Rightarrow> claim_store option
    \<Rightarrow> GameActivityConfig \<Rightarrow> activity_uc" where
  "NewGameActivityUseCase gameRepo reservationUC revealReservationUC expiredClaimUC cfg =
     \<lparr>act_gameRepo = gameRepo, act_reservationUC = reservationUC, act_cancelReservationUC = None,
      act_revealReservationUC = revealReservationUC, act_expiredClaimUC = expiredClaimUC,
      act_config = \<lparr>DefaultLimit = (if DefaultLimit cfg \<le> 0 then 20 else DefaultLimit cfg),
        MaxLimit = (if MaxLimit cfg \<le> 0 then 100 else MaxLimit cfg)\<rparr>\<rparr>"

definition Activity_SetCancelReservationUseCase :: "claim_store option \<Rightarrow> activity_uc \<Rightarrow> activity_uc" where
  "Activity_SetCancelReservationUseCase cancelUC uc = uc\<lparr>act_cancelReservationUC := cancelUC\<rparr>"

text \<open>A step of the use case: a result, the stores afterwards and the announcements made.\<close>

type_synonym 'a act = "activity_uc \<Rightarrow> (error + 'a) \<times> activity_uc \<times> broadcast list"

definition returnA :: "'a \<Rightarrow> 'a act" where
  "returnA x uc = (Inr x, uc, [])"

definition failA :: "error \<Rightarrow> 'a act" where
  "failA err uc = (Inl err, uc, [])"

definition bindA :: "'a act \<Rightarrow> ('a \<Rightarrow> 'b act) \<Rightarrow> 'b act" where
  "bindA m f uc = (case m uc of
       (Inl err, uc1, bs) \<Rightarrow> (Inl err, uc1, bs)
     | (Inr x, uc1, bs) \<Rightarrow> (case f x uc1 of (r, uc2, bs2) \<Rightarrow> (r, uc2, bs @ bs2)))"

definition wrapA :: "string \<Rightarrow> 'a act \<Rightarrow> 'a act" where
  "wrapA msg m uc = (case m uc of (Inl err, uc1, bs) \<Rightarrow> (Inl (Wrapf msg err), uc1, bs) | (Inr x, uc1, bs) \<Rightarrow> (Inr x, uc1, bs))"

definition readA :: "(game_reads \<Rightarrow> error + 'a) \<Rightarrow> 'a act" where
  "readA f uc = (f (act_gameRepo uc), uc, [])"

subsection \<open>Claims\<close>

definition active_entry :: "ActionClaimType \<Rightarrow> instant \<Rightarrow> GameReservation option \<Rightarrow> ActionClaim list" where
  "active_entry ty now r = (case r of
       None \<Rightarrow> []
     | Some reservation \<Rightarrow> if IsActive now reservation then [\<lparr>ac_ClaimType = ty, ac_GameID = r_GameID reservation,
           ac_HolderWallet = r_WalletAddress reservation, ac_Status = ActionClaimStatusActive,
           ac_CreatedAt = r_CreatedAt reservation, ac_ExpiresAt = r_ExpiresAt reservation, ac_ReleaseReason = ''''\<rparr>]
         else [])"

definition loadClaims :: "parse_addr \<Rightarrow> instant \<Rightarrow> int \<Rightarrow> ActionClaim list act" where
  "loadClaims pa now gameID uc =
     (let claims =
        (case act_reservationUC uc of None \<Rightarrow> []
           | Some st \<Rightarrow> active_entry ActionClaimTypeJoin now (GetReservation st now gameID)) @
        (case act_cancelReservationUC uc of None \<Rightarrow> []
           | Some st \<Rightarrow> active_entry ActionClaimTypeCancel now (Cancel_Get st now gameID)) @
        (case act_revealReservationUC uc of None \<Rightarrow> []
           | Some st \<Rightarrow> active_entry ActionClaimTypeReveal now (Reveal_Get st now gameID))
      in case act_expiredClaimUC uc of
           None \<Rightarrow> (Inr claims, uc, [])
         | Some st \<Rightarrow> (case Expired_Get pa (Some (gr_GetByID (act_gameRepo uc))) now gameID st of
               (Inl err, st', bs) \<Rightarrow> (Inl (Wrapf ''get expired follow-up claim'' err), uc\<lparr>act_expiredClaimUC := Some st'\<rparr>, bs)
             | (Inr expiredClaim, st', bs) \<Rightarrow>
                 (Inr (claims @ active_entry ActionClaimTypeExpiredFollowUp now expiredClaim), uc\<lparr>act_expiredClaimUC := Some st'\<rparr>, bs)))"

fun findClaim :: "ActionClaim list \<Rightarrow> ActionClaimType \<Rightarrow> ActionClaim option" where
  "findClaim [] claimType = None"
| "findClaim (claim # claims) claimType = (if ac_ClaimType claim = claimType then Some claim else findClaim claims claimType)"

definition resolveRevealNextAction :: "parse_addr \<Rightarrow> ActionClaim list \<Rightarrow> string \<Rightarrow> PlayerActivityNextAction \<times> bool" where
  "resolveRevealNextAction pa claims normalizedWallet = (case findClaim claims ActionClaimTypeReveal of
       None \<Rightarrow> (ActivityNextActionReveal, True)
     | Some claim \<Rightarrow> if sameReservationWallet pa (ac_HolderWallet claim) normalizedWallet
         then (ActivityNextActionResumeReveal, True) else (ActivityNextActionWaitForReveal, False))"

definition resolveExpiredFollowUpNextAction :: "parse_addr \<Rightarrow> ActionClaim list \<Rightarrow> string \<Rightarrow> PlayerActivityNextAction \<times> bool" where
  "resolveExpiredFollowUpNextAction pa claims normalizedWallet = (case findClaim claims ActionClaimTypeExpiredFollowUp of
       None \<Rightarrow> (ActivityNextActionReviewResult, True)
     | Some claim \<Rightarrow> if sameReservationWallet pa (ac_HolderWallet claim) normalizedWallet
         then (ActivityNextActionResumeReview, True) else (ActivityNextActionWaitForReview, False))"

definition resolveWaitingLobbyNextAction :: "parse_addr \<Rightarrow> ActionClaim list \<Rightarrow> string \<Rightarrow> PlayerActivityNextAction \<times> bool" where
  "resolveWaitingLobbyNextAction pa claims normalizedWallet = (case findClaim claims ActionClaimTypeCancel of
       None \<Rightarrow> (ActivityNextActionWaitForOpponent, False)
     | Some claim \<Rightarrow> if sameReservationWallet pa (ac_HolderWallet claim) normalizedWallet
         then (ActivityNextActionResumeCancel, True) else (ActivityNextActionWaitForCancel, False))"

definition playerNeedsReveal :: "parse_addr \<Rightarrow> Game option \<Rightarrow> string \<Rightarrow> bool" where
  "playerNeedsReveal pa game normalizedWallet = (case game of
       None \<Rightarrow> False
     | Some g \<Rightarrow>
         if g_Status g \<noteq> GameStatusWaitingForOpenBids then False
         else if sameReservationWallet pa (g_PlayerOneAddress g) normalizedWallet
           then g_PlayerOneChoice g = CoinSideClosed \<or> g_PlayerOneChoice g = CoinSideUnknown
         else case g_PlayerTwoAddress g of
             None \<Rightarrow> False
           | Some p2 \<Rightarrow> if sameReservationWallet pa p2 normalizedWallet
               then (case g_PlayerTwoChoice g of None \<Rightarrow> True | Some c \<Rightarrow> c = CoinSideClosed \<or> c = CoinSideUnknown)
               else False)"

subsection \<open>Items\<close>

definition buildJoinableItem :: "parse_addr \<Rightarrow> instant \<Rightarrow> Game \<Rightarrow> string \<Rightarrow> PlayerActivityGame act" where
  "buildJoinableItem pa now game normalizedWallet = bindA (loadClaims pa now (g_GameID game)) (\<lambda>claims.
     let (nextAction, requiresAttention) =
       (case findClaim claims ActionClaimTypeCancel of
          Some _ \<Rightarrow> (ActivityNextActionWaitForCancel, False)
        | None \<Rightarrow> (case findClaim claims ActionClaimTypeJoin of
            Some claim \<Rightarrow> if sameReservationWallet pa (ac_HolderWallet claim) normalizedWallet
              then (ActivityNextActionResumeJoin, True) else (ActivityNextActionWaitForJoinWindow, False)
          | None \<Rightarrow> (ActivityNextActionJoin, False)))
     in returnA \<lparr>pag_Game = game, pag_QueueKey = ActivityQueueJoinable, pag_NextAction = nextAction,
          pag_RequiresAttention = requiresAttention, pag_IsOwnedByPlayer = False,
          pag_LatestActivityAt = latestGameActivity (Some game), pag_ActiveClaims = claims\<rparr>)"

definition player_item :: "Game \<Rightarrow> ActionClaim list \<Rightarrow> string \<Rightarrow> PlayerActivityNextAction \<times> bool \<Rightarrow> PlayerActivityGame option act" where
  "player_item game claims key next_action = returnA (Some \<lparr>pag_Game = game, pag_QueueKey = key, pag_NextAction = fst next_action,
     pag_RequiresAttention = snd next_action, pag_IsOwnedByPlayer = True,
     pag_LatestActivityAt = latestGameActivity (Some game), pag_ActiveClaims = claims\<rparr>)"

definition buildPlayerItem :: "parse_addr \<Rightarrow> instant \<Rightarrow> Game \<Rightarrow> string \<Rightarrow> PlayerActivityGame option act" where
  "buildPlayerItem pa now game normalizedWallet = bindA (loadClaims pa now (g_GameID game)) (\<lambda>claims.
     if g_Status game = GameStatusWaitingForOpponent
       then player_item game claims ActivityQueueMyActive (resolveWaitingLobbyNextAction pa claims normalizedWallet)
     else if g_Status game = GameStatusWaitingForOpenBids
       then (if playerNeedsReveal pa (Some game) normalizedWallet
         then player_item game claims ActivityQueueRevealRequired (resolveRevealNextAction pa claims normalizedWallet)
         else player_item game claims ActivityQueueMyActive (ActivityNextActionWaitForReveal, False))
     else if g_Status game = GameStatusEnded
       then player_item game claims ActivityQueueExpiredAttention (resolveExpiredFollowUpNextAction pa claims normalizedWallet)
     else if g_Status game = GameStatusPaid
       then player_item game claims ActivityQueueHistory (ActivityNextActionBrowseHistory, False)
     else returnA None)"

subsection \<open>Queues\<close>

type_synonym queues = "string \<rightharpoonup> PlayerActivityGame list"

definition queue :: "queues \<Rightarrow> string \<Rightarrow> PlayerActivityGame list" where
  "queue queues key = (case queues key of None \<Rightarrow> [] | Some items \<Rightarrow> items)"

definition enqueue :: "string \<Rightarrow> PlayerActivityGame \<Rightarrow> queues \<Rightarrow> queues" where
  "enqueue key item queues = queues(key \<mapsto> queue queues key @ [item])"

definition newActivityQueueMap :: queues where
  "newActivityQueueMap = [ActivityQueueJoinable \<mapsto> [], ActivityQueueMyActive \<mapsto> [], ActivityQueueRevealRequired \<mapsto> [],
     ActivityQueueExpiredAttention \<mapsto> [], ActivityQueueHistory \<mapsto> []]"

fun joinable_loop :: "parse_addr \<Rightarrow> instant \<Rightarrow> string \<Rightarrow> Game list \<Rightarrow> queues \<Rightarrow> queues act" where
  "joinable_loop pa now normalizedWallet [] queues = returnA queues"
| "joinable_loop pa now normalizedWallet (game # games) queues =
     (if normalizedWallet \<noteq> '''' \<and> belongsToWallet pa (Some game) normalizedWallet
      then joinable_loop pa now normalizedWallet games queues
      else bindA (wrapA (''classify joinable game '' @ FormatInt (g_GameID game)) (buildJoinableItem pa now game normalizedWallet))
        (\<lambda>item. joinable_loop pa now normalizedWallet games (enqueue ActivityQueueJoinable item queues)))"

definition populateJoinableQueue :: "parse_addr \<Rightarrow> instant \<Rightarrow> string \<Rightarrow> queues \<Rightarrow> queues act" where
  "populateJoinableQueue pa now normalizedWallet queues =
     bindA (wrapA ''load joinable games'' (readA (\<lambda>repo. gr_GetByStatus repo GameStatusWaitingForOpponent)))
       (\<lambda>joinableGames. joinable_loop pa now normalizedWallet joinableGames queues)"

fun player_loop :: "parse_addr \<Rightarrow> instant \<Rightarrow> string \<Rightarrow> Game list \<Rightarrow> queues \<Rightarrow> queues act" where
  "player_loop pa now normalizedWallet [] queues = returnA queues"
| "player_loop pa now normalizedWallet (game # games) queues =
     bindA (wrapA (''classify player game '' @ FormatInt (g_GameID game)) (buildPlayerItem pa now game normalizedWallet))
       (\<lambda>r. case r of
            None \<Rightarrow> player_loop pa now normalizedWallet games queues
          | Some item \<Rightarrow> player_loop pa now normalizedWallet games (enqueue (pag_QueueKey item) item queues))"

definition populatePlayerQueues :: "parse_addr \<Rightarrow> instant \<Rightarrow> wallet \<Rightarrow> string \<Rightarrow> queues \<Rightarrow> queues act" where
  "populatePlayerQueues pa now walletAddress normalizedWallet queues =
     (if normalizedWallet = '''' then returnA queues
      else bindA (wrapA ''load player activity games'' (readA (\<lambda>repo. gr_GetByPlayerAndStatuses repo walletAddress
          [GameStatusWaitingForOpponent, GameStatusWaitingForOpenBids, GameStatusEnded, GameStatusPaid])))
        (\<lambda>playerGames. player_loop pa now normalizedWallet playerGames queues))"

definition sortActivityItems :: "PlayerActivityGame list \<Rightarrow> PlayerActivityGame list" where
  "sortActivityItems items = stable_newest_first pag_LatestActivityAt items"

text \<open>The loop for the last activity ranges over a map; its result does not depend on the order.\<close>

definition buildPlayerActivitySummary :: "wallet \<Rightarrow> queues \<Rightarrow> PlayerActivitySummary" where
  "buildPlayerActivitySummary walletAddress queues =
     \<lparr>pas_WalletAddress = walletAddress,
      pas_JoinableCount = int (length (queue queues ActivityQueueJoinable)),
      pas_MyActiveCount = int (length (queue queues ActivityQueueMyActive)),
      pas_RevealRequiredCount = int (length (queue queues ActivityQueueRevealRequired)),
      pas_ExpiredAttentionCount = int (length (queue queues ActivityQueueExpiredAttention)),
      pas_HistoryCount = int (length (queue queues ActivityQueueHistory)),
      pas_LastActivityAt = foldl (\<lambda>latest item. case latest of
          None \<Rightarrow> Some (pag_LatestActivityAt item)
        | Some t \<Rightarrow> if t < pag_LatestActivityAt item then Some (pag_LatestActivityAt item) else latest) None
        (concat (map (queue queues) [ActivityQueueJoinable, ActivityQueueMyActive, ActivityQueueRevealRequired,
           ActivityQueueExpiredAttention, ActivityQueueHistory]))\<rparr>"

definition buildQueues :: "parse_addr \<Rightarrow> instant \<Rightarrow> wallet \<Rightarrow> (PlayerActivitySummary \<times> queues) act" where
  "buildQueues pa now walletAddress =
     (let normalizedWallet = normalizeReservationWallet pa walletAddress in
      bindA (populateJoinableQueue pa now normalizedWallet newActivityQueueMap) (\<lambda>queues1.
      bindA (populatePlayerQueues pa now walletAddress normalizedWallet queues1) (\<lambda>queues2.
        let queues = (\<lambda>key. map_option sortActivityItems (queues2 key))
        in returnA (buildPlayerActivitySummary walletAddress queues, queues))))"

subsection \<open>Operations\<close>

definition normalizeLimit :: "GameActivityConfig \<Rightarrow> int \<Rightarrow> int" where
  "normalizeLimit cfg limit = (if limit \<le> 0 then DefaultLimit cfg else if limit > MaxLimit cfg then MaxLimit cfg else limit)"

definition paginateActivityItems :: "PlayerActivityGame list \<Rightarrow> int \<Rightarrow> int \<Rightarrow> PlayerActivityGame list option" where
  "paginateActivityItems items limit offset = paginate items limit offset"

text \<open>A panic in the slice expression is \<open>None\<close>.\<close>

definition GetQueue :: "parse_addr \<Rightarrow> instant \<Rightarrow> string \<Rightarrow> wallet \<Rightarrow> int \<Rightarrow> int
    \<Rightarrow> (GameplayQueue \<times> PlayerActivitySummary) option act" where
  "GetQueue pa now queueKey walletAddress limit0 offset uc =
     (if \<not> IsValidActivityQueueKey queueKey then failA ErrInvalidActivityQueueKey uc
      else if offset < 0 then failA ErrInvalidActivityOffset uc
      else let limit = normalizeLimit (act_config uc) limit0 in
        bindA (buildQueues pa now walletAddress) (\<lambda>(summary, queues).
          let items = queue queues queueKey in
          returnA (map_option (\<lambda>pagedItems. (\<lparr>gq_Key = queueKey, gq_Title = ActivityQueueTitle queueKey,
             gq_AttentionRequired = QueueRequiresAttention queueKey, gq_TotalCount = int (length items),
             gq_Items = pagedItems\<rparr>, summary)) (paginateActivityItems items limit offset))) uc)"

definition GetSummary :: "parse_addr \<Rightarrow> instant \<Rightarrow> wallet \<Rightarrow> PlayerActivitySummary act" where
  "GetSummary pa now walletAddress =
     (if normalizeReservationWallet pa walletAddress = '''' then failA ErrActivityWalletRequired
      else bindA (buildQueues pa now walletAddress) (\<lambda>(summary, queues). returnA summary))"

subsection \<open>Search\<close>

definition activitySearchCandidates :: "parse_addr \<Rightarrow> Game \<Rightarrow> string list" where
  "activitySearchCandidates pa game =
     [g_PlayerOneAddress game, normalizeReservationWallet pa (g_PlayerOneAddress game), FormatInt (g_GameID game)] @
     (case g_PlayerTwoAddress game of None \<Rightarrow> [] | Some p2 \<Rightarrow> [p2, normalizeReservationWallet pa p2])"

definition matchesActivitySearch :: "parse_addr \<Rightarrow> PlayerActivityGame \<Rightarrow> string \<Rightarrow> bool" where
  "matchesActivitySearch pa item query =
     (let game = pag_Game item; lowerQuery = ToLower query; normalizedWalletQuery = normalizeReservationWallet pa query in
      if str_contains (FormatInt (g_GameID game)) lowerQuery then True
      else if normalizedWalletQuery \<noteq> '''' \<and> sameReservationWallet pa (g_PlayerOneAddress game) normalizedWalletQuery then True
      else if normalizedWalletQuery \<noteq> '''' \<and> (case g_PlayerTwoAddress game of None \<Rightarrow> False
          | Some p2 \<Rightarrow> sameReservationWallet pa p2 normalizedWalletQuery) then True
      else list_ex (\<lambda>candidate. str_contains (ToLower candidate) lowerQuery) (activitySearchCandidates pa game))"

definition filterActivitySearchItems :: "parse_addr \<Rightarrow> queues \<Rightarrow> string \<Rightarrow> string \<Rightarrow> PlayerActivityGame list" where
  "filterActivitySearchItems pa queues queueScope rawQuery =
     (let trimmedQuery = TrimSpace rawQuery in
      if trimmedQuery = '''' then []
      else let searchQueues = (if queueScope \<noteq> '''' then [queueScope]
             else [ActivityQueueJoinable, ActivityQueueMyActive, ActivityQueueRevealRequired,
               ActivityQueueExpiredAttention, ActivityQueueHistory])
        in sortActivityItems (concat (map (\<lambda>candidateQueue.
             filter (\<lambda>item. matchesActivitySearch pa item trimmedQuery) (queue queues candidateQueue)) searchQueues)))"

definition Search :: "parse_addr \<Rightarrow> instant \<Rightarrow> wallet \<Rightarrow> string \<Rightarrow> string \<Rightarrow> int \<Rightarrow> int
    \<Rightarrow> (PlayerActivityGame list \<times> PlayerActivitySummary \<times> int) option act" where
  "Search pa now walletAddress rawQuery queueScope limit0 offset uc =
     (let trimmedQuery = TrimSpace rawQuery in
      if offset < 0 then failA ErrInvalidActivityOffset uc
      else if queueScope \<noteq> '''' \<and> \<not> IsValidActivityQueueKey queueScope then failA ErrInvalidActivityQueueKey uc
      else if trimmedQuery = '''' then returnA (Some ([], buildPlayerActivitySummary walletAddress newActivityQueueMap, 0)) uc
      else let limit = normalizeLimit (act_config uc) limit0 in
        bindA (buildQueues pa now walletAddress) (\<lambda>(summary, queues).
          let matchedItems = filterActivitySearchItems pa queues queueScope trimmedQuery in
          returnA (map_option (\<lambda>pagedItems. (pagedItems, summary, int (length matchedItems)))
            (paginateActivityItems matchedItems limit offset))) uc)"

section \<open>Runs\<close>

text \<open>What a successful step did, and what every step leaves alone.\<close>

lemma act_Inr:
  "returnA x uc = (Inr y, uc', bs) \<longleftrightarrow> y = x \<and> uc' = uc \<and> bs = []"
  "failA err uc = (Inr y, uc', bs) \<longleftrightarrow> False"
  "readA f uc = (Inr y, uc', bs) \<longleftrightarrow> f (act_gameRepo uc) = Inr y \<and> uc' = uc \<and> bs = []"
  by (auto simp: returnA_def failA_def readA_def)

lemma wrapA_Inr: "wrapA msg m uc = (Inr y, uc', bs) \<longleftrightarrow> m uc = (Inr y, uc', bs)"
  by (auto simp: wrapA_def split: prod.split sum.split)

lemma bindA_Inr:
  "bindA m f uc = (Inr y, uc', bs) \<longleftrightarrow>
     (\<exists>x uc1 b1 b2. m uc = (Inr x, uc1, b1) \<and> f x uc1 = (Inr y, uc', b2) \<and> bs = b1 @ b2)"
  by (auto simp: bindA_def split: prod.split sum.split)

lemmas act_run = act_Inr wrapA_Inr bindA_Inr

definition framed :: "activity_uc \<Rightarrow> activity_uc \<Rightarrow> bool" where
  "framed uc uc' \<longleftrightarrow> act_gameRepo uc' = act_gameRepo uc \<and> act_reservationUC uc' = act_reservationUC uc
     \<and> act_cancelReservationUC uc' = act_cancelReservationUC uc \<and> act_revealReservationUC uc' = act_revealReservationUC uc
     \<and> act_config uc' = act_config uc"

lemma framed_refl [simp]: "framed uc uc"
  by (simp add: framed_def)

lemma framed_trans: "framed a b \<Longrightarrow> framed b c \<Longrightarrow> framed a c"
  by (simp add: framed_def)

text \<open>The active claim of a use case that may be absent.\<close>

definition held_by :: "claim_store option \<Rightarrow> instant \<Rightarrow> int \<Rightarrow> GameReservation option" where
  "held_by s now k = (case s of None \<Rightarrow> None | Some st \<Rightarrow> active_claim st now k)"

lemma findClaim_append: "findClaim (xs @ ys) ty = (case findClaim xs ty of None \<Rightarrow> findClaim ys ty | Some c \<Rightarrow> Some c)"
  by (induction xs) auto

lemma findClaim_entry:
  "findClaim (active_entry ty now (active_claim st now k)) ty' =
     (if ty = ty' then map_option (\<lambda>r. \<lparr>ac_ClaimType = ty, ac_GameID = r_GameID r, ac_HolderWallet = r_WalletAddress r,
         ac_Status = ActionClaimStatusActive, ac_CreatedAt = r_CreatedAt r, ac_ExpiresAt = r_ExpiresAt r, ac_ReleaseReason = []\<rparr>)
       (active_claim st now k) else None)"
  by (auto simp: active_entry_def active_claim_def split: option.split)

lemma findClaim_other: "ty \<noteq> ty' \<Longrightarrow> findClaim (active_entry ty now r) ty' = None"
  by (auto simp: active_entry_def split: option.split)

lemma loadClaims_run:
  assumes "loadClaims pa now k uc = (Inr claims, uc', bs)"
  shows "framed uc uc'"
    "map_option ac_HolderWallet (findClaim claims ActionClaimTypeJoin) = map_option r_WalletAddress (held_by (act_reservationUC uc) now k)"
    "map_option ac_HolderWallet (findClaim claims ActionClaimTypeCancel) = map_option r_WalletAddress (held_by (act_cancelReservationUC uc) now k)"
    "map_option ac_HolderWallet (findClaim claims ActionClaimTypeReveal) = map_option r_WalletAddress (held_by (act_revealReservationUC uc) now k)"
  using assms
  by (auto simp: loadClaims_def Let_def framed_def held_by_def findClaim_append findClaim_entry findClaim_other claim_simps
      option.map_comp comp_def split: option.splits prod.splits sum.splits)

lemma loadClaims_none:
  assumes "loadClaims pa now k uc = (Inr claims, uc', bs)"
  shows "findClaim claims ActionClaimTypeJoin = None \<longleftrightarrow> held_by (act_reservationUC uc) now k = None"
    "findClaim claims ActionClaimTypeCancel = None \<longleftrightarrow> held_by (act_cancelReservationUC uc) now k = None"
    "findClaim claims ActionClaimTypeReveal = None \<longleftrightarrow> held_by (act_revealReservationUC uc) now k = None"
  using loadClaims_run(2-4) [OF assms] by (metis option.map_disc_iff)+

text \<open>Which queue owns a game, for the wallet with the given normal form.\<close>

definition player_queue :: "parse_addr \<Rightarrow> string \<Rightarrow> Game \<Rightarrow> string option" where
  "player_queue pa n g =
     (if g_Status g = 1 then Some ActivityQueueMyActive
      else if g_Status g = 2 then Some (if playerNeedsReveal pa (Some g) n then ActivityQueueRevealRequired else ActivityQueueMyActive)
      else if g_Status g = 3 then Some ActivityQueueExpiredAttention
      else if g_Status g = 4 then Some ActivityQueueHistory
      else None)"

definition queue_of :: "parse_addr \<Rightarrow> string \<Rightarrow> Game \<Rightarrow> string option" where
  "queue_of pa n g =
     (if n \<noteq> [] \<and> isGameParticipant pa g n then player_queue pa n g
      else if g_Status g = 1 then Some ActivityQueueJoinable else None)"

text \<open>What an item tells about its game, given the claims at the start of the call.\<close>

definition item_ok :: "activity_uc \<Rightarrow> instant \<Rightarrow> string \<Rightarrow> PlayerActivityGame \<Rightarrow> bool" where
  "item_ok uc now key item \<longleftrightarrow> pag_QueueKey item = key \<and> pag_LatestActivityAt item = latestGameActivity (Some (pag_Game item))
     \<and> (pag_NextAction item = ActivityNextActionJoin \<longleftrightarrow> key = ActivityQueueJoinable
          \<and> held_by (act_reservationUC uc) now (g_GameID (pag_Game item)) = None
          \<and> held_by (act_cancelReservationUC uc) now (g_GameID (pag_Game item)) = None)
     \<and> (pag_NextAction item = ActivityNextActionReveal \<longleftrightarrow> key = ActivityQueueRevealRequired
          \<and> held_by (act_revealReservationUC uc) now (g_GameID (pag_Game item)) = None)"

lemma item_ok_framed: "framed uc uc' \<Longrightarrow> item_ok uc' now key item = item_ok uc now key item"
  by (simp add: framed_def item_ok_def)

lemma joinable_item_run:
  assumes "buildJoinableItem pa now g n uc = (Inr item, uc', bs)"
  shows "framed uc uc' \<and> pag_Game item = g \<and> item_ok uc now ActivityQueueJoinable item"
proof -
  obtain claims where c: "loadClaims pa now (g_GameID g) uc = (Inr claims, uc', bs)"
    using assms by (auto simp: buildJoinableItem_def act_run Let_def case_prod_beta)
  show ?thesis
    using assms loadClaims_run(1) [OF c] loadClaims_none [OF c] c
    by (auto simp: buildJoinableItem_def act_run item_ok_def Let_def case_prod_beta split: option.splits)
qed

lemma player_item_run:
  assumes "buildPlayerItem pa now g n uc = (Inr r, uc', bs)"
  shows "framed uc uc' \<and> (case r of None \<Rightarrow> player_queue pa n g = None
     | Some item \<Rightarrow> pag_Game item = g \<and> player_queue pa n g = Some (pag_QueueKey item) \<and> item_ok uc now (pag_QueueKey item) item)"
proof -
  obtain claims where c: "loadClaims pa now (g_GameID g) uc = (Inr claims, uc', bs)"
    using assms by (auto simp: buildPlayerItem_def player_item_def act_run split: prod.splits if_splits)
  show ?thesis
    using assms loadClaims_run(1) [OF c] loadClaims_none [OF c] c
    by (auto simp: buildPlayerItem_def player_item_def act_run item_ok_def player_queue_def resolveWaitingLobbyNextAction_def
        resolveRevealNextAction_def resolveExpiredFollowUpNextAction_def split: prod.splits option.splits if_splits)
qed

lemma queue_enqueue: "queue (enqueue k item qs) k' = (if k' = k then queue qs k @ [item] else queue qs k')"
  by (simp add: queue_def enqueue_def)

lemma joinable_loop_run:
  "joinable_loop pa now n gs qs uc = (Inr qs', uc', bs) \<Longrightarrow> framed uc uc'
     \<and> (\<forall>k. map pag_Game (queue qs' k) = map pag_Game (queue qs k) @
          (if k = ActivityQueueJoinable then filter (\<lambda>g. \<not> (n \<noteq> [] \<and> isGameParticipant pa g n)) gs else []))
     \<and> (\<forall>k. (\<forall>i \<in> set (queue qs k). item_ok uc now k i) \<longrightarrow> (\<forall>i \<in> set (queue qs' k). item_ok uc now k i))"
proof (induction gs arbitrary: qs uc bs)
  case Nil
  then show ?case by (simp add: act_run)
next
  case (Cons g gs)
  show ?case
  proof (cases "n \<noteq> [] \<and> isGameParticipant pa g n")
    case True
    then show ?thesis using Cons.IH [of qs uc bs] Cons.prems by simp
  next
    case False
    with Cons.prems obtain item uc1 b1 b2 where item: "buildJoinableItem pa now g n uc = (Inr item, uc1, b1)"
      and rest: "joinable_loop pa now n gs (enqueue ActivityQueueJoinable item qs) uc1 = (Inr qs', uc', b2)"
      by (auto simp: act_run split: if_splits)
    note I = joinable_item_run [OF item]
    note L = Cons.IH [OF rest]
    have "framed uc uc'" using I L framed_trans by blast
    moreover have "map pag_Game (queue qs' k) = map pag_Game (queue qs k) @
        (if k = ActivityQueueJoinable then filter (\<lambda>g. \<not> (n \<noteq> [] \<and> isGameParticipant pa g n)) (g # gs) else [])" for k
      using L [THEN conjunct2, THEN conjunct1, rule_format, of k] I False by (cases "k = ActivityQueueJoinable") (simp_all add: queue_enqueue)
    moreover have "\<forall>i \<in> set (queue qs' k). item_ok uc now k i" if "\<forall>i \<in> set (queue qs k). item_ok uc now k i" for k
      using L [THEN conjunct2, THEN conjunct2, rule_format, of k] I that item_ok_framed [of uc uc1]
      by (cases "k = ActivityQueueJoinable") (auto simp: queue_enqueue)
    ultimately show ?thesis by blast
  qed
qed

lemma player_loop_run:
  "player_loop pa now n gs qs uc = (Inr qs', uc', bs) \<Longrightarrow> framed uc uc'
     \<and> (\<forall>k. map pag_Game (queue qs' k) = map pag_Game (queue qs k) @ filter (\<lambda>g. player_queue pa n g = Some k) gs)
     \<and> (\<forall>k. (\<forall>i \<in> set (queue qs k). item_ok uc now k i) \<longrightarrow> (\<forall>i \<in> set (queue qs' k). item_ok uc now k i))"
proof (induction gs arbitrary: qs uc bs)
  case Nil
  then show ?case by (simp add: act_run)
next
  case (Cons g gs)
  from Cons.prems obtain r uc1 b1 b2 where item: "buildPlayerItem pa now g n uc = (Inr r, uc1, b1)"
    and rest: "(case r of None \<Rightarrow> player_loop pa now n gs qs | Some item \<Rightarrow>
        player_loop pa now n gs (enqueue (pag_QueueKey item) item qs)) uc1 = (Inr qs', uc', b2)"
    by (auto simp: act_run)
  show ?case
  proof (cases r)
    case None
    then show ?thesis
      using player_item_run [OF item] Cons.IH [of qs uc1 b2] rest by (auto simp: item_ok_framed intro: framed_trans)
  next
    case (Some i)
    have I: "framed uc uc1" "pag_Game i = g" "player_queue pa n g = Some (pag_QueueKey i)" "item_ok uc now (pag_QueueKey i) i"
      using player_item_run [OF item] Some by auto
    note L = Cons.IH [of "enqueue (pag_QueueKey i) i qs" uc1 b2, OF rest [unfolded Some option.case]]
    have "framed uc uc'" using I L framed_trans by blast
    moreover have "map pag_Game (queue qs' k) = map pag_Game (queue qs k) @ filter (\<lambda>g. player_queue pa n g = Some k) (g # gs)" for k
      using L [THEN conjunct2, THEN conjunct1, rule_format, of k] I by (cases "k = pag_QueueKey i") (simp_all add: queue_enqueue)
    moreover have "\<forall>j \<in> set (queue qs' k). item_ok uc now k j" if "\<forall>j \<in> set (queue qs k). item_ok uc now k j" for k
      using L [THEN conjunct2, THEN conjunct2, rule_format, of k] I that item_ok_framed [of uc uc1]
      by (cases "k = pag_QueueKey i") (auto simp: queue_enqueue)
    ultimately show ?thesis by blast
  qed
qed

section \<open>The repository as the use case sees it\<close>

text \<open>
  What the use case relies on when it reads games: a read by status and, for a wallet the repository
  knows in every spelling, a read by player return exactly the matching games.
\<close>

locale game_reader =
  fixes pa :: parse_addr and games :: "Game list" and repo :: game_reads and known :: "wallet \<Rightarrow> bool"
  assumes by_status: "gr_GetByStatus repo s = Inr gs \<Longrightarrow> mset gs = filter_mset (\<lambda>g. g_Status g = s) (mset games)"
    and by_player: "known w \<Longrightarrow> gr_GetByPlayerAndStatuses repo w sts = Inr gs \<Longrightarrow>
      mset gs = filter_mset (\<lambda>g. isGameParticipant pa g (normalizeReservationWallet pa w) \<and> g_Status g \<in> set sts) (mset games)"
begin

lemma queues_partition:
  assumes run: "buildQueues pa now w uc = (Inr (summary, qs), uc', bs)" and "act_gameRepo uc = repo"
    and known: "normalizeReservationWallet pa w \<noteq> [] \<Longrightarrow> known w"
  shows "mset (map pag_Game (queue qs k)) = filter_mset (\<lambda>g. queue_of pa (normalizeReservationWallet pa w) g = Some k) (mset games)"
    "i \<in> set (queue qs k) \<Longrightarrow> item_ok uc now k i"
    "summary = buildPlayerActivitySummary w qs"
    "sorted_wrt (\<lambda>a b. pag_LatestActivityAt b \<le> pag_LatestActivityAt a) (queue qs k)"
    "framed uc uc'"
proof -
  define n where "n = normalizeReservationWallet pa w"
  obtain jgs q1 uc1 b1 q2 b2 where j: "gr_GetByStatus repo 1 = Inr jgs"
    and l1: "joinable_loop pa now n jgs newActivityQueueMap uc = (Inr q1, uc1, b1)"
    and p: "populatePlayerQueues pa now w n q1 uc1 = (Inr q2, uc', b2)"
    and qs: "qs = (\<lambda>key. map_option sortActivityItems (q2 key))" and s: "summary = buildPlayerActivitySummary w qs"
    using run assms(2) by (auto simp: buildQueues_def populateJoinableQueue_def act_run Let_def n_def)
  note J = joinable_loop_run [OF l1]
  have repo1: "act_gameRepo uc1 = repo" using J assms(2) by (simp add: framed_def)
  have empty: "queue newActivityQueueMap key = []" for key by (simp add: queue_def newActivityQueueMap_def)
  have q_sort: "queue qs key = sortActivityItems (queue q2 key)" for key
    by (simp add: qs queue_def sortActivityItems_def split: option.split)
  have P: "framed uc1 uc' \<and> (\<forall>key. mset (map pag_Game (queue q2 key)) = mset (map pag_Game (queue q1 key))
        + filter_mset (\<lambda>g. n \<noteq> [] \<and> isGameParticipant pa g n \<and> player_queue pa n g = Some key) (mset games))
      \<and> (\<forall>key. (\<forall>i \<in> set (queue q1 key). item_ok uc1 now key i) \<longrightarrow> (\<forall>i \<in> set (queue q2 key). item_ok uc1 now key i))"
  proof (cases "n = []")
    case True
    with p show ?thesis by (auto simp: populatePlayerQueues_def act_run)
  next
    case False
    with p obtain pgs b3 where r: "gr_GetByPlayerAndStatuses repo w [1, 2, 3, 4] = Inr pgs"
      and l2: "player_loop pa now n pgs q1 uc1 = (Inr q2, uc', b3)"
      by (auto simp: populatePlayerQueues_def act_run repo1)
    have m: "mset pgs = filter_mset (\<lambda>g. isGameParticipant pa g n \<and> g_Status g \<in> set [1, 2, 3, 4]) (mset games)"
      using by_player [OF known r] False by (simp add: n_def)
    have "mset (filter (\<lambda>g. player_queue pa n g = Some key) pgs)
        = filter_mset (\<lambda>g. n \<noteq> [] \<and> isGameParticipant pa g n \<and> player_queue pa n g = Some key) (mset games)" for key
      unfolding mset_filter m using False
      by (auto simp: filter_filter_mset player_queue_def intro!: filter_mset_cong)
    note sel = this
    note L = player_loop_run [OF l2]
    have "mset (map pag_Game (queue q2 key)) = mset (map pag_Game (queue q1 key))
        + filter_mset (\<lambda>g. n \<noteq> [] \<and> isGameParticipant pa g n \<and> player_queue pa n g = Some key) (mset games)" for key
      using L [THEN conjunct2, THEN conjunct1, rule_format, of key] sel [of key] by (simp only: mset_append)
    then show ?thesis using L by blast
  qed
  have jm: "mset (map pag_Game (queue q1 key)) = (if key = ActivityQueueJoinable
      then filter_mset (\<lambda>g. g_Status g = 1 \<and> \<not> (n \<noteq> [] \<and> isGameParticipant pa g n)) (mset games) else {#})" for key
    using J [THEN conjunct2, THEN conjunct1, rule_format, of key] by_status [OF j] empty [of key]
    by (auto simp: filter_filter_mset conj_commute simp flip: mset_map)
  have "mset (map pag_Game (queue qs k)) = mset (map pag_Game (queue q2 k))"
    by (simp add: q_sort sortActivityItems_def mset_map)
  also have "\<dots> = filter_mset (\<lambda>g. queue_of pa n g = Some k) (mset games)"
  proof (cases "k = ActivityQueueJoinable")
    case True
    have "player_queue pa n g \<noteq> Some ActivityQueueJoinable" for g by (simp add: player_queue_def)
    with True P jm [of k] show ?thesis by (auto simp: queue_of_def intro!: filter_mset_cong)
  next
    case False
    with P jm [of k] show ?thesis by (auto simp: queue_of_def intro!: filter_mset_cong)
  qed
  finally show "mset (map pag_Game (queue qs k)) = filter_mset (\<lambda>g. queue_of pa (normalizeReservationWallet pa w) g = Some k) (mset games)"
    by (simp add: n_def)
  have "\<forall>i \<in> set (queue q2 k). item_ok uc now k i"
    using P [THEN conjunct2, THEN conjunct2, rule_format, of k] J [THEN conjunct2, THEN conjunct2, rule_format, of k]
      empty [of k] item_ok_framed [of uc uc1] J [THEN conjunct1] by simp
  then show "i \<in> set (queue qs k) \<Longrightarrow> item_ok uc now k i" by (simp add: q_sort sortActivityItems_def)
  show "summary = buildPlayerActivitySummary w qs" by (rule s)
  show "sorted_wrt (\<lambda>a b. pag_LatestActivityAt b \<le> pag_LatestActivityAt a) (queue qs k)"
    by (simp add: q_sort sortActivityItems_def sorted_stable_newest_first)
  show "framed uc uc'" using J P framed_trans by blast
qed

end

text \<open>The PostgreSQL repository, at a state of the database.\<close>

definition pg_reads :: "'a address_lib \<Rightarrow> db \<Rightarrow> game_reads" where
  "pg_reads lib db = \<lparr>gr_GetByID = (\<lambda>k. map_sum id Some (fst (GetByID k db))),
     gr_GetByStatus = (\<lambda>s. fst (GetByStatus s db)),
     gr_GetByPlayerAndStatuses = (\<lambda>w sts. fst (GetByPlayerAndStatuses lib w sts db))\<rparr>"

definition pg_known :: "'a address_lib \<Rightarrow> db \<Rightarrow> wallet \<Rightarrow> bool" where
  "pg_known lib db w \<longleftrightarrow> address_contract lib \<and> (\<exists>a. spells lib w a) \<and> (\<forall>g \<in> set (db_games db). players_stored lib g)"

lemma queryGames_Inr: "fst (queryGames p db) = Inr gs \<Longrightarrow> mset gs = filter_mset p (mset (db_games db))"
  by (auto simp: queryGames_def wrapDB_def statement_def Let_def split: option.splits)

interpretation pg_games: game_reader "raw_parser lib" "db_games db" "pg_reads lib db" "pg_known lib db" for lib :: "'a address_lib" and db
proof (unfold_locales, goal_cases)
  case (1 s gs)
  then show ?case by (simp add: pg_reads_def GetByStatus_def queryGames_Inr)
next
  case (2 w sts gs)
  then obtain a where lib: "address_contract lib" and w: "spells lib w a" and st: "\<forall>g \<in> set (db_games db). players_stored lib g"
    by (auto simp: pg_known_def)
  obtain p where p: "buildPlayerAddressPredicate lib w = Some p"
    "\<And>g. players_stored lib g \<Longrightarrow> p g \<longleftrightarrow> isGameParticipant (raw_parser lib) g (normalizeReservationWallet (raw_parser lib) w)"
    by (rule player_predicate [OF lib w]) blast
  show ?case
  proof (cases "sts = []")
    case True
    with 2 show ?thesis by (simp add: pg_reads_def GetByPlayerAndStatuses_def returnDB_def)
  next
    case False
    with 2 p(1) have "mset gs = filter_mset (\<lambda>g. p g \<and> g_Status g \<in> set sts) (mset (db_games db))"
      by (intro queryGames_Inr) (simp add: pg_reads_def GetByPlayerAndStatuses_def)
    with p(2) st show ?thesis by (auto intro!: filter_mset_cong)
  qed
qed

section \<open>Properties\<close>

text \<open>Sound limits: positive ones in the configuration, and fewer games than an \<open>int\<close> can count.\<close>

definition page_limits_ok :: "GameActivityConfig \<Rightarrow> nat \<Rightarrow> bool" where
  "page_limits_ok cfg games_n \<longleftrightarrow> 0 < DefaultLimit cfg \<and> 0 < MaxLimit cfg
     \<and> int games_n + DefaultLimit cfg < 2 ^ 63 \<and> int games_n + MaxLimit cfg < 2 ^ 63"

lemma normalizeLimit_bounds:
  assumes "page_limits_ok cfg games_n"
  shows "0 < normalizeLimit cfg limit" "int games_n + normalizeLimit cfg limit < 2 ^ 63"
  using assms by (auto simp: page_limits_ok_def normalizeLimit_def)

lemma paginate_in_range:
  assumes "0 \<le> offset" "0 < limit" "int games_n + limit < 2 ^ 63" "length xs \<le> games_n"
  shows "paginate xs limit offset = Some (take (nat limit) (drop (nat offset) xs))"
proof (cases "offset < int (length xs)")
  case True
  with assms show ?thesis by (intro paginate_page) (auto simp: in_i64_def)
next
  case False
  then show ?thesis by (simp add: paginate_def)
qed

lemma size_filter_mset: "size (filter_mset P (mset xs)) \<le> length xs"
  by (metis length_filter_le mset_filter size_mset)

lemma games_in_queue: "mset (map pag_Game items) = M \<Longrightarrow> length items = size M"
  by (metis length_map size_mset)

lemma GetQueue_run:
  assumes "GetQueue pa now key w limit0 offset uc = (Inr r, uc', bs)"
  obtains summary qs where "IsValidActivityQueueKey key" "0 \<le> offset"
    "buildQueues pa now w uc = (Inr (summary, qs), uc', bs)"
    "r = map_option (\<lambda>paged. (\<lparr>gq_Key = key, gq_Title = ActivityQueueTitle key, gq_AttentionRequired = QueueRequiresAttention key,
       gq_TotalCount = int (length (queue qs key)), gq_Items = paged\<rparr>, summary))
       (paginate (queue qs key) (normalizeLimit (act_config uc) limit0) offset)"
  using assms that by (auto simp: GetQueue_def paginateActivityItems_def act_run Let_def split: if_splits)

text \<open>
  C24. A successful \<open>GetQueue\<close> for a wallet (or for no wallet) does not panic and returns a page of the
  requested queue, newest activity first. The queue holds exactly the stored games that the queue
  owns: the five queues are disjoint, a game the wallet takes part in is classified by its status and
  by the reveal that is still due, and the open games of others are joinable. The total and the five
  counts of the summary are the numbers of these games.
\<close>

theorem activity_queue_exact:
  fixes lib :: "'a address_lib"
  defines "pa \<equiv> raw_parser lib"
  assumes repo: "act_gameRepo uc = pg_reads lib db"
    and known: "normalizeReservationWallet pa w \<noteq> [] \<Longrightarrow> pg_known lib db w"
    and limits: "page_limits_ok (act_config uc) (length (db_games db))"
    and run: "GetQueue pa now key w limit offset uc = (Inr r, uc', bs)"
  shows "\<exists>q summary items. r = Some (q, summary) \<and> gq_Items q = take (nat (normalizeLimit (act_config uc) limit)) (drop (nat offset) items)
     \<and> mset (map pag_Game items) = filter_mset (\<lambda>g. queue_of pa (normalizeReservationWallet pa w) g = Some key) (mset (db_games db))
     \<and> sorted_wrt (\<lambda>a b. pag_LatestActivityAt b \<le> pag_LatestActivityAt a) items
     \<and> gq_TotalCount q = int (length items)
     \<and> [pas_JoinableCount summary, pas_MyActiveCount summary, pas_RevealRequiredCount summary,
        pas_ExpiredAttentionCount summary, pas_HistoryCount summary]
       = map (\<lambda>k. int (size (filter_mset (\<lambda>g. queue_of pa (normalizeReservationWallet pa w) g = Some k) (mset (db_games db)))))
           [ActivityQueueJoinable, ActivityQueueMyActive, ActivityQueueRevealRequired, ActivityQueueExpiredAttention, ActivityQueueHistory]"
proof -
  from GetQueue_run [OF run] obtain summary qs where off: "0 \<le> offset"
    and b: "buildQueues pa now w uc = (Inr (summary, qs), uc', bs)"
    and r: "r = map_option (\<lambda>paged. (\<lparr>gq_Key = key, gq_Title = ActivityQueueTitle key, gq_AttentionRequired = QueueRequiresAttention key,
       gq_TotalCount = int (length (queue qs key)), gq_Items = paged\<rparr>, summary))
       (paginate (queue qs key) (normalizeLimit (act_config uc) limit) offset)" by metis
  note Q = pg_games.queues_partition [OF b [unfolded pa_def] repo known [unfolded pa_def], folded pa_def]
  have len: "length (queue qs k) = size (filter_mset (\<lambda>g. queue_of pa (normalizeReservationWallet pa w) g = Some k) (mset (db_games db)))" for k
    by (rule games_in_queue [OF Q(1)])
  have "length (queue qs key) \<le> length (db_games db)"
    unfolding len by (rule size_filter_mset)
  then have page: "paginate (queue qs key) (normalizeLimit (act_config uc) limit) offset
      = Some (take (nat (normalizeLimit (act_config uc) limit)) (drop (nat offset) (queue qs key)))"
    using normalizeLimit_bounds [OF limits] off by (intro paginate_in_range)
  show ?thesis
    by (rule exI [of _ "\<lparr>gq_Key = key, gq_Title = ActivityQueueTitle key, gq_AttentionRequired = QueueRequiresAttention key,
       gq_TotalCount = int (length (queue qs key)),
       gq_Items = take (nat (normalizeLimit (act_config uc) limit)) (drop (nat offset) (queue qs key))\<rparr>"],
       rule exI [of _ summary], rule exI [of _ "queue qs key"])
      (simp add: r page Q(1) [unfolded mset_map] Q(4) Q(3) buildPlayerActivitySummary_def len)
qed

text \<open>
  C25. The joinable queue tells the truth about joining: for an item of the queue of a wallet below its
  reservation limit, the next action is "join" exactly when \<open>Reserve\<close> called for that game by that
  wallet at the same instant succeeds.
\<close>

theorem join_offer_succeeds:
  fixes lib :: "'a address_lib"
  defines "pa \<equiv> raw_parser lib"
  assumes repo: "act_gameRepo uc = pg_reads lib db" and join: "act_reservationUC uc = Some st"
    and wallet: "normalizeReservationWallet pa w \<noteq> []" "pg_known lib db w"
    and limit: "count_active now st (wallet_ids st (normalizeReservationWallet pa w)) < maxPerWallet st"
    and db: "distinct (map g_GameID (db_games db))" "db_fault db (db_tick db) = None"
    and limits: "page_limits_ok (act_config uc) (length (db_games db))"
    and run: "GetQueue pa now ActivityQueueJoinable w limit0 offset uc = (Inr (Some (q, summary)), uc', bs)"
    and item: "item \<in> set (gq_Items q)"
  shows "pag_NextAction item = ActivityNextActionJoin \<longleftrightarrow>
     (\<exists>claim. fst (Reserve pa (gr_GetByID (act_gameRepo uc)) (act_cancelReservationUC uc) now (g_GameID (pag_Game item)) w st) = Inr claim)"
proof -
  obtain summary' qs where "IsValidActivityQueueKey ActivityQueueJoinable" and off: "0 \<le> offset"
    and b: "buildQueues pa now w uc = (Inr (summary', qs), uc', bs)"
    and r: "Some (q, summary) = map_option (\<lambda>paged. (\<lparr>gq_Key = ActivityQueueJoinable, gq_Title = ActivityQueueTitle ActivityQueueJoinable,
       gq_AttentionRequired = QueueRequiresAttention ActivityQueueJoinable, gq_TotalCount = int (length (queue qs ActivityQueueJoinable)),
       gq_Items = paged\<rparr>, summary')) (paginate (queue qs ActivityQueueJoinable) (normalizeLimit (act_config uc) limit0) offset)"
    by (rule GetQueue_run [OF run])
  obtain paged where page: "paginate (queue qs ActivityQueueJoinable) (normalizeLimit (act_config uc) limit0) offset = Some paged"
    and items: "gq_Items q = paged"
    using r by (cases "paginate (queue qs ActivityQueueJoinable) (normalizeLimit (act_config uc) limit0) offset") auto
  note Q = pg_games.queues_partition [OF b [unfolded pa_def] repo wallet(2), folded pa_def]
  let ?g = "pag_Game item"
  have "item \<in> set (queue qs ActivityQueueJoinable)"
    using page item items by (auto simp: paginate_def go_slice_def Let_def dest!: in_set_takeD in_set_dropD split: if_splits)
  then have ok: "item_ok uc now ActivityQueueJoinable item" and "?g \<in># mset (map pag_Game (queue qs ActivityQueueJoinable))"
    using Q(2) by (auto simp: image_iff)
  then have g: "?g \<in> set (db_games db)" "queue_of pa (normalizeReservationWallet pa w) ?g = Some ActivityQueueJoinable"
    unfolding Q(1) by auto
  then have st1: "g_Status ?g = 1" and other: "normalizeReservationWallet pa (g_PlayerOneAddress ?g) \<noteq> normalizeReservationWallet pa w"
    using wallet(1) by (auto simp: queue_of_def player_queue_def isGameParticipant_iff split: if_splits)
  have "game_row db (g_GameID ?g) = Some ?g"
    using g(1) db(1) by (auto simp: game_row_def find_Some_iff in_set_conv_nth distinct_conv_nth)
      (metis (no_types, lifting) length_map nth_map order.strict_trans order_less_irrefl)
  then have read: "gr_GetByID (act_gameRepo uc) (g_GameID ?g) = Inr (Some ?g)"
    using db(2) by (simp add: repo pg_reads_def GetByID_def wrapDB_def statement_def Let_def game_row_def)
  show ?thesis
    using ok st1 other read limit join Reserve_check_ok [of pa "gr_GetByID (act_gameRepo uc)" "act_cancelReservationUC uc" now "g_GameID ?g" w]
      Reserve_commit_ok [of pa now "g_GameID ?g" w st "new_claim now st (g_GameID ?g) w"]
    by (auto simp: item_ok_def held_by_def claim_simps Reserve_def Reserve_commit_ok split: option.splits sum.splits)
qed

subsection \<open>Search\<close>

text \<open>
  When a game matches a query: the query is part of its number, names one of its players in any
  spelling, or is part of a player's address as stored or normalised, ignoring case.
\<close>

definition game_matches :: "parse_addr \<Rightarrow> string \<Rightarrow> Game \<Rightarrow> bool" where
  "game_matches pa q g \<longleftrightarrow> sublist (ToLower q) (FormatInt (g_GameID g))
     \<or> normalizeReservationWallet pa q \<noteq> [] \<and> isGameParticipant pa g (normalizeReservationWallet pa q)
     \<or> (\<exists>p. (p = g_PlayerOneAddress g \<or> g_PlayerTwoAddress g = Some p)
          \<and> (sublist (ToLower q) (ToLower p) \<or> sublist (ToLower q) (ToLower (normalizeReservationWallet pa p))))"

lemma ToLower_FormatInt: "ToLower (FormatInt k) = FormatInt k"
  using digits_solid(2) by (simp add: FormatInt_def ToLower_def lower_char_def)

lemma matches_game: "matchesActivitySearch pa item q = game_matches pa q (pag_Game item)"
proof -
  have "matchesActivitySearch pa item q \<longleftrightarrow> sublist (ToLower q) (FormatInt (g_GameID (pag_Game item)))
      \<or> normalizeReservationWallet pa q \<noteq> [] \<and> isGameParticipant pa (pag_Game item) (normalizeReservationWallet pa q)
      \<or> list_ex (\<lambda>c. sublist (ToLower q) (ToLower c)) (activitySearchCandidates pa (pag_Game item))"
    by (auto simp: matchesActivitySearch_def Let_def str_contains_sublist isGameParticipant_iff split: option.splits)
  then show ?thesis
    by (cases "g_PlayerTwoAddress (pag_Game item)")
      (auto simp: game_matches_def activitySearchCandidates_def ToLower_FormatInt)
qed

lemma mset_concat_classes:
  assumes "distinct ks" "\<And>k. k \<in> set ks \<Longrightarrow> mset (map f (xs k)) = filter_mset (\<lambda>g. h g = Some k \<and> P g) M"
  shows "mset (map f (concat (map xs ks))) = filter_mset (\<lambda>g. (\<exists>k \<in> set ks. h g = Some k) \<and> P g) M"
  using assms
proof (induction ks)
  case (Cons k ks)
  have "filter_mset (\<lambda>g. h g = Some k \<and> P g) M + filter_mset (\<lambda>g. (\<exists>k \<in> set ks. h g = Some k) \<and> P g) M
      = filter_mset (\<lambda>g. (\<exists>k \<in> set (k # ks). h g = Some k) \<and> P g) M"
    using Cons.prems(1) by (induction M) auto
  with Cons show ?case by simp
qed simp

lemma queue_of_keys:
  "(\<exists>k \<in> set [ActivityQueueJoinable, ActivityQueueMyActive, ActivityQueueRevealRequired, ActivityQueueExpiredAttention, ActivityQueueHistory].
     queue_of pa n g = Some k) \<longleftrightarrow> queue_of pa n g \<noteq> None"
  by (auto simp: queue_of_def player_queue_def)

text \<open>
  A successful search with a query that is not blank does not panic and returns a page, newest
  activity first, of exactly the games that the query matches among those that the queues of the
  wallet show, or that the one requested queue shows, and the number of all matches.
\<close>

theorem search_exact:
  fixes lib :: "'a address_lib"
  defines "pa \<equiv> raw_parser lib"
  assumes repo: "act_gameRepo uc = pg_reads lib db"
    and known: "normalizeReservationWallet pa w \<noteq> [] \<Longrightarrow> pg_known lib db w"
    and limits: "page_limits_ok (act_config uc) (length (db_games db))"
    and query: "TrimSpace q \<noteq> []"
    and run: "Search pa now w q scope limit offset uc = (Inr r, uc', bs)"
  shows "\<exists>items summary. r = Some (take (nat (normalizeLimit (act_config uc) limit)) (drop (nat offset) items), summary, int (length items))
     \<and> sorted_wrt (\<lambda>a b. pag_LatestActivityAt b \<le> pag_LatestActivityAt a) items
     \<and> mset (map pag_Game items) = filter_mset (\<lambda>g.
          (if scope = [] then queue_of pa (normalizeReservationWallet pa w) g \<noteq> None
           else queue_of pa (normalizeReservationWallet pa w) g = Some scope) \<and> game_matches pa (TrimSpace q) g) (mset (db_games db))"
proof -
  obtain summary qs where off: "0 \<le> offset" and b: "buildQueues pa now w uc = (Inr (summary, qs), uc', bs)"
    and r: "r = map_option (\<lambda>paged. (paged, summary, int (length (filterActivitySearchItems pa qs scope (TrimSpace q)))))
        (paginate (filterActivitySearchItems pa qs scope (TrimSpace q)) (normalizeLimit (act_config uc) limit) offset)"
    using run query by (auto simp: Search_def paginateActivityItems_def act_run Let_def split: if_splits)
  note Q = pg_games.queues_partition [OF b [unfolded pa_def] repo known [unfolded pa_def], folded pa_def]
  let ?n = "normalizeReservationWallet pa w"
  let ?items = "filterActivitySearchItems pa qs scope (TrimSpace q)"
  define keys where "keys = (if scope \<noteq> [] then [scope] else [ActivityQueueJoinable, ActivityQueueMyActive,
     ActivityQueueRevealRequired, ActivityQueueExpiredAttention, ActivityQueueHistory])"
  define hits where "hits k = filter (\<lambda>item. matchesActivitySearch pa item (TrimSpace q)) (queue qs k)" for k
  have items: "?items = sortActivityItems (concat (map hits keys))"
    using query by (simp add: filterActivitySearchItems_def keys_def hits_def Let_def)
  have hit: "mset (map pag_Game (hits k)) = filter_mset (\<lambda>g. queue_of pa ?n g = Some k \<and> game_matches pa (TrimSpace q) g) (mset (db_games db))" for k
    using arg_cong [OF Q(1) [of k], of "filter_mset (game_matches pa (TrimSpace q))"]
    by (simp add: hits_def matches_game filter_mset_image_mset filter_filter_mset conj_commute comp_def)
  have dist: "distinct keys" by (simp add: keys_def)
  have shown: "(\<exists>k \<in> set keys. queue_of pa ?n g = Some k)
      \<longleftrightarrow> (if scope = [] then queue_of pa ?n g \<noteq> None else queue_of pa ?n g = Some scope)" for g
  proof (cases "scope = []")
    case True
    then show ?thesis unfolding keys_def by (simp only: queue_of_keys simp_thms if_True if_False)
  next
    case False
    then show ?thesis by (simp add: keys_def)
  qed
  have "mset (map pag_Game ?items) = mset (map pag_Game (concat (map hits keys)))" by (simp add: items sortActivityItems_def)
  also have "\<dots> = filter_mset (\<lambda>g. (\<exists>k \<in> set keys. queue_of pa ?n g = Some k) \<and> game_matches pa (TrimSpace q) g) (mset (db_games db))"
    by (rule mset_concat_classes [OF dist hit])
  also have "\<dots> = filter_mset (\<lambda>g. (if scope = [] then queue_of pa ?n g \<noteq> None else queue_of pa ?n g = Some scope)
      \<and> game_matches pa (TrimSpace q) g) (mset (db_games db))"
    by (intro filter_mset_cong refl arg_cong2 [where f = conj] shown)
  finally have games: "mset (map pag_Game ?items) = filter_mset (\<lambda>g. (if scope = [] then queue_of pa ?n g \<noteq> None else queue_of pa ?n g = Some scope)
      \<and> game_matches pa (TrimSpace q) g) (mset (db_games db))" .
  have "length ?items \<le> length (db_games db)"
    unfolding games_in_queue [OF games] by (rule size_filter_mset)
  then have page: "paginate ?items (normalizeLimit (act_config uc) limit) offset
      = Some (take (nat (normalizeLimit (act_config uc) limit)) (drop (nat offset) ?items))"
    using normalizeLimit_bounds [OF limits] off by (intro paginate_in_range)
  have "sorted_wrt (\<lambda>a b. pag_LatestActivityAt b \<le> pag_LatestActivityAt a) ?items"
    by (simp add: items sortActivityItems_def sorted_stable_newest_first)
  with r page games show ?thesis by (intro exI [of _ ?items] exI [of _ summary]) simp
qed

subsection \<open>A concrete call\<close>

definition demo_activity :: activity_uc where
  "demo_activity = NewGameActivityUseCase (pg_reads demo_lib demo_db)
     (Some (NewReservationUseCase True \<lparr>MaxPerWallet = 3, TimeoutSeconds = 60, CleanupIntervalSeconds = 5\<rparr>)) None None
     \<lparr>DefaultLimit = 0, MaxLimit = 0\<rparr>"

lemma demo_wallets:
  "normalizeReservationWallet (raw_parser demo_lib) ''0:7'' = ''0:7''"
  "normalizeReservationWallet (raw_parser demo_lib) ''EQ7'' = ''0:7''"
  "normalizeReservationWallet (raw_parser demo_lib) ''EQ8'' = ''0:8''"
  by code_simp+

lemma demo_known: "pg_known demo_lib demo_db ''0:7''"
proof -
  have "spells demo_lib ''0:7'' (False, True, 7)" unfolding spells_def by (rule disjI1) code_simp
  then show ?thesis using demo_lib_contract demo_stored by (auto simp: pg_known_def)
qed

lemma demo_activity_ok:
  "act_gameRepo demo_activity = pg_reads demo_lib demo_db" "page_limits_ok (act_config demo_activity) (length (db_games demo_db))"
  by (simp_all add: demo_activity_def NewGameActivityUseCase_def page_limits_ok_def demo_db_def)

lemma runs_to: "\<not> isl (fst x) \<Longrightarrow> (\<And>r uc' bs. x = (Inr r, uc', bs) \<Longrightarrow> thesis) \<Longrightarrow> thesis"
  by (cases x; cases "fst x") auto

theorem activity_queue_exact_witness:
  "\<exists>q summary uc' bs. GetQueue (raw_parser demo_lib) 5 ''joinable'' ''0:7'' 0 0 demo_activity = (Inr (Some (q, summary)), uc', bs)
     \<and> gq_TotalCount q = 1 \<and> pas_MyActiveCount summary = 1 \<and> pas_RevealRequiredCount summary = 1"
proof -
  have "\<not> isl (fst (GetQueue (raw_parser demo_lib) 5 ''joinable'' ''0:7'' 0 0 demo_activity))" by code_simp
  then obtain r uc' bs where run: "GetQueue (raw_parser demo_lib) 5 ''joinable'' ''0:7'' 0 0 demo_activity = (Inr r, uc', bs)"
    by (rule runs_to)
  have classes: "size (filter_mset (\<lambda>g. queue_of (raw_parser demo_lib) ''0:7'' g = Some ActivityQueueJoinable) (mset (db_games demo_db))) = 1"
    "size (filter_mset (\<lambda>g. queue_of (raw_parser demo_lib) ''0:7'' g = Some ActivityQueueMyActive) (mset (db_games demo_db))) = 1"
    "size (filter_mset (\<lambda>g. queue_of (raw_parser demo_lib) ''0:7'' g = Some ActivityQueueRevealRequired) (mset (db_games demo_db))) = 1"
    by (simp_all add: demo_db_def demo_game_def queue_of_def player_queue_def playerNeedsReveal_def isGameParticipant_iff demo_wallets)
  obtain q summary and items :: "PlayerActivityGame list" where R: "r = Some (q, summary)" "gq_TotalCount q = int (length items)"
    "mset (map pag_Game items) = filter_mset (\<lambda>g. queue_of (raw_parser demo_lib) ''0:7'' g = Some ActivityQueueJoinable) (mset (db_games demo_db))"
    "[pas_JoinableCount summary, pas_MyActiveCount summary, pas_RevealRequiredCount summary,
        pas_ExpiredAttentionCount summary, pas_HistoryCount summary]
       = map (\<lambda>k. int (size (filter_mset (\<lambda>g. queue_of (raw_parser demo_lib) ''0:7'' g = Some k) (mset (db_games demo_db)))))
           [ActivityQueueJoinable, ActivityQueueMyActive, ActivityQueueRevealRequired, ActivityQueueExpiredAttention, ActivityQueueHistory]"
    using activity_queue_exact [OF demo_activity_ok(1) demo_known demo_activity_ok(2) run, unfolded demo_wallets(1)]
    by (elim exE conjE) (rule that, assumption+)
  have "length items = 1" using games_in_queue [OF R(3)] classes(1) by simp
  moreover have "pas_MyActiveCount summary = 1" "pas_RevealRequiredCount summary = 1"
    using R(4) classes(2,3) by (simp_all only: list.map list.inject)
  ultimately show ?thesis using run R(1,2) by (intro exI [of _ q] exI [of _ summary] exI [of _ uc'] exI [of _ bs]) simp
qed

theorem join_offer_succeeds_witness:
  "case GetQueue (raw_parser demo_lib) 5 ''joinable'' ''0:7'' 0 0 demo_activity of
     (Inr (Some (q, summary)), _) \<Rightarrow> (case gq_Items q of item # _ \<Rightarrow>
         \<exists>claim. fst (Reserve (raw_parser demo_lib) (gr_GetByID (pg_reads demo_lib demo_db)) None 5 (g_GameID (pag_Game item)) ''0:7''
           (NewReservationUseCase True \<lparr>MaxPerWallet = 3, TimeoutSeconds = 60, CleanupIntervalSeconds = 5\<rparr>)) = Inr claim
       | [] \<Rightarrow> False)
   | _ \<Rightarrow> False"
proof -
  let ?st = "NewReservationUseCase True \<lparr>MaxPerWallet = 3, TimeoutSeconds = 60, CleanupIntervalSeconds = 5\<rparr>"
  have ev: "case GetQueue (raw_parser demo_lib) 5 ''joinable'' ''0:7'' 0 0 demo_activity of
      (Inr (Some (q, summary)), _) \<Rightarrow> (case gq_Items q of item # _ \<Rightarrow> pag_NextAction item = ActivityNextActionJoin | [] \<Rightarrow> False) | _ \<Rightarrow> False"
    by code_simp
  have "\<not> isl (fst (GetQueue (raw_parser demo_lib) 5 ''joinable'' ''0:7'' 0 0 demo_activity))" by code_simp
  then obtain r uc' bs where run0: "GetQueue (raw_parser demo_lib) 5 ''joinable'' ''0:7'' 0 0 demo_activity = (Inr r, uc', bs)"
    by (rule runs_to)
  obtain q summary where r: "r = Some (q, summary)" using ev by (cases r) (auto simp: run0)
  obtain item rest where item: "gq_Items q = item # rest" "pag_NextAction item = ActivityNextActionJoin"
    using ev by (cases "gq_Items q") (auto simp: run0 r)
  note run = run0 [unfolded r]
  have st: "act_reservationUC demo_activity = Some ?st" "act_cancelReservationUC demo_activity = None"
    by (simp_all add: demo_activity_def NewGameActivityUseCase_def)
  have "count_active 5 ?st (wallet_ids ?st ''0:7'') < maxPerWallet ?st" by code_simp
  then show ?thesis
    using join_offer_succeeds [OF demo_activity_ok(1) st(1) _ demo_known _ _ _ demo_activity_ok(2) run, of item] item run st(2)
    by (simp add: demo_wallets demo_activity_ok(1)) (simp add: demo_db_def demo_game_def)
qed

theorem search_exact_witness:
  "\<exists>page summary uc' bs. Search (raw_parser demo_lib) 5 ''0:7'' '' 2 '' [] 0 0 demo_activity = (Inr (Some (page, summary, 1)), uc', bs)"
proof -
  have "\<not> isl (fst (Search (raw_parser demo_lib) 5 ''0:7'' '' 2 '' [] 0 0 demo_activity))" by code_simp
  then obtain r uc' bs where run: "Search (raw_parser demo_lib) 5 ''0:7'' '' 2 '' [] 0 0 demo_activity = (Inr r, uc', bs)"
    by (rule runs_to)
  have q: "TrimSpace '' 2 '' = ''2''" "TrimSpace '' 2 '' \<noteq> []" by code_simp+
  have hits: "map (\<lambda>g. queue_of (raw_parser demo_lib) ''0:7'' g \<noteq> None \<and> game_matches (raw_parser demo_lib) ''2'' g) (db_games demo_db)
      = [False, True, False]"
  proof -
    have m: "game_matches pa q g = matchesActivitySearch pa \<lparr>pag_Game = g, pag_QueueKey = [], pag_NextAction = ActivityNextActionJoin,
        pag_RequiresAttention = False, pag_IsOwnedByPlayer = False, pag_LatestActivityAt = 0, pag_ActiveClaims = []\<rparr> q" for pa q g
      by (simp add: matches_game)
    show ?thesis unfolding m by code_simp
  qed
  obtain items :: "PlayerActivityGame list" and summary where R: "r = Some (take (nat (normalizeLimit (act_config demo_activity) 0)) (drop (nat 0) items), summary, int (length items))"
    "mset (map pag_Game items) = filter_mset (\<lambda>g. queue_of (raw_parser demo_lib) ''0:7'' g \<noteq> None \<and> game_matches (raw_parser demo_lib) ''2'' g)
        (mset (db_games demo_db))"
    using search_exact [OF demo_activity_ok(1) demo_known demo_activity_ok(2) q(2) run, unfolded demo_wallets(1) q(1)]
    by (simp only: simp_thms if_True) (elim exE conjE, rule that, assumption+)
  have "length items = 1" using games_in_queue [OF R(2)] hits by (simp add: demo_db_def)
  then show ?thesis using run R(1) by auto
qed

end
