(* ===== verification/Ws_Client.thy ===== *)
theory Ws_Client
  imports Poller
begin

text \<open>
  The WebSocket client of TON Center, \<open>internal/infrastructure/toncenter/websocket_client.go\<close>:
  connecting, subscribing, the read loop with its reconnection and back-off, message handling,
  the health check of the ping loop, and stopping. The network is a parameter of each operation:
  what parsing the URL, dialling and writing answer, and the time. JSON decoding is the parameter
  \<open>ws_json\<close>. The read loop and the ping loop run in goroutines of their own; the unit of
  interleaving is one round of a loop. A round of the read loop may call \<open>onFallback\<close>; the
  call is its last action but the sleep, so a round reports it in its result.
\<close>

abbreviation WSBackoffInitial :: duration where "WSBackoffInitial \<equiv> 1000000000"
abbreviation WSBackoffMax :: duration where "WSBackoffMax \<equiv> 16000000000"
abbreviation WSPingInterval :: duration where "WSPingInterval \<equiv> 30000000000"
abbreviation WSPongTimeout :: duration where "WSPongTimeout \<equiv> 10000000000"
abbreviation Second :: duration where "Second \<equiv> 1000000000"

record ws_client =
  wc_wsURL :: string
  wc_contractAddress :: string
  wc_conn :: bool              \<comment> \<open>\<open>conn != nil\<close>\<close>
  wc_isConnected :: bool
  wc_subscribed :: bool
  wc_stopped :: bool           \<comment> \<open>\<open>stopped\<close>, and \<open>stopCh\<close> is closed\<close>
  wc_subscriptionID :: string
  wc_reconnectAttempt :: int
  wc_maxReconnect :: int
  wc_pingInterval :: duration
  wc_lastPong :: instant

record WebSocketConfig =
  wcfg_WSURL :: string
  wcfg_ContractAddress :: string
  wcfg_MaxReconnect :: int
  wcfg_PingInterval :: duration

record ws_net =
  net_url :: "error option"    \<comment> \<open>\<open>url.Parse\<close>\<close>
  net_dial :: "error option"   \<comment> \<open>\<open>DialContext\<close>\<close>
  net_write :: "error option"  \<comment> \<open>\<open>WriteJSON\<close>, \<open>WriteMessage\<close>\<close>
  net_now :: instant

definition NewWebSocketClient :: "WebSocketConfig \<Rightarrow> ws_client" where
  "NewWebSocketClient cfg = \<lparr>wc_wsURL = wcfg_WSURL cfg, wc_contractAddress = wcfg_ContractAddress cfg,
     wc_conn = False, wc_isConnected = False, wc_subscribed = False, wc_stopped = False, wc_subscriptionID = '''',
     wc_reconnectAttempt = 0, wc_maxReconnect = (if wcfg_MaxReconnect cfg = 0 then 10 else wcfg_MaxReconnect cfg),
     wc_pingInterval = (if wcfg_PingInterval cfg = 0 then WSPingInterval else wcfg_PingInterval cfg), wc_lastPong = 0\<rparr>"

definition Connect :: "ws_net \<Rightarrow> ws_client \<Rightarrow> error option \<times> ws_client" where
  "Connect net c =
     (if wc_isConnected c then (None, c)
      else case net_url net of
          Some err \<Rightarrow> (Some (Wrapf ''invalid WebSocket URL'' err), c)
        | None \<Rightarrow> (case net_dial net of
            Some err \<Rightarrow> (Some (Wrapf ''WebSocket dial failed'' err), c)
          | None \<Rightarrow> (None, c\<lparr>wc_conn := True, wc_isConnected := True, wc_reconnectAttempt := 0,
                              wc_lastPong := net_now net\<rparr>)))"

definition Client_Subscribe :: "ws_net \<Rightarrow> ws_client \<Rightarrow> error option \<times> ws_client" where
  "Client_Subscribe net c =
     (if \<not> wc_conn c \<or> \<not> wc_isConnected c then (Some (ErrorString ''not connected to WebSocket''), c)
      else case net_write net of
          Some err \<Rightarrow> (Some (Wrapf ''failed to send subscription'' err), c)
        | None \<Rightarrow> (None, c\<lparr>wc_subscribed := True\<rparr>))"

text \<open>
  \<open>disconnecting\<close> only keeps two goroutines from entering \<open>handleDisconnect\<close> at the
  same time.
\<close>

definition handleDisconnect :: "ws_client \<Rightarrow> ws_client" where
  "handleDisconnect c = (if \<not> wc_isConnected c then c
     else c\<lparr>wc_isConnected := False, wc_subscribed := False, wc_conn := False\<rparr>)"

text \<open>The loop \<open>for i := 1; i < c.reconnectAttempt; i++\<close> with the number of rounds left.\<close>

fun backoff_loop :: "nat \<Rightarrow> duration \<Rightarrow> duration" where
  "backoff_loop 0 b = b"
| "backoff_loop (Suc n) b = (let b' = i64 (b * 2) in if b' > WSBackoffMax then WSBackoffMax else backoff_loop n b')"

definition reconnect_backoff :: "int \<Rightarrow> duration" where
  "reconnect_backoff attempt = backoff_loop (nat (attempt - 1)) WSBackoffInitial"

text \<open>The result: the error, the client, the time slept and whether \<open>onFallback\<close> is called.\<close>

definition reconnect :: "ws_net \<Rightarrow> ws_client \<Rightarrow> error option \<times> ws_client \<times> duration \<times> bool" where
  "reconnect net c0 =
     (let c = c0\<lparr>wc_reconnectAttempt := i64 (wc_reconnectAttempt c0 + 1)\<rparr> in
      if wc_reconnectAttempt c > wc_maxReconnect c
      then (Some (ErrorString ''max reconnection attempts exceeded''), c, 0, True)
      else let d = reconnect_backoff (wc_reconnectAttempt c) in
        case Connect net c of
          (Some err, c') \<Rightarrow> (Some err, c', d, False)
        | (None, c') \<Rightarrow> (case Client_Subscribe net c' of
            (Some err, c'') \<Rightarrow> (Some err, handleDisconnect c'', d, False)
          | (None, c'') \<Rightarrow> (None, c'', d, False)))"

section \<open>Messages\<close>

record WebSocketMessage =
  wm_Method :: string
  wm_Params :: "string option"
  wm_Result :: "string option"
  wm_Error :: "(int \<times> string) option"   \<comment> \<open>\<open>*WSError\<close>: code and message\<close>

record ws_json =
  js_message :: "string \<Rightarrow> error + WebSocketMessage"
  js_subscription :: "string \<Rightarrow> error + string"        \<comment> \<open>\<open>result.Subscription\<close>\<close>
  js_notification :: "string \<Rightarrow> error + Transaction"   \<comment> \<open>\<open>TransactionNotification.Result\<close>\<close>

definition confirmation :: "ws_json \<Rightarrow> WebSocketMessage \<Rightarrow> string option" where
  "confirmation js msg = (case wm_Result msg of
       None \<Rightarrow> None
     | Some raw \<Rightarrow> if wm_Method msg \<noteq> '''' then None
         else case js_subscription js raw of Inl e \<Rightarrow> None | Inr sub \<Rightarrow> if sub = '''' then None else Some sub)"

text \<open>An error of the event handler is logged and dropped.\<close>

definition processMessage :: "ws_json \<Rightarrow> 's tx_handler \<Rightarrow> string \<Rightarrow> ws_client \<Rightarrow> 's
    \<Rightarrow> error option \<times> ws_client \<times> 's" where
  "processMessage js handler raw c s = (case js_message js raw of
       Inl err \<Rightarrow> (Some (Wrapf ''failed to parse WebSocket message'' err), c, s)
     | Inr msg \<Rightarrow> (case wm_Error msg of
         Some (code, m) \<Rightarrow> (Some (ErrorString (''WebSocket error ['' @ FormatInt code @ '']: '' @ m)), c, s)
       | None \<Rightarrow> (case confirmation js msg of
           Some sub \<Rightarrow> (None, c\<lparr>wc_subscriptionID := sub\<rparr>, s)
         | None \<Rightarrow> (case wm_Params msg of
             Some params \<Rightarrow>
               if wm_Method msg = ''subscription''
               then (case js_notification js params of
                   Inl err \<Rightarrow> (Some (Wrapf ''failed to parse transaction notification'' err), c, s)
                 | Inr tx \<Rightarrow> (None, c, snd (handler tx s)))
               else (None, c, s)
           | None \<Rightarrow> (None, c, s)))))"

section \<open>The loops\<close>

text \<open>\<open>conn.ReadMessage\<close> answers a text or an error; a client without a connection does not ask.\<close>

definition readMessage :: "error + string \<Rightarrow> ws_client \<Rightarrow> error + string" where
  "readMessage rd c = (if \<not> wc_conn c then Inl (ErrorString ''connection is nil'') else rd)"

definition read_message_step :: "ws_json \<Rightarrow> 's tx_handler \<Rightarrow> error + string \<Rightarrow> ws_client \<Rightarrow> 's \<Rightarrow> ws_client \<times> 's" where
  "read_message_step js handler rd c s = (case readMessage rd c of
       Inl err \<Rightarrow> (handleDisconnect c, s)
     | Inr raw \<Rightarrow> (case processMessage js handler raw c s of (err, c', s') \<Rightarrow> (c', s')))"

text \<open>
  One round of \<open>readLoop\<close> whose context is not done and whose client is not stopped: the
  client, the handler's state, the time slept and whether \<open>onFallback\<close> is called.
\<close>

definition readLoop_round :: "ws_json \<Rightarrow> ws_net \<Rightarrow> 's tx_handler \<Rightarrow> error + string \<Rightarrow> ws_client \<Rightarrow> 's
    \<Rightarrow> ws_client \<times> 's \<times> duration \<times> bool" where
  "readLoop_round js net handler rd c s =
     (if wc_isConnected c
      then (case read_message_step js handler rd c s of (c', s') \<Rightarrow> (c', s', 0, False))
      else case reconnect net c of
          (Some err, c', d, fb) \<Rightarrow> (c', s, d + Second, fb)
        | (None, c', d, fb) \<Rightarrow>
            (case read_message_step js handler rd c' s of (c'', s') \<Rightarrow> (c'', s', d, fb)))"

definition pingLoop_round :: "ws_net \<Rightarrow> ws_client \<Rightarrow> ws_client" where
  "pingLoop_round net c =
     (if \<not> wc_isConnected c then c
      else if wc_conn c \<and> net_write net \<noteq> None then handleDisconnect c
      else if net_now net - wc_lastPong c > i64 (wc_pingInterval c + WSPongTimeout) then handleDisconnect c
      else c)"

definition pong :: "instant \<Rightarrow> ws_client \<Rightarrow> ws_client" where
  "pong now c = c\<lparr>wc_lastPong := now\<rparr>"

definition Client_Stop :: "ws_client \<Rightarrow> ws_client" where
  "Client_Stop c = (if wc_stopped c then c
     else c\<lparr>wc_stopped := True, wc_conn := False, wc_isConnected := False, wc_subscribed := False\<rparr>)"

section \<open>Reconnecting\<close>

lemma backoff_loop_eq: "k \<le> 4 \<Longrightarrow> backoff_loop n (2 ^ k * Second) = 2 ^ min (n + k) 4 * Second"
proof (induction n arbitrary: k)
  case 0
  then show ?case by (simp add: min_absorb1)
next
  case (Suc n)
  have "k = 0 \<or> k = 1 \<or> k = 2 \<or> k = 3 \<or> k = 4" using Suc.prems by linarith
  then have dbl: "i64 (2 ^ k * Second * 2) = 2 ^ Suc k * Second" by (elim disjE) (simp_all add: i64_def)
  show ?case
  proof (cases "k = 4")
    case True
    then show ?thesis by (simp add: i64_def)
  next
    case False
    with Suc.prems have "k \<le> 3" by simp
    then have "(2 :: int) ^ Suc k \<le> 2 ^ 4" by (intro power_increasing) simp_all
    then have "\<not> 2 ^ Suc k * Second > WSBackoffMax" by simp
    then show ?thesis using Suc.IH [of "Suc k"] \<open>k \<le> 3\<close>
      by (simp only: backoff_loop.simps Let_def dbl if_False add_Suc add_Suc_right)
  qed
qed

text \<open>The waits are 1, 2, 4, 8 and from then on 16 seconds.\<close>

lemma reconnect_backoff_eq: "reconnect_backoff a = 2 ^ min (nat (a - 1)) 4 * Second"
  using backoff_loop_eq [of 0 "nat (a - 1)"] by (simp add: reconnect_backoff_def)

lemma reconnect_backoff_le: "0 < reconnect_backoff a \<and> reconnect_backoff a \<le> WSBackoffMax"
proof -
  have "(2 :: int) ^ min (nat (a - 1)) 4 \<le> 2 ^ 4" by (intro power_increasing) simp_all
  then show ?thesis by (simp add: reconnect_backoff_eq)
qed

text \<open>A round in which the client cannot connect, and one in which it cannot subscribe.\<close>

definition unreachable :: "ws_net \<Rightarrow> bool" where
  "unreachable net \<longleftrightarrow> net_url net \<noteq> None \<or> net_dial net \<noteq> None"

definition mute :: "ws_net \<Rightarrow> bool" where
  "mute net \<longleftrightarrow> net_url net = None \<and> net_dial net = None \<and> net_write net \<noteq> None"

lemma round_unreachable:
  assumes "\<not> wc_isConnected c" "unreachable net" "0 \<le> wc_reconnectAttempt c" "wc_reconnectAttempt c \<le> wc_maxReconnect c"
    "in_i64 (wc_maxReconnect c + 1)"
  shows "readLoop_round js net h rd c s =
    (c\<lparr>wc_reconnectAttempt := wc_reconnectAttempt c + 1\<rparr>, s,
     if wc_reconnectAttempt c = wc_maxReconnect c then Second else reconnect_backoff (wc_reconnectAttempt c + 1) + Second,
     wc_reconnectAttempt c = wc_maxReconnect c)"
proof -
  have "in_i64 (wc_reconnectAttempt c + 1)" using assms(3-5) by (simp add: in_i64_def)
  then show ?thesis using assms(1-4)
    by (auto simp: readLoop_round_def reconnect_def Connect_def unreachable_def Let_def split: option.splits)
qed

lemma round_mute:
  assumes "\<not> wc_isConnected c" "mute net" "wc_reconnectAttempt c = 0" "1 \<le> wc_maxReconnect c"
  shows "\<exists>c' d. readLoop_round js net h rd c s = (c', s, d, False) \<and> \<not> wc_isConnected c'
     \<and> wc_reconnectAttempt c' = 0 \<and> wc_maxReconnect c' = wc_maxReconnect c"
  using assms
  by (auto simp: readLoop_round_def reconnect_def Connect_def Client_Subscribe_def handleDisconnect_def mute_def Let_def i64_def
      split: option.splits)

section \<open>Rounds of the read loop\<close>

text \<open>
  The read loop over the answers of the network, until \<open>onFallback\<close> is called: the
  client, the handler's state, the time slept and whether it was called.
\<close>

fun read_rounds :: "ws_json \<Rightarrow> 's tx_handler \<Rightarrow> (ws_net \<times> (error + string)) list \<Rightarrow> ws_client \<Rightarrow> 's
    \<Rightarrow> ws_client \<times> 's \<times> duration \<times> bool" where
  "read_rounds js h [] c s = (c, s, 0, False)"
| "read_rounds js h ((net, rd) # rs) c s = (case readLoop_round js net h rd c s of
     (c', s', d, fb) \<Rightarrow> if fb then (c', s', d, True)
       else case read_rounds js h rs c' s' of (c'', s'', d', fb') \<Rightarrow> (c'', s'', d + d', fb'))"

text \<open>The time slept in \<open>n\<close> failed attempts, the first of which is number \<open>a + 1\<close>.\<close>

fun failed_waits :: "nat \<Rightarrow> int \<Rightarrow> duration" where
  "failed_waits 0 a = 0"
| "failed_waits (Suc n) a = 2 ^ min (nat a) 4 * Second + Second + failed_waits n (a + 1)"

lemma failed_waits_le: "failed_waits n a \<le> int n * (17 * Second)"
proof (induction n arbitrary: a)
  case (Suc n)
  have "(2 :: int) ^ min (nat a) 4 \<le> 2 ^ 4" by (intro power_increasing) simp_all
  then show ?case using Suc.IH [of "a + 1"] by simp
qed simp

text \<open>
  C31. The fallback is called exactly when the attempts are used up. A disconnected client that
  has made \<open>reconnectAttempt\<close> attempts and cannot connect in any of the rounds \<open>rs\<close>
  has called it if and only if there were more than \<open>maxReconnect - reconnectAttempt\<close>
  rounds: each of that many first rounds is a failed attempt, the next round finds the limit
  exceeded and calls it, without dialling, and ends the loop. The attempt counter and the time
  slept are exact: 1, 2, 4, 8, 16, 16, ... seconds by the number of the attempt and one second
  per failed round, so at most 17 seconds for each attempt left and one second.
\<close>

theorem fallback_reached:
  assumes "\<not> wc_isConnected c" "0 \<le> wc_reconnectAttempt c" "wc_reconnectAttempt c \<le> wc_maxReconnect c"
    "in_i64 (wc_maxReconnect c + 1)" "\<forall>(net, rd) \<in> set rs. unreachable net"
    "left = nat (wc_maxReconnect c - wc_reconnectAttempt c)"
  shows "read_rounds js h rs c s =
      (c\<lparr>wc_reconnectAttempt := wc_reconnectAttempt c + int (min (length rs) (left + 1))\<rparr>, s,
       failed_waits (min (length rs) left) (wc_reconnectAttempt c) + (if left < length rs then Second else 0),
       left < length rs)
    \<and> failed_waits (min (length rs) left) (wc_reconnectAttempt c) \<le> int left * (17 * Second)"
proof
  show "read_rounds js h rs c s =
      (c\<lparr>wc_reconnectAttempt := wc_reconnectAttempt c + int (min (length rs) (left + 1))\<rparr>, s,
       failed_waits (min (length rs) left) (wc_reconnectAttempt c) + (if left < length rs then Second else 0),
       left < length rs)"
    using assms
  proof (induction rs arbitrary: c left)
    case (Cons x rs)
    obtain net rd where x: "x = (net, rd)" by (cases x)
    let ?c = "c\<lparr>wc_reconnectAttempt := wc_reconnectAttempt c + 1\<rparr>"
    from Cons.prems x have un: "unreachable net" by simp
    note round = round_unreachable [OF Cons.prems(1) un Cons.prems(2-4), of js h rd s]
    show ?case
    proof (cases "wc_reconnectAttempt c = wc_maxReconnect c")
      case True
      with round x Cons.prems(6) show ?thesis by simp
    next
      case False
      then obtain m where m: "left = Suc m" "m = nat (wc_maxReconnect ?c - wc_reconnectAttempt ?c)"
        using Cons.prems(3,6) by (cases left) auto
      have "read_rounds js h rs ?c s =
          (?c\<lparr>wc_reconnectAttempt := wc_reconnectAttempt ?c + int (min (length rs) (m + 1))\<rparr>, s,
           failed_waits (min (length rs) m) (wc_reconnectAttempt ?c) + (if m < length rs then Second else 0),
           m < length rs)"
        by (rule Cons.IH) (use Cons.prems False m in auto)
      then show ?thesis using False round x m(1)
        by (simp add: reconnect_backoff_eq algebra_simps)
    qed
  qed simp
next
  have "int (min (length rs) left) * (17 * Second) \<le> int left * (17 * Second)" by simp
  then show "failed_waits (min (length rs) left) (wc_reconnectAttempt c) \<le> int left * (17 * Second)"
    using failed_waits_le [of "min (length rs) left" "wc_reconnectAttempt c"] by linarith
qed

definition demo_client :: ws_client where
  "demo_client = NewWebSocketClient \<lparr>wcfg_WSURL = ''wss://ton'', wcfg_ContractAddress = ''EQC'', wcfg_MaxReconnect = 3,
     wcfg_PingInterval = 0\<rparr>"

definition refused :: ws_net where
  "refused = \<lparr>net_url = None, net_dial = Some (ErrorString ''refused''), net_write = None, net_now = 0\<rparr>"

definition demo_json :: ws_json where
  "demo_json = \<lparr>js_message = (\<lambda>raw. Inr \<lparr>wm_Method = ''subscription'', wm_Params = Some raw, wm_Result = None, wm_Error = None\<rparr>),
     js_subscription = (\<lambda>raw. Inr raw), js_notification = (\<lambda>raw. Inl (ErrorString raw))\<rparr>"

theorem fallback_reached_witness:
  "read_rounds demo_json (\<lambda>tx s. (None, s)) (replicate 4 (refused, Inr [])) demo_client ()
     = (demo_client\<lparr>wc_reconnectAttempt := 4\<rparr>, (), 11 * Second, True)
   \<and> read_rounds demo_json (\<lambda>tx s. (None, s)) (replicate 3 (refused, Inr [])) demo_client ()
     = (demo_client\<lparr>wc_reconnectAttempt := 3\<rparr>, (), 10 * Second, False)"
  using fallback_reached [of demo_client "replicate 4 (refused, Inr [])" 3 demo_json "\<lambda>tx s. (None, s)" "()"]
    fallback_reached [of demo_client "replicate 3 (refused, Inr [])" 3 demo_json "\<lambda>tx s. (None, s)" "()"]
  by (simp add: demo_client_def NewWebSocketClient_def in_i64_def unreachable_def refused_def eval_nat_numeral)

text \<open>
  When connections succeed but subscriptions cannot be sent, connecting resets the attempts,
  so the fallback is never called, however many rounds fail.
\<close>

theorem mute_server_never_falls_back:
  assumes "\<not> wc_isConnected c" "wc_reconnectAttempt c = 0" "1 \<le> wc_maxReconnect c" "\<forall>(net, rd) \<in> set rs. mute net"
  shows "\<exists>c' T. read_rounds js h rs c s = (c', s, T, False)"
  using assms
proof (induction rs arbitrary: c)
  case (Cons x rs)
  obtain net rd where x: "x = (net, rd)" by (cases x)
  with Cons.prems have "mute net" by simp
  from round_mute [OF Cons.prems(1) this Cons.prems(2,3), of js h rd s]
  obtain c' d where c': "readLoop_round js net h rd c s = (c', s, d, False)" "\<not> wc_isConnected c'"
      "wc_reconnectAttempt c' = 0" "wc_maxReconnect c' = wc_maxReconnect c"
    by auto
  with Cons.IH [of c'] Cons.prems x show ?case by fastforce
qed simp

end
