(* ===== verification/Source_Factory.thy ===== *)
theory Source_Factory
  imports Ws_Client Event_Sources
begin

text \<open>
  The life cycle of the event sources: \<open>internal/infrastructure/toncenter/factory.go\<close>,
  starting and stopping in \<open>websocket_subscriber.go\<close> and \<open>poller.go\<close>, and
  \<open>internal/controller/blockchain/ton_event_handler.go\<close> that builds and drives them. The
  event sources are objects that the factory, the subscriber use case and goroutines refer to, so
  they live in a store and are named by their index. A context is a chain of cancellable
  children; the set of cancelled ones is part of the state. Callbacks that are always the same
  closure are flags. Goroutines are what the state says may still run: the loops of a source,
  the subscription that \<open>Start\<close> spawns, the notification of a fallback; a step of the
  runtime is one round of one of them. A call that panics or that waits for a lock its own
  goroutine holds has no next state.
\<close>

section \<open>State\<close>

datatype ctx = Background | WithCancel nat ctx

fun ctx_done :: "nat list \<Rightarrow> ctx \<Rightarrow> bool" where
  "ctx_done cancelled Background = False"
| "ctx_done cancelled (WithCancel i parent) = (i \<in> set cancelled \<or> ctx_done cancelled parent)"

text \<open>The two event handlers: the placeholder and the subscriber use case.\<close>

datatype handler_ref = TempHandler | SubscriberUC

record poller_source =
  ps_poller :: poller
  ps_handler :: handler_ref
  ps_isRunning :: bool
  ps_stopClosed :: bool
  ps_onLtUpdated :: bool
  ps_loop :: "ctx option"          \<comment> \<open>the goroutine of \<open>Start\<close> and its context\<close>

record ws_source =
  wss_client :: ws_client
  wss_handler :: "handler_ref option"
  wss_position :: ws_subscriber
  wss_onLtUpdated :: bool
  wss_ctx :: "ctx option"
  wss_loop :: bool                 \<comment> \<open>\<open>readLoop\<close> runs\<close>
  wss_pings :: bool                \<comment> \<open>\<open>pingLoop\<close> runs\<close>
  wss_fallbackTriggered :: bool    \<comment> \<open>the variables of the closure \<open>fallbackHandler\<close>\<close>
  wss_fallbackTo :: handler_ref

datatype source = PollerSource poller_source | WsSource ws_source

record FactoryConfig =
  fc_V3WSURL :: string
  fc_ContractAddress :: string
  fc_EnableWebSocket :: bool
  fc_EventSourceType :: string
  fc_MaxReconnect :: int
  fc_MinPollInterval :: duration
  fc_MaxPollInterval :: duration

record SyncCheckpoint =
  cp_LastProcessedLt :: string
  cp_EventSourceType :: string
  cp_EventSourceConnected :: bool

record 's runtime =
  rt_sources :: "source list"
  rt_config :: FactoryConfig
  rt_currentSource :: "nat option"
  rt_onLtUpdated :: bool
  rt_ucSource :: nat                     \<comment> \<open>\<open>subscriberUC.eventSource\<close>\<close>
  rt_ctx :: ctx                          \<comment> \<open>the handler's context\<close>
  rt_cancelled :: "nat list"
  rt_nextCtx :: nat
  rt_onCheckpoint :: bool
  rt_onFallback :: bool
  rt_subscribing :: bool                 \<comment> \<open>\<open>go subscriberUC.Subscribe\<close> has not run yet\<close>
  rt_starting :: bool                    \<comment> \<open>the checkpoint of \<open>Start\<close> has not been emitted yet\<close>
  rt_notifying :: nat                    \<comment> \<open>calls of \<open>go f.onFallback()\<close> that have not run yet\<close>
  rt_checkpoints :: "SyncCheckpoint list"  \<comment> \<open>the calls of \<open>onCheckpoint\<close>\<close>
  rt_fallbacks :: "SyncCheckpoint list"    \<comment> \<open>the calls of \<open>onFallback\<close>\<close>
  rt_state :: 's                         \<comment> \<open>the state the subscriber use case works on\<close>

datatype 'a outcome = Done 'a | Panics | Blocks

fun bindO :: "'a outcome \<Rightarrow> ('a \<Rightarrow> 'b outcome) \<Rightarrow> 'b outcome" where
  "bindO (Done x) f = f x"
| "bindO Panics f = Panics"
| "bindO Blocks f = Blocks"

text \<open>The handler a reference stands for, given the subscriber use case.\<close>

definition handler_of :: "'s tx_handler \<Rightarrow> handler_ref \<Rightarrow> 's tx_handler" where
  "handler_of uc h = (case h of TempHandler \<Rightarrow> (\<lambda>tx s. (None, s)) | SubscriberUC \<Rightarrow> uc)"

section \<open>The interface of an event source\<close>

definition Source_GetLastProcessedLt :: "source \<Rightarrow> string" where
  "Source_GetLastProcessedLt x = (case x of
     PollerSource p \<Rightarrow> GetLastProcessedLt (ps_poller p) | WsSource w \<Rightarrow> ws_lastProcessedLt (wss_position w))"

definition Source_SetLastProcessedLt :: "string \<Rightarrow> source \<Rightarrow> source" where
  "Source_SetLastProcessedLt lt x = (case x of
     PollerSource p \<Rightarrow> PollerSource (p\<lparr>ps_poller := SetLastProcessedLt lt (ps_poller p)\<rparr>)
   | WsSource w \<Rightarrow> WsSource (w\<lparr>wss_position := WS_SetLastProcessedLt lt (wss_position w)\<rparr>))"

definition Source_Subscribe :: "handler_ref \<Rightarrow> source \<Rightarrow> source" where
  "Source_Subscribe h x = (case x of
     PollerSource p \<Rightarrow> PollerSource (p\<lparr>ps_handler := h\<rparr>) | WsSource w \<Rightarrow> WsSource (w\<lparr>wss_handler := Some h\<rparr>))"

definition Source_IsConnected :: "source \<Rightarrow> bool" where
  "Source_IsConnected x = (case x of
     PollerSource p \<Rightarrow> ps_isRunning p | WsSource w \<Rightarrow> wc_isConnected (wss_client w))"

definition Source_GetSourceType :: "source \<Rightarrow> string" where
  "Source_GetSourceType x = (case x of PollerSource p \<Rightarrow> ''http'' | WsSource w \<Rightarrow> ''websocket'')"

definition Source_SetOnLtUpdated :: "source \<Rightarrow> source" where
  "Source_SetOnLtUpdated x = (case x of
     PollerSource p \<Rightarrow> PollerSource (p\<lparr>ps_onLtUpdated := True\<rparr>) | WsSource w \<Rightarrow> WsSource (w\<lparr>wss_onLtUpdated := True\<rparr>))"

text \<open>
  Stopping. The poller closes its channel, which panics when it is closed already; the
  WebSocket subscriber cancels the context it made and stops its client.
\<close>

definition put :: "nat \<Rightarrow> source \<Rightarrow> 's runtime \<Rightarrow> 's runtime" where
  "put i x st = st\<lparr>rt_sources := (rt_sources st)[i := x]\<rparr>"

definition cancel :: "ctx option \<Rightarrow> 's runtime \<Rightarrow> 's runtime" where
  "cancel c st = (case c of Some (WithCancel k parent) \<Rightarrow> st\<lparr>rt_cancelled := k # rt_cancelled st\<rparr> | _ \<Rightarrow> st)"

definition Source_Stop :: "nat \<Rightarrow> 's runtime \<Rightarrow> 's runtime outcome" where
  "Source_Stop i st = (case rt_sources st ! i of
     PollerSource p \<Rightarrow>
       if ps_stopClosed p then Panics
       else Done (put i (PollerSource (p\<lparr>ps_isRunning := False, ps_stopClosed := True\<rparr>)) st)
   | WsSource w \<Rightarrow>
       Done (put i (WsSource (w\<lparr>wss_client := Client_Stop (wss_client w)\<rparr>)) (cancel (wss_ctx w) st)))"

section \<open>The factory\<close>

definition new_source :: "source \<Rightarrow> 's runtime \<Rightarrow> nat \<times> 's runtime" where
  "new_source x st = (length (rt_sources st), st\<lparr>rt_sources := rt_sources st @ [x],
     rt_currentSource := Some (length (rt_sources st))\<rparr>)"

definition createHTTPPoller :: "handler_ref \<Rightarrow> 's runtime \<Rightarrow> nat \<times> 's runtime" where
  "createHTTPPoller h st = new_source (PollerSource \<lparr>
     ps_poller = NewPollerWithIntervals (fc_MinPollInterval (rt_config st)) (fc_MaxPollInterval (rt_config st)),
     ps_handler = h, ps_isRunning = False, ps_stopClosed = False, ps_onLtUpdated = False, ps_loop = None\<rparr>) st"

text \<open>
  \<open>NewWebSocketSubscriber\<close> with its client: the ping interval of the configuration is not
  passed on, and the subscriber uses the default.
\<close>

definition new_ws_source :: "handler_ref \<Rightarrow> FactoryConfig \<Rightarrow> ws_source" where
  "new_ws_source h cfg = \<lparr>wss_client = NewWebSocketClient \<lparr>wcfg_WSURL = fc_V3WSURL cfg,
       wcfg_ContractAddress = fc_ContractAddress cfg, wcfg_MaxReconnect = fc_MaxReconnect cfg,
       wcfg_PingInterval = WSPingInterval\<rparr>,
     wss_handler = Some h, wss_position = NewWebSocketSubscriber, wss_onLtUpdated = False, wss_ctx = None,
     wss_loop = False, wss_pings = False, wss_fallbackTriggered = False, wss_fallbackTo = h\<rparr>"

definition CreateEventSource :: "handler_ref \<Rightarrow> 's runtime \<Rightarrow> nat \<times> 's runtime" where
  "CreateEventSource h st =
     (if fc_EnableWebSocket (rt_config st) \<and> fc_EventSourceType (rt_config st) = ''websocket''
      then let x = WsSource (new_ws_source h (rt_config st))
           in new_source (if rt_onLtUpdated st then Source_SetOnLtUpdated x else x) st
      else createHTTPPoller h st)"

text \<open>\<open>Poller.Start\<close>: the ticker and the goroutine that selects on it.\<close>

definition Poller_Start :: "ctx \<Rightarrow> nat \<Rightarrow> 's runtime \<Rightarrow> 's runtime" where
  "Poller_Start c i st = (case rt_sources st ! i of
     PollerSource p \<Rightarrow> (case normalizePollIntervals (po_minInterval (ps_poller p)) (po_maxInterval (ps_poller p)) of (lo, hi) \<Rightarrow>
       let q = (ps_poller p)\<lparr>po_minInterval := lo, po_maxInterval := hi\<rparr>;
           q' = (if po_currentInterval q \<le> 0 then q\<lparr>po_currentInterval := hi\<rparr> else q)
       in put i (PollerSource (p\<lparr>ps_poller := q', ps_isRunning := True, ps_loop := Some c\<rparr>)) st)
   | WsSource w \<Rightarrow> st)"

definition start_poller_at :: "ctx \<Rightarrow> string \<Rightarrow> handler_ref \<Rightarrow> 's runtime \<Rightarrow> 's runtime" where
  "start_poller_at c lastLt h st0 = (case createHTTPPoller h st0 of (i, st) \<Rightarrow>
     let x = Source_SetLastProcessedLt lastLt (rt_sources st ! i);
         st1 = put i (if rt_onLtUpdated st then Source_SetOnLtUpdated x else x) st
     in Poller_Start c i st1)"

text \<open>
  \<open>fallbackToHTTP\<close> takes \<open>sourceMu\<close>, which the caller may hold. The context of the
  poller is read before the subscriber is stopped.
\<close>

definition fallbackToHTTP :: "bool \<Rightarrow> handler_ref \<Rightarrow> 's runtime \<Rightarrow> 's runtime outcome" where
  "fallbackToHTTP held h st =
     (if held then Blocks
      else bindO (case rt_currentSource st of
          None \<Rightarrow> Done st
        | Some i \<Rightarrow>
            let c = (case rt_sources st ! i of
                  WsSource w \<Rightarrow> (case wss_ctx w of Some k \<Rightarrow> k | None \<Rightarrow> Background) | PollerSource p \<Rightarrow> Background);
                lastLt = Source_GetLastProcessedLt (rt_sources st ! i)
            in bindO (Source_Stop i st) (\<lambda>st1. Done (start_poller_at c lastLt h st1)))
        (\<lambda>st2. Done (st2\<lparr>rt_notifying := Suc (rt_notifying st2)\<rparr>)))"

text \<open>The closure \<open>fallbackHandler\<close> of a WebSocket source.\<close>

definition run_fallback :: "bool \<Rightarrow> nat \<Rightarrow> 's runtime \<Rightarrow> 's runtime outcome" where
  "run_fallback held i st = (case rt_sources st ! i of
     WsSource w \<Rightarrow>
       if wss_fallbackTriggered w then Done st
       else fallbackToHTTP held (wss_fallbackTo w) (put i (WsSource (w\<lparr>wss_fallbackTriggered := True\<rparr>)) st)
   | PollerSource p \<Rightarrow> Done st)"

text \<open>\<open>WebSocketSubscriber.Start\<close>: an attempt to connect and subscribe that fails falls back.\<close>

definition Ws_Start :: "ws_net \<Rightarrow> bool \<Rightarrow> ctx \<Rightarrow> nat \<Rightarrow> 's runtime \<Rightarrow> 's runtime outcome" where
  "Ws_Start net held parent i st = (case rt_sources st ! i of
     PollerSource p \<Rightarrow> Done st
   | WsSource w \<Rightarrow>
       let st1 = st\<lparr>rt_nextCtx := Suc (rt_nextCtx st)\<rparr>;
           w1 = w\<lparr>wss_ctx := Some (WithCancel (rt_nextCtx st) parent)\<rparr>
       in case Connect net (wss_client w1) of
            (Some err, c) \<Rightarrow> run_fallback held i (put i (WsSource (w1\<lparr>wss_client := c\<rparr>)) st1)
          | (None, c) \<Rightarrow> (case Client_Subscribe net c of
              (Some err, c') \<Rightarrow> run_fallback held i (put i (WsSource (w1\<lparr>wss_client := c'\<rparr>)) st1)
            | (None, c') \<Rightarrow> Done (put i (WsSource (w1\<lparr>wss_client := c', wss_loop := True, wss_pings := True\<rparr>)) st1)))"

definition Source_Start :: "ws_net \<Rightarrow> bool \<Rightarrow> ctx \<Rightarrow> nat \<Rightarrow> 's runtime \<Rightarrow> 's runtime outcome" where
  "Source_Start net held c i st = (case rt_sources st ! i of
     PollerSource p \<Rightarrow> Done (Poller_Start c i st) | WsSource w \<Rightarrow> Ws_Start net held c i st)"

definition stop_current :: "'s runtime \<Rightarrow> (string \<times> 's runtime) outcome" where
  "stop_current st = (case rt_currentSource st of
     None \<Rightarrow> Done ('''', st)
   | Some i \<Rightarrow> bindO (Source_Stop i st) (\<lambda>st1. Done (Source_GetLastProcessedLt (rt_sources st ! i), st1)))"

definition SwitchToWebSocket :: "ws_net \<Rightarrow> ctx \<Rightarrow> handler_ref \<Rightarrow> 's runtime \<Rightarrow> (error option \<times> 's runtime) outcome" where
  "SwitchToWebSocket net c h st =
     (if \<not> fc_EnableWebSocket (rt_config st) then Done (Some (ErrorString ''WebSocket is not enabled in configuration''), st)
      else bindO (stop_current st) (\<lambda>(lastLt, st1).
        let x = Source_SetLastProcessedLt lastLt (WsSource (new_ws_source h (rt_config st1)))
        in case new_source (if rt_onLtUpdated st1 then Source_SetOnLtUpdated x else x) st1 of (i, st2) \<Rightarrow>
             bindO (Source_Start net True c i st2) (\<lambda>st3. Done (None, st3))))"

definition SwitchToHTTP :: "ctx \<Rightarrow> handler_ref \<Rightarrow> 's runtime \<Rightarrow> 's runtime outcome" where
  "SwitchToHTTP c h st = bindO (stop_current st) (\<lambda>(lastLt, st1). Done (start_poller_at c lastLt h st1))"

definition GetCurrentSourceType :: "'s runtime \<Rightarrow> string" where
  "GetCurrentSourceType st = (case rt_currentSource st of
     None \<Rightarrow> '''' | Some i \<Rightarrow> Source_GetSourceType (rt_sources st ! i))"

definition Factory_IsConnected :: "'s runtime \<Rightarrow> bool" where
  "Factory_IsConnected st = (case rt_currentSource st of
     None \<Rightarrow> False | Some i \<Rightarrow> Source_IsConnected (rt_sources st ! i))"

definition Factory_SetOnLtUpdated :: "'s runtime \<Rightarrow> 's runtime" where
  "Factory_SetOnLtUpdated st0 = (let st = st0\<lparr>rt_onLtUpdated := True\<rparr> in
     case rt_currentSource st of
       None \<Rightarrow> st | Some i \<Rightarrow> put i (Source_SetOnLtUpdated (rt_sources st ! i)) st)"

text \<open>
  \<open>SwitchToWebSocket\<close> holds \<open>sourceMu\<close> while it starts the subscriber; when the first
  connection fails, the fallback waits for the same lock, and the call never returns.
\<close>

theorem switch_to_websocket_blocks:
  assumes "fc_EnableWebSocket (rt_config st)" "stop_current st = Done (lastLt, st1)" "unreachable net"
  shows "SwitchToWebSocket net c h st = Blocks"
proof -
  define x where "x = (let x = Source_SetLastProcessedLt lastLt (WsSource (new_ws_source h (rt_config st1)))
    in if rt_onLtUpdated st1 then Source_SetOnLtUpdated x else x)"
  obtain i st2 where n: "new_source x st1 = (i, st2)" by (cases "new_source x st1")
  have i: "i < length (rt_sources st2)" "rt_sources st2 ! i = x" using n by (auto simp: new_source_def)
  obtain w where w: "x = WsSource w" "\<not> wss_fallbackTriggered w" "\<not> wc_isConnected (wss_client w)"
    by (cases "rt_onLtUpdated st1")
      (simp_all add: x_def Let_def Source_SetLastProcessedLt_def Source_SetOnLtUpdated_def new_ws_source_def NewWebSocketClient_def)
  obtain e where "Connect net (wss_client w) = (Some e, wss_client w)"
    using assms(3) w(3) by (cases "net_url net"; cases "net_dial net") (auto simp: Connect_def unreachable_def)
  then have "Source_Start net True c i st2 = Blocks"
    using i w(1,2) by (simp add: Source_Start_def Ws_Start_def Let_def run_fallback_def fallbackToHTTP_def put_def)
  then show ?thesis using assms n by (simp add: SwitchToWebSocket_def Let_def x_def)
qed

end
