(* ===== verification/Sync_State.thy ===== *)
theory Sync_State
  imports Database Ton_Transactions
begin

text \<open>
  The repository of the ingestion checkpoint,
  \<open>internal/repository/postgres/blockchain_sync_state_repository.go\<close>: the singleton row of
  the table \<open>blockchain_sync_state\<close> (migrations 4 and 6) with its nullable columns, its
  column lengths and the trigger on \<open>updated_at\<close>. The server is a parameter as in
  \<open>Database\<close>: the statements that fail by number. Its cast from text to \<open>numeric\<close> is
  the parameter \<open>sy_numeric\<close>; what the repository relies on is that a string of decimal digits
  is cast to the number it writes.
\<close>

record sync_row =
  sr_contract_address :: string
  sr_last_processed_block :: int
  sr_last_poll_timestamp :: instant
  sr_updated_at :: instant
  sr_event_source_type :: "string option"
  sr_last_processed_lt :: "string option"
  sr_last_processed_hash :: "string option"
  sr_websocket_connected :: "bool option"
  sr_fallback_count :: "int option"
  sr_last_fallback_at :: "instant option"

record sync_db =
  sy_row :: "sync_row option"     \<comment> \<open>the row with \<open>id = 1\<close>\<close>
  sy_now :: instant               \<comment> \<open>\<open>NOW()\<close>\<close>
  sy_tick :: nat                  \<comment> \<open>statements sent so far\<close>
  sy_fault :: "nat \<Rightarrow> string option"
  sy_numeric :: "string \<Rightarrow> rat option"

type_synonym 'a sync_op = "sync_db \<Rightarrow> (error + 'a) \<times> sync_db"

section \<open>Statements\<close>

text \<open>
  A statement may fail, and otherwise runs to completion; every method wraps its error with
  \<open>execute query\<close>.
\<close>

definition sync_statement :: "(sync_db \<Rightarrow> error + 'a \<times> sync_db) \<Rightarrow> 'a sync_op" where
  "sync_statement f db =
     (let db' = db\<lparr>sy_tick := Suc (sy_tick db)\<rparr> in
      case sy_fault db (sy_tick db) of
        Some msg \<Rightarrow> (Inl (Wrapf ''execute query'' (ErrorString msg)), db')
      | None \<Rightarrow> (case f db' of Inl e \<Rightarrow> (Inl (Wrapf ''execute query'' e), db') | Inr (x, db'') \<Rightarrow> (Inr x, db'')))"

text \<open>The lengths of the \<open>VARCHAR\<close> columns and the ranges of the integer columns.\<close>

definition sync_columns :: "sync_row \<Rightarrow> error option" where
  "sync_columns row =
     (if \<not> (fits 66 (sr_contract_address row) \<and> fits_opt 20 (sr_event_source_type row)
          \<and> fits_opt 32 (sr_last_processed_lt row)) then Some (sql_error ''22001'')
      else if \<not> in_i64 (sr_last_processed_block row) then Some (sql_error ''22003'')
      else case sr_fallback_count row of None \<Rightarrow> None
        | Some n \<Rightarrow> if in_int4 n then None else Some (sql_error ''22003''))"

text \<open>
  \<open>UPDATE blockchain_sync_state SET \<dots> WHERE id = 1\<close>, with the number of rows updated;
  the new row may fail to be computed.
\<close>

definition update_row :: "(sync_db \<Rightarrow> sync_row \<Rightarrow> error + sync_row) \<Rightarrow> int sync_op" where
  "update_row f = sync_statement (\<lambda>db. case sy_row db of
       None \<Rightarrow> Inr (0, db)
     | Some row \<Rightarrow> (case f db row of
           Inl e \<Rightarrow> Inl e
         | Inr row' \<Rightarrow> (case sync_columns row' of
               Some e \<Rightarrow> Inl e
             | None \<Rightarrow> Inr (1, db\<lparr>sy_row := Some (row'\<lparr>sr_updated_at := sy_now db\<rparr>)\<rparr>))))"

definition exec :: "int sync_op \<Rightarrow> unit sync_op" where
  "exec m db = (case m db of (Inl e, db') \<Rightarrow> (Inl e, db') | (Inr n, db') \<Rightarrow> (Inr (), db'))"

definition select_row :: "(sync_row \<Rightarrow> 'a) \<Rightarrow> 'a sync_op" where
  "select_row f = sync_statement (\<lambda>db. case sy_row db of None \<Rightarrow> Inl ErrNoRows | Some row \<Rightarrow> Inr (f row, db))"

section \<open>Reads\<close>

definition coalesce :: "'a option \<Rightarrow> 'a \<Rightarrow> 'a" where
  "coalesce x d = (case x of None \<Rightarrow> d | Some v \<Rightarrow> v)"

definition sync_state_of :: "sync_row \<Rightarrow> BlockchainSyncState" where
  "sync_state_of row = \<lparr>s_ID = 1, s_ContractAddress = sr_contract_address row,
     s_LastProcessedBlock = sr_last_processed_block row, s_LastPollTimestamp = sr_last_poll_timestamp row,
     s_UpdatedAt = sr_updated_at row, s_EventSourceType = coalesce (sr_event_source_type row) ''http'',
     s_LastProcessedLt = coalesce (sr_last_processed_lt row) ''0'',
     s_LastProcessedHash = coalesce (sr_last_processed_hash row) '''',
     s_WebSocketConnected = coalesce (sr_websocket_connected row) False,
     s_FallbackCount = coalesce (sr_fallback_count row) 0, s_LastFallbackAt = sr_last_fallback_at row\<rparr>"

definition Sync_Get :: "BlockchainSyncState sync_op" where
  "Sync_Get = select_row sync_state_of"

definition Sync_GetLastProcessedBlock :: "int sync_op" where
  "Sync_GetLastProcessedBlock = select_row sr_last_processed_block"

definition GetEventSourceType :: "string sync_op" where
  "GetEventSourceType = select_row (\<lambda>row. coalesce (sr_event_source_type row) ''http'')"

definition Sync_GetLastProcessedLt :: "string sync_op" where
  "Sync_GetLastProcessedLt = select_row (\<lambda>row. coalesce (sr_last_processed_lt row) ''0'')"

section \<open>Writes\<close>

definition UpdateLastProcessedBlock :: "instant \<Rightarrow> int \<Rightarrow> unit sync_op" where
  "UpdateLastProcessedBlock now blockNumber = exec (update_row (\<lambda>db row.
     Inr (row\<lparr>sr_last_processed_block := blockNumber, sr_last_poll_timestamp := now\<rparr>)))"

definition Initialize :: "string \<Rightarrow> int \<Rightarrow> unit sync_op" where
  "Initialize contractAddress startingBlock db =
     (case update_row (\<lambda>db row. Inr (row\<lparr>sr_contract_address := contractAddress,
          sr_last_processed_block := startingBlock\<rparr>)) db of
        (Inl e, db') \<Rightarrow> (Inl e, db')
      | (Inr n, db') \<Rightarrow>
          (if n = 0 then Inl (ErrorString ''blockchain_sync_state singleton row not found (id=1)'') else Inr (), db'))"

definition SetEventSourceType :: "string \<Rightarrow> bool \<Rightarrow> unit sync_op" where
  "SetEventSourceType sourceType isConnected = exec (update_row (\<lambda>db row.
     Inr (row\<lparr>sr_event_source_type := Some sourceType, sr_websocket_connected := Some isConnected\<rparr>)))"

text \<open>
  \<open>COALESCE(NULLIF(last_processed_lt, ''), '0')\<close>, and the comparison of the stored logical
  time with a new one as numbers, which fails on a text that is not a number.
\<close>

definition stored_lt :: "sync_row \<Rightarrow> string" where
  "stored_lt row = (let lt = coalesce (sr_last_processed_lt row) ''0'' in if lt = '''' then ''0'' else lt)"

definition numeric_le :: "sync_db \<Rightarrow> string \<Rightarrow> string \<Rightarrow> error + bool" where
  "numeric_le db a b = (case (sy_numeric db a, sy_numeric db b) of
     (Some x, Some y) \<Rightarrow> Inr (x \<le> y) | _ \<Rightarrow> Inl (sql_error ''22P02''))"

text \<open>The two \<open>CASE\<close> expressions have the same conditions: advance to the new time, or keep.\<close>

definition advance :: "instant \<Rightarrow> string \<Rightarrow> error + bool \<Rightarrow> sync_row \<Rightarrow> error + sync_row" where
  "advance now lt le row = (case le of
       Inl e \<Rightarrow> Inl e
     | Inr True \<Rightarrow> Inr (row\<lparr>sr_last_processed_lt := Some lt, sr_last_poll_timestamp := now\<rparr>)
     | Inr False \<Rightarrow> Inr (row\<lparr>sr_last_processed_lt := Some (stored_lt row)\<rparr>))"

definition UpdateLastProcessedLt :: "instant \<Rightarrow> string \<Rightarrow> unit sync_op" where
  "UpdateLastProcessedLt now lt0 = (let lt = (if TrimSpace lt0 = '''' then ''0'' else lt0) in
     exec (update_row (\<lambda>db row. advance now lt (numeric_le db (stored_lt row) lt) row)))"

definition PersistCheckpoint :: "instant \<Rightarrow> string \<Rightarrow> string \<Rightarrow> string \<Rightarrow> bool \<Rightarrow> unit sync_op" where
  "PersistCheckpoint now contractAddress0 lt0 sourceType0 isConnected =
     (let contractAddress = TrimSpace contractAddress0;
          lt = (if TrimSpace lt0 = '''' then ''0'' else lt0);
          sourceType = (if TrimSpace sourceType0 = '''' then ''http'' else sourceType0)
      in exec (update_row (\<lambda>db row.
           case advance now lt (if sr_contract_address row \<noteq> contractAddress then Inr True
                                else numeric_le db (stored_lt row) lt) row of
             Inl e \<Rightarrow> Inl e
           | Inr row' \<Rightarrow> Inr (row'\<lparr>sr_contract_address := contractAddress,
               sr_event_source_type := Some sourceType, sr_websocket_connected := Some isConnected\<rparr>))))"

definition RecordFallback :: "instant \<Rightarrow> unit sync_op" where
  "RecordFallback now = exec (update_row (\<lambda>db row.
     Inr (row\<lparr>sr_fallback_count := Some (coalesce (sr_fallback_count row) 0 + 1),
              sr_last_fallback_at := Some now, sr_event_source_type := Some ''http'',
              sr_websocket_connected := Some False\<rparr>)))"

section \<open>The checkpoint is the largest logical time persisted\<close>

text \<open>
  The callers of the repository run in several goroutines (the read loop or the poll loop, the
  fallback notification, the health endpoint), so the calls arrive in any order, and any of
  them may fail. A run collects the logical times whose \<open>PersistCheckpoint\<close> succeeded.
\<close>

definition decimal :: "string \<Rightarrow> bool" where
  "decimal s \<longleftrightarrow> s \<noteq> [] \<and> list_all is_digit s"

definition decimal_cast :: "(string \<Rightarrow> rat option) \<Rightarrow> bool" where
  "decimal_cast cast \<longleftrightarrow> (\<forall>s. decimal s \<longrightarrow> cast s = Some (of_nat (dec_value s)))"

inductive sync_run :: "string \<Rightarrow> sync_db \<Rightarrow> string list \<Rightarrow> sync_db \<Rightarrow> bool" for c :: string and db0 :: sync_db where
  start: "sync_run c db0 [] db0"
| persisted: "sync_run c db0 lts db \<Longrightarrow> PersistCheckpoint now c lt t b db = (Inr (), db') \<Longrightarrow> decimal lt
     \<Longrightarrow> sync_run c db0 (lts @ [lt]) db'"
| failed: "sync_run c db0 lts db \<Longrightarrow> PersistCheckpoint now c lt t b db = (Inl e, db') \<Longrightarrow> sync_run c db0 lts db'"
| fallback: "sync_run c db0 lts db \<Longrightarrow> RecordFallback now db = (r, db') \<Longrightarrow> sync_run c db0 lts db'"
| source_type: "sync_run c db0 lts db \<Longrightarrow> SetEventSourceType t b db = (r, db') \<Longrightarrow> sync_run c db0 lts db'"
| block: "sync_run c db0 lts db \<Longrightarrow> UpdateLastProcessedBlock now k db = (r, db') \<Longrightarrow> sync_run c db0 lts db'"
| read: "sync_run c db0 lts db \<Longrightarrow> Sync_Get db = (s, db') \<Longrightarrow> sync_run c db0 lts db'"

lemma lt_value_decimal: "decimal s \<Longrightarrow> lt_value s = int (dec_value s)"
proof -
  assume s: "decimal s"
  then obtain c cs where c: "s = c # cs" "is_digit c" by (cases s) (auto simp: decimal_def)
  then have "c \<noteq> CHR ''-''" "c \<noteq> CHR ''+''" by (auto simp: is_digit_def)
  then have "lt_value s = int (dec_value (takeWhile is_digit s))"
    using c by (simp add: lt_value_def normalizeLt_def big_int_def del: takeWhile.simps)
  also have "takeWhile is_digit s = s" using s by (simp add: decimal_def list_all_iff)
  finally show ?thesis .
qed

lemma update_row_cases:
  obtains (error) e where "fst (update_row f db) = Inl e"
      "snd (update_row f db) = db\<lparr>sy_tick := Suc (sy_tick db)\<rparr>"
  | (missing) "sy_row db = None" "update_row f db = (Inr 0, db\<lparr>sy_tick := Suc (sy_tick db)\<rparr>)"
  | (updated) row row' where "sy_row db = Some row" "f (db\<lparr>sy_tick := Suc (sy_tick db)\<rparr>) row = Inr row'"
      "update_row f db = (Inr 1, db\<lparr>sy_tick := Suc (sy_tick db), sy_row := Some (row'\<lparr>sr_updated_at := sy_now db\<rparr>)\<rparr>)"
proof -
  let ?db = "db\<lparr>sy_tick := Suc (sy_tick db)\<rparr>"
  note defs = update_row_def sync_statement_def Let_def
  consider (fault) msg where "sy_fault db (sy_tick db) = Some msg"
    | (none) "sy_fault db (sy_tick db) = None" "sy_row db = None"
    | (row) row where "sy_fault db (sy_tick db) = None" "sy_row db = Some row"
    by (cases "sy_fault db (sy_tick db)"; cases "sy_row db") auto
  then show thesis
  proof cases
    case fault
    then show thesis by (intro error) (simp_all add: defs)
  next
    case none
    then show thesis by (intro missing) (simp_all add: defs)
  next
    case row
    show thesis
    proof (cases "f ?db row")
      case (Inl e)
      with row show thesis by (intro error) (simp_all add: defs)
    next
      case (Inr row')
      with row show thesis
        by (cases "sync_columns row'") (auto simp: defs intro: updated error)
    qed
  qed
qed

lemma exec_state [simp]: "snd (exec m db) = snd (m db)"
  by (simp add: exec_def split: prod.split sum.split)

lemma exec_done: "fst (exec m db) = Inr u \<longleftrightarrow> (\<exists>n. fst (m db) = Inr n)"
  by (auto simp: exec_def split: prod.split sum.split)

text \<open>What the run keeps: the cast, the contract and the checkpoint as the largest time.\<close>

definition sync_at :: "string \<Rightarrow> int \<Rightarrow> sync_db \<Rightarrow> bool" where
  "sync_at c v db \<longleftrightarrow> decimal_cast (sy_numeric db) \<and> (\<exists>row. sy_row db = Some row
     \<and> sr_contract_address row = TrimSpace c \<and> decimal (stored_lt row) \<and> lt_value (stored_lt row) = v)"

lemma sync_at_error [simp]: "sync_at c v (db\<lparr>sy_tick := n\<rparr>) = sync_at c v db"
  by (simp add: sync_at_def)

lemma sync_at_update:
  assumes "sync_at c v db"
    and "\<And>row row'. sy_row db = Some row \<Longrightarrow> f (db\<lparr>sy_tick := Suc (sy_tick db)\<rparr>) row = Inr row' \<Longrightarrow>
           sr_contract_address row' = sr_contract_address row \<and> sr_last_processed_lt row' = sr_last_processed_lt row"
  shows "sync_at c v (snd (update_row f db))"
proof (rule update_row_cases [of f db])
  fix row row'
  assume "sy_row db = Some row" "f (db\<lparr>sy_tick := Suc (sy_tick db)\<rparr>) row = Inr row'"
    and u: "update_row f db = (Inr 1, db\<lparr>sy_tick := Suc (sy_tick db), sy_row := Some (row'\<lparr>sr_updated_at := sy_now db\<rparr>)\<rparr>)"
  from assms(2) [OF this(1,2)] assms(1) this(1) show ?thesis unfolding u by (simp add: sync_at_def stored_lt_def)
qed (use assms(1) in simp_all)

lemma numeric_le_decimal:
  "decimal_cast (sy_numeric db) \<Longrightarrow> decimal a \<Longrightarrow> decimal b \<Longrightarrow> numeric_le db a b = Inr (lt_value a \<le> lt_value b)"
  by (simp add: numeric_le_def decimal_cast_def lt_value_decimal)

lemma decimal_not_blank: "decimal s \<Longrightarrow> TrimSpace s \<noteq> ''''"
  by (simp add: decimal_def TrimSpace_decimal)

lemma PersistCheckpoint_done:
  assumes "PersistCheckpoint now c lt t b db = (Inr (), db')" "sync_at c v db" "decimal lt"
  shows "sync_at c (max v (lt_value lt)) db'"
proof -
  let ?lt = "lt_value lt" and ?db = "db\<lparr>sy_tick := Suc (sy_tick db)\<rparr>"
  from assms(2) obtain row where row: "sy_row db = Some row" "sr_contract_address row = TrimSpace c"
      "decimal (stored_lt row)" "lt_value (stored_lt row) = v" "decimal_cast (sy_numeric db)"
    by (auto simp: sync_at_def)
  have le: "numeric_le ?db (stored_lt row) lt = Inr (v \<le> ?lt)"
    using numeric_le_decimal [of ?db "stored_lt row" lt] row assms(3) by simp
  have ne: "stored_lt row \<noteq> ''''" "lt \<noteq> ''''" using row(3) assms(3) by (auto simp: decimal_def)
  define f where "f = (\<lambda>db row. case advance now lt (if sr_contract_address row \<noteq> TrimSpace c then Inr True
      else numeric_le db (stored_lt row) lt) row of Inl e \<Rightarrow> Inl e
    | Inr row' \<Rightarrow> Inr (row'\<lparr>sr_contract_address := TrimSpace c,
        sr_event_source_type := Some (if TrimSpace t = '''' then ''http'' else t), sr_websocket_connected := Some b\<rparr>))"
  have P: "PersistCheckpoint now c lt t b = exec (update_row f)"
    using decimal_not_blank [OF assms(3)] by (simp add: PersistCheckpoint_def Let_def f_def)
  show ?thesis
  proof (rule update_row_cases [of f db])
    fix r row'
    assume "sy_row db = Some r" and f: "f ?db r = Inr row'"
      and u: "update_row f db = (Inr 1, db\<lparr>sy_tick := Suc (sy_tick db), sy_row := Some (row'\<lparr>sr_updated_at := sy_now db\<rparr>)\<rparr>)"
    with row have r: "r = row" by simp
    have "sr_contract_address row' = TrimSpace c"
        "sr_last_processed_lt row' = Some (if v \<le> ?lt then lt else stored_lt row)"
      using f by (cases "v \<le> ?lt"; auto simp: f_def r row(2) le advance_def)+
    moreover have "db' = snd (update_row f db)" using assms(1) P by (metis exec_state snd_conv)
    ultimately show ?thesis using row assms(3) ne
      by (auto simp: u sync_at_def stored_lt_def [of "row'\<lparr>sr_updated_at := sy_now db\<rparr>"] coalesce_def max_def)
  next
    fix e
    assume "fst (update_row f db) = Inl e"
    with assms(1) P show ?thesis by (auto simp: exec_def split: prod.splits)
  qed (use row in simp)
qed

lemma PersistCheckpoint_failed:
  assumes "PersistCheckpoint now c lt t b db = (Inl e, db')" "sync_at c v db"
  shows "sync_at c v db'"
proof -
  obtain f where P: "PersistCheckpoint now c lt t b = exec (update_row f)"
    by (simp add: PersistCheckpoint_def Let_def)
  have db': "db' = snd (update_row f db)" using assms(1) P by (metis exec_state snd_conv)
  show ?thesis
    by (rule update_row_cases [of f db]) (use assms P db' in \<open>auto simp: exec_def split: prod.splits\<close>)
qed

lemma other_writes_keep:
  assumes "sync_at c v db"
  shows "sync_at c v (snd (RecordFallback now db))" "sync_at c v (snd (SetEventSourceType t b db))"
    "sync_at c v (snd (UpdateLastProcessedBlock now k db))"
  using assms by (auto simp: RecordFallback_def SetEventSourceType_def UpdateLastProcessedBlock_def intro!: sync_at_update)

lemma reads_keep: "sync_at c v db \<Longrightarrow> sync_at c v (snd (select_row f db))"
  by (auto simp: select_row_def sync_statement_def Let_def split: option.splits)

lemma sync_run_at:
  "sync_run c db0 lts db \<Longrightarrow> sync_at c v db0 \<Longrightarrow> sync_at c (fold max (map lt_value lts) v) db"
proof (induction rule: sync_run.induct)
  case (persisted lts db now lt t b db')
  from PersistCheckpoint_done [OF persisted.hyps(2) persisted.IH [OF persisted.prems] persisted.hyps(3)]
  show ?case by (simp add: max.commute)
next
  case (failed lts db now lt t b e db')
  from PersistCheckpoint_failed [OF failed.hyps(2) failed.IH [OF failed.prems]] show ?case .
next
  case (fallback lts db now r db')
  from other_writes_keep(1) [OF fallback.IH [OF fallback.prems], of now] fallback.hyps(2) show ?case by simp
next
  case (source_type lts db t b r db')
  from other_writes_keep(2) [OF source_type.IH [OF source_type.prems], of t b] source_type.hyps(2) show ?case by simp
next
  case (block lts db now k r db')
  from other_writes_keep(3) [OF block.IH [OF block.prems], of now k] block.hyps(2) show ?case by simp
next
  case (read lts db s db')
  from reads_keep [OF read.IH [OF read.prems], of sync_state_of] read.hyps(2) show ?case by (simp add: Sync_Get_def)
qed simp

text \<open>
  C30. Whatever order checkpoints are persisted in, and whichever statements fail, the stored
  checkpoint of a contract is the largest of the checkpoint it started with and the logical
  times whose \<open>PersistCheckpoint\<close> succeeded; it never moves back. The logical times are decimal
  numbers, the cast of the server reads them, and the row is that of the contract.
\<close>

theorem checkpoint_is_max:
  assumes "sync_run c db0 lts db" and "sy_row db0 = Some row0" and "sr_contract_address row0 = TrimSpace c"
    and "decimal (stored_lt row0)" and "decimal_cast (sy_numeric db0)"
  shows "\<exists>row. sy_row db = Some row \<and> sr_contract_address row = TrimSpace c
    \<and> lt_value (stored_lt row) = Max (set (map lt_value (stored_lt row0 # lts)))"
proof -
  have "sync_at c (lt_value (stored_lt row0)) db0" using assms(2-) by (simp add: sync_at_def)
  from sync_run_at [OF assms(1) this] show ?thesis
    unfolding list.map Max.set_eq_fold by (auto simp: sync_at_def)
qed

definition demo_sync :: "string \<Rightarrow> sync_db" where
  "demo_sync lt = \<lparr>sy_row = Some \<lparr>sr_contract_address = ''EQC'', sr_last_processed_block = 0, sr_last_poll_timestamp = 0,
      sr_updated_at = 0, sr_event_source_type = None, sr_last_processed_lt = Some lt, sr_last_processed_hash = None,
      sr_websocket_connected = None, sr_fallback_count = None, sr_last_fallback_at = None\<rparr>,
     sy_now = 5, sy_tick = 0, sy_fault = (\<lambda>n. if n = 2 then Some ''connection reset'' else None),
     sy_numeric = (\<lambda>s. if decimal s then Some (of_nat (dec_value s)) else None)\<rparr>"

text \<open>The second call comes late and does not move the checkpoint back; the third one fails.\<close>

theorem checkpoint_is_max_witness:
  "\<exists>db row. sync_run ''EQC'' (demo_sync ''7'') [''20'', ''10''] db \<and> sy_row db = Some row
     \<and> lt_value (stored_lt row) = Max (set (map lt_value [''7'', ''20'', ''10'']))"
proof -
  let ?p = "\<lambda>lt db. PersistCheckpoint 3 ''EQC'' lt ''http'' True db" and ?d0 = "demo_sync ''7''"
  define d1 where "d1 = snd (?p ''20'' ?d0)"
  define d2 where "d2 = snd (?p ''10'' d1)"
  define d3 where "d3 = snd (?p ''30'' d2)"
  have "fst (?p ''20'' ?d0) = Inr ()" by code_simp
  moreover have "fst (?p ''10'' d1) = Inr ()" unfolding d1_def by code_simp
  moreover have "fst (?p ''30'' d2) = Inl (Wrapf ''execute query'' (ErrorString ''connection reset''))"
    unfolding d2_def d1_def by code_simp
  ultimately have p: "?p ''20'' ?d0 = (Inr (), d1)" "?p ''10'' d1 = (Inr (), d2)"
      "?p ''30'' d2 = (Inl (Wrapf ''execute query'' (ErrorString ''connection reset'')), d3)"
    by (auto simp: d1_def d2_def d3_def prod_eq_iff)
  have dec: "decimal ''20''" "decimal ''10''" "decimal ''7''" by code_simp+
  have run: "sync_run ''EQC'' ?d0 [''20'', ''10''] d3"
    using sync_run.failed [OF sync_run.persisted [OF sync_run.persisted [OF sync_run.start p(1) dec(1)] p(2) dec(2)] p(3)]
    by simp
  let ?row = "the (sy_row ?d0)"
  have row: "sy_row ?d0 = Some ?row" "sr_contract_address ?row = TrimSpace ''EQC''" "stored_lt ?row = ''7''"
      "decimal (stored_lt ?row)"
    by code_simp+
  have cast: "decimal_cast (sy_numeric ?d0)" by (simp add: decimal_cast_def demo_sync_def)
  from checkpoint_is_max [OF run row(1,2,4) cast] run row(3) show ?thesis by auto
qed

end
