(* ===== verification/Ingestion.thy ===== *)
theory Ingestion
  imports Source_Factory Sync_State
begin

text \<open>
  The driver of the blockchain ingestion, \<open>internal/controller/blockchain/ton_event_handler.go\<close>,
  with the part of \<open>internal/app/app.go\<close> that wires it to the checkpoint repository, and the
  runtime it makes up together with the goroutines of the event sources, as a step relation. The
  durations of the configuration are the answers of \<open>time.ParseDuration\<close>. The handler's own
  \<open>SetOnLtUpdated\<close> has no caller and is left out.
\<close>

section \<open>Building the handler\<close>

record backend_config =
  gb_BlockchainEventSource :: string
  gb_EnableWebSocket :: bool
  gb_WebSocketReconnectMax :: int
  gb_TONGameContractAddr :: string
  gb_TONCenterV3WSURL :: string
  gb_ResumeFromCheckpoint :: bool
  gb_ResumeEventSource :: bool
  gb_MinPollInterval :: "duration option"
  gb_MaxPollInterval :: "duration option"

definition resolveInitialEventSourceType :: "backend_config \<Rightarrow> BlockchainSyncState option \<Rightarrow> string" where
  "resolveInitialEventSourceType cfg checkpoint = (case checkpoint of
       None \<Rightarrow> gb_BlockchainEventSource cfg
     | Some ck \<Rightarrow>
         if \<not> gb_ResumeEventSource cfg then gb_BlockchainEventSource cfg
         else if s_EventSourceType ck = ''http'' \<or> s_EventSourceType ck = ''websocket'' then s_EventSourceType ck
         else gb_BlockchainEventSource cfg)"

definition shouldResumeCheckpoint :: "backend_config \<Rightarrow> BlockchainSyncState option \<Rightarrow> bool" where
  "shouldResumeCheckpoint cfg checkpoint \<longleftrightarrow> gb_ResumeFromCheckpoint cfg \<and> (case checkpoint of
       None \<Rightarrow> False
     | Some ck \<Rightarrow> TrimSpace (s_LastProcessedLt ck) \<noteq> '''' \<and> TrimSpace (s_ContractAddress ck) \<noteq> ''''
         \<and> TrimSpace (s_ContractAddress ck) = TrimSpace (gb_TONGameContractAddr cfg))"

definition factory_config :: "backend_config \<Rightarrow> BlockchainSyncState option \<Rightarrow> FactoryConfig" where
  "factory_config cfg checkpoint = \<lparr>fc_V3WSURL = gb_TONCenterV3WSURL cfg,
     fc_ContractAddress = gb_TONGameContractAddr cfg, fc_EnableWebSocket = gb_EnableWebSocket cfg,
     fc_EventSourceType = resolveInitialEventSourceType cfg checkpoint,
     fc_MaxReconnect = gb_WebSocketReconnectMax cfg,
     fc_MinPollInterval = (case gb_MinPollInterval cfg of None \<Rightarrow> 5 * Second | Some d \<Rightarrow> d),
     fc_MaxPollInterval = (case gb_MaxPollInterval cfg of None \<Rightarrow> 30 * Second | Some d \<Rightarrow> d)\<rparr>"

text \<open>\<open>TONEventHandler.SetLastProcessedLt\<close> through the use case to its event source.\<close>

definition Handler_SetLastProcessedLt :: "string \<Rightarrow> 's runtime \<Rightarrow> 's runtime" where
  "Handler_SetLastProcessedLt lt st =
     (let lt' = (if TrimSpace lt = '''' then ''0'' else lt); i = rt_ucSource st
      in put i (Source_SetLastProcessedLt lt' (rt_sources st ! i)) st)"

text \<open>
  The event source is created with the placeholder handler; \<open>NewBlockchainSubscriberUseCase\<close>
  then registers itself with the source. The fallback closure keeps the placeholder.
\<close>

definition NewTONEventHandler :: "backend_config \<Rightarrow> BlockchainSyncState option \<Rightarrow> 's \<Rightarrow> 's runtime" where
  "NewTONEventHandler cfg checkpoint s =
     (let st0 = \<lparr>rt_sources = [], rt_config = factory_config cfg checkpoint, rt_currentSource = None,
            rt_onLtUpdated = False, rt_ucSource = 0, rt_ctx = WithCancel 0 Background, rt_cancelled = [],
            rt_nextCtx = 1, rt_onCheckpoint = False, rt_onFallback = False, rt_subscribing = False,
            rt_starting = False, rt_notifying = 0, rt_checkpoints = [], rt_fallbacks = [], rt_state = s\<rparr>
      in case CreateEventSource TempHandler st0 of (i, st1) \<Rightarrow>
        let st2 = (put i (Source_Subscribe SubscriberUC (rt_sources st1 ! i)) st1)\<lparr>rt_ucSource := i\<rparr>
        in case checkpoint of
             None \<Rightarrow> st2
           | Some ck \<Rightarrow> if shouldResumeCheckpoint cfg checkpoint
               then Handler_SetLastProcessedLt (s_LastProcessedLt ck) st2 else st2)"

section \<open>Operations of the handler\<close>

definition Handler_GetLastProcessedLt :: "'s runtime \<Rightarrow> string" where
  "Handler_GetLastProcessedLt st = Source_GetLastProcessedLt (rt_sources st ! rt_ucSource st)"

definition GetSyncCheckpoint :: "'s runtime \<Rightarrow> SyncCheckpoint" where
  "GetSyncCheckpoint st = \<lparr>cp_LastProcessedLt = Handler_GetLastProcessedLt st,
     cp_EventSourceType = GetCurrentSourceType st, cp_EventSourceConnected = Factory_IsConnected st\<rparr>"

definition emitCheckpoint :: "'s runtime \<Rightarrow> 's runtime" where
  "emitCheckpoint st = (if rt_onCheckpoint st
     then st\<lparr>rt_checkpoints := rt_checkpoints st @ [GetSyncCheckpoint st]\<rparr> else st)"

definition emitFallback :: "'s runtime \<Rightarrow> 's runtime" where
  "emitFallback st = (let ck = GetSyncCheckpoint st;
       st1 = (if rt_onFallback st then st\<lparr>rt_fallbacks := rt_fallbacks st @ [ck]\<rparr> else st)
     in if rt_onCheckpoint st1 then st1\<lparr>rt_checkpoints := rt_checkpoints st1 @ [ck]\<rparr> else st1)"

definition SetOnCheckpointUpdated :: "'s runtime \<Rightarrow> 's runtime" where
  "SetOnCheckpointUpdated st = Factory_SetOnLtUpdated (st\<lparr>rt_onCheckpoint := True\<rparr>)"

definition SetOnFallback :: "'s runtime \<Rightarrow> 's runtime" where
  "SetOnFallback st = st\<lparr>rt_onFallback := True\<rparr>"

text \<open>\<open>Start\<close> spawns the subscription and emits a checkpoint; the two run concurrently.\<close>

definition Handler_Start :: "'s runtime \<Rightarrow> 's runtime" where
  "Handler_Start st = st\<lparr>rt_subscribing := True, rt_starting := True\<rparr>"

definition Handler_Stop :: "'s runtime \<Rightarrow> 's runtime outcome" where
  "Handler_Stop st = bindO (Source_Stop (rt_ucSource st) (cancel (Some (rt_ctx st)) st)) (\<lambda>st1. Done (emitCheckpoint st1))"

text \<open>What \<open>Run\<close> does with the handler before it waits for the signal to stop.\<close>

definition run_handler_setup :: "backend_config \<Rightarrow> BlockchainSyncState option \<Rightarrow> 's \<Rightarrow> 's runtime" where
  "run_handler_setup cfg checkpoint s =
     Handler_Start (SetOnFallback (SetOnCheckpointUpdated (NewTONEventHandler cfg checkpoint s)))"

section \<open>Rounds of the goroutines\<close>

definition emit_for :: "bool \<Rightarrow> string list \<Rightarrow> 's runtime \<Rightarrow> 's runtime" where
  "emit_for onLtUpdated cbs st = fold (\<lambda>lt. emitCheckpoint) (if onLtUpdated then cbs else []) st"

text \<open>
  The subscriber as the handler of its client: the position, the state of the use case and the
  calls of \<open>onLtUpdated\<close>.
\<close>

definition ws_adapter :: "'s tx_handler \<Rightarrow> ws_source \<Rightarrow> (ws_subscriber \<times> 's \<times> string list) tx_handler" where
  "ws_adapter uc w tx = (\<lambda>(pos, s, cbs).
     case WS_HandleTransaction (map_option (handler_of uc) (wss_handler w)) tx pos s of
       (r, pos', s', cbs') \<Rightarrow> (r, pos', s', cbs @ cbs'))"

definition ws_ended :: "'s runtime \<Rightarrow> ws_source \<Rightarrow> bool" where
  "ws_ended st w \<longleftrightarrow> wc_stopped (wss_client w) \<or> (case wss_ctx w of None \<Rightarrow> False | Some c \<Rightarrow> ctx_done (rt_cancelled st) c)"

definition read_round :: "ws_json \<Rightarrow> 's tx_handler \<Rightarrow> ws_net \<Rightarrow> error + string \<Rightarrow> nat \<Rightarrow> ws_source \<Rightarrow> 's runtime
    \<Rightarrow> 's runtime outcome" where
  "read_round js uc net rd i w st =
     (if ws_ended st w then Done (put i (WsSource (w\<lparr>wss_loop := False\<rparr>)) st)
      else case readLoop_round js net (ws_adapter uc w) rd (wss_client w) (wss_position w, rt_state st, []) of
          (c, (pos, s, cbs), d, fb) \<Rightarrow>
            let st1 = emit_for (wss_onLtUpdated w) cbs
                  ((put i (WsSource (w\<lparr>wss_client := c, wss_position := pos\<rparr>)) st)\<lparr>rt_state := s\<rparr>)
            in if fb then run_fallback False i st1 else Done st1)"

text \<open>A request whose context is done fails; every other one is answered by the server.\<close>

definition with_ctx :: "bool \<Rightarrow> tx_client \<Rightarrow> tx_client" where
  "with_ctx ended client n rq = (if ended then Inl (ErrorString ''context canceled'') else client n rq)"

definition poll_round :: "'s tx_handler \<Rightarrow> tx_client \<Rightarrow> nat \<Rightarrow> poller_source \<Rightarrow> ctx \<Rightarrow> 's runtime \<Rightarrow> 's runtime option" where
  "poll_round uc client i p c st =
     (case poll (with_ctx (ctx_done (rt_cancelled st) c) client) (handler_of uc (ps_handler p)) (ps_poller p) (rt_state st) of
        None \<Rightarrow> None
      | Some (q, s, cbs) \<Rightarrow> Some (emit_for (ps_onLtUpdated p) cbs
          ((put i (PollerSource (p\<lparr>ps_poller := q\<rparr>)) st)\<lparr>rt_state := s\<rparr>)))"

inductive rt_step :: "ws_json \<Rightarrow> 's tx_handler \<Rightarrow> 's runtime \<Rightarrow> 's runtime \<Rightarrow> bool"
  for js :: ws_json and uc :: "'s tx_handler" where
  subscribe: "rt_subscribing st \<Longrightarrow>
     Source_Start net False (rt_ctx st) (rt_ucSource st) (st\<lparr>rt_subscribing := False\<rparr>) = Done st' \<Longrightarrow> rt_step js uc st st'"
| started: "rt_starting st \<Longrightarrow> rt_step js uc st (emitCheckpoint (st\<lparr>rt_starting := False\<rparr>))"
| read: "i < length (rt_sources st) \<Longrightarrow> rt_sources st ! i = WsSource w \<Longrightarrow> wss_loop w \<Longrightarrow>
     read_round js uc net rd i w st = Done st' \<Longrightarrow> rt_step js uc st st'"
| ping: "i < length (rt_sources st) \<Longrightarrow> rt_sources st ! i = WsSource w \<Longrightarrow> wss_pings w \<Longrightarrow>
     rt_step js uc st (put i (WsSource (w\<lparr>wss_client := pingLoop_round net (wss_client w)\<rparr>)) st)"
| ping_end: "i < length (rt_sources st) \<Longrightarrow> rt_sources st ! i = WsSource w \<Longrightarrow> wss_pings w \<Longrightarrow> ws_ended st w \<Longrightarrow>
     rt_step js uc st (put i (WsSource (w\<lparr>wss_pings := False\<rparr>)) st)"
| pong: "i < length (rt_sources st) \<Longrightarrow> rt_sources st ! i = WsSource w \<Longrightarrow> wss_loop w \<Longrightarrow> wc_conn (wss_client w) \<Longrightarrow>
     rt_step js uc st (put i (WsSource (w\<lparr>wss_client := pong now (wss_client w)\<rparr>)) st)"
| poll: "i < length (rt_sources st) \<Longrightarrow> rt_sources st ! i = PollerSource p \<Longrightarrow> ps_loop p = Some c \<Longrightarrow>
     poll_round uc client i p c st = Some st' \<Longrightarrow> rt_step js uc st st'"
| poll_end: "i < length (rt_sources st) \<Longrightarrow> rt_sources st ! i = PollerSource p \<Longrightarrow> ps_loop p = Some c \<Longrightarrow>
     ctx_done (rt_cancelled st) c \<or> ps_stopClosed p \<Longrightarrow>
     rt_step js uc st (put i (PollerSource (p\<lparr>ps_loop := None, ps_isRunning := False\<rparr>)) st)"
| notify: "rt_notifying st = Suc n \<Longrightarrow> rt_step js uc st (emitFallback (st\<lparr>rt_notifying := n\<rparr>))"
| stop: "Handler_Stop st = Done st' \<Longrightarrow> rt_step js uc st st'"

end
