(* ===== verification/Ingestion_Runs.thy ===== *)
theory Ingestion_Runs
  imports Ingestion
begin

text \<open>
  What every run of the ingestion runtime keeps. Until the fallback there is one event source,
  shared by the factory and the use case, and its rounds refine the checkpoint machine; after it
  the WebSocket source is stopped for good and the poller that replaces it has a context that
  is done. The runtime is an instance of the contract of event sources, so transactions reach the
  use case in order and once, and every checkpoint that is emitted is backed by a handled
  transaction.
\<close>

section \<open>State updates\<close>

lemma put_simps [simp]:
  "rt_sources (put i x st) = (rt_sources st)[i := x]" "rt_currentSource (put i x st) = rt_currentSource st"
  "rt_ucSource (put i x st) = rt_ucSource st" "rt_cancelled (put i x st) = rt_cancelled st"
  "rt_state (put i x st) = rt_state st" "rt_subscribing (put i x st) = rt_subscribing st"
  "rt_checkpoints (put i x st) = rt_checkpoints st" "rt_config (put i x st) = rt_config st"
  "rt_onLtUpdated (put i x st) = rt_onLtUpdated st" "rt_ctx (put i x st) = rt_ctx st"
  by (simp_all add: put_def)

definition emitted :: "'s runtime \<Rightarrow> SyncCheckpoint list \<Rightarrow> 's runtime" where
  "emitted st cks = st\<lparr>rt_checkpoints := rt_checkpoints st @ cks\<rparr>"

lemma emitted_simps [simp]:
  "rt_sources (emitted st cks) = rt_sources st" "rt_currentSource (emitted st cks) = rt_currentSource st"
  "rt_ucSource (emitted st cks) = rt_ucSource st" "rt_cancelled (emitted st cks) = rt_cancelled st"
  "rt_state (emitted st cks) = rt_state st" "rt_subscribing (emitted st cks) = rt_subscribing st"
  "rt_checkpoints (emitted st cks) = rt_checkpoints st @ cks" "emitted st [] = st" "rt_ctx (emitted st cks) = rt_ctx st"
  "GetSyncCheckpoint (emitted st cks) = GetSyncCheckpoint st"
  by (simp_all add: emitted_def GetSyncCheckpoint_def Handler_GetLastProcessedLt_def GetCurrentSourceType_def Factory_IsConnected_def
      split: option.split)

lemma emitCheckpoint_emits: "\<exists>n. emitCheckpoint st = emitted st (replicate n (GetSyncCheckpoint st))"
  by (cases "rt_onCheckpoint st") (auto simp: emitCheckpoint_def emitted_def intro: exI [of _ 1] exI [of _ 0])

lemma emit_for_emits: "\<exists>n. emit_for b cbs st = emitted st (replicate n (GetSyncCheckpoint st))"
proof -
  have "\<exists>n. fold (\<lambda>lt. emitCheckpoint) xs st = emitted st (replicate n (GetSyncCheckpoint st))" for xs :: "string list"
  proof (induction xs rule: rev_induct)
    case Nil
    then show ?case by (auto intro: exI [of _ 0])
  next
    case (snoc x xs)
    then obtain n m where
      "fold (\<lambda>lt. emitCheckpoint) xs st = emitted st (replicate n (GetSyncCheckpoint st))"
      "emitCheckpoint (emitted st (replicate n (GetSyncCheckpoint st)))
         = emitted (emitted st (replicate n (GetSyncCheckpoint st))) (replicate m (GetSyncCheckpoint st))"
      using emitCheckpoint_emits [of "emitted st (replicate _ (GetSyncCheckpoint st))"] by (metis emitted_simps(10))
    then show ?case by (auto simp: emitted_def replicate_add intro!: exI [of _ "n + m"])
  qed
  then show ?thesis by (simp add: emit_for_def)
qed

lemma emitFallback_emits:
  "\<exists>n fs. emitFallback st = (emitted st (replicate n (GetSyncCheckpoint st)))\<lparr>rt_fallbacks := fs\<rparr>"
  by (rule exI [of _ "if rt_onCheckpoint st then 1 else 0"],
      rule exI [of _ "rt_fallbacks st @ (if rt_onFallback st then [GetSyncCheckpoint st] else [])"], cases st)
    (simp add: emitFallback_def emitted_def Let_def)

section \<open>The two phases\<close>

definition fresh_ws :: "'s runtime \<Rightarrow> ws_source \<Rightarrow> bool" where
  "fresh_ws st w \<longleftrightarrow> \<not> wss_fallbackTriggered w \<and> wss_fallbackTo w = TempHandler \<and> wss_handler w = Some SubscriberUC
     \<and> (rt_subscribing st \<longrightarrow> \<not> wss_loop w) \<and> (wss_loop w \<longrightarrow> (\<exists>k c. wss_ctx w = Some (WithCancel k c)))"

definition phase_one :: "'s runtime \<Rightarrow> bool" where
  "phase_one st \<longleftrightarrow> (\<exists>x. rt_sources st = [x] \<and> rt_currentSource st = Some 0 \<and> rt_ucSource st = 0
     \<and> (case x of PollerSource p \<Rightarrow> ps_handler p = SubscriberUC | WsSource w \<Rightarrow> fresh_ws st w))"

definition phase_two :: "'s runtime \<Rightarrow> bool" where
  "phase_two st \<longleftrightarrow> (\<exists>w p. rt_sources st = [WsSource w, PollerSource p] \<and> rt_ucSource st = 0 \<and> \<not> rt_subscribing st
     \<and> rt_currentSource st = Some 1 \<and> (ps_loop p = None \<longrightarrow> \<not> ps_isRunning p)
     \<and> wss_fallbackTriggered w \<and> wc_stopped (wss_client w) \<and> ps_handler p = TempHandler
     \<and> (case ps_loop p of None \<Rightarrow> True | Some c \<Rightarrow> ctx_done (rt_cancelled st) c))"

definition fell_back :: "'s runtime \<Rightarrow> bool" where
  "fell_back st \<longleftrightarrow> list_ex (\<lambda>x. case x of WsSource w \<Rightarrow> wss_fallbackTriggered w | PollerSource p \<Rightarrow> False) (rt_sources st)"

lemma phase_oneE:
  assumes "phase_one st"
  obtains (poller) p where "rt_sources st = [PollerSource p]" "rt_currentSource st = Some 0" "rt_ucSource st = 0"
      "ps_handler p = SubscriberUC"
  | (ws) w where "rt_sources st = [WsSource w]" "rt_currentSource st = Some 0" "rt_ucSource st = 0" "fresh_ws st w"
proof -
  from assms obtain x where x: "rt_sources st = [x]" "rt_currentSource st = Some 0" "rt_ucSource st = 0"
      "case x of PollerSource p \<Rightarrow> ps_handler p = SubscriberUC | WsSource w \<Rightarrow> fresh_ws st w"
    by (auto simp: phase_one_def)
  then show thesis by (cases x) (use that in simp_all)
qed

lemma phase_fell_back: "phase_one st \<Longrightarrow> \<not> fell_back st" "phase_two st \<Longrightarrow> fell_back st"
  by (elim phase_oneE; simp add: fell_back_def fresh_ws_def) (auto simp: phase_two_def fell_back_def)

text \<open>What a step may do to the use case: nothing, one message, or one poll.\<close>

definition quiet_step :: "'s runtime \<Rightarrow> 's runtime \<Rightarrow> bool" where
  "quiet_step st st' \<longleftrightarrow> rt_state st' = rt_state st \<and> Handler_GetLastProcessedLt st' = Handler_GetLastProcessedLt st"

definition moves :: "'s tx_handler \<Rightarrow> 's runtime \<Rightarrow> 's runtime \<Rightarrow> bool" where
  "moves uc st st' \<longleftrightarrow> quiet_step st st'
     \<or> (\<exists>tx w r w' cbs. WS_HandleTransaction (Some uc) tx w (rt_state st) = (r, w', rt_state st', cbs)
          \<and> Handler_GetLastProcessedLt st = ws_lastProcessedLt w \<and> Handler_GetLastProcessedLt st' = ws_lastProcessedLt w')
     \<or> (\<exists>client p p' cbs. poll client uc p (rt_state st) = Some (p', rt_state st', cbs)
          \<and> Handler_GetLastProcessedLt st = po_lastProcessedLt p \<and> Handler_GetLastProcessedLt st' = po_lastProcessedLt p')"

lemma moves_ws:
  "WS_HandleTransaction (Some uc) tx w (rt_state st) = (r, w', rt_state st', cbs) \<Longrightarrow>
   Handler_GetLastProcessedLt st = ws_lastProcessedLt w \<Longrightarrow> Handler_GetLastProcessedLt st' = ws_lastProcessedLt w' \<Longrightarrow> moves uc st st'"
  unfolding moves_def by blast

definition emits :: "'s runtime \<Rightarrow> 's runtime \<Rightarrow> bool" where
  "emits st st' \<longleftrightarrow> (\<exists>cks. rt_checkpoints st' = rt_checkpoints st @ cks
     \<and> (\<forall>ck \<in> set cks. cp_LastProcessedLt ck = Handler_GetLastProcessedLt st'))"

lemma phase_frame [simp]:
  "phase_one (emitted st cks) = phase_one st" "phase_one (st\<lparr>rt_starting := b\<rparr>) = phase_one st"
  "phase_one (st\<lparr>rt_notifying := n\<rparr>) = phase_one st" "phase_one (st\<lparr>rt_fallbacks := fs\<rparr>) = phase_one st"
  "phase_two (emitted st cks) = phase_two st" "phase_two (st\<lparr>rt_starting := b\<rparr>) = phase_two st"
  "phase_two (st\<lparr>rt_notifying := n\<rparr>) = phase_two st" "phase_two (st\<lparr>rt_fallbacks := fs\<rparr>) = phase_two st"
  by (simp_all add: phase_one_def phase_two_def fresh_ws_def cong: source.case_cong option.case_cong)

lemma boot_phase: "phase_one (run_handler_setup cfg ck s)" "rt_state (run_handler_setup cfg ck s) = s"
  "rt_checkpoints (run_handler_setup cfg ck s) = []"
  by (auto simp: run_handler_setup_def Handler_Start_def SetOnFallback_def SetOnCheckpointUpdated_def Factory_SetOnLtUpdated_def
      NewTONEventHandler_def CreateEventSource_def createHTTPPoller_def new_source_def Handler_SetLastProcessedLt_def
      Source_SetLastProcessedLt_def Source_SetOnLtUpdated_def Source_Subscribe_def new_ws_source_def
      phase_one_def fresh_ws_def Let_def split: option.splits)

section \<open>A step in the first phase\<close>

lemma Handler_lt_simps [simp]:
  "Handler_GetLastProcessedLt (emitted st cks) = Handler_GetLastProcessedLt st"
  "Handler_GetLastProcessedLt (st\<lparr>rt_fallbacks := fs\<rparr>) = Handler_GetLastProcessedLt st"
  "cp_LastProcessedLt (GetSyncCheckpoint st) = Handler_GetLastProcessedLt st"
  by (simp_all add: Handler_GetLastProcessedLt_def GetSyncCheckpoint_def)

lemma emitted_emits: "emits st (emitted st (replicate n (GetSyncCheckpoint st)))"
  by (simp add: emits_def)

text \<open>The fallback of the only source: the checkpoint and the state of the use case stay.\<close>

lemma run_fallback_phase:
  assumes "rt_sources st = [WsSource w]" "rt_currentSource st = Some 0" "rt_ucSource st = 0" "\<not> rt_subscribing st"
    "\<not> wss_fallbackTriggered w" "wss_fallbackTo w = TempHandler" "wss_ctx w = Some (WithCancel k c)"
  shows "\<exists>st'. run_fallback False 0 st = Done st' \<and> phase_two st' \<and> quiet_step st st' \<and> rt_checkpoints st' = rt_checkpoints st"
  using assms
  by (auto simp: run_fallback_def fallbackToHTTP_def Source_Stop_def cancel_def start_poller_at_def createHTTPPoller_def
      new_source_def Poller_Start_def Source_SetLastProcessedLt_def Source_SetOnLtUpdated_def Client_Stop_def Let_def
      phase_two_def quiet_step_def Handler_GetLastProcessedLt_def Source_GetLastProcessedLt_def
      split: prod.split)

definition good_step :: "'s tx_handler \<Rightarrow> 's runtime \<Rightarrow> 's runtime \<Rightarrow> bool" where
  "good_step uc st st' \<longleftrightarrow> (phase_one st' \<or> phase_two st') \<and> moves uc st st' \<and> emits st st'"

lemma quiet_good:
  "phase_one st' \<or> phase_two st' \<Longrightarrow> quiet_step st st' \<Longrightarrow> rt_checkpoints st' = rt_checkpoints st \<Longrightarrow> good_step uc st st'"
  by (simp add: good_step_def moves_def emits_def)

lemma Poller_Start_phase:
  assumes "rt_sources st = [PollerSource p]" "rt_currentSource st = Some 0" "rt_ucSource st = 0" "ps_handler p = SubscriberUC"
  shows "phase_one (Poller_Start c 0 st) \<and> quiet_step st (Poller_Start c 0 st)
     \<and> rt_checkpoints (Poller_Start c 0 st) = rt_checkpoints st"
  using assms
  by (auto simp: Poller_Start_def phase_one_def quiet_step_def Handler_GetLastProcessedLt_def Source_GetLastProcessedLt_def
      GetLastProcessedLt_def Let_def split: prod.split)

lemma Ws_Start_phase:
  assumes "Ws_Start net False c 0 st = Done st'" "rt_sources st = [WsSource w]" "rt_currentSource st = Some 0"
    "rt_ucSource st = 0" "\<not> rt_subscribing st" "fresh_ws st w"
  shows "(phase_one st' \<or> phase_two st') \<and> quiet_step st st' \<and> rt_checkpoints st' = rt_checkpoints st"
proof -
  let ?w = "\<lambda>c'. w\<lparr>wss_ctx := Some (WithCancel (rt_nextCtx st) c), wss_client := c'\<rparr>"
  let ?st = "\<lambda>c'. put 0 (WsSource (?w c')) (st\<lparr>rt_nextCtx := Suc (rt_nextCtx st)\<rparr>)"
  have lt: "quiet_step st (?st c')" for c'
    using assms(2-) by (simp add: quiet_step_def Handler_GetLastProcessedLt_def Source_GetLastProcessedLt_def)
  have falls: "\<exists>st2. run_fallback False 0 (?st c') = Done st2 \<and> phase_two st2 \<and> quiet_step (?st c') st2
      \<and> rt_checkpoints st2 = rt_checkpoints st" for c'
    using run_fallback_phase [of "?st c'" "?w c'" "rt_nextCtx st" c] assms(2-) by (auto simp: fresh_ws_def)
  from assms(1,2) consider (fb) c' where "run_fallback False 0 (?st c') = Done st'"
    | (ok) c' where "st' = put 0 (WsSource ((?w c')\<lparr>wss_loop := True, wss_pings := True\<rparr>)) (st\<lparr>rt_nextCtx := Suc (rt_nextCtx st)\<rparr>)"
    by (auto simp: Ws_Start_def Let_def split: prod.splits option.splits)
  then show ?thesis
  proof cases
    case fb
    then show ?thesis using falls [of c'] lt [of c'] by (auto simp: quiet_step_def)
  next
    case ok
    then show ?thesis using assms(2-)
      by (auto simp: phase_one_def fresh_ws_def quiet_step_def Handler_GetLastProcessedLt_def Source_GetLastProcessedLt_def)
  qed
qed

lemma processMessage_handles:
  "snd (snd (processMessage js h raw c s)) = s \<or> (\<exists>tx. snd (snd (processMessage js h raw c s)) = snd (h tx s))"
  by (auto simp: processMessage_def split: sum.split option.split)

lemma readLoop_round_handles:
  assumes "readLoop_round js net h rd c s = (c', s', d, fb)"
  shows "s' = s \<or> (\<exists>tx. s' = snd (h tx s))"
proof -
  have step: "snd (read_message_step js h rd c s) = s \<or> (\<exists>tx. snd (read_message_step js h rd c s) = snd (h tx s))" for c
  proof (cases "readMessage rd c")
    case (Inr raw)
    then show ?thesis using processMessage_handles [of js h raw c s]
      by (cases "processMessage js h raw c s") (auto simp: read_message_step_def)
  qed (simp add: read_message_step_def)
  from assms consider "s' = s" | k where "s' = snd (read_message_step js h rd k s)"
    by (auto simp: readLoop_round_def split: if_splits prod.splits option.splits) (metis snd_conv)+
  then show ?thesis using step by cases auto
qed

lemma read_round_phase:
  assumes "read_round js uc net rd 0 w st = Done st'" "rt_sources st = [WsSource w]" "rt_currentSource st = Some 0"
    "rt_ucSource st = 0" "fresh_ws st w" "wss_loop w"
  shows "good_step uc st st'"
proof (cases "ws_ended st w")
  case True
  with assms have "st' = put 0 (WsSource (w\<lparr>wss_loop := False\<rparr>)) st" by (simp add: read_round_def)
  then show ?thesis using assms(2-)
    by (intro quiet_good) (auto simp: phase_one_def fresh_ws_def quiet_step_def Handler_GetLastProcessedLt_def Source_GetLastProcessedLt_def)
next
  case False
  obtain c pos s cbs d fb where r: "readLoop_round js net (ws_adapter uc w) rd (wss_client w) (wss_position w, rt_state st, [])
      = (c, (pos, s, cbs), d, fb)"
    by (metis prod.exhaust)
  define st1 where "st1 = (put 0 (WsSource (w\<lparr>wss_client := c, wss_position := pos\<rparr>)) st)\<lparr>rt_state := s\<rparr>"
  obtain n where n: "emit_for (wss_onLtUpdated w) cbs st1 = emitted st1 (replicate n (GetSyncCheckpoint st1))"
    using emit_for_emits by blast
  define st2 where "st2 = emitted st1 (replicate n (GetSyncCheckpoint st1))"
  have lt: "Handler_GetLastProcessedLt st = ws_lastProcessedLt (wss_position w)" "Handler_GetLastProcessedLt st1 = ws_lastProcessedLt pos"
    using assms(2-4) by (simp_all add: st1_def Handler_GetLastProcessedLt_def Source_GetLastProcessedLt_def)
  have uc: "handler_of uc SubscriberUC = uc" "wss_handler w = Some SubscriberUC"
    using assms(5) by (simp_all add: handler_of_def fresh_ws_def)
  have mv: "moves uc st st2"
  proof (rule readLoop_round_handles [OF r, THEN disjE])
    assume "(pos, s, cbs) = (wss_position w, rt_state st, [])"
    then show ?thesis using lt by (simp add: moves_def quiet_step_def st2_def st1_def)
  next
    assume "\<exists>tx. (pos, s, cbs) = snd (ws_adapter uc w tx (wss_position w, rt_state st, []))"
    then obtain tx r cbs' where "WS_HandleTransaction (Some uc) tx (wss_position w) (rt_state st) = (r, pos, s, cbs')"
      by (auto simp: ws_adapter_def uc split: prod.splits) (metis prod.collapse)
    then show ?thesis using lt by (intro moves_ws [of uc tx "wss_position w" st r pos st2 cbs']) (simp_all add: st2_def st1_def)
  qed
  have em: "emits st st2" by (auto simp: emits_def st2_def st1_def)
  have src: "rt_sources st2 = [WsSource (w\<lparr>wss_client := c, wss_position := pos\<rparr>)]" "rt_currentSource st2 = Some 0"
      "rt_ucSource st2 = 0" "rt_subscribing st2 = rt_subscribing st"
    using assms(2-4) by (simp_all add: st2_def st1_def)
  show ?thesis
  proof (cases fb)
    case True
    then have "run_fallback False 0 st2 = Done st'" using assms(1) False r n by (simp add: read_round_def Let_def st2_def flip: st1_def)
    moreover obtain k e where "wss_ctx w = Some (WithCancel k e)" using assms(5,6) by (auto simp: fresh_ws_def)
    ultimately have "phase_two st'" "quiet_step st2 st'" "rt_checkpoints st' = rt_checkpoints st2"
      using run_fallback_phase [OF src(1-3)] src(4) assms(5,6) by (auto simp: fresh_ws_def)
    then show ?thesis using mv em by (simp add: good_step_def moves_def quiet_step_def emits_def)
  next
    case False': False
    then have "st' = st2" using assms(1) False r n by (simp add: read_round_def Let_def st2_def flip: st1_def)
    moreover have "phase_one st2" using src assms(5) by (auto simp: phase_one_def fresh_ws_def)
    ultimately show ?thesis using mv em by (simp add: good_step_def)
  qed
qed

lemma poll_round_phase:
  assumes "poll_round uc client 0 p c st = Some st'" "rt_sources st = [PollerSource p]" "rt_currentSource st = Some 0"
    "rt_ucSource st = 0" "ps_handler p = SubscriberUC"
  shows "good_step uc st st'"
proof -
  let ?client = "with_ctx (ctx_done (rt_cancelled st) c) client"
  obtain q s cbs where q: "poll ?client uc (ps_poller p) (rt_state st) = Some (q, s, cbs)"
    and st': "st' = emit_for (ps_onLtUpdated p) cbs ((put 0 (PollerSource (p\<lparr>ps_poller := q\<rparr>)) st)\<lparr>rt_state := s\<rparr>)"
    using assms(1,5) by (auto simp: poll_round_def handler_of_def split: option.splits)
  define st1 where "st1 = (put 0 (PollerSource (p\<lparr>ps_poller := q\<rparr>)) st)\<lparr>rt_state := s\<rparr>"
  obtain n where n: "st' = emitted st1 (replicate n (GetSyncCheckpoint st1))"
    using emit_for_emits st' st1_def by blast
  have lt: "Handler_GetLastProcessedLt st = po_lastProcessedLt (ps_poller p)" "Handler_GetLastProcessedLt st1 = po_lastProcessedLt q"
    using assms(2-4) by (simp_all add: st1_def Handler_GetLastProcessedLt_def Source_GetLastProcessedLt_def GetLastProcessedLt_def)
  have "moves uc st st'" using q lt unfolding moves_def n by (intro disjI2) (auto simp: st1_def)
  moreover have "emits st st'" by (auto simp: emits_def n st1_def)
  moreover have "phase_one st'" using assms(2-) by (auto simp: n st1_def phase_one_def)
  ultimately show ?thesis by (simp add: good_step_def)
qed

lemma Handler_Stop_phase:
  assumes "Handler_Stop st = Done st'" "phase_one st"
  shows "good_step uc st st'"
proof -
  obtain st1 where s1: "Source_Stop (rt_ucSource st) (cancel (Some (rt_ctx st)) st) = Done st1" "st' = emitCheckpoint st1"
    using assms(1) by (auto simp: Handler_Stop_def elim!: bindO.elims)
  obtain n where n: "st' = emitted st1 (replicate n (GetSyncCheckpoint st1))" using emitCheckpoint_emits s1(2) by blast
  have c: "rt_sources (cancel k st) = rt_sources st" "rt_currentSource (cancel k st) = rt_currentSource st"
      "rt_ucSource (cancel k st) = rt_ucSource st" "rt_state (cancel k st) = rt_state st"
      "rt_subscribing (cancel k st) = rt_subscribing st" "rt_checkpoints (cancel k st) = rt_checkpoints st" for k and st :: "'s runtime"
    by (simp_all add: cancel_def split: option.split ctx.split)
  from assms(2) have "phase_one st1 \<and> quiet_step st st1 \<and> rt_checkpoints st1 = rt_checkpoints st"
    by (cases rule: phase_oneE)
      (use s1(1) in \<open>auto simp: Source_Stop_def c phase_one_def fresh_ws_def quiet_step_def
        Handler_GetLastProcessedLt_def Source_GetLastProcessedLt_def split: if_splits\<close>)
  then show ?thesis unfolding n by (auto simp: good_step_def moves_def quiet_step_def emits_def)
qed

lemmas phase_defs = phase_one_def fresh_ws_def quiet_step_def Handler_GetLastProcessedLt_def Source_GetLastProcessedLt_def

lemma phase_one_step:
  assumes "rt_step js uc st st'" "phase_one st"
  shows "good_step uc st st'"
  using assms(1)
proof cases
  case (subscribe net)
  let ?st = "st\<lparr>rt_subscribing := False\<rparr>"
  have q: "quiet_step ?st x \<Longrightarrow> quiet_step st x" for x by (simp add: quiet_step_def Handler_GetLastProcessedLt_def)
  from assms(2) show ?thesis
  proof (cases rule: phase_oneE)
    case (poller p)
    with subscribe Poller_Start_phase [of ?st p "rt_ctx st"] show ?thesis
      by (intro quiet_good) (auto simp: Source_Start_def q)
  next
    case (ws w)
    with subscribe Ws_Start_phase [of net "rt_ctx st" ?st st' w] show ?thesis
      by (intro quiet_good) (auto simp: Source_Start_def fresh_ws_def q)
  qed
next
  case started
  let ?st = "st\<lparr>rt_starting := False\<rparr>"
  obtain n where "st' = emitted ?st (replicate n (GetSyncCheckpoint ?st))"
    using emitCheckpoint_emits [of ?st] started by auto
  then show ?thesis using assms(2)
    by (auto simp: good_step_def moves_def emits_def quiet_step_def Handler_GetLastProcessedLt_def GetSyncCheckpoint_def)
next
  case (read i w net rd)
  from assms(2) show ?thesis
    by (cases rule: phase_oneE) (use read read_round_phase in auto)
next
  case (ping i w net)
  from assms(2) show ?thesis
    by (cases rule: phase_oneE) (use ping in \<open>auto intro!: quiet_good simp: phase_defs\<close>)
next
  case (ping_end i w)
  from assms(2) show ?thesis
    by (cases rule: phase_oneE) (use ping_end in \<open>auto intro!: quiet_good simp: phase_defs\<close>)
next
  case (pong i w now)
  from assms(2) show ?thesis
    by (cases rule: phase_oneE) (use pong in \<open>auto intro!: quiet_good simp: phase_defs\<close>)
next
  case (poll i p c client)
  from assms(2) show ?thesis
    by (cases rule: phase_oneE) (use poll poll_round_phase in auto)
next
  case (poll_end i p c)
  from assms(2) show ?thesis
    by (cases rule: phase_oneE) (use poll_end in \<open>auto intro!: quiet_good simp: phase_defs\<close>)
next
  case (notify n)
  let ?st = "st\<lparr>rt_notifying := n\<rparr>"
  obtain m fs where "st' = (emitted ?st (replicate m (GetSyncCheckpoint ?st)))\<lparr>rt_fallbacks := fs\<rparr>"
    using emitFallback_emits [of ?st] notify by auto
  then show ?thesis using assms(2)
    by (auto simp: good_step_def moves_def emits_def quiet_step_def Handler_GetLastProcessedLt_def GetSyncCheckpoint_def)
next
  case stop
  then show ?thesis using assms(2) by (rule Handler_Stop_phase)
qed

section \<open>A step in the second phase\<close>

lemma phase_twoE:
  assumes "phase_two st"
  obtains w p where "rt_sources st = [WsSource w, PollerSource p]" "rt_ucSource st = 0" "\<not> rt_subscribing st"
    "wss_fallbackTriggered w" "wc_stopped (wss_client w)" "ps_handler p = TempHandler"
    "\<And>c. ps_loop p = Some c \<Longrightarrow> ctx_done (rt_cancelled st) c" "rt_currentSource st = Some 1"
    "ps_loop p = None \<Longrightarrow> \<not> ps_isRunning p"
  using assms by (auto simp: phase_two_def split: option.splits)

lemma ctx_done_mono: "ctx_done ks c \<Longrightarrow> set ks \<subseteq> set ks' \<Longrightarrow> ctx_done ks' c"
  by (induction c) auto

lemma cancel_simps [simp]:
  "rt_sources (cancel k st) = rt_sources st" "rt_currentSource (cancel k st) = rt_currentSource st"
  "rt_ucSource (cancel k st) = rt_ucSource st" "rt_state (cancel k st) = rt_state st"
  "rt_subscribing (cancel k st) = rt_subscribing st" "rt_checkpoints (cancel k st) = rt_checkpoints st"
  by (simp_all add: cancel_def split: option.split ctx.split)

lemma cancel_more: "set (rt_cancelled st) \<subseteq> set (rt_cancelled (cancel k st))"
  by (auto simp: cancel_def split: option.split ctx.split)

text \<open>A poll whose context is done asks nothing of the handler.\<close>

lemma poll_cancelled: "poll (with_ctx True client) h p s = Some (handleError (p\<lparr>po_requests := Suc (po_requests p)\<rparr>), s, [])"
  by (simp add: poll_def with_ctx_def Let_def)

lemma phase_two_stop:
  assumes "Handler_Stop st = Done st'" "phase_two st"
  shows "phase_two st' \<and> quiet_step st st' \<and> emits st st'"
proof -
  from assms(2) obtain w p where s: "rt_sources st = [WsSource w, PollerSource p]" "rt_ucSource st = 0" "\<not> rt_subscribing st"
    "wss_fallbackTriggered w" "wc_stopped (wss_client w)" "ps_handler p = TempHandler"
    "\<And>c. ps_loop p = Some c \<Longrightarrow> ctx_done (rt_cancelled st) c" "rt_currentSource st = Some 1"
    "ps_loop p = None \<Longrightarrow> \<not> ps_isRunning p"
    by (rule phase_twoE) metis
  define st1 where "st1 = put 0 (WsSource w) (cancel (wss_ctx w) (cancel (Some (rt_ctx st)) st))"
  have w: "w\<lparr>wss_client := wss_client w\<rparr> = w" by (cases w) simp
  have st': "st' = emitCheckpoint st1"
    using assms(1) s(1,2,5) by (simp add: Handler_Stop_def Source_Stop_def Client_Stop_def st1_def w)
  obtain n where n: "st' = emitted st1 (replicate n (GetSyncCheckpoint st1))" using emitCheckpoint_emits st' by blast
  have "set (rt_cancelled st) \<subseteq> set (rt_cancelled st1)"
    unfolding st1_def put_simps by (rule order_trans [OF cancel_more cancel_more])
  then have "phase_two st1" using s ctx_done_mono by (auto simp: phase_two_def st1_def split: option.split)
  moreover have "quiet_step st st1" using s by (simp add: quiet_step_def Handler_GetLastProcessedLt_def st1_def)
  ultimately show ?thesis unfolding n by (simp add: quiet_step_def emits_def st1_def)
qed

lemma phase_two_step:
  assumes "rt_step js uc st st'" "phase_two st"
  shows "phase_two st' \<and> quiet_step st st' \<and> emits st st'"
proof -
  from assms(2) obtain w p where s: "rt_sources st = [WsSource w, PollerSource p]" "rt_ucSource st = 0" "\<not> rt_subscribing st"
    "wss_fallbackTriggered w" "wc_stopped (wss_client w)" "ps_handler p = TempHandler"
    "\<And>c. ps_loop p = Some c \<Longrightarrow> ctx_done (rt_cancelled st) c" "rt_currentSource st = Some 1"
    "ps_loop p = None \<Longrightarrow> \<not> ps_isRunning p"
    by (rule phase_twoE) metis
  have ix: "rt_sources st ! i = WsSource v \<Longrightarrow> i < length (rt_sources st) \<Longrightarrow> i = 0 \<and> v = w"
      "rt_sources st ! i = PollerSource q \<Longrightarrow> i < length (rt_sources st) \<Longrightarrow> i = 1 \<and> q = p" for i v q
    using s(1) by (auto simp: less_Suc_eq)
  note defs = phase_two_def quiet_step_def Handler_GetLastProcessedLt_def Source_GetLastProcessedLt_def emits_def
  have put_ws: "phase_two (put 0 (WsSource v) st) \<and> quiet_step st (put 0 (WsSource v) st) \<and> emits st (put 0 (WsSource v) st)"
    if "wss_fallbackTriggered v" "wc_stopped (wss_client v)" "wss_position v = wss_position w" for v
    using that s by (auto simp: defs split: option.split)
  show ?thesis using assms(1)
  proof cases
    case (subscribe net)
    with s(3) show ?thesis by simp
  next
    case started
    let ?st = "st\<lparr>rt_starting := False\<rparr>"
    obtain n where "st' = emitted ?st (replicate n (GetSyncCheckpoint ?st))"
      using emitCheckpoint_emits [of ?st] started by auto
    then show ?thesis using assms(2)
      by (auto simp: emits_def quiet_step_def Handler_GetLastProcessedLt_def GetSyncCheckpoint_def)
  next
    case (read i v net rd)
    with ix(1) s(5) have "st' = put 0 (WsSource (w\<lparr>wss_loop := False\<rparr>)) st" by (auto simp: read_round_def ws_ended_def)
    then show ?thesis using s(4,5) put_ws by simp
  next
    case (ping i v net)
    with ix(1) have "st' = put 0 (WsSource (w\<lparr>wss_client := pingLoop_round net (wss_client w)\<rparr>)) st" by auto
    moreover have "wc_stopped (pingLoop_round net (wss_client w))" using s(5) by (simp add: pingLoop_round_def handleDisconnect_def)
    ultimately show ?thesis using s(4) put_ws by simp
  next
    case (ping_end i v)
    with ix(1) have "st' = put 0 (WsSource (w\<lparr>wss_pings := False\<rparr>)) st" by auto
    then show ?thesis using s(4,5) put_ws by simp
  next
    case (pong i v now)
    with ix(1) have "st' = put 0 (WsSource (w\<lparr>wss_client := Ws_Client.pong now (wss_client w)\<rparr>)) st" by auto
    then show ?thesis using s(4,5) put_ws by (simp add: Ws_Client.pong_def)
  next
    case (poll i q c client)
    with ix(2) s(7) have "st' = (put 1 (PollerSource (p\<lparr>ps_poller := handleError ((ps_poller p)\<lparr>po_requests := Suc (po_requests (ps_poller p))\<rparr>)\<rparr>)) st)
        \<lparr>rt_state := rt_state st\<rparr>"
      by (auto simp: poll_round_def poll_cancelled emit_for_def)
    then show ?thesis using s by (auto simp: defs split: option.split)
  next
    case (poll_end i q c)
    with ix(2) have "st' = put 1 (PollerSource (p\<lparr>ps_loop := None, ps_isRunning := False\<rparr>)) st" by auto
    then show ?thesis using s by (auto simp: defs)
  next
    case (notify n)
    let ?st = "st\<lparr>rt_notifying := n\<rparr>"
    obtain m fs where "st' = (emitted ?st (replicate m (GetSyncCheckpoint ?st)))\<lparr>rt_fallbacks := fs\<rparr>"
      using emitFallback_emits [of ?st] notify by auto
    then show ?thesis using assms(2)
      by (auto simp: emits_def quiet_step_def Handler_GetLastProcessedLt_def GetSyncCheckpoint_def)
  next
    case stop
    then show ?thesis using assms(2) by (rule phase_two_stop)
  qed
qed

section \<open>Runs\<close>

lemma rt_step_good: "rt_step js uc st st' \<Longrightarrow> phase_one st \<or> phase_two st \<Longrightarrow> good_step uc st st'"
proof (elim disjE)
  assume "rt_step js uc st st'" "phase_two st"
  from phase_two_step [OF this] show "good_step uc st st'" unfolding good_step_def moves_def by blast
qed (rule phase_one_step)

lemma rt_steps_phase: "(rt_step js uc)\<^sup>*\<^sup>* st st' \<Longrightarrow> phase_one st \<or> phase_two st \<Longrightarrow> phase_one st' \<or> phase_two st'"
  by (induction rule: rtranclp_induct) (auto dest: rt_step_good simp: good_step_def)

lemma rt_steps_quiet: "(rt_step js uc)\<^sup>*\<^sup>* st st' \<Longrightarrow> phase_two st \<Longrightarrow> phase_two st' \<and> quiet_step st st'"
proof (induction rule: rtranclp_induct)
  case (step y z)
  with phase_two_step [OF step.hyps(2)] show ?case by (auto simp: quiet_step_def)
qed (simp add: quiet_step_def)

text \<open>The runtime is an event source: its checkpoint is the one of the source of the use case.\<close>

definition ingest_checkpoint :: "'s runtime \<Rightarrow> int" where
  "ingest_checkpoint st = lt_value (Handler_GetLastProcessedLt st)"

inductive ingest :: "ws_json \<Rightarrow> 's tx_handler \<Rightarrow> ('s \<times> Transaction list) runtime \<times> Transaction list
    \<Rightarrow> ('s \<times> Transaction list) runtime \<times> Transaction list \<Rightarrow> bool" for js :: ws_json and h :: "'s tx_handler" where
  "rt_step js (logging h) st st' \<Longrightarrow> phase_one st \<or> phase_two st \<Longrightarrow>
     ingest js h (st, snd (rt_state st)) (st', snd (rt_state st'))"

inductive_simps ingest_iff: "ingest js h (st, hist) (st', hist')"

lemma moves_refines:
  assumes "moves (logging h) st st'"
  shows "ck_step\<^sup>*\<^sup>* (ingest_checkpoint st, snd (rt_state st)) (ingest_checkpoint st', snd (rt_state st'))"
proof -
  obtain s hist where s: "rt_state st = (s, hist)" by (cases "rt_state st")
  obtain s' hist' where s': "rt_state st' = (s', hist')" by (cases "rt_state st'")
  from assms show ?thesis unfolding moves_def s s' snd_conv ingest_checkpoint_def
  proof (elim disjE exE conjE)
    assume "quiet_step st st'"
    then show "ck_step\<^sup>*\<^sup>* (lt_value (Handler_GetLastProcessedLt st), hist) (lt_value (Handler_GetLastProcessedLt st'), hist')"
      using s s' by (simp add: quiet_step_def)
  qed (simp_all add: polling.refines [OF poll_receive.intros] streaming.refines [OF ws_receive.intros])
qed

interpretation ingestion: event_source ingest_checkpoint "ingest js h" for js :: ws_json and h :: "'s tx_handler"
  by unfold_locales (auto simp: ingest_iff dest: rt_step_good intro!: moves_refines simp: good_step_def)

lemma runs_ingest:
  assumes "(rt_step js (logging h))\<^sup>*\<^sup>* st st'" "phase_one st \<or> phase_two st"
  shows "(ingest js h)\<^sup>*\<^sup>* (st, snd (rt_state st)) (st', snd (rt_state st'))"
  using assms
proof (induction rule: rtranclp_induct)
  case (step y z)
  have "ingest js h (y, snd (rt_state y)) (z, snd (rt_state z))"
    using step rt_steps_phase by (auto simp: ingest_iff)
  with step show ?case by auto
qed simp

lemma ck_steps_backed: "ck_step\<^sup>*\<^sup>* x y \<Longrightarrow> fst y = fst x \<or> (\<exists>tx \<in> set (snd y). ltv tx = fst y)"
proof (induction rule: rtranclp_induct)
  case (step y z)
  from step.hyps(2) show ?case by cases auto
qed simp

definition backed :: "int \<Rightarrow> ('s \<times> Transaction list) runtime \<Rightarrow> bool" where
  "backed v0 st \<longleftrightarrow> sorted (map (\<lambda>ck. lt_value (cp_LastProcessedLt ck)) (rt_checkpoints st))
     \<and> (\<forall>ck \<in> set (rt_checkpoints st). lt_value (cp_LastProcessedLt ck) \<le> ingest_checkpoint st
         \<and> (lt_value (cp_LastProcessedLt ck) = v0 \<or> (\<exists>tx \<in> set (snd (rt_state st)). ltv tx = lt_value (cp_LastProcessedLt ck))))"

lemma backed_step:
  assumes "good_step (logging h) st st'" "backed v0 st"
    and "ingest_checkpoint st' = v0 \<or> (\<exists>tx \<in> set (snd (rt_state st')). ltv tx = ingest_checkpoint st')"
  shows "backed v0 st'"
proof -
  from assms(1) obtain cks where c: "rt_checkpoints st' = rt_checkpoints st @ cks"
      "\<And>ck. ck \<in> set cks \<Longrightarrow> lt_value (cp_LastProcessedLt ck) = ingest_checkpoint st'"
    by (auto simp: good_step_def emits_def ingest_checkpoint_def)
  from assms(1) have "ck_step\<^sup>*\<^sup>* (ingest_checkpoint st, snd (rt_state st)) (ingest_checkpoint st', snd (rt_state st'))"
    by (auto simp: good_step_def intro: moves_refines)
  from ck_steps_mono [OF this] have mono: "ingest_checkpoint st \<le> ingest_checkpoint st'"
      "set (snd (rt_state st)) \<subseteq> set (snd (rt_state st'))"
    by (auto simp: prefix_def)
  have "map (\<lambda>ck. lt_value (cp_LastProcessedLt ck)) cks = map (\<lambda>_. ingest_checkpoint st') cks" using c(2) by simp
  then have "sorted (map (\<lambda>ck. lt_value (cp_LastProcessedLt ck)) (rt_checkpoints st @ cks))"
    using assms(2) mono(1) by (auto simp: backed_def sorted_append map_replicate_const intro: order_trans)
  then show ?thesis using assms(2,3) mono c unfolding backed_def by (auto 4 3 intro: order_trans)
qed

lemma backed_run:
  assumes "(rt_step js (logging h))\<^sup>*\<^sup>* st st'" "phase_one st" "rt_checkpoints st = []" "snd (rt_state st) = []"
  shows "backed (ingest_checkpoint st) st'"
  using assms(1)
proof (induction rule: rtranclp_induct)
  case base
  then show ?case using assms(3) by (simp add: backed_def)
next
  case (step y z)
  have "(rt_step js (logging h))\<^sup>*\<^sup>* st z" using step.hyps by auto
  from ck_steps_backed [OF ingestion.run_refines [OF runs_ingest [OF this]]] assms(2,4)
  have "ingest_checkpoint z = ingest_checkpoint st \<or> (\<exists>tx \<in> set (snd (rt_state z)). ltv tx = ingest_checkpoint z)" by auto
  with step.IH rt_step_good [OF step.hyps(2)] rt_steps_phase [OF step.hyps(1)] assms(2) show ?case
    by (auto intro: backed_step)
qed

text \<open>
  C28. In every run of the ingestion runtime, whatever the server sends, whichever
  connections fail and in whatever order the goroutines run, the transactions the use case has
  handled are in the order of logical time with none of them twice, and every checkpoint that is
  emitted is the point the run was resumed from or the time of a transaction that has been
  handled successfully before; the emitted checkpoints never go back.
\<close>

theorem ingestion_in_order:
  assumes "(rt_step js (logging h))\<^sup>*\<^sup>* (run_handler_setup cfg ck (s, [])) st"
  shows "distinct (map transactionDedupKey (snd (rt_state st))) \<and> sorted (map ltv (snd (rt_state st)))
     \<and> sorted (map (\<lambda>ck. lt_value (cp_LastProcessedLt ck)) (rt_checkpoints st))
     \<and> (\<forall>c \<in> set (rt_checkpoints st).
          lt_value (cp_LastProcessedLt c) = lt_value (Handler_GetLastProcessedLt (run_handler_setup cfg ck (s, [] :: Transaction list)))
          \<or> (\<exists>tx \<in> set (snd (rt_state st)). ltv tx = lt_value (cp_LastProcessedLt c)))"
proof -
  let ?st = "run_handler_setup cfg ck (s, [] :: Transaction list)"
  have p: "phase_one ?st" "rt_checkpoints ?st = []" "snd (rt_state ?st) = []" by (simp_all add: boot_phase)
  have "(ingest js h)\<^sup>*\<^sup>* (?st, []) (st, snd (rt_state st))" using runs_ingest [OF assms] p by simp
  from ingestion.run_in_order [OF this] backed_run [OF assms p]
  show ?thesis unfolding backed_def ingest_checkpoint_def by blast
qed

text \<open>
  C32. Once the WebSocket source has fallen back, no transaction reaches the use case any
  more and the checkpoint does not move: the poller that the fallback starts is given the context
  of the subscriber, which stopping the subscriber has just cancelled, so it ends without a
  successful request, and its handler is the placeholder.
\<close>

theorem fallback_stops_ingestion:
  assumes "(rt_step js uc)\<^sup>*\<^sup>* (run_handler_setup cfg ck s) st" "fell_back st" "(rt_step js uc)\<^sup>*\<^sup>* st st'"
  shows "rt_state st' = rt_state st \<and> Handler_GetLastProcessedLt st' = Handler_GetLastProcessedLt st"
proof -
  have "phase_one st \<or> phase_two st" by (rule rt_steps_phase [OF assms(1) disjI1 [OF boot_phase(1)]])
  with phase_fell_back(1) assms(2) have "phase_two st" by auto
  from rt_steps_quiet [OF assms(3) this] show ?thesis by (simp add: quiet_step_def)
qed

section \<open>Two runs\<close>

text \<open>
  A runtime with the WebSocket source whose first connection succeeds and which receives one
  transaction, and one whose first connection is refused.
\<close>

definition ws_config :: backend_config where
  "ws_config = \<lparr>gb_BlockchainEventSource = ''websocket'', gb_EnableWebSocket = True, gb_WebSocketReconnectMax = 3,
     gb_TONGameContractAddr = ''EQC'', gb_TONCenterV3WSURL = ''wss://ton'', gb_ResumeFromCheckpoint = True,
     gb_ResumeEventSource = True, gb_MinPollInterval = None, gb_MaxPollInterval = None\<rparr>"

definition open_net :: ws_net where
  "open_net = refused\<lparr>net_dial := None\<rparr>"

definition lt_json :: ws_json where
  "lt_json = demo_json\<lparr>js_notification := (\<lambda>raw. Inr (chain_tx raw ''0''))\<rparr>"

abbreviation ws_boot :: "(nat \<times> Transaction list) runtime" where
  "ws_boot \<equiv> run_handler_setup ws_config None (0, [])"

fun done_state :: "'s runtime outcome \<Rightarrow> 's runtime \<Rightarrow> 's runtime" where
  "done_state (Done st) d = st"
| "done_state Panics d = d"
| "done_state Blocks d = d"

definition ws_subscribed :: "ws_net \<Rightarrow> (nat \<times> Transaction list) runtime" where
  "ws_subscribed net = done_state (Source_Start net False (rt_ctx ws_boot) (rt_ucSource ws_boot)
     (ws_boot\<lparr>rt_subscribing := False\<rparr>)) ws_boot"

lemma ws_subscribed_step: "rt_step js uc ws_boot (ws_subscribed refused)" "rt_step js uc ws_boot (ws_subscribed open_net)"
proof -
  have "rt_subscribing ws_boot" by code_simp
  moreover have "Source_Start refused False (rt_ctx ws_boot) (rt_ucSource ws_boot) (ws_boot\<lparr>rt_subscribing := False\<rparr>)
      = Done (ws_subscribed refused)" by code_simp
  moreover have "Source_Start open_net False (rt_ctx ws_boot) (rt_ucSource ws_boot) (ws_boot\<lparr>rt_subscribing := False\<rparr>)
      = Done (ws_subscribed open_net)" by code_simp
  ultimately show "rt_step js uc ws_boot (ws_subscribed refused)" "rt_step js uc ws_boot (ws_subscribed open_net)"
    by (auto intro: rt_step.subscribe)
qed

theorem fallback_stops_ingestion_witness:
  "\<exists>st. (rt_step lt_json (logging counting_handler))\<^sup>*\<^sup>* (ws_subscribed refused) st \<and> fell_back (ws_subscribed refused)
     \<and> length (rt_fallbacks st) = 1 \<and> rt_state st = rt_state (ws_subscribed refused)"
proof -
  let ?st = "ws_subscribed refused"
  let ?st' = "emitFallback (?st\<lparr>rt_notifying := 0\<rparr>)"
  have "rt_notifying ?st = Suc 0" by code_simp
  then have step: "(rt_step lt_json (logging counting_handler))\<^sup>*\<^sup>* ?st ?st'" by (intro r_into_rtranclp rt_step.notify)
  have fb: "fell_back ?st" "length (rt_fallbacks ?st') = 1" by code_simp+
  have "(rt_step lt_json (logging counting_handler))\<^sup>*\<^sup>* ws_boot ?st" by (intro r_into_rtranclp ws_subscribed_step)
  from fallback_stops_ingestion [OF this fb(1) step] step fb show ?thesis by blast
qed

theorem ingestion_in_order_witness:
  "\<exists>st. (rt_step lt_json (logging counting_handler))\<^sup>*\<^sup>* ws_boot st \<and> map cp_LastProcessedLt (rt_checkpoints st) = [''8'']
     \<and> (\<forall>c \<in> set (rt_checkpoints st). lt_value (cp_LastProcessedLt c) = 0
          \<or> (\<exists>tx \<in> set (snd (rt_state st)). ltv tx = lt_value (cp_LastProcessedLt c)))"
proof -
  let ?st = "ws_subscribed open_net"
  define w where "w = (case rt_sources ?st ! 0 of WsSource w \<Rightarrow> w | PollerSource p \<Rightarrow> new_ws_source TempHandler (rt_config ?st))"
  define st' where "st' = done_state (read_round lt_json (logging counting_handler) open_net (Inr ''8'') 0 w ?st) ?st"
  have w: "rt_sources ?st ! 0 = WsSource w" "wss_loop w" unfolding w_def by code_simp+
  have "0 < length (rt_sources ?st)" by code_simp
  moreover have "read_round lt_json (logging counting_handler) open_net (Inr ''8'') 0 w ?st = Done st'"
    unfolding st'_def w_def by code_simp
  ultimately have run: "(rt_step lt_json (logging counting_handler))\<^sup>*\<^sup>* ws_boot st'"
    using ws_subscribed_step(2) w by (meson rt_step.read rtranclp.rtrancl_into_rtrancl rtranclp.rtrancl_refl)
  have ck: "map cp_LastProcessedLt (rt_checkpoints st') = [''8'']" unfolding st'_def w_def by code_simp
  have lt: "lt_value (Handler_GetLastProcessedLt ws_boot) = 0" by code_simp
  from ingestion_in_order [OF run] run ck lt show ?thesis by auto
qed

end
