(* ===== verification/Health.thy ===== *)
theory Health
  imports Ingestion_Runs
begin

text \<open>
  The health endpoint, \<open>internal/controller/rest/health_handler.go\<close>, over the ingestion runtime
  (its event source provider is the TON event handler) and the checkpoint repository. The database
  pool, the circuit breaker of the TON Center client and the JSON encoder are not under
  \<open>src/\<close>: the answer of the ping and the state of the breaker are arguments.
\<close>

section \<open>Data\<close>

abbreviation healthStatusHealthy :: string where "healthStatusHealthy \<equiv> ''healthy''"
abbreviation healthStatusDegraded :: string where "healthStatusDegraded \<equiv> ''degraded''"
abbreviation healthStatusUnhealthy :: string where "healthStatusUnhealthy \<equiv> ''unhealthy''"
abbreviation connectionConnected :: string where "connectionConnected \<equiv> ''connected''"
abbreviation connectionDisconnected :: string where "connectionDisconnected \<equiv> ''disconnected''"
abbreviation connectionNotConfigured :: string where "connectionNotConfigured \<equiv> ''not_configured''"
abbreviation eventSourceWebSocket :: string where "eventSourceWebSocket \<equiv> ''websocket''"
abbreviation eventSourceHTTP :: string where "eventSourceHTTP \<equiv> ''http''"
abbreviation tonCenterRecovering :: string where "tonCenterRecovering \<equiv> ''recovering''"
abbreviation tonCenterCircuitOpen :: string where "tonCenterCircuitOpen \<equiv> ''circuit_breaker_open''"
abbreviation parserRecoveryLive :: string where "parserRecoveryLive \<equiv> ''live''"
abbreviation parserRecoveryFallback :: string where "parserRecoveryFallback \<equiv> ''fallback_active''"
abbreviation parserRecoveryRecovering :: string where "parserRecoveryRecovering \<equiv> ''recovering''"
abbreviation parserRecoveryStalled :: string where "parserRecoveryStalled \<equiv> ''stalled''"
abbreviation parserRecoveryNotConfigured :: string where "parserRecoveryNotConfigured \<equiv> ''not_configured''"

record ParserHealthResponse =
  ph_Status :: string
  ph_RecoveryStatus :: string
  ph_LastProcessedLt :: string
  ph_CheckpointUpdatedAt :: "instant option"
  ph_FallbackCount :: int
  ph_LastFallbackAt :: "instant option"
  ph_CurrentSourceType :: string

record HealthResponse =
  hr_Status :: string
  hr_Timestamp :: instant
  hr_Database :: string
  hr_TonCenterAPI :: string
  hr_EventSourceType :: string
  hr_EventSourceStatus :: string
  hr_Parser :: ParserHealthResponse

datatype breaker_state = StateClosed | StateHalfOpen | StateOpen

text \<open>A field is \<open>None\<close> where the program has a nil pointer; \<open>hh_db\<close> is the outcome of the ping.\<close>

record 's HealthHandler =
  hh_db :: "bool option"
  hh_tonCenterClient :: "breaker_state option"
  hh_eventSourceProvider :: "'s runtime option"
  hh_syncStateProvider :: "sync_db option"

section \<open>Operations\<close>

definition mergeHealthStatus :: "string \<Rightarrow> string \<Rightarrow> string" where
  "mergeHealthStatus current nxt =
     (if current = healthStatusUnhealthy \<or> nxt = healthStatusUnhealthy then healthStatusUnhealthy
      else if current = healthStatusDegraded \<or> nxt = healthStatusDegraded then healthStatusDegraded
      else healthStatusHealthy)"

definition Health_normalizeLt :: "string \<Rightarrow> string" where
  "Health_normalizeLt lt = (let trimmed = TrimSpace lt in if trimmed = '''' then '''' else trimmed)"

definition populateEventSourceHealth :: "'s HealthHandler \<Rightarrow> HealthResponse \<Rightarrow> HealthResponse" where
  "populateEventSourceHealth h response = (case hh_eventSourceProvider h of
       None \<Rightarrow> response\<lparr>hr_EventSourceType := connectionNotConfigured, hr_EventSourceStatus := connectionNotConfigured\<rparr>
     | Some st \<Rightarrow>
         let r1 = response\<lparr>hr_EventSourceType := GetCurrentSourceType st\<rparr> in
         if Factory_IsConnected st then r1\<lparr>hr_EventSourceStatus := connectionConnected\<rparr>
         else let r2 = r1\<lparr>hr_EventSourceStatus := connectionDisconnected\<rparr> in
           if hr_EventSourceType r2 = eventSourceHTTP \<and> hr_Status r2 = healthStatusHealthy
           then r2\<lparr>hr_Status := healthStatusDegraded\<rparr> else r2)"

definition loadSyncState :: "'s HealthHandler \<Rightarrow> HealthResponse \<Rightarrow> BlockchainSyncState option \<times> HealthResponse" where
  "loadSyncState h response = (case hh_syncStateProvider h of
       None \<Rightarrow> (None, response)
     | Some sdb \<Rightarrow> (case fst (Sync_Get sdb) of
         Inl err \<Rightarrow>
           let r1 = response\<lparr>hr_Parser := (hr_Parser response)\<lparr>ph_Status := healthStatusDegraded,
                 ph_RecoveryStatus := parserRecoveryRecovering\<rparr>\<rparr>
           in (None, r1\<lparr>hr_Status := mergeHealthStatus (hr_Status r1) (ph_Status (hr_Parser r1))\<rparr>)
       | Inr state \<Rightarrow> (Some state, response)))"

definition applySyncState :: "BlockchainSyncState option \<Rightarrow> HealthResponse \<Rightarrow> HealthResponse" where
  "applySyncState syncState response = (case syncState of
       None \<Rightarrow> response
     | Some s \<Rightarrow>
         let p1 = (hr_Parser response)\<lparr>ph_FallbackCount := s_FallbackCount s, ph_LastFallbackAt := s_LastFallbackAt s,
               ph_CheckpointUpdatedAt := Some (s_UpdatedAt s)\<rparr>;
             normalizedLt = Health_normalizeLt (s_LastProcessedLt s);
             p2 = (if normalizedLt \<noteq> '''' then p1\<lparr>ph_LastProcessedLt := normalizedLt\<rparr> else p1);
             r1 = response\<lparr>hr_Parser := p2\<rparr>
         in if hr_EventSourceType r1 \<noteq> connectionNotConfigured \<or> TrimSpace (s_EventSourceType s) = '''' then r1
            else let r2 = r1\<lparr>hr_EventSourceType := s_EventSourceType s\<rparr> in
              if s_EventSourceType s = eventSourceWebSocket
              then r2\<lparr>hr_EventSourceStatus := (if s_WebSocketConnected s then connectionConnected else connectionDisconnected)\<rparr>
              else r2)"

definition applyLiveCheckpoint :: "'s HealthHandler \<Rightarrow> HealthResponse \<Rightarrow> HealthResponse" where
  "applyLiveCheckpoint h response = (case hh_eventSourceProvider h of
       None \<Rightarrow> response
     | Some st \<Rightarrow>
         let normalizedLt = Health_normalizeLt (Handler_GetLastProcessedLt st) in
         if normalizedLt \<noteq> '''' then response\<lparr>hr_Parser := (hr_Parser response)\<lparr>ph_LastProcessedLt := normalizedLt\<rparr>\<rparr>
         else response)"

definition isEventSourceStalled :: "HealthResponse \<Rightarrow> bool" where
  "isEventSourceStalled response =
     (if hr_EventSourceStatus response \<noteq> connectionDisconnected then False
      else hr_EventSourceType response = eventSourceWebSocket \<or> hr_EventSourceType response = eventSourceHTTP)"

definition isTonCenterRecovering :: "HealthResponse \<Rightarrow> bool" where
  "isTonCenterRecovering response \<longleftrightarrow>
     hr_TonCenterAPI response = tonCenterCircuitOpen \<or> hr_TonCenterAPI response = tonCenterRecovering"

definition isFallbackActive :: "HealthResponse \<Rightarrow> BlockchainSyncState option \<Rightarrow> bool" where
  "isFallbackActive response syncState \<longleftrightarrow> hr_EventSourceType response = eventSourceHTTP
     \<and> (case syncState of None \<Rightarrow> False | Some s \<Rightarrow> s_FallbackCount s > 0)"

definition deriveParserHealth :: "HealthResponse \<Rightarrow> BlockchainSyncState option \<Rightarrow> string \<times> string" where
  "deriveParserHealth response syncState =
     (if isEventSourceStalled response then (healthStatusUnhealthy, parserRecoveryStalled)
      else if isTonCenterRecovering response then (healthStatusDegraded, parserRecoveryRecovering)
      else if isFallbackActive response syncState then (healthStatusDegraded, parserRecoveryFallback)
      else if hr_EventSourceType response = connectionNotConfigured \<or> hr_EventSourceStatus response = connectionNotConfigured
        then (healthStatusDegraded, parserRecoveryNotConfigured)
      else (healthStatusHealthy, parserRecoveryLive))"

text \<open>The circuit breaker's part of \<open>GetHealth\<close>, what it does after the ping, and the whole
  handler with its status code.\<close>

definition ton_center_health :: "breaker_state option \<Rightarrow> HealthResponse \<Rightarrow> HealthResponse" where
  "ton_center_health client response = (case client of
       None \<Rightarrow> response\<lparr>hr_TonCenterAPI := connectionNotConfigured\<rparr>
     | Some StateClosed \<Rightarrow> response\<lparr>hr_TonCenterAPI := connectionConnected\<rparr>
     | Some StateOpen \<Rightarrow> response\<lparr>hr_TonCenterAPI := tonCenterCircuitOpen, hr_Status := healthStatusDegraded\<rparr>
     | Some StateHalfOpen \<Rightarrow> response\<lparr>hr_TonCenterAPI := tonCenterRecovering\<rparr>)"

definition service_health :: "'s HealthHandler \<Rightarrow> HealthResponse \<Rightarrow> HealthResponse" where
  "service_health h r0 =
     (let r1 = populateEventSourceHealth h (ton_center_health (hh_tonCenterClient h) r0)
      in case loadSyncState h r1 of (syncState, r2) \<Rightarrow>
        let r3 = applyLiveCheckpoint h (applySyncState syncState r2);
            r4 = r3\<lparr>hr_Parser := (hr_Parser r3)\<lparr>ph_CurrentSourceType := hr_EventSourceType r3\<rparr>\<rparr>
        in case deriveParserHealth r4 syncState of (status, recovery) \<Rightarrow>
          let r5 = r4\<lparr>hr_Parser := (hr_Parser r4)\<lparr>ph_Status := status, ph_RecoveryStatus := recovery\<rparr>\<rparr>
          in r5\<lparr>hr_Status := mergeHealthStatus (hr_Status r5) (ph_Status (hr_Parser r5))\<rparr>)"

definition GetHealth :: "instant \<Rightarrow> 's HealthHandler \<Rightarrow> int \<times> HealthResponse" where
  "GetHealth now h =
     (let response = \<lparr>hr_Status = healthStatusHealthy, hr_Timestamp = now, hr_Database = [], hr_TonCenterAPI = [],
            hr_EventSourceType = [], hr_EventSourceStatus = [],
            hr_Parser = \<lparr>ph_Status = healthStatusHealthy, ph_RecoveryStatus = parserRecoveryLive, ph_LastProcessedLt = [],
              ph_CheckpointUpdatedAt = None, ph_FallbackCount = 0, ph_LastFallbackAt = None, ph_CurrentSourceType = []\<rparr>\<rparr>
      in case hh_db h of
           Some False \<Rightarrow> (503, response\<lparr>hr_Status := healthStatusUnhealthy, hr_Database := connectionDisconnected\<rparr>)
         | Some True \<Rightarrow> (200, service_health h (response\<lparr>hr_Database := connectionConnected\<rparr>))
         | None \<Rightarrow> (200, service_health h (response\<lparr>hr_Database := connectionNotConfigured\<rparr>)))"

section \<open>What the endpoint reports\<close>

text \<open>The handler as \<open>NewRouter\<close> wires it: with the pool, the event handler and the repository.\<close>

definition wired :: "bool \<Rightarrow> breaker_state option \<Rightarrow> 's runtime \<Rightarrow> sync_db \<Rightarrow> 's HealthHandler" where
  "wired ping breaker st sdb = \<lparr>hh_db = Some ping, hh_tonCenterClient = breaker,
     hh_eventSourceProvider = Some st, hh_syncStateProvider = Some sdb\<rparr>"

definition has_source :: "'s runtime \<Rightarrow> bool" where
  "has_source st \<longleftrightarrow> GetCurrentSourceType st = eventSourceHTTP \<or> GetCurrentSourceType st = eventSourceWebSocket"

definition fallback_recorded :: "'s runtime \<Rightarrow> BlockchainSyncState \<Rightarrow> bool" where
  "fallback_recorded st s \<longleftrightarrow> GetCurrentSourceType st = eventSourceHTTP \<and> s_FallbackCount s > 0"

text \<open>The four quantities the status depends on, with the database answering.\<close>

fun reported_status :: "bool \<Rightarrow> bool \<Rightarrow> error + BlockchainSyncState \<Rightarrow> 's runtime \<Rightarrow> string" where
  "reported_status conn troubled sync st =
     (if \<not> conn then healthStatusUnhealthy
      else if troubled \<or> (case sync of Inl e \<Rightarrow> True | Inr s \<Rightarrow> fallback_recorded st s) then healthStatusDegraded
      else healthStatusHealthy)"

fun reported_recovery :: "bool \<Rightarrow> bool \<Rightarrow> error + BlockchainSyncState \<Rightarrow> 's runtime \<Rightarrow> string" where
  "reported_recovery conn troubled sync st =
     (if \<not> conn then parserRecoveryStalled else if troubled then parserRecoveryRecovering
      else case sync of Inl e \<Rightarrow> parserRecoveryLive
        | Inr s \<Rightarrow> if fallback_recorded st s then parserRecoveryFallback else parserRecoveryLive)"

definition troubled :: "breaker_state option \<Rightarrow> bool" where
  "troubled breaker \<longleftrightarrow> breaker = Some StateOpen \<or> breaker = Some StateHalfOpen"

text \<open>What each stage does to the fields that later stages read.\<close>

lemma ton_center_fields [simp]:
  "hr_Status (ton_center_health b r) = (if b = Some StateOpen then healthStatusDegraded else hr_Status r)"
  "isTonCenterRecovering (ton_center_health b r) \<longleftrightarrow> troubled b"
  by (auto simp: ton_center_health_def isTonCenterRecovering_def troubled_def split: option.split breaker_state.split)

lemma populate_fields:
  assumes "hh_eventSourceProvider h = Some st" "has_source st"
  shows "hr_EventSourceType (populateEventSourceHealth h r) = GetCurrentSourceType st"
    "hr_EventSourceStatus (populateEventSourceHealth h r) =
       (if Factory_IsConnected st then connectionConnected else connectionDisconnected)"
    "isTonCenterRecovering (populateEventSourceHealth h r) = isTonCenterRecovering r"
    "Factory_IsConnected st \<Longrightarrow> hr_Status (populateEventSourceHealth h r) = hr_Status r"
  using assms by (simp_all add: populateEventSourceHealth_def isTonCenterRecovering_def Let_def)

lemma load_fields [simp]:
  "hr_EventSourceType (snd (loadSyncState h r)) = hr_EventSourceType r"
  "hr_EventSourceStatus (snd (loadSyncState h r)) = hr_EventSourceStatus r"
  "isTonCenterRecovering (snd (loadSyncState h r)) = isTonCenterRecovering r"
  by (simp_all add: loadSyncState_def isTonCenterRecovering_def Let_def split: option.split sum.split)

lemma load_result:
  assumes "hh_syncStateProvider h = Some sdb"
  shows "fst (loadSyncState h r) = (case fst (Sync_Get sdb) of Inl e \<Rightarrow> None | Inr s \<Rightarrow> Some s)"
    "hr_Status (snd (loadSyncState h r)) = (case fst (Sync_Get sdb) of
       Inl e \<Rightarrow> mergeHealthStatus (hr_Status r) healthStatusDegraded | Inr s \<Rightarrow> hr_Status r)"
  using assms by (simp_all add: loadSyncState_def Let_def split: sum.split)

lemma sync_fields:
  assumes "hr_EventSourceType r \<noteq> connectionNotConfigured"
  shows "hr_EventSourceType (applySyncState s r) = hr_EventSourceType r"
    "hr_EventSourceStatus (applySyncState s r) = hr_EventSourceStatus r"
    "isTonCenterRecovering (applySyncState s r) = isTonCenterRecovering r" "hr_Status (applySyncState s r) = hr_Status r"
  using assms by (simp_all add: applySyncState_def isTonCenterRecovering_def Let_def split: option.split)

lemma live_fields [simp]:
  "hr_EventSourceType (applyLiveCheckpoint h r) = hr_EventSourceType r"
  "hr_EventSourceStatus (applyLiveCheckpoint h r) = hr_EventSourceStatus r"
  "isTonCenterRecovering (applyLiveCheckpoint h r) = isTonCenterRecovering r" "hr_Status (applyLiveCheckpoint h r) = hr_Status r"
  by (simp_all add: applyLiveCheckpoint_def isTonCenterRecovering_def Let_def split: option.split)

lemma derive_fields:
  "deriveParserHealth r s =
     (if hr_EventSourceStatus r = connectionDisconnected
          \<and> (hr_EventSourceType r = eventSourceWebSocket \<or> hr_EventSourceType r = eventSourceHTTP)
        then (healthStatusUnhealthy, parserRecoveryStalled)
      else if isTonCenterRecovering r then (healthStatusDegraded, parserRecoveryRecovering)
      else if hr_EventSourceType r = eventSourceHTTP \<and> (case s of None \<Rightarrow> False | Some s \<Rightarrow> s_FallbackCount s > 0)
        then (healthStatusDegraded, parserRecoveryFallback)
      else if hr_EventSourceType r = connectionNotConfigured \<or> hr_EventSourceStatus r = connectionNotConfigured
        then (healthStatusDegraded, parserRecoveryNotConfigured)
      else (healthStatusHealthy, parserRecoveryLive))"
  by (simp add: deriveParserHealth_def isEventSourceStalled_def isFallbackActive_def)

lemma source_types: "has_source st \<Longrightarrow> GetCurrentSourceType st \<noteq> connectionNotConfigured"
  by (auto simp: has_source_def)

lemma derived:
  assumes "has_source st" and "hr_EventSourceType r = GetCurrentSourceType st" "isTonCenterRecovering r = t"
    and "hr_EventSourceStatus r = (if conn then connectionConnected else connectionDisconnected)"
    and "s = (case sync of Inl e \<Rightarrow> None | Inr s \<Rightarrow> Some s)"
  shows "snd (deriveParserHealth r s) = reported_recovery conn t sync st"
    "fst (deriveParserHealth r s) = (if \<not> conn then healthStatusUnhealthy
       else if t \<or> (case sync of Inl e \<Rightarrow> False | Inr s \<Rightarrow> fallback_recorded st s) then healthStatusDegraded else healthStatusHealthy)"
  using assms by (auto simp: derive_fields has_source_def fallback_recorded_def split: sum.splits)

lemma parser_update [simp]: "isTonCenterRecovering (r\<lparr>hr_Parser := p\<rparr>) = isTonCenterRecovering r"
  by (simp add: isTonCenterRecovering_def)

lemma service_health_reported:
  assumes "has_source st" "hh_eventSourceProvider h = Some st" "hh_syncStateProvider h = Some sdb"
    and r0: "hr_Status r0 = healthStatusHealthy"
  shows "hr_Status (service_health h r0) =
       reported_status (Factory_IsConnected st) (troubled (hh_tonCenterClient h)) (fst (Sync_Get sdb)) st
     \<and> ph_RecoveryStatus (hr_Parser (service_health h r0)) =
       reported_recovery (Factory_IsConnected st) (troubled (hh_tonCenterClient h)) (fst (Sync_Get sdb)) st"
proof -
  define r1 where "r1 = populateEventSourceHealth h (ton_center_health (hh_tonCenterClient h) r0)"
  define r3 where "r3 = applyLiveCheckpoint h (applySyncState (fst (loadSyncState h r1)) (snd (loadSyncState h r1)))"
  define r4 where "r4 = r3\<lparr>hr_Parser := (hr_Parser r3)\<lparr>ph_CurrentSourceType := hr_EventSourceType r3\<rparr>\<rparr>"
  note fields = populate_fields [OF assms(2,1)] source_types [OF assms(1)]
  have r4: "hr_EventSourceType r4 = GetCurrentSourceType st" "isTonCenterRecovering r4 = troubled (hh_tonCenterClient h)"
    "hr_EventSourceStatus r4 = (if Factory_IsConnected st then connectionConnected else connectionDisconnected)"
    "hr_Status r4 = hr_Status (snd (loadSyncState h r1))"
    unfolding r4_def r3_def r1_def by (simp_all add: sync_fields fields)
  note d = derived [OF assms(1) r4(1,2,3) load_result(1) [OF assms(3)], of r1]
  have status: "hr_Status r4 = (if hh_tonCenterClient h = Some StateOpen \<or> (\<exists>e. fst (Sync_Get sdb) = Inl e)
      then healthStatusDegraded else healthStatusHealthy)" if "Factory_IsConnected st"
    using that unfolding r4(4) load_result(2) [OF assms(3)] r1_def
    by (auto simp: fields r0 mergeHealthStatus_def split: sum.split)
  have "service_health h r0 = (let s = deriveParserHealth r4 (fst (loadSyncState h r1));
      r5 = r4\<lparr>hr_Parser := (hr_Parser r4)\<lparr>ph_Status := fst s, ph_RecoveryStatus := snd s\<rparr>\<rparr>
    in r5\<lparr>hr_Status := mergeHealthStatus (hr_Status r5) (ph_Status (hr_Parser r5))\<rparr>)"
    by (simp add: service_health_def Let_def case_prod_beta r1_def [symmetric] r3_def r4_def)
  with status d show ?thesis
    by (auto simp: Let_def mergeHealthStatus_def troubled_def split: sum.splits)
qed

text \<open>The runtime always has a source, and after a fallback it is the poller.\<close>

lemma phases_have_source: "phase_one st \<or> phase_two st \<Longrightarrow> has_source st"
  by (auto simp: phase_one_def phase_two_def has_source_def GetCurrentSourceType_def Source_GetSourceType_def
      split: source.split)

definition poller_ended :: "'s runtime \<Rightarrow> bool" where
  "poller_ended st \<longleftrightarrow> list_all (\<lambda>x. case x of PollerSource p \<Rightarrow> ps_loop p = None | WsSource w \<Rightarrow> True) (rt_sources st)"

lemma phase_two_disconnected: "phase_two st \<Longrightarrow> poller_ended st \<Longrightarrow> \<not> Factory_IsConnected st"
  by (auto simp: phase_two_def poller_ended_def Factory_IsConnected_def Source_IsConnected_def)

lemma wired_health:
  assumes "has_source st"
  shows "\<exists>r. GetHealth now (wired True breaker st sdb) = (200, r)
     \<and> hr_Status r = reported_status (Factory_IsConnected st) (troubled breaker) (fst (Sync_Get sdb)) st
     \<and> ph_RecoveryStatus (hr_Parser r) = reported_recovery (Factory_IsConnected st) (troubled breaker) (fst (Sync_Get sdb)) st"
  using service_health_reported [OF assms, of "wired True breaker st sdb" sdb]
  by (simp add: GetHealth_def wired_def Let_def del: reported_status.simps reported_recovery.simps)

text \<open>
  C33. In every run of the ingestion runtime, while the database answers the ping, the health
  endpoint answers 200 whatever it finds; it reports \<open>unhealthy\<close> exactly when the event source
  is not connected, and otherwise \<open>degraded\<close> exactly when the circuit breaker is not closed, the
  checkpoint cannot be read, or the source is the poller after a recorded fallback; the recovery
  status names the cause, except for an unreadable checkpoint, which it reports as live.
\<close>

theorem health_reported:
  assumes "(rt_step js uc)\<^sup>*\<^sup>* (run_handler_setup cfg ck s) st"
  shows "\<exists>r. GetHealth now (wired True breaker st sdb) = (200, r)
     \<and> hr_Status r = reported_status (Factory_IsConnected st) (troubled breaker) (fst (Sync_Get sdb)) st
     \<and> ph_RecoveryStatus (hr_Parser r) = reported_recovery (Factory_IsConnected st) (troubled breaker) (fst (Sync_Get sdb)) st"
proof (rule wired_health)
  have "phase_one st \<or> phase_two st" by (rule rt_steps_phase [OF assms disjI1 [OF boot_phase(1)]])
  then show "has_source st" by (rule phases_have_source)
qed

theorem health_reported_witness:
  "\<exists>r. GetHealth 9 (wired True (Some StateHalfOpen) (ws_subscribed open_net) (demo_sync ''7'')) = (200, r)
     \<and> hr_Status r = ''degraded'' \<and> ph_RecoveryStatus (hr_Parser r) = ''recovering''"
proof -
  have run: "(rt_step lt_json (logging counting_handler))\<^sup>*\<^sup>* ws_boot (ws_subscribed open_net)"
    by (intro r_into_rtranclp ws_subscribed_step)
  have c: "Factory_IsConnected (ws_subscribed open_net)" by code_simp
  from health_reported [OF run, of 9 "Some StateHalfOpen" "demo_sync ''7''"] show ?thesis
    by (simp add: troubled_def c)
qed

text \<open>
  Once the WebSocket source has fallen back and the goroutine of the poller has ended, which
  its cancelled context makes it do, every health check reports the service as unhealthy and the
  parser as stalled, but still answers 200, so that a probe by status code does not notice.
\<close>

theorem stalled_after_fallback:
  assumes "(rt_step js uc)\<^sup>*\<^sup>* (run_handler_setup cfg ck s) st" "fell_back st" "poller_ended st"
  shows "\<exists>r. GetHealth now (wired True breaker st sdb) = (200, r) \<and> hr_Status r = healthStatusUnhealthy
     \<and> ph_RecoveryStatus (hr_Parser r) = parserRecoveryStalled"
proof -
  have "phase_one st \<or> phase_two st" by (rule rt_steps_phase [OF assms(1) disjI1 [OF boot_phase(1)]])
  with phase_fell_back(1) assms(2) have two: "phase_two st" by auto
  with wired_health [OF phases_have_source, of st now breaker sdb] phase_two_disconnected [OF two assms(3)]
  show ?thesis by simp
qed

definition ended_poller :: "(nat \<times> Transaction list) runtime" where
  "ended_poller = (let st = ws_subscribed refused in case rt_sources st ! 1 of
     PollerSource p \<Rightarrow> put 1 (PollerSource (p\<lparr>ps_loop := None, ps_isRunning := False\<rparr>)) st | WsSource w \<Rightarrow> st)"

lemma ended_poller_step: "rt_step js uc (ws_subscribed refused) ended_poller"
proof -
  define st where "st = ws_subscribed refused"
  define p where "p = (case rt_sources st ! 1 of PollerSource p \<Rightarrow> p | WsSource w \<Rightarrow> undefined)"
  define c where "c = the (ps_loop p)"
  have "1 < length (rt_sources st)" unfolding st_def by code_simp
  moreover have "case rt_sources st ! 1 of PollerSource q \<Rightarrow> (case ps_loop q of None \<Rightarrow> False | Some k \<Rightarrow> ctx_done (rt_cancelled st) k)
      | WsSource w \<Rightarrow> False" unfolding st_def by code_simp
  then have p: "rt_sources st ! 1 = PollerSource p" "ps_loop p = Some c" "ctx_done (rt_cancelled st) c"
    by (auto simp: p_def c_def split: source.splits option.splits)
  moreover have "ended_poller = put 1 (PollerSource (p\<lparr>ps_loop := None, ps_isRunning := False\<rparr>)) st"
    using p(1) by (simp add: ended_poller_def st_def [symmetric] Let_def)
  ultimately show ?thesis unfolding st_def [symmetric] by (metis rt_step.poll_end)
qed

theorem stalled_after_fallback_witness:
  "\<exists>r. GetHealth 9 (wired True (Some StateClosed) ended_poller (demo_sync ''7'')) = (200, r) \<and> hr_Status r = ''unhealthy''"
proof -
  have "(rt_step lt_json (logging counting_handler))\<^sup>*\<^sup>* ws_boot ended_poller"
    by (meson ws_subscribed_step(1) ended_poller_step rtranclp.rtrancl_into_rtrancl r_into_rtranclp)
  moreover have "fell_back ended_poller" "poller_ended ended_poller" by code_simp+
  ultimately show ?thesis
    using stalled_after_fallback [of lt_json "logging counting_handler" ws_config None "(0, [])" ended_poller 9
        "Some StateClosed" "demo_sync ''7''"] by auto
qed

end
