(* ===== verification/Restart.thy ===== *)
theory Restart
  imports Ingestion_Runs Subscriber
begin

text \<open>
  The wiring of \<open>internal/app/app.go\<close> between the ingestion runtime and the checkpoint
  repository: \<open>Run\<close> stores every emitted checkpoint and every fallback, and builds the next
  process from what it finds stored. The callbacks are called from several goroutines, so the
  calls arrive in any order, some of them fail, and those of the last moments may never arrive.
\<close>

section \<open>Storing checkpoints\<close>

definition persistCheckpoint :: "backend_config \<Rightarrow> instant \<Rightarrow> SyncCheckpoint \<Rightarrow> unit sync_op" where
  "persistCheckpoint cfg now ck =
     (let sourceType = (if cp_EventSourceType ck = [] then gb_BlockchainEventSource cfg else cp_EventSourceType ck)
      in PersistCheckpoint now (gb_TONGameContractAddr cfg) (cp_LastProcessedLt ck) sourceType (cp_EventSourceConnected ck))"

definition persistFallback :: "instant \<Rightarrow> SyncCheckpoint \<Rightarrow> unit sync_op" where
  "persistFallback now ck = RecordFallback now"

inductive stored_run :: "backend_config \<Rightarrow> SyncCheckpoint set \<Rightarrow> sync_db \<Rightarrow> sync_db \<Rightarrow> bool"
  for cfg :: backend_config and emitted_cks :: "SyncCheckpoint set" and db0 :: sync_db where
  start: "stored_run cfg emitted_cks db0 db0"
| checkpoint: "stored_run cfg emitted_cks db0 db \<Longrightarrow> ck \<in> emitted_cks \<Longrightarrow>
     stored_run cfg emitted_cks db0 (snd (persistCheckpoint cfg now ck db))"
| fallback: "stored_run cfg emitted_cks db0 db \<Longrightarrow> stored_run cfg emitted_cks db0 (snd (persistFallback now ck db))"
| read: "stored_run cfg emitted_cks db0 db \<Longrightarrow> stored_run cfg emitted_cks db0 (snd (Sync_Get db))"

section \<open>The retry configuration\<close>

text \<open>
  \<open>parseRetryConfig\<close>, with the answers of \<open>time.ParseDuration\<close> and
  \<open>strconv.ParseFloat\<close> for the texts that are not empty; a multiplier of at most 1 and a text that does
  not parse are left out.
\<close>

record retry_texts =
  retry_MaxRetries :: int
  retry_InitialBackoff :: string
  retry_MaxBackoff :: string
  retry_BackoffMultiplier :: string

definition parseRetryConfig :: "(string \<Rightarrow> duration option) \<Rightarrow> (string \<Rightarrow> rat option) \<Rightarrow> retry_texts \<Rightarrow> RetryConfig" where
  "parseRetryConfig ParseDuration ParseFloat cfg =
     (let c0 = DefaultRetryConfig;
          c1 = (if retry_MaxRetries cfg > 0 then c0\<lparr>rc_MaxRetries := retry_MaxRetries cfg\<rparr> else c0);
          c2 = (if retry_InitialBackoff cfg \<noteq> [] then (case ParseDuration (retry_InitialBackoff cfg) of
                  Some d \<Rightarrow> c1\<lparr>rc_InitialBackoff := d\<rparr> | None \<Rightarrow> c1) else c1);
          c3 = (if retry_MaxBackoff cfg \<noteq> [] then (case ParseDuration (retry_MaxBackoff cfg) of
                  Some d \<Rightarrow> c2\<lparr>rc_MaxBackoff := d\<rparr> | None \<Rightarrow> c2) else c2)
      in if retry_BackoffMultiplier cfg \<noteq> [] then (case ParseFloat (retry_BackoffMultiplier cfg) of
             Some m \<Rightarrow> if m > 1 then c3\<lparr>rc_BackoffMultiplier := m\<rparr> else c3 | None \<Rightarrow> c3) else c3)"

text \<open>Whatever the texts, the subscriber retries with positive backoffs that grow.\<close>

lemma retry_config_sane:
  "let c = sb_retryConfig (SetRetryConfig (parseRetryConfig pd pf cfg) sb)
   in 0 < rc_MaxRetries c \<and> 0 < rc_InitialBackoff c \<and> 0 < rc_MaxBackoff c \<and> 1 < rc_BackoffMultiplier c"
  by (auto simp: SetRetryConfig_def parseRetryConfig_def DefaultRetryConfig_def Let_def split: option.splits)

section \<open>What is stored\<close>

lemma TrimSpace_blank: "TrimSpace s = [] \<Longrightarrow> list_all is_space s"
  by (metis TrimSpace_def dropWhile_eq_Nil_conv list_all_iff rev_is_Nil_conv rev_rev_ident set_dropWhileD set_rev
      hd_dropWhile list.set_sel(1))

lemma lt_value_zero [simp]: "lt_value ''0'' = 0" "lt_value [] = 0"
  by code_simp+

lemma blank_lt_value:
  assumes "TrimSpace lt = []"
  shows "lt_value lt = 0"
proof (cases lt)
  case (Cons c cs)
  with TrimSpace_blank [OF assms] show ?thesis
    by (auto simp: lt_value_def normalizeLt_def big_int_def is_space_def is_digit_def dec_value_def)
qed simp

lemma lt_value_normalizeLt [simp]: "lt_value (normalizeLt lt) = lt_value lt"
  by (simp add: lt_value_def normalizeLt_def)

lemma blank_default: "lt_value (if TrimSpace lt = [] then ''0'' else lt) = lt_value lt"
  using blank_lt_value [of lt] by simp

text \<open>The stored time is the one found at the start or that of an emitted checkpoint.\<close>

definition stored_from :: "int set \<Rightarrow> sync_db \<Rightarrow> bool" where
  "stored_from vs db \<longleftrightarrow> (\<exists>row. sy_row db = Some row \<and> lt_value (stored_lt row) \<in> vs)"

lemma update_row_stored:
  assumes "stored_from vs db"
    and "\<And>row row'. sy_row db = Some row \<Longrightarrow> f (db\<lparr>sy_tick := Suc (sy_tick db)\<rparr>) row = Inr row' \<Longrightarrow>
           lt_value (stored_lt row) \<in> vs \<Longrightarrow> lt_value (stored_lt row') \<in> vs"
  shows "stored_from vs (snd (update_row f db))"
proof (rule update_row_cases [of f db])
  fix row row'
  assume "sy_row db = Some row" "f (db\<lparr>sy_tick := Suc (sy_tick db)\<rparr>) row = Inr row'"
    and u: "update_row f db = (Inr 1, db\<lparr>sy_tick := Suc (sy_tick db), sy_row := Some (row'\<lparr>sr_updated_at := sy_now db\<rparr>)\<rparr>)"
  from assms(2) [OF this(1,2)] assms(1) this(1) show ?thesis unfolding u by (auto simp: stored_from_def stored_lt_def)
qed (use assms(1) in \<open>auto simp: stored_from_def\<close>)

lemma stored_lt_same:
  "stored_lt (row\<lparr>sr_contract_address := c, sr_event_source_type := t, sr_websocket_connected := b\<rparr>) = stored_lt row"
  "stored_lt (row\<lparr>sr_fallback_count := n, sr_last_fallback_at := i, sr_event_source_type := t, sr_websocket_connected := b\<rparr>) = stored_lt row"
  by (simp_all add: stored_lt_def)

lemma advance_stored:
  assumes "advance now lt le row = Inr row'"
  shows "lt_value (stored_lt row') \<in> {lt_value lt, lt_value (stored_lt row)}"
proof -
  have "lt_value (if lt = [] then ''0'' else lt) = lt_value lt" by (simp add: lt_value_def normalizeLt_def)
  moreover have "stored_lt row \<noteq> []" by (simp add: stored_lt_def Let_def)
  ultimately show ?thesis
    using assms by (cases le; cases "\<exists>b. le = Inr b") (auto simp: advance_def stored_lt_def [of row'] coalesce_def
        stored_lt_def [of "_\<lparr>sr_last_processed_lt := _\<rparr>"] stored_lt_def [of "_\<lparr>sr_last_processed_lt := _, sr_last_poll_timestamp := _\<rparr>"]
        split: bool.splits)
qed

lemma PersistCheckpoint_stored:
  assumes "stored_from vs db" "lt_value lt \<in> vs"
  shows "stored_from vs (snd (PersistCheckpoint now c lt t b db))"
  unfolding PersistCheckpoint_def Let_def exec_state
proof (rule update_row_stored [OF assms(1)], goal_cases)
  case (1 row row')
  let ?lt = "if TrimSpace lt = [] then ''0'' else lt"
  from 1(2) obtain le r where "advance now ?lt le row = Inr r" "stored_lt row' = stored_lt r"
    by (auto simp: stored_lt_same split: sum.splits)
  with advance_stored [of now ?lt le row r] 1(3) assms(2) show ?case unfolding blank_default by auto
qed

lemma stored_run_stored:
  "stored_run cfg cks db0 db \<Longrightarrow> stored_from vs db0 \<Longrightarrow> (\<forall>ck \<in> cks. lt_value (cp_LastProcessedLt ck) \<in> vs) \<Longrightarrow> stored_from vs db"
proof (induction rule: stored_run.induct)
  case (checkpoint db ck now)
  then show ?case by (simp add: persistCheckpoint_def Let_def PersistCheckpoint_stored)
next
  case (fallback db now ck)
  then show ?case by (auto simp: persistFallback_def RecordFallback_def stored_lt_same intro!: update_row_stored)
next
  case (read db)
  then show ?case
    by (auto simp: Sync_Get_def select_row_def sync_statement_def Let_def stored_from_def split: option.splits)
qed

text \<open>A process starts at the stored time or at 0.\<close>

lemma resumed_lt: "lt_value (s_LastProcessedLt (sync_state_of row)) = lt_value (stored_lt row)"
  by (simp add: sync_state_of_def stored_lt_def Let_def)

lemma new_source_position:
  "CreateEventSource h st = (i, st1) \<Longrightarrow> rt_sources st = [] \<Longrightarrow>
     i = 0 \<and> (\<exists>x. rt_sources st1 = [x] \<and> lt_value (Source_GetLastProcessedLt x) = 0)"
  by (auto simp: CreateEventSource_def createHTTPPoller_def new_source_def Let_def Source_GetLastProcessedLt_def
      Source_SetOnLtUpdated_def new_ws_source_def NewWebSocketSubscriber_def GetLastProcessedLt_def
      NewPollerWithIntervals_def split: if_splits prod.splits)

lemma position_set [simp]:
  "lt_value (Source_GetLastProcessedLt (Source_SetLastProcessedLt lt x)) = lt_value lt"
  "Source_GetLastProcessedLt (Source_Subscribe h x) = Source_GetLastProcessedLt x"
  "Source_GetLastProcessedLt (Source_SetOnLtUpdated x) = Source_GetLastProcessedLt x"
  by (simp_all add: Source_GetLastProcessedLt_def Source_SetLastProcessedLt_def Source_Subscribe_def
      Source_SetOnLtUpdated_def SetLastProcessedLt_def GetLastProcessedLt_def WS_SetLastProcessedLt_def split: source.split)

lemma new_handler_position:
  "\<exists>x. rt_sources (NewTONEventHandler cfg (Some ck) s) = [x] \<and> rt_ucSource (NewTONEventHandler cfg (Some ck) s) = 0
     \<and> lt_value (Source_GetLastProcessedLt x) \<in> {0, lt_value (s_LastProcessedLt ck)}"
proof -
  let ?st0 = "\<lparr>rt_sources = [], rt_config = factory_config cfg (Some ck), rt_currentSource = None,
      rt_onLtUpdated = False, rt_ucSource = 0, rt_ctx = WithCancel 0 Background, rt_cancelled = [],
      rt_nextCtx = 1, rt_onCheckpoint = False, rt_onFallback = False, rt_subscribing = False,
      rt_starting = False, rt_notifying = 0, rt_checkpoints = [], rt_fallbacks = [], rt_state = s\<rparr>"
  obtain i st1 where c: "CreateEventSource TempHandler ?st0 = (i, st1)" by fastforce
  from new_source_position [OF c] obtain x where "i = 0" "rt_sources st1 = [x]" "lt_value (Source_GetLastProcessedLt x) = 0"
    by auto
  then show ?thesis
    unfolding NewTONEventHandler_def Let_def c by (simp add: Handler_SetLastProcessedLt_def put_def Let_def blank_lt_value)
qed

lemma start_position:
  "lt_value (Handler_GetLastProcessedLt (run_handler_setup cfg (Some (sync_state_of row)) s)) \<in> {0, lt_value (stored_lt row)}"
proof -
  obtain x where x: "rt_sources (NewTONEventHandler cfg (Some (sync_state_of row)) s) = [x]"
      "rt_ucSource (NewTONEventHandler cfg (Some (sync_state_of row)) s) = 0"
      "lt_value (Source_GetLastProcessedLt x) \<in> {0, lt_value (stored_lt row)}"
    using new_handler_position [of cfg "sync_state_of row" s] by (auto simp: resumed_lt)
  have "Handler_GetLastProcessedLt (run_handler_setup cfg (Some (sync_state_of row)) s) = Source_GetLastProcessedLt x"
    using x(1,2) by (auto simp: run_handler_setup_def Handler_Start_def SetOnFallback_def SetOnCheckpointUpdated_def
        Factory_SetOnLtUpdated_def Handler_GetLastProcessedLt_def put_def Let_def nth_list_update split: option.split nat.split)
  then show ?thesis using x(3) by simp
qed

section \<open>Property\<close>


text \<open>A process that resumes at 7, handles a transaction at 8, stores its checkpoint and is started again.\<close>

definition resume_config :: backend_config where
  "resume_config = ws_config\<lparr>gb_ResumeEventSource := False\<rparr>"

definition resumed_boot :: "(nat \<times> Transaction list) runtime" where
  "resumed_boot = run_handler_setup resume_config (Some (sync_state_of (the (sy_row (demo_sync ''7''))))) (0, [])"

definition resumed_ws :: "(nat \<times> Transaction list) runtime" where
  "resumed_ws = done_state (Source_Start open_net False (rt_ctx resumed_boot) (rt_ucSource resumed_boot)
     (resumed_boot\<lparr>rt_subscribing := False\<rparr>)) resumed_boot"

definition resumed_read :: "(nat \<times> Transaction list) runtime" where
  "resumed_read = (case rt_sources resumed_ws ! 0 of PollerSource p \<Rightarrow> resumed_ws
     | WsSource w \<Rightarrow> done_state (read_round lt_json (logging counting_handler) open_net (Inr ''8'') 0 w resumed_ws) resumed_ws)"

lemma resumed_run: "(rt_step lt_json (logging counting_handler))\<^sup>*\<^sup>* resumed_boot resumed_read"
proof -
  have "rt_subscribing resumed_boot" by code_simp
  moreover have "Source_Start open_net False (rt_ctx resumed_boot) (rt_ucSource resumed_boot) (resumed_boot\<lparr>rt_subscribing := False\<rparr>)
      = Done resumed_ws" by code_simp
  ultimately have one: "rt_step lt_json (logging counting_handler) resumed_boot resumed_ws" by (rule rt_step.subscribe)
  have "case rt_sources resumed_ws ! 0 of PollerSource p \<Rightarrow> False | WsSource w \<Rightarrow> wss_loop w" by code_simp
  then obtain w where w: "rt_sources resumed_ws ! 0 = WsSource w" "wss_loop w" by (auto split: source.splits)
  have "case rt_sources resumed_ws ! 0 of PollerSource p \<Rightarrow> False
      | WsSource w \<Rightarrow> read_round lt_json (logging counting_handler) open_net (Inr ''8'') 0 w resumed_ws = Done resumed_read"
    by code_simp
  with w have "read_round lt_json (logging counting_handler) open_net (Inr ''8'') 0 w resumed_ws = Done resumed_read" by simp
  moreover have "0 < length (rt_sources resumed_ws)" by code_simp
  ultimately have "rt_step lt_json (logging counting_handler) resumed_ws resumed_read" using w by (metis rt_step.read)
  with one show ?thesis by (meson rtranclp.rtrancl_into_rtrancl r_into_rtranclp)
qed


end
