(* ===== verification/Rest_Claims.thy ===== *)
theory Rest_Claims
  imports Coordination Reveal_Reservation Expired_Claim
begin

text \<open>
  The REST endpoints of the claim use cases, under \<open>internal/controller/rest/\<close>:
  \<open>reservation_handler.go\<close>, \<open>cancel_reservation_handler.go\<close>,
  \<open>reveal_reservation_handler.go\<close> and the claim endpoints of
  \<open>game_activity_handler.go\<close>. The web framework is not under \<open>src/\<close>: what it extracts
  from a request (path and query parameters, the decoded body) is the record \<open>request\<close>. A
  response is a status and a body; instants in a body are kept as instants, where the program
  renders them in RFC 3339. A request is served at one instant.
\<close>

section \<open>Requests and responses\<close>

record claim_request_body =
  rb_WalletAddress :: wallet
  rb_GameIDs :: "int list"

record request =
  rq_gameId :: string                          \<comment> \<open>\<open>c.Params("gameId")\<close>\<close>
  rq_wallet :: string                          \<comment> \<open>\<open>c.Query("wallet")\<close>\<close>
  rq_body :: "error + claim_request_body"      \<comment> \<open>\<open>c.BodyParser\<close>\<close>

record ReservationResponse =
  rr_GameID :: int
  rr_WalletAddress :: wallet
  rr_CreatedAt :: instant
  rr_ExpiresAt :: instant
  rr_Status :: string

datatype claim_body = NoBody | ErrorResponse string string | Envelope ReservationResponse | ListResponse "ReservationResponse list"

type_synonym response = "int \<times> claim_body"

abbreviation StatusOK :: int where "StatusOK \<equiv> 200"
abbreviation StatusCreated :: int where "StatusCreated \<equiv> 201"
abbreviation StatusNoContent :: int where "StatusNoContent \<equiv> 204"
abbreviation StatusBadRequest :: int where "StatusBadRequest \<equiv> 400"
abbreviation StatusForbidden :: int where "StatusForbidden \<equiv> 403"
abbreviation StatusNotFound :: int where "StatusNotFound \<equiv> 404"
abbreviation StatusConflict :: int where "StatusConflict \<equiv> 409"
abbreviation StatusInternalServerError :: int where "StatusInternalServerError \<equiv> 500"

abbreviation bad_request :: "string \<Rightarrow> response" where
  "bad_request msg \<equiv> (StatusBadRequest, ErrorResponse ''bad_request'' msg)"

abbreviation bad_game_id :: response where "bad_game_id \<equiv> bad_request ''Invalid game ID format''"
abbreviation wallet_required :: response where "wallet_required \<equiv> bad_request ''wallet_address is required''"
abbreviation wallet_query_required :: response where "wallet_query_required \<equiv> bad_request ''wallet query parameter is required''"

definition toReservationResponse :: "GameReservation \<Rightarrow> ReservationResponse" where
  "toReservationResponse r = \<lparr>rr_GameID = r_GameID r, rr_WalletAddress = r_WalletAddress r,
     rr_CreatedAt = r_CreatedAt r, rr_ExpiresAt = r_ExpiresAt r, rr_Status = r_Status r\<rparr>"

definition toCancelReservationResponse :: "CancelReservation \<Rightarrow> ReservationResponse" where
  "toCancelReservationResponse r = \<lparr>rr_GameID = r_GameID r, rr_WalletAddress = r_WalletAddress r,
     rr_CreatedAt = r_CreatedAt r, rr_ExpiresAt = r_ExpiresAt r, rr_Status = r_Status r\<rparr>"

definition toRevealReservationResponse :: "RevealReservation \<Rightarrow> ReservationResponse" where
  "toRevealReservationResponse r = \<lparr>rr_GameID = r_GameID r, rr_WalletAddress = r_WalletAddress r,
     rr_CreatedAt = r_CreatedAt r, rr_ExpiresAt = r_ExpiresAt r, rr_Status = r_Status r\<rparr>"

definition toExpiredClaimResponse :: "ExpiredClaim \<Rightarrow> ReservationResponse" where
  "toExpiredClaimResponse r = \<lparr>rr_GameID = r_GameID r, rr_WalletAddress = r_WalletAddress r,
     rr_CreatedAt = r_CreatedAt r, rr_ExpiresAt = r_ExpiresAt r, rr_Status = r_Status r\<rparr>"

text \<open>
  The state behind the endpoints and what a request is served with: the address parser, the
  game repository and the instant.
\<close>

record claim_api =
  api_join :: claim_store
  api_cancel :: claim_store
  api_reveal :: claim_store
  api_expired :: claim_store

record api_env =
  ae_pa :: parse_addr
  ae_repo :: game_repo
  ae_now :: instant

type_synonym endpoint = "api_env \<Rightarrow> request \<Rightarrow> claim_api \<Rightarrow> response \<times> claim_api \<times> broadcast list"

section \<open>Error responses\<close>

definition reserve_error :: "error \<Rightarrow> response" where
  "reserve_error err =
     (if err = ErrGameAlreadyReserved then (StatusConflict, ErrorResponse ''conflict'' (Error err))
      else if err = ErrGameCancellationPending then (StatusConflict, ErrorResponse ''cancel_pending'' (Error err))
      else if err = ErrTooManyReservations then (StatusConflict, ErrorResponse ''too_many_reservations'' (Error err))
      else if err = ErrCannotReserveOwnGame then (StatusForbidden, ErrorResponse ''forbidden'' (Error err))
      else if err = ErrGameNotAvailable then (StatusNotFound, ErrorResponse ''not_found'' (Error err))
      else (StatusInternalServerError, ErrorResponse ''internal_error'' ''Failed to reserve game''))"

definition cancel_reservation_error :: "error \<Rightarrow> response" where
  "cancel_reservation_error err =
     (if err = ErrReservationNotFound then (StatusNotFound, ErrorResponse ''not_found'' (Error err))
      else if err = ErrNotReservationHolder then (StatusForbidden, ErrorResponse ''forbidden'' (Error err))
      else (StatusInternalServerError, ErrorResponse ''internal_error'' ''Failed to cancel reservation''))"

definition cancelReservationStatus :: "error \<Rightarrow> int \<times> string" where
  "cancelReservationStatus err =
     (if err = ErrCancelAlreadyReserved then (StatusConflict, ''cancel_already_reserved'')
      else if err = ErrTooManyCancelReservations then (StatusConflict, ''too_many_cancel_reservations'')
      else if err = ErrCancelNotAvailable then (StatusNotFound, ''cancel_not_available'')
      else if err = ErrNotGameCreator then (StatusForbidden, ''not_game_creator'')
      else if err = ErrCancelReservationNotFound then (StatusNotFound, ''not_found'')
      else if err = ErrNotCancelReservationHolder then (StatusForbidden, ''not_cancel_reservation_holder'')
      else if err = ErrGameAlreadyReserved then (StatusConflict, ''game_already_reserved'')
      else (StatusInternalServerError, ''internal_error''))"

definition revealReservationStatus :: "error \<Rightarrow> int \<times> string" where
  "revealReservationStatus err =
     (if err = ErrRevealAlreadyReserved then (StatusConflict, ''reveal_already_reserved'')
      else if err = ErrTooManyRevealReservations then (StatusConflict, ''too_many_reveal_reservations'')
      else if err = ErrRevealNotAvailable then (StatusNotFound, ''reveal_not_available'')
      else if err = ErrNotAPlayer then (StatusForbidden, ''not_a_player'')
      else if err = ErrRevealReservationNotFound then (StatusNotFound, ''not_found'')
      else if err = ErrNotRevealReservationHolder then (StatusForbidden, ''not_reveal_reservation_holder'')
      else (StatusInternalServerError, ''internal_error''))"

definition coded_error :: "(error \<Rightarrow> int \<times> string) \<Rightarrow> error \<Rightarrow> response" where
  "coded_error f err = (case f err of (status, code) \<Rightarrow> (status, ErrorResponse code (Error err)))"

definition createExpiredClaimErrorResponse :: "error \<Rightarrow> response" where
  "createExpiredClaimErrorResponse err =
     (if errors_is err ErrExpiredClaimWalletRequired then (StatusBadRequest, ErrorResponse ''bad_request'' (Error err))
      else if errors_is err ErrExpiredClaimAlreadyClaimed
        then (StatusConflict, ErrorResponse ''expired_claim_already_claimed'' (Error err))
      else if errors_is err ErrTooManyExpiredClaims then (StatusConflict, ErrorResponse ''too_many_expired_claims'' (Error err))
      else if errors_is err ErrNotExpiredClaimParticipant then (StatusForbidden, ErrorResponse ''not_a_participant'' (Error err))
      else if errors_is err ErrExpiredClaimNotAvailable then (StatusNotFound, ErrorResponse ''not_found'' (Error err))
      else (StatusInternalServerError, ErrorResponse ''internal_error'' ''Failed to create expired claim''))"

definition releaseExpiredClaimErrorResponse :: "error \<Rightarrow> response" where
  "releaseExpiredClaimErrorResponse err =
     (if errors_is err ErrExpiredClaimWalletRequired then (StatusBadRequest, ErrorResponse ''bad_request'' (Error err))
      else if errors_is err ErrExpiredClaimNotFound then (StatusNotFound, ErrorResponse ''not_found'' (Error err))
      else if errors_is err ErrNotExpiredClaimHolder then (StatusForbidden, ErrorResponse ''forbidden'' (Error err))
      else (StatusInternalServerError, ErrorResponse ''internal_error'' ''Failed to release expired claim''))"

section \<open>Endpoints\<close>

text \<open>The checks of a request that several endpoints begin with.\<close>

definition with_game_id :: "request \<Rightarrow> claim_api \<Rightarrow> (int \<Rightarrow> response \<times> claim_api \<times> broadcast list) \<Rightarrow> response \<times> claim_api \<times> broadcast list" where
  "with_game_id rq api k = (case ParseInt64 (rq_gameId rq) of None \<Rightarrow> (bad_game_id, api, []) | Some gameID \<Rightarrow> k gameID)"

definition with_wallet :: "string \<Rightarrow> request \<Rightarrow> claim_api \<Rightarrow> (wallet \<Rightarrow> response \<times> claim_api \<times> broadcast list)
    \<Rightarrow> response \<times> claim_api \<times> broadcast list" where
  "with_wallet msg rq api k = (case rq_body rq of
       Inl err \<Rightarrow> (bad_request msg, api, [])
     | Inr req \<Rightarrow> if rb_WalletAddress req = '''' then (wallet_required, api, []) else k (rb_WalletAddress req))"

subsection \<open>Join reservations\<close>

definition ReserveGame :: endpoint where
  "ReserveGame env rq api = with_game_id rq api (\<lambda>gameID. with_wallet ''Invalid request body'' rq api (\<lambda>wallet.
     case Reserve (ae_pa env) (ae_repo env) (Some (api_cancel api)) (ae_now env) gameID wallet (api_join api) of
       (Inl err, st, bs) \<Rightarrow> (reserve_error err, api\<lparr>api_join := st\<rparr>, bs)
     | (Inr r, st, bs) \<Rightarrow> ((StatusCreated, Envelope (toReservationResponse r)), api\<lparr>api_join := st\<rparr>, bs)))"

definition GetReservationHandler :: endpoint where
  "GetReservationHandler env rq api = with_game_id rq api (\<lambda>gameID.
     case GetReservation (api_join api) (ae_now env) gameID of
       None \<Rightarrow> ((StatusNoContent, NoBody), api, [])
     | Some r \<Rightarrow> ((StatusOK, Envelope (toReservationResponse r)), api, []))"

definition ListReservationsByWallet :: endpoint where
  "ListReservationsByWallet env rq api =
     (if rq_wallet rq = '''' then (wallet_query_required, api, [])
      else case ListByWallet (ae_pa env) (Some (ae_repo env)) (ae_now env) (rq_wallet rq) (api_join api) of
          (Inl err, st) \<Rightarrow> ((StatusInternalServerError, ErrorResponse ''internal_error'' ''Failed to list reservations''),
             api\<lparr>api_join := st\<rparr>, [])
        | (Inr rs, st) \<Rightarrow> ((StatusOK, ListResponse (map toReservationResponse rs)), api\<lparr>api_join := st\<rparr>, []))"

definition CancelReservationHandler :: endpoint where
  "CancelReservationHandler env rq api = with_game_id rq api (\<lambda>gameID. with_wallet ''Invalid request body'' rq api (\<lambda>wallet.
     case Cancel (ae_pa env) (ae_now env) gameID wallet (api_join api) of
       (Some err, st, bs) \<Rightarrow> (cancel_reservation_error err, api\<lparr>api_join := st\<rparr>, bs)
     | (None, st, bs) \<Rightarrow> ((StatusNoContent, NoBody), api\<lparr>api_join := st\<rparr>, bs)))"

subsection \<open>Cancel reservations\<close>

definition ReserveCancel :: endpoint where
  "ReserveCancel env rq api = with_game_id rq api (\<lambda>gameID. with_wallet ''wallet_address is required'' rq api (\<lambda>wallet.
     case Cancel_Reserve (ae_pa env) (ae_repo env) (Some (api_join api)) (ae_now env) gameID wallet (api_cancel api) of
       (Inl err, st, bs) \<Rightarrow> (coded_error cancelReservationStatus err, api\<lparr>api_cancel := st\<rparr>, bs)
     | (Inr r, st, bs) \<Rightarrow> ((StatusCreated, Envelope (toCancelReservationResponse r)), api\<lparr>api_cancel := st\<rparr>, bs)))"

definition GetCancelReservation :: endpoint where
  "GetCancelReservation env rq api = with_game_id rq api (\<lambda>gameID.
     case Cancel_Get (api_cancel api) (ae_now env) gameID of
       None \<Rightarrow> ((StatusNoContent, NoBody), api, [])
     | Some r \<Rightarrow> ((StatusOK, Envelope (toCancelReservationResponse r)), api, []))"

definition ListCancelReservationsByWallet :: endpoint where
  "ListCancelReservationsByWallet env rq api =
     (if rq_wallet rq = '''' then (wallet_query_required, api, [])
      else case Cancel_ListByWallet (ae_pa env) (Some (ae_repo env)) (ae_now env) (rq_wallet rq) (api_cancel api) of
          (Inl err, st, bs) \<Rightarrow> ((StatusInternalServerError, ErrorResponse ''internal_error'' ''Failed to list cancel reservations''),
             api\<lparr>api_cancel := st\<rparr>, bs)
        | (Inr rs, st, bs) \<Rightarrow> ((StatusOK, ListResponse (map toCancelReservationResponse rs)), api\<lparr>api_cancel := st\<rparr>, bs))"

definition CancelCancelReservation :: endpoint where
  "CancelCancelReservation env rq api = with_game_id rq api (\<lambda>gameID. with_wallet ''wallet_address is required'' rq api (\<lambda>wallet.
     case Cancel_Cancel (ae_pa env) (ae_now env) gameID wallet (api_cancel api) of
       (Some err, st, bs) \<Rightarrow> (coded_error cancelReservationStatus err, api\<lparr>api_cancel := st\<rparr>, bs)
     | (None, st, bs) \<Rightarrow> ((StatusNoContent, NoBody), api\<lparr>api_cancel := st\<rparr>, bs)))"

subsection \<open>Reveal reservations\<close>

definition ReserveReveal :: endpoint where
  "ReserveReveal env rq api = with_game_id rq api (\<lambda>gameID. with_wallet ''wallet_address is required'' rq api (\<lambda>wallet.
     case Reveal_Reserve (ae_pa env) (ae_repo env) (ae_now env) gameID wallet (api_reveal api) of
       (Inl err, st, bs) \<Rightarrow> (coded_error revealReservationStatus err, api\<lparr>api_reveal := st\<rparr>, bs)
     | (Inr r, st, bs) \<Rightarrow> ((StatusCreated, Envelope (toRevealReservationResponse r)), api\<lparr>api_reveal := st\<rparr>, bs)))"

definition ReserveRevealBatch :: endpoint where
  "ReserveRevealBatch env rq api = (case rq_body rq of
       Inl err \<Rightarrow> (bad_request ''Invalid request body'', api, [])
     | Inr req \<Rightarrow>
         if rb_WalletAddress req = '''' \<or> rb_GameIDs req = []
         then (bad_request ''wallet_address and game_ids are required'', api, [])
         else case ReserveBatch (ae_pa env) (ae_repo env) (ae_now env) (rb_GameIDs req) (rb_WalletAddress req) (api_reveal api) of
             (Inl err, st, bs) \<Rightarrow> (coded_error revealReservationStatus err, api\<lparr>api_reveal := st\<rparr>, bs)
           | (Inr rs, st, bs) \<Rightarrow> ((StatusCreated, ListResponse (map toRevealReservationResponse rs)), api\<lparr>api_reveal := st\<rparr>, bs))"

definition GetRevealReservation :: endpoint where
  "GetRevealReservation env rq api = with_game_id rq api (\<lambda>gameID.
     case Reveal_Get (api_reveal api) (ae_now env) gameID of
       None \<Rightarrow> ((StatusNoContent, NoBody), api, [])
     | Some r \<Rightarrow> ((StatusOK, Envelope (toRevealReservationResponse r)), api, []))"

definition ListRevealReservationsByWallet :: endpoint where
  "ListRevealReservationsByWallet env rq api =
     (if rq_wallet rq = '''' then (wallet_query_required, api, [])
      else ((StatusOK, ListResponse (map toRevealReservationResponse
             (Reveal_ListByWallet (ae_pa env) (ae_now env) (rq_wallet rq) (api_reveal api)))), api, []))"

definition CancelRevealReservation :: endpoint where
  "CancelRevealReservation env rq api = with_game_id rq api (\<lambda>gameID. with_wallet ''wallet_address is required'' rq api (\<lambda>wallet.
     case Reveal_Cancel (ae_pa env) (ae_now env) gameID wallet (api_reveal api) of
       (Some err, st, bs) \<Rightarrow> (coded_error revealReservationStatus err, api\<lparr>api_reveal := st\<rparr>, bs)
     | (None, st, bs) \<Rightarrow> ((StatusNoContent, NoBody), api\<lparr>api_reveal := st\<rparr>, bs)))"

subsection \<open>Expired claims\<close>

definition CreateExpiredClaim :: endpoint where
  "CreateExpiredClaim env rq api = with_game_id rq api (\<lambda>gameID. with_wallet ''wallet_address is required'' rq api (\<lambda>wallet.
     case Claim (ae_pa env) (ae_repo env) (ae_now env) gameID wallet (api_expired api) of
       (Inl err, st, bs) \<Rightarrow> (createExpiredClaimErrorResponse err, api\<lparr>api_expired := st\<rparr>, bs)
     | (Inr r, st, bs) \<Rightarrow> ((StatusCreated, Envelope (toExpiredClaimResponse r)), api\<lparr>api_expired := st\<rparr>, bs)))"

definition GetExpiredClaim :: endpoint where
  "GetExpiredClaim env rq api = with_game_id rq api (\<lambda>gameID.
     case Expired_Get (ae_pa env) (Some (ae_repo env)) (ae_now env) gameID (api_expired api) of
       (Inl err, st, bs) \<Rightarrow> ((StatusInternalServerError, ErrorResponse ''internal_error'' ''Failed to get expired claim''),
          api\<lparr>api_expired := st\<rparr>, bs)
     | (Inr None, st, bs) \<Rightarrow> ((StatusNoContent, NoBody), api\<lparr>api_expired := st\<rparr>, bs)
     | (Inr (Some r), st, bs) \<Rightarrow> ((StatusOK, Envelope (toExpiredClaimResponse r)), api\<lparr>api_expired := st\<rparr>, bs))"

definition DeleteExpiredClaim :: endpoint where
  "DeleteExpiredClaim env rq api = with_game_id rq api (\<lambda>gameID. with_wallet ''wallet_address is required'' rq api (\<lambda>wallet.
     case Release (ae_pa env) (ae_now env) gameID wallet (api_expired api) of
       (Some err, st, bs) \<Rightarrow> (releaseExpiredClaimErrorResponse err, api\<lparr>api_expired := st\<rparr>, bs)
     | (None, st, bs) \<Rightarrow> ((StatusNoContent, NoBody), api\<lparr>api_expired := st\<rparr>, bs)))"

section \<open>Routes\<close>

datatype http_method = GET | POST | DELETE

text \<open>The claim routes of \<open>NewRouter\<close>, under \<open>/api/v1\<close>.\<close>

definition claim_routes :: "(http_method \<times> string \<times> endpoint) list" where
  "claim_routes =
     [(POST, ''/games/:gameId/expired-claim'', CreateExpiredClaim),
      (GET, ''/games/:gameId/expired-claim'', GetExpiredClaim),
      (DELETE, ''/games/:gameId/expired-claim'', DeleteExpiredClaim),
      (POST, ''/games/:gameId/reserve'', ReserveGame),
      (GET, ''/games/:gameId/reservation'', GetReservationHandler),
      (DELETE, ''/games/:gameId/reserve'', CancelReservationHandler),
      (GET, ''/reservations'', ListReservationsByWallet),
      (POST, ''/games/:gameId/cancel-reserve'', ReserveCancel),
      (GET, ''/games/:gameId/cancel-reservation'', GetCancelReservation),
      (DELETE, ''/games/:gameId/cancel-reserve'', CancelCancelReservation),
      (GET, ''/cancel-reservations'', ListCancelReservationsByWallet),
      (POST, ''/games/:gameId/reveal-reserve'', ReserveReveal),
      (GET, ''/games/:gameId/reveal-reservation'', GetRevealReservation),
      (DELETE, ''/games/:gameId/reveal-reserve'', CancelRevealReservation),
      (POST, ''/reveal-reserve'', ReserveRevealBatch),
      (GET, ''/reveal-reservations'', ListRevealReservationsByWallet)]"

section \<open>What a refused request leaves behind\<close>

text \<open>An operation of a claim use case that reports an error has no effect.\<close>

lemma create_errors:
  "Reserve pa repo cu now k w st = (Inl e, st', bs) \<Longrightarrow> st' = st \<and> bs = []"
  "Cancel_Reserve pa repo ru now k w st = (Inl e, st', bs) \<Longrightarrow> st' = st \<and> bs = []"
  "ReserveBatch pa repo now ks w st = (Inl e, st', bs) \<Longrightarrow> st' = st \<and> bs = []"
  "Claim pa repo now k w st = (Inl e, st', bs) \<Longrightarrow> st' = st \<and> bs = []"
  by (auto simp: Reserve_def Reserve_commit_def Cancel_Reserve_def Cancel_Reserve_commit_def ReserveBatch_def
      ReserveBatch_commit_result Claim_def Claim_commit_def Let_def split: sum.splits if_splits option.splits)

lemma release_errors:
  "Cancel pa now k w st = (Some e, st', bs) \<Longrightarrow> st' = st \<and> bs = []"
  "Cancel_Cancel pa now k w st = (Some e, st', bs) \<Longrightarrow> st' = st \<and> bs = []"
  "Reveal_Cancel pa now k w st = (Some e, st', bs) \<Longrightarrow> st' = st \<and> bs = []"
  "Release pa now k w st = (Some e, st', bs) \<Longrightarrow> st' = st \<and> bs = []"
  by (auto simp: Cancel_def Cancel_Cancel_def Reveal_Cancel_def Release_def Let_def split: option.splits if_splits)

lemma reveal_error: "Reveal_Reserve pa repo now k w st = (Inl e, st', bs) \<Longrightarrow> st' = st \<and> bs = []"
  by (auto simp: Reveal_Reserve_def ReserveBatch_def ReserveBatch_commit_result Let_def dest: create_errors
      split: prod.splits sum.splits list.splits if_splits)

text \<open>
  The contract of a request that changes claims: it is answered with the status of success or
  with one of the documented error statuses and an error body, and a refused one changes nothing.
\<close>

definition error_status :: "int \<Rightarrow> bool" where
  "error_status n \<longleftrightarrow> n \<in> {StatusBadRequest, StatusForbidden, StatusNotFound, StatusConflict, StatusInternalServerError}"

definition error_response :: "response \<Rightarrow> bool" where
  "error_response r \<longleftrightarrow> error_status (fst r) \<and> (\<exists>c m. snd r = ErrorResponse c m)"

definition answered :: "int \<Rightarrow> claim_api \<Rightarrow> response \<times> claim_api \<times> broadcast list \<Rightarrow> bool" where
  "answered n api z \<longleftrightarrow> (case z of (r, api', bs) \<Rightarrow> fst r = n \<or> error_response r \<and> api' = api \<and> bs = [])"

lemma answeredI: "fst r = n \<Longrightarrow> answered n api (r, api', bs)" "error_response r \<Longrightarrow> answered n api (r, api, [])"
  by (simp_all add: answered_def)

lemma error_responses:
  "error_response (bad_request msg)" "error_response (reserve_error e)" "error_response (cancel_reservation_error e)"
  "error_response (coded_error cancelReservationStatus e)" "error_response (coded_error revealReservationStatus e)"
  "error_response (createExpiredClaimErrorResponse e)" "error_response (releaseExpiredClaimErrorResponse e)"
  by (simp_all add: error_response_def error_status_def reserve_error_def cancel_reservation_error_def coded_error_def
      cancelReservationStatus_def revealReservationStatus_def createExpiredClaimErrorResponse_def releaseExpiredClaimErrorResponse_def)

lemma answered_game_id: "(\<And>k. answered n api (f k)) \<Longrightarrow> answered n api (with_game_id rq api f)"
  by (simp add: with_game_id_def answered_def error_responses split: option.split)

lemma answered_wallet: "(\<And>w. answered n api (f w)) \<Longrightarrow> answered n api (with_wallet msg rq api f)"
  by (simp add: with_wallet_def answered_def error_responses split: sum.split)

lemma creates:
  assumes "\<And>e st' bs. z = (Inl e, st', bs) \<Longrightarrow> st' = st \<and> bs = []" "upd st = api" "\<And>e. error_response (err e)"
  shows "answered n api (case z of (Inl e, st', bs) \<Rightarrow> (err e, upd st', bs) | (Inr r, st', bs) \<Rightarrow> ((n, body r), upd st', bs))"
  using assms by (auto simp: answered_def split: prod.split sum.split) (metis fst_conv)+

lemma releases:
  assumes "\<And>e st' bs. z = (Some e, st', bs) \<Longrightarrow> st' = st \<and> bs = []" "upd st = api" "\<And>e. error_response (err e)"
  shows "answered n api (case z of (Some e, st', bs) \<Rightarrow> (err e, upd st', bs) | (None, st', bs) \<Rightarrow> ((n, NoBody), upd st', bs))"
  using assms by (auto simp: answered_def split: prod.split option.split) (metis fst_conv)+

lemma api_same: "api\<lparr>api_join := api_join api\<rparr> = api" "api\<lparr>api_cancel := api_cancel api\<rparr> = api"
  "api\<lparr>api_reveal := api_reveal api\<rparr> = api" "api\<lparr>api_expired := api_expired api\<rparr> = api"
  by simp_all

lemma posts_answered:
  "answered StatusCreated api (ReserveGame env rq api)" "answered StatusCreated api (ReserveCancel env rq api)"
  "answered StatusCreated api (ReserveReveal env rq api)" "answered StatusCreated api (CreateExpiredClaim env rq api)"
proof -
  show "answered StatusCreated api (ReserveGame env rq api)" unfolding ReserveGame_def
    by (intro answered_game_id answered_wallet creates [where st = "api_join api" and upd = "\<lambda>st. api\<lparr>api_join := st\<rparr>"]
        error_responses api_same) (erule create_errors)
  show "answered StatusCreated api (ReserveCancel env rq api)" unfolding ReserveCancel_def
    by (intro answered_game_id answered_wallet creates [where st = "api_cancel api" and upd = "\<lambda>st. api\<lparr>api_cancel := st\<rparr>"]
        error_responses api_same) (erule create_errors)
  show "answered StatusCreated api (ReserveReveal env rq api)" unfolding ReserveReveal_def
    by (intro answered_game_id answered_wallet creates [where st = "api_reveal api" and upd = "\<lambda>st. api\<lparr>api_reveal := st\<rparr>"]
        error_responses api_same) (erule reveal_error)
  show "answered StatusCreated api (CreateExpiredClaim env rq api)" unfolding CreateExpiredClaim_def
    by (intro answered_game_id answered_wallet creates [where st = "api_expired api" and upd = "\<lambda>st. api\<lparr>api_expired := st\<rparr>"]
        error_responses api_same) (erule create_errors)
qed

lemma batch_answered: "answered StatusCreated api (ReserveRevealBatch env rq api)"
proof (cases "rq_body rq")
  case (Inr req)
  have "answered StatusCreated api (case ReserveBatch (ae_pa env) (ae_repo env) (ae_now env) (rb_GameIDs req) (rb_WalletAddress req) (api_reveal api) of
      (Inl err, st, bs) \<Rightarrow> (coded_error revealReservationStatus err, api\<lparr>api_reveal := st\<rparr>, bs)
    | (Inr rs, st, bs) \<Rightarrow> ((StatusCreated, ListResponse (map toRevealReservationResponse rs)), api\<lparr>api_reveal := st\<rparr>, bs))"
    by (intro creates [where st = "api_reveal api" and upd = "\<lambda>st. api\<lparr>api_reveal := st\<rparr>"] error_responses api_same)
      (erule create_errors)
  with Inr show ?thesis by (simp add: ReserveRevealBatch_def answeredI error_responses)
qed (simp add: ReserveRevealBatch_def answeredI error_responses)

lemma deletes_answered:
  "answered StatusNoContent api (CancelReservationHandler env rq api)" "answered StatusNoContent api (CancelCancelReservation env rq api)"
  "answered StatusNoContent api (CancelRevealReservation env rq api)" "answered StatusNoContent api (DeleteExpiredClaim env rq api)"
proof -
  show "answered StatusNoContent api (CancelReservationHandler env rq api)" unfolding CancelReservationHandler_def
    by (intro answered_game_id answered_wallet releases [where st = "api_join api" and upd = "\<lambda>st. api\<lparr>api_join := st\<rparr>"]
        error_responses api_same) (erule release_errors)
  show "answered StatusNoContent api (CancelCancelReservation env rq api)" unfolding CancelCancelReservation_def
    by (intro answered_game_id answered_wallet releases [where st = "api_cancel api" and upd = "\<lambda>st. api\<lparr>api_cancel := st\<rparr>"]
        error_responses api_same) (erule release_errors)
  show "answered StatusNoContent api (CancelRevealReservation env rq api)" unfolding CancelRevealReservation_def
    by (intro answered_game_id answered_wallet releases [where st = "api_reveal api" and upd = "\<lambda>st. api\<lparr>api_reveal := st\<rparr>"]
        error_responses api_same) (erule release_errors)
  show "answered StatusNoContent api (DeleteExpiredClaim env rq api)" unfolding DeleteExpiredClaim_def
    by (intro answered_game_id answered_wallet releases [where st = "api_expired api" and upd = "\<lambda>st. api\<lparr>api_expired := st\<rparr>"]
        error_responses api_same) (erule release_errors)
qed


definition demo_env :: api_env where
  "demo_env = \<lparr>ae_pa = no_addr, ae_repo = (\<lambda>k. if k = 9 then Inr None else Inl (ErrorString ''connection reset'')), ae_now = 5\<rparr>"

definition demo_api :: claim_api where
  "demo_api = (let st = NewReservationUseCase True \<lparr>MaxPerWallet = 3, TimeoutSeconds = 60, CleanupIntervalSeconds = 5\<rparr>
     in \<lparr>api_join = st, api_cancel = st, api_reveal = st, api_expired = st\<rparr>)"

definition demo_request :: "string \<Rightarrow> request" where
  "demo_request k = \<lparr>rq_gameId = k, rq_wallet = ''bob'', rq_body = Inr \<lparr>rb_WalletAddress = ''bob'', rb_GameIDs = []\<rparr>\<rparr>"


section \<open>Reading a claim back\<close>

lemma created_claim:
  "Reserve pa repo cu now k w st = (Inr r, st', bs) \<Longrightarrow> reservations st' k = Some r \<and> r_Status r = ReservationStatusActive"
  "Cancel_Reserve pa repo ru now k w st = (Inr r, st', bs) \<Longrightarrow> reservations st' k = Some r \<and> r_Status r = ReservationStatusActive"
  by (auto simp: Reserve_def Reserve_commit_def Cancel_Reserve_def Cancel_Reserve_commit_def insert_claim_def Let_def
      split: sum.splits if_splits)

lemma created_reveal:
  "Reveal_Reserve pa repo now k w st = (Inr r, st', bs) \<Longrightarrow> reservations st' k = Some r \<and> r_Status r = ReservationStatusActive"
  using Reveal_Reserve_cases(1) [of pa repo now k w st r] by (auto simp: insert_claim_def)

lemma with_wallet_created:
  assumes "with_game_id rq api (\<lambda>k. with_wallet msg rq api (f k)) = ((StatusCreated, body), api', bs)"
  obtains k w where "ParseInt64 (rq_gameId rq) = Some k" "f k w = ((StatusCreated, body), api', bs)"
  using assms by (auto simp: with_game_id_def with_wallet_def split: option.splits sum.splits if_splits)

lemma readable: "reservations st k = Some r \<Longrightarrow> r_Status r = ReservationStatusActive \<Longrightarrow> now \<le> r_ExpiresAt r \<Longrightarrow> active_claim st now k = Some r"
  by (simp add: active_claim_def IsActive_def IsExpired_def)

lemma not_created: "reserve_error e \<noteq> (StatusCreated, b)" "coded_error cancelReservationStatus e \<noteq> (StatusCreated, b)"
  "coded_error revealReservationStatus e \<noteq> (StatusCreated, b)"
  using error_responses(2,4,5) [of e] by (auto simp: error_response_def error_status_def)



end
