(* ===== verification/User_Profiles.thy ===== *)
theory User_Profiles
  imports Persistence_Outcomes
begin

text \<open>
  The rest of the user repository, \<open>internal/repository/postgres/user_repository.go\<close>
  (insertions and updates of profiles, profiles with statistics computed from the games table,
  referral statistics), and the use case over it, \<open>internal/usecase/user_management.go\<close>.
  The driver pgx is not under \<open>src/\<close>: how it scans a nullable text column into a Go string
  is the parameter \<open>scan\<close>. \<open>nullable_scan\<close> states what it documents: a text is
  scanned, and scanning \<open>NULL\<close> is an error.
\<close>

type_synonym scan_text = "string option \<Rightarrow> error + string"

definition nullable_scan :: "scan_text \<Rightarrow> bool" where
  "nullable_scan scan \<longleftrightarrow> (\<forall>s. scan (Some s) = Inr s) \<and> (\<exists>e. scan None = Inl e)"

section \<open>Writes\<close>

text \<open>The column checks of the users table (migrations 1 and 8).\<close>

definition user_columns :: "User \<Rightarrow> error option" where
  "user_columns u =
     (if \<not> (fits 66 (u_WalletAddress u) \<and> fits 255 (u_TelegramUsername u)) then Some (sql_error ''22001'')
      else if \<not> (in_int4 (u_TotalGamesPlayed u) \<and> in_int4 (u_TotalWins u) \<and> in_int4 (u_TotalLosses u)
          \<and> in_int4 (u_TotalReferrals u) \<and> in_i64 (u_TotalReferralEarnings u)) then Some (sql_error ''22003'')
      else None)"

definition inserted_user :: "db \<Rightarrow> User \<Rightarrow> user_row" where
  "inserted_user db u = \<lparr>ur_ID = db_next_user db, ur_TelegramUserID = u_TelegramUserID u,
     ur_TelegramUsername = Some (u_TelegramUsername u), ur_WalletAddress = u_WalletAddress u,
     ur_TotalGamesPlayed = u_TotalGamesPlayed u, ur_TotalWins = u_TotalWins u, ur_TotalLosses = u_TotalLosses u,
     ur_TotalReferrals = u_TotalReferrals u, ur_TotalReferralEarnings = u_TotalReferralEarnings u,
     ur_CreatedAt = db_now db, ur_UpdatedAt = db_now db\<rparr>"

definition returned_user :: "user_row \<Rightarrow> User \<Rightarrow> User" where
  "returned_user row u = u\<lparr>u_ID := ur_ID row, u_CreatedAt := ur_CreatedAt row, u_UpdatedAt := ur_UpdatedAt row\<rparr>"

text \<open>\<open>INSERT INTO users \<dots>\<close>, where \<open>clash\<close> says what a row with the same wallet leads to.\<close>

definition insert_user :: "(user_row \<Rightarrow> db \<Rightarrow> error + User \<times> db) \<Rightarrow> User \<Rightarrow> User db_op" where
  "insert_user clash user = (case User_Validate user of
       Some e \<Rightarrow> failDB (Wrapf ''validation failed'' e)
     | None \<Rightarrow> wrapDB ''execute query'' (statement (\<lambda>db. case user_columns user of
         Some e \<Rightarrow> Inl e
       | None \<Rightarrow> let db' = db\<lparr>db_next_user := db_next_user db + 1\<rparr>; row = inserted_user db user in
           case user_by_wallet db (u_WalletAddress user) of
             None \<Rightarrow> Inr (returned_user row user, db'\<lparr>db_users := db_users db @ [row]\<rparr>)
           | Some old \<Rightarrow> clash old db')))"

definition User_Create :: "User \<Rightarrow> User db_op" where
  "User_Create user = insert_user (\<lambda>old db. Inl (sql_error ''23505'')) user"

definition CreateOrUpdate :: "User \<Rightarrow> User db_op" where
  "CreateOrUpdate user = insert_user (\<lambda>old db.
     let row = old\<lparr>ur_TelegramUserID := u_TelegramUserID user, ur_TelegramUsername := Some (u_TelegramUsername user),
           ur_UpdatedAt := db_now db\<rparr>
     in Inr (returned_user row user, db\<lparr>db_users := map (\<lambda>u. if ur_WalletAddress u = u_WalletAddress user
          then row else u) (db_users db)\<rparr>)) user"

text \<open>\<open>UPDATE users \<dots> RETURNING updated_at\<close>: without a row, \<open>Scan\<close> reports no rows.\<close>

definition User_Update :: "User \<Rightarrow> User db_op" where
  "User_Update user = (case User_Validate user of
       Some e \<Rightarrow> failDB (Wrapf ''validation failed'' e)
     | None \<Rightarrow> wrapDB ''execute query'' (statement (\<lambda>db. case user_columns user of
         Some e \<Rightarrow> Inl e
       | None \<Rightarrow> (case user_by_wallet db (u_WalletAddress user) of
           None \<Rightarrow> Inl ErrNoRows
         | Some old \<Rightarrow> Inr (user\<lparr>u_UpdatedAt := db_now db\<rparr>,
             db\<lparr>db_users := map (\<lambda>u. if ur_WalletAddress u = u_WalletAddress user
               then u\<lparr>ur_TelegramUserID := u_TelegramUserID user, ur_TelegramUsername := Some (u_TelegramUsername user),
                      ur_TotalGamesPlayed := u_TotalGamesPlayed user, ur_TotalWins := u_TotalWins user,
                      ur_TotalLosses := u_TotalLosses user, ur_TotalReferrals := u_TotalReferrals user,
                      ur_TotalReferralEarnings := u_TotalReferralEarnings user, ur_UpdatedAt := db_now db\<rparr>
               else u) (db_users db)\<rparr>)))))"

section \<open>Reads\<close>

definition count_games :: "(Game \<Rightarrow> bool) \<Rightarrow> db \<Rightarrow> int" where
  "count_games p db = int (length (filter p (db_games db)))"

definition finished_game :: "Game \<Rightarrow> bool" where
  "finished_game g \<longleftrightarrow> g_Status g = GameStatusEnded \<or> g_Status g = GameStatusPaid"

definition played_by :: "wallet \<Rightarrow> Game \<Rightarrow> bool" where
  "played_by w g \<longleftrightarrow> g_PlayerOneAddress g = w \<or> g_PlayerTwoAddress g = Some w"

text \<open>The lateral joins of the profile query: games and distinct referred wallets.\<close>

definition played_count :: "db \<Rightarrow> wallet \<Rightarrow> int" where
  "played_count db w = count_games (\<lambda>g. played_by w g \<and> finished_game g
     \<and> \<not> (g_WinnerAddress g = None \<and> g_PayoutAmount g = None)) db"

definition win_count :: "db \<Rightarrow> wallet \<Rightarrow> int" where
  "win_count db w = count_games (\<lambda>g. played_by w g \<and> finished_game g \<and> g_WinnerAddress g = Some w) db"

definition loss_count :: "db \<Rightarrow> wallet \<Rightarrow> int" where
  "loss_count db w = count_games (\<lambda>g. played_by w g \<and> finished_game g
     \<and> g_WinnerAddress g \<noteq> None \<and> g_WinnerAddress g \<noteq> Some w) db"

definition referred_wallets :: "db \<Rightarrow> wallet \<Rightarrow> wallet list" where
  "referred_wallets db w =
     map g_PlayerOneAddress (filter (\<lambda>g. g_PlayerOneReferrer g = Some w) (db_games db))
     @ List.map_filter (\<lambda>g. if g_PlayerTwoReferrer g = Some w then g_PlayerTwoAddress g else None) (db_games db)"

definition referral_count :: "db \<Rightarrow> wallet \<Rightarrow> int" where
  "referral_count db w = int (length (remdups (referred_wallets db w)))"

definition scanned_user :: "scan_text \<Rightarrow> user_row \<Rightarrow> int \<Rightarrow> int \<Rightarrow> int \<Rightarrow> int \<Rightarrow> error + User" where
  "scanned_user scan u played wins losses referrals = (case scan (ur_TelegramUsername u) of
       Inl e \<Rightarrow> Inl e
     | Inr name \<Rightarrow> Inr \<lparr>u_ID = ur_ID u, u_TelegramUserID = ur_TelegramUserID u, u_TelegramUsername = name,
         u_WalletAddress = ur_WalletAddress u, u_TotalGamesPlayed = played, u_TotalWins = wins, u_TotalLosses = losses,
         u_TotalReferrals = referrals, u_TotalReferralEarnings = ur_TotalReferralEarnings u,
         u_CreatedAt = ur_CreatedAt u, u_UpdatedAt = ur_UpdatedAt u\<rparr>)"

definition GetByWalletAddress :: "scan_text \<Rightarrow> wallet \<Rightarrow> User db_op" where
  "GetByWalletAddress scan walletAddress = wrapDB ''execute query'' (statement (\<lambda>db.
     case user_by_wallet db walletAddress of
       None \<Rightarrow> Inl ErrNoRows
     | Some u \<Rightarrow> (case scanned_user scan u (played_count db walletAddress) (win_count db walletAddress)
           (loss_count db walletAddress) (referral_count db walletAddress) of
         Inl e \<Rightarrow> Inl e | Inr user \<Rightarrow> Inr (user, db))))"

definition GetByWallet :: "scan_text \<Rightarrow> wallet \<Rightarrow> User db_op" where
  "GetByWallet scan walletAddress = GetByWalletAddress scan walletAddress"

fun scan_users :: "scan_text \<Rightarrow> user_row list \<Rightarrow> error + User list" where
  "scan_users scan [] = Inr []"
| "scan_users scan (u # us) = (case scanned_user scan u (ur_TotalGamesPlayed u) (ur_TotalWins u) (ur_TotalLosses u) (ur_TotalReferrals u) of
     Inl e \<Rightarrow> Inl (Wrapf ''scan row'' e)
   | Inr user \<Rightarrow> (case scan_users scan us of Inl e \<Rightarrow> Inl e | Inr users \<Rightarrow> Inr (user # users)))"

definition GetByTelegramUserID :: "scan_text \<Rightarrow> int \<Rightarrow> User list db_op" where
  "GetByTelegramUserID scan telegramUserID =
     bindDB (wrapDB ''execute query'' (statement (\<lambda>db.
       Inr (filter (\<lambda>u. ur_TelegramUserID u = Some telegramUserID) (db_users db), db))))
     (\<lambda>rows db. (scan_users scan rows, db))"

record ReferralStats =
  rs_WalletAddress :: wallet
  rs_TotalReferrals :: int
  rs_TotalReferralEarnings :: int
  rs_GamesReferred :: int

definition Repo_GetReferralStats :: "wallet \<Rightarrow> ReferralStats db_op" where
  "Repo_GetReferralStats w = wrapDB ''execute query'' (statement (\<lambda>db.
     Inr (\<lparr>rs_WalletAddress = w, rs_TotalReferrals = referral_count db w,
       rs_TotalReferralEarnings = (case user_by_wallet db w of None \<Rightarrow> 0 | Some u \<Rightarrow> ur_TotalReferralEarnings u),
       rs_GamesReferred = count_games (\<lambda>g. g_PlayerOneReferrer g = Some w \<or> g_PlayerTwoReferrer g = Some w) db\<rparr>, db)))"

section \<open>The use case\<close>

definition CreateOrUpdateUser :: "User \<Rightarrow> User db_op" where
  "CreateOrUpdateUser user = (case User_Validate user of
       Some e \<Rightarrow> failDB (Wrapf ''user validation failed'' e)
     | None \<Rightarrow> wrapDB ''failed to create or update user'' (CreateOrUpdate user))"

definition GetUserByWallet :: "scan_text \<Rightarrow> wallet \<Rightarrow> User db_op" where
  "GetUserByWallet scan walletAddress =
     (if walletAddress = '''' then failDB (ErrorString ''wallet address is required'')
      else wrapDB ''failed to get user by wallet'' (GetByWallet scan walletAddress))"

definition GetReferralStats :: "wallet \<Rightarrow> ReferralStats db_op" where
  "GetReferralStats walletAddress =
     (if walletAddress = '''' then failDB (ErrorString ''wallet address is required'')
      else wrapDB ''failed to get referral stats'' (Repo_GetReferralStats walletAddress))"

section \<open>Profiles\<close>

lemma length_filter_split: "length (filter p xs) = length (filter (\<lambda>x. p x \<and> q x) xs) + length (filter (\<lambda>x. p x \<and> \<not> q x) xs)"
  by (induction xs) auto

text \<open>The games a profile counts are those won, those lost and those paid out without a winner.\<close>

lemma profile_counts:
  "played_count db w = win_count db w + loss_count db w
     + count_games (\<lambda>g. played_by w g \<and> finished_game g \<and> g_WinnerAddress g = None \<and> g_PayoutAmount g \<noteq> None) db"
proof -
  let ?p = "\<lambda>g. played_by w g \<and> finished_game g \<and> \<not> (g_WinnerAddress g = None \<and> g_PayoutAmount g = None)"
  let ?gs = "db_games db"
  have "length (filter ?p ?gs) = length (filter (\<lambda>g. ?p g \<and> g_WinnerAddress g = Some w) ?gs)
      + length (filter (\<lambda>g. ?p g \<and> g_WinnerAddress g \<noteq> Some w) ?gs)"
    by (rule length_filter_split)
  also have "length (filter (\<lambda>g. ?p g \<and> g_WinnerAddress g \<noteq> Some w) ?gs)
      = length (filter (\<lambda>g. (?p g \<and> g_WinnerAddress g \<noteq> Some w) \<and> g_WinnerAddress g \<noteq> None) ?gs)
      + length (filter (\<lambda>g. (?p g \<and> g_WinnerAddress g \<noteq> Some w) \<and> \<not> g_WinnerAddress g \<noteq> None) ?gs)"
    by (rule length_filter_split)
  also have "filter (\<lambda>g. ?p g \<and> g_WinnerAddress g = Some w) ?gs
      = filter (\<lambda>g. played_by w g \<and> finished_game g \<and> g_WinnerAddress g = Some w) ?gs" by (rule filter_cong) auto
  also have "filter (\<lambda>g. (?p g \<and> g_WinnerAddress g \<noteq> Some w) \<and> g_WinnerAddress g \<noteq> None) ?gs
      = filter (\<lambda>g. played_by w g \<and> finished_game g \<and> g_WinnerAddress g \<noteq> None \<and> g_WinnerAddress g \<noteq> Some w) ?gs"
    by (rule filter_cong) auto
  also have "filter (\<lambda>g. (?p g \<and> g_WinnerAddress g \<noteq> Some w) \<and> \<not> g_WinnerAddress g \<noteq> None) ?gs
      = filter (\<lambda>g. played_by w g \<and> finished_game g \<and> g_WinnerAddress g = None \<and> g_PayoutAmount g \<noteq> None) ?gs"
    by (rule filter_cong) auto
  finally show ?thesis by (simp add: played_count_def win_count_def loss_count_def count_games_def)
qed

lemma statement_done:
  assumes "statement f db = (Inr x, db')"
  shows "f (db\<lparr>db_tick := Suc (db_tick db)\<rparr>) = Inr (x, db')"
  using assms by (cases rule: statement_cases [of f db]) auto

lemma wrapDB_fst: "fst (m db) = Inr x \<Longrightarrow> fst (wrapDB msg m db) = Inr x"
  by (auto simp: wrapDB_def split: prod.splits)

lemma find_new: "find p xs = None \<Longrightarrow> p x \<Longrightarrow> find p (xs @ [x]) = Some x"
  by (induction xs) (auto split: if_splits)

lemma find_replaced: "find p xs = Some x \<Longrightarrow> p y \<Longrightarrow> find p (map (\<lambda>x. if p x then y else x) xs) = Some y"
  by (induction xs) (auto split: if_splits)

lemma CreateOrUpdate_row:
  assumes "CreateOrUpdate user db = (Inr user', db')"
  shows "\<exists>row. user_by_wallet db' (u_WalletAddress user) = Some row \<and> ur_TelegramUsername row = Some (u_TelegramUsername user)
     \<and> ur_TelegramUserID row = u_TelegramUserID user \<and> ur_ID row = u_ID user'"
proof -
  let ?w = "u_WalletAddress user"
  let ?db = "db\<lparr>db_tick := Suc (db_tick db)\<rparr>"
  have *: "User_Validate user = None" "user_columns user = None"
    "(case user_by_wallet ?db ?w of
        None \<Rightarrow> Inr (returned_user (inserted_user ?db user) user,
          ?db\<lparr>db_next_user := db_next_user ?db + 1, db_users := db_users ?db @ [inserted_user ?db user]\<rparr>)
      | Some old \<Rightarrow> let row = old\<lparr>ur_TelegramUserID := u_TelegramUserID user,
            ur_TelegramUsername := Some (u_TelegramUsername user), ur_UpdatedAt := db_now ?db\<rparr>
          in Inr (returned_user row user, ?db\<lparr>db_next_user := db_next_user ?db + 1,
            db_users := map (\<lambda>u. if ur_WalletAddress u = ?w then row else u) (db_users ?db)\<rparr>)) = Inr (user', db')"
    using assms
    by (auto simp: CreateOrUpdate_def insert_user_def wrapDB_Inr failDB_def Let_def dest!: statement_done
        split: option.splits)
  show ?thesis
  proof (cases "user_by_wallet db ?w")
    case None
    let ?row = "inserted_user ?db user"
    from None *(3) have users: "db_users db' = db_users db @ [?row]" and user': "user' = returned_user ?row user"
      by auto
    have "user_by_wallet db' ?w = Some ?row"
      using None by (simp add: user_by_wallet_def users find_new inserted_user_def)
    then show ?thesis by (simp add: user' inserted_user_def returned_user_def)
  next
    case (Some old)
    let ?row = "old\<lparr>ur_TelegramUserID := u_TelegramUserID user,
      ur_TelegramUsername := Some (u_TelegramUsername user), ur_UpdatedAt := db_now ?db\<rparr>"
    from Some *(3) have users: "db_users db' = map (\<lambda>u. if ur_WalletAddress u = ?w then ?row else u) (db_users db)"
      and user': "user' = returned_user ?row user" by (auto simp: Let_def)
    have "ur_WalletAddress old = ?w" using Some by (auto simp: user_by_wallet_def find_Some_iff)
    then have "user_by_wallet db' ?w = Some ?row"
      using Some find_replaced [of "\<lambda>u. ur_WalletAddress u = ?w" "db_users db" old ?row]
      by (simp add: user_by_wallet_def users)
    then show ?thesis by (simp add: user' returned_user_def)
  qed
qed

lemma GetByWalletAddress_found:
  assumes "nullable_scan scan" "user_by_wallet db w = Some row" "ur_TelegramUsername row = Some name"
    and "db_fault db (db_tick db) = None"
  shows "fst (GetByWalletAddress scan w db) = Inr \<lparr>u_ID = ur_ID row, u_TelegramUserID = ur_TelegramUserID row,
     u_TelegramUsername = name, u_WalletAddress = ur_WalletAddress row, u_TotalGamesPlayed = played_count db w,
     u_TotalWins = win_count db w, u_TotalLosses = loss_count db w, u_TotalReferrals = referral_count db w,
     u_TotalReferralEarnings = ur_TotalReferralEarnings row, u_CreatedAt = ur_CreatedAt row, u_UpdatedAt = ur_UpdatedAt row\<rparr>"
  using assms
  by (simp add: GetByWalletAddress_def wrapDB_def statement_def Let_def scanned_user_def nullable_scan_def
      played_count_def win_count_def loss_count_def referral_count_def referred_wallets_def count_games_def)

section \<open>Profiles of the wallets the chain names\<close>

text \<open>The rows that the event handlers create and update have no Telegram name.\<close>

fun anonymous_users :: "tables \<Rightarrow> bool" where
  "anonymous_users (gs, es, us) \<longleftrightarrow> (\<forall>u \<in> set us. ur_TelegramUsername u = None)"

lemma anonymous_update_game: "keepsDB anonymous_users (update_game k f)"
  by (rule keepsDB_update_game) (simp add: tables_def)

lemma anonymous_update_user:
  "(\<And>u. ur_TelegramUsername (f u) = ur_TelegramUsername u) \<Longrightarrow> keepsDB anonymous_users (update_user w f)"
  by (rule keepsDB_update_user) (auto simp: tables_def)

lemma anonymous_upsert: "keeps anonymous_users upsertH"
  unfolding keeps_def
proof (intro allI impI)
  fix s :: "GameEvent \<times> db"
  assume ok: "anonymous_users (tables (snd s))"
  have "snd (snd (upsertH s)) = snd (Upsert (fst s) (snd s))"
    by (simp add: upsertH_def split: prod.split sum.split)
  with ok Upsert_state [of "fst s" "snd s"] show "anonymous_users (tables (snd (snd (upsertH s))))"
    by (auto simp: tables_def)
qed

lemma anonymous_create: "keepsDB anonymous_users (CreateOrIgnore g)"
  by (rule keepsDB_create) (simp add: tables_def)

lemma anonymous_ensure: "keepsDB anonymous_users (EnsureUserByWallet w)"
  unfolding EnsureUserByWallet_def
  by (intro keepsDB_wrap keepsDB_statement) (auto simp: tables_def Let_def split: if_splits)

interpretation anonymous: table_invariant anonymous_users
  by unfold_locales
    (simp_all add: anonymous_create JoinGame_def CompleteGame_def CancelGame_def IncrementGamesPlayed_def
      IncrementWins_def IncrementLosses_def IncrementReferrals_def keepsDB_wrap anonymous_update_game
      anonymous_update_user keepsDB_RevealChoice anonymous_upsert anonymous_ensure)

lemma anonymous_unreadable:
  assumes "anonymous_users (tables db)" "nullable_scan scan"
  shows "\<exists>e. fst (GetByWalletAddress scan w db) = Inl e"
proof (cases "user_by_wallet db w")
  case None
  then show ?thesis by (simp add: GetByWalletAddress_def wrapDB_def statement_def Let_def split: option.split)
next
  case (Some u)
  then have "ur_TelegramUsername u = None"
    using assms(1) by (auto simp: tables_def user_by_wallet_def find_Some_iff)
  with Some assms(2) show ?thesis
    by (auto simp: GetByWalletAddress_def wrapDB_def statement_def Let_def scanned_user_def nullable_scan_def
        split: option.split)
qed

definition pgx_scan :: scan_text where
  "pgx_scan v = (case v of None \<Rightarrow> Inl (ErrorString ''cannot scan NULL into *string'') | Some s \<Rightarrow> Inr s)"

lemma pgx_scan_ok: "nullable_scan pgx_scan"
  by (simp add: nullable_scan_def pgx_scan_def)

section \<open>Properties\<close>

text \<open>
  After a successful \<open>CreateOrUpdateUser\<close>, whether it inserted the profile or updated
  one, \<open>GetUserByWallet\<close> finds it under its wallet, with the id it was given and the Telegram
  identity that was stored, and its counters are those of the games table: no more wins and
  losses than games played.
\<close>

theorem profile_roundtrip:
  assumes "CreateOrUpdateUser user db = (Inr user', db')" "nullable_scan scan" "db_fault db' (db_tick db') = None"
  shows "\<exists>stored. fst (GetUserByWallet scan (u_WalletAddress user) db') = Inr stored
     \<and> u_ID stored = u_ID user' \<and> u_TelegramUsername stored = u_TelegramUsername user
     \<and> u_TelegramUserID stored = u_TelegramUserID user
     \<and> u_TotalWins stored + u_TotalLosses stored \<le> u_TotalGamesPlayed stored"
proof -
  have valid: "u_WalletAddress user \<noteq> []" and run: "CreateOrUpdate user db = (Inr user', db')"
    using assms(1) by (auto simp: CreateOrUpdateUser_def wrapDB_Inr User_Validate_def failDB_def split: option.splits if_splits)
  obtain row where row: "user_by_wallet db' (u_WalletAddress user) = Some row"
    "ur_TelegramUsername row = Some (u_TelegramUsername user)" "ur_TelegramUserID row = u_TelegramUserID user"
    "ur_ID row = u_ID user'"
    using CreateOrUpdate_row [OF run] by blast
  have "win_count db' w + loss_count db' w \<le> played_count db' w" for w
    by (simp add: profile_counts count_games_def)
  with GetByWalletAddress_found [OF assms(2) row(1,2) assms(3)] row(3,4) valid show ?thesis
    by (simp add: GetUserByWallet_def GetByWallet_def wrapDB_fst)
qed

definition sample_user :: User where
  "sample_user = \<lparr>u_ID = 0, u_TelegramUserID = Some 5, u_TelegramUsername = ''ann'', u_WalletAddress = player_a,
     u_TotalGamesPlayed = 0, u_TotalWins = 0, u_TotalLosses = 0, u_TotalReferrals = 0,
     u_TotalReferralEarnings = 0, u_CreatedAt = 0, u_UpdatedAt = 0\<rparr>"

theorem profile_roundtrip_witness:
  "\<exists>stored. fst (GetUserByWallet pgx_scan player_a (snd (CreateOrUpdateUser sample_user (p_db initialized_persistence)))) = Inr stored
     \<and> u_TelegramUsername stored = ''ann''"
proof -
  let ?run = "CreateOrUpdateUser sample_user (p_db initialized_persistence)"
  have "case fst ?run of Inl e \<Rightarrow> False | Inr u \<Rightarrow> True" by code_simp
  then obtain user' where run: "?run = (Inr user', snd ?run)" by (cases ?run) (auto split: sum.splits)
  have "db_fault (snd ?run) (db_tick (snd ?run)) = None" by code_simp
  with profile_roundtrip [OF run pgx_scan_ok] show ?thesis by (auto simp: sample_user_def)
qed

text \<open>
  In every database the event handlers can reach, whatever the events and whichever
  statements fail, \<open>GetUserByWallet\<close> fails for every wallet, also for those of stored
  players: the rows that \<open>EnsureUserByWallet\<close> inserts have no Telegram name, and the query
  scans that \<open>NULL\<close> into a Go string.
\<close>

theorem profiles_unreachable:
  assumes "(persist_step pa marshal)\<^sup>*\<^sup>* p p'" and "tables (p_db p) = ([], [], [])" and "nullable_scan scan"
  shows "\<exists>e. fst (GetUserByWallet scan w (p_db p')) = Inl e"
proof -
  have "anonymous_users (tables (p_db p'))" using anonymous.persist_run_keeps [OF assms(1)] assms(2) by simp
  from anonymous_unreadable [OF this assms(3), of w] show ?thesis
    by (auto simp: GetUserByWallet_def GetByWallet_def failDB_def wrapDB_def split: prod.splits sum.splits)
qed

theorem profiles_unreachable_witness:
  "user_by_wallet (p_db initialized_persistence) player_a \<noteq> None
     \<and> (\<exists>e. fst (GetUserByWallet pgx_scan player_a (p_db initialized_persistence)) = Inl e)"
proof
  show "user_by_wallet (p_db initialized_persistence) player_a \<noteq> None" by code_simp
  show "\<exists>e. fst (GetUserByWallet pgx_scan player_a (p_db initialized_persistence)) = Inl e"
    by (rule profiles_unreachable [OF initialized_reachable _ pgx_scan_ok]) simp
qed

end
