(* ===== verification/Rest_Reads.thy ===== *)
theory Rest_Reads
  imports User_Profiles Activity
begin

text \<open>
  The reading endpoints under \<open>internal/controller/rest/\<close>: \<open>game_handler.go\<close>,
  \<open>user_handler.go\<close> and the queue, search and summary endpoints of
  \<open>game_activity_handler.go\<close>. What the web framework extracts from a request is the record
  \<open>read_request\<close>, with \<open>c.Query\<close> and \<open>c.QueryInt\<close> as functions; a response is a status and a
  body, with instants kept as instants; a panic of the handler, which the recovery middleware turns into
  the framework's answer, is \<open>None\<close>.
\<close>

section \<open>Requests and responses\<close>

record read_request =
  rd_gameId :: string
  rd_address :: string
  rd_queueKey :: string
  rd_query :: "string \<Rightarrow> string"
  rd_int :: "string \<Rightarrow> int \<Rightarrow> int"

record Reservation =
  rv_GameID :: int
  rv_WalletAddress :: wallet
  rv_CreatedAt :: instant
  rv_ExpiresAt :: instant
  rv_Status :: string

record GameWithReservation =
  gwr_Game :: Game
  gwr_Reservation :: "Reservation option"

record GameListResponse =
  gl_Games :: "GameWithReservation list"
  gl_Total :: int
  gl_Limit :: int
  gl_Offset :: int

record GameHistoryResponse =
  gh_WalletAddress :: wallet
  gh_Games :: "Game list"
  gh_Limit :: int
  gh_Offset :: int
  gh_Total :: int

record GameActivityQueueResponse =
  qr_QueueKey :: string
  qr_Title :: string
  qr_AttentionRequired :: bool
  qr_Items :: "PlayerActivityGame list"
  qr_Summary :: PlayerActivitySummary
  qr_Total :: int
  qr_Limit :: int
  qr_Offset :: int

record GameActivitySearchResponse =
  sr_Query :: string
  sr_QueueScope :: string
  sr_Items :: "PlayerActivityGame list"
  sr_Summary :: PlayerActivitySummary
  sr_Total :: int
  sr_Limit :: int
  sr_Offset :: int
  sr_Message :: string

datatype read_body = ErrorBody string string | GameList GameListResponse | GameBody Game | UserBody User
  | HistoryBody GameHistoryResponse | StatsBody ReferralStats | QueueBody GameActivityQueueResponse
  | SearchBody GameActivitySearchResponse | SummaryBody PlayerActivitySummary

type_synonym read_response = "(int \<times> read_body) option"

section \<open>Games\<close>

definition shown_reservation :: "claim_store option \<Rightarrow> instant \<Rightarrow> Game \<Rightarrow> Reservation option" where
  "shown_reservation reservationUC now game = (case reservationUC of
       None \<Rightarrow> None
     | Some st \<Rightarrow> (case GetReservation st now (g_GameID game) of
         None \<Rightarrow> None
       | Some res \<Rightarrow> Some \<lparr>rv_GameID = r_GameID res, rv_WalletAddress = r_WalletAddress res,
           rv_CreatedAt = r_CreatedAt res, rv_ExpiresAt = r_ExpiresAt res, rv_Status = r_Status res\<rparr>))"

definition ListGamesHandler :: "claim_store option \<Rightarrow> instant \<Rightarrow> read_request \<Rightarrow> db \<Rightarrow> read_response \<times> db" where
  "ListGamesHandler reservationUC now rq db =
     (let status = rd_int rq ''status'' GameStatusWaitingForOpponent; limit = rd_int rq ''limit'' 20; offset = rd_int rq ''offset'' 0
      in case ListGames status limit offset db of
          (Inl err, db') \<Rightarrow> (Some (400, ErrorBody ''bad_request'' (Error err)), db')
        | (Inr None, db') \<Rightarrow> (None, db')
        | (Inr (Some games), db') \<Rightarrow> (Some (200, GameList
            \<lparr>gl_Games = map (\<lambda>game. \<lparr>gwr_Game = game, gwr_Reservation = shown_reservation reservationUC now game\<rparr>) games,
             gl_Total = int (length games), gl_Limit = limit, gl_Offset = offset\<rparr>), db'))"

definition GetGameByIDHandler :: "read_request \<Rightarrow> db \<Rightarrow> read_response \<times> db" where
  "GetGameByIDHandler rq db = (case ParseInt64 (rd_gameId rq) of
       None \<Rightarrow> (Some (400, ErrorBody ''bad_request'' ''Invalid game ID format''), db)
     | Some gameID \<Rightarrow> (case GetGameByID gameID db of
         (Inl err, db') \<Rightarrow>
           (if Error err = ''game not found'' \<or> str_contains (Error err) ''no rows in result set''
            then Some (404, ErrorBody ''not_found'' ''Game not found'')
            else Some (500, ErrorBody ''internal_error'' ''Failed to retrieve game''), db')
       | (Inr game, db') \<Rightarrow> (Some (200, GameBody game), db')))"

section \<open>Users\<close>

definition GetUserProfile :: "scan_text \<Rightarrow> read_request \<Rightarrow> db \<Rightarrow> read_response \<times> db" where
  "GetUserProfile scan rq db = (case GetUserByWallet scan (rd_address rq) db of
       (Inl err, db') \<Rightarrow> (Some (404, ErrorBody ''User not found'' []), db')
     | (Inr user, db') \<Rightarrow> (Some (200, UserBody user), db'))"

text \<open>A parameter of the query: the default when it is absent, else a number in its range.\<close>

definition page_parameter :: "string \<Rightarrow> int \<Rightarrow> (int \<Rightarrow> bool) \<Rightarrow> int option" where
  "page_parameter param fallback in_range = (if param = [] then Some fallback
     else case ParseInt64 param of None \<Rightarrow> None | Some n \<Rightarrow> if in_range n then Some n else None)"

definition GetUserGameHistory :: "'a address_lib \<Rightarrow> scan_text \<Rightarrow> read_request \<Rightarrow> db \<Rightarrow> read_response \<times> db" where
  "GetUserGameHistory lib scan rq db =
     (case page_parameter (rd_query rq ''limit'') 20 (\<lambda>n. \<not> (n \<le> 0 \<or> n > 100)) of
        None \<Rightarrow> (Some (400, ErrorBody ''Invalid limit parameter (must be between 1 and 100)'' []), db)
      | Some limit \<Rightarrow> (case page_parameter (rd_query rq ''offset'') 0 (\<lambda>n. \<not> n < 0) of
          None \<Rightarrow> (Some (400, ErrorBody ''Invalid offset parameter (must be non-negative)'' []), db)
        | Some offset \<Rightarrow> (case GetUserByWallet scan (rd_address rq) db of
            (Inl err, db') \<Rightarrow> (Some (404, ErrorBody ''User not found'' []), db')
          | (Inr user, db') \<Rightarrow> (case GetGamesByPlayerPage lib (rd_address rq) limit offset db' of
              (Inl err, db'') \<Rightarrow> (Some (500, ErrorBody ''Failed to retrieve game history'' []), db'')
            | (Inr (None, n), db'') \<Rightarrow> (None, db'')
            | (Inr (Some games, n), db'') \<Rightarrow> (Some (200, HistoryBody \<lparr>gh_WalletAddress = rd_address rq, gh_Games = games,
                gh_Limit = limit, gh_Offset = offset, gh_Total = n\<rparr>), db'')))))"

definition GetReferralStatsHandler :: "read_request \<Rightarrow> db \<Rightarrow> read_response \<times> db" where
  "GetReferralStatsHandler rq db = (case GetReferralStats (rd_address rq) db of
       (Inl err, db') \<Rightarrow> (Some (500, ErrorBody ''Failed to retrieve referral statistics'' []), db')
     | (Inr stats, db') \<Rightarrow> (Some (200, StatsBody stats), db'))"

section \<open>Activity\<close>

abbreviation defaultActivityResponseLimit :: int where "defaultActivityResponseLimit \<equiv> 20"
abbreviation maxActivityResponseLimit :: int where "maxActivityResponseLimit \<equiv> 100"

definition response_limit :: "int \<Rightarrow> int" where
  "response_limit limit =
     (let responseLimit = (if limit \<le> 0 then defaultActivityResponseLimit else limit)
      in if responseLimit > maxActivityResponseLimit then maxActivityResponseLimit else responseLimit)"

definition activity_error :: "error \<Rightarrow> int \<times> read_body" where
  "activity_error err = (if errors_is err ErrInvalidActivityQueueKey \<or> errors_is err ErrInvalidActivityOffset then 400 else 500,
     ErrorBody ''bad_request'' (Error err))"

definition ListQueue :: "parse_addr \<Rightarrow> instant \<Rightarrow> read_request \<Rightarrow> activity_uc \<Rightarrow> read_response \<times> activity_uc \<times> broadcast list" where
  "ListQueue pa now rq uc =
     (let limit = rd_int rq ''limit'' 0; offset = rd_int rq ''offset'' 0
      in case GetQueue pa now (rd_queueKey rq) (rd_query rq ''wallet'') limit offset uc of
          (Inl err, uc', bs) \<Rightarrow> (Some (activity_error err), uc', bs)
        | (Inr None, uc', bs) \<Rightarrow> (None, uc', bs)
        | (Inr (Some (q, summary)), uc', bs) \<Rightarrow> (Some (200, QueueBody \<lparr>qr_QueueKey = gq_Key q, qr_Title = gq_Title q,
            qr_AttentionRequired = gq_AttentionRequired q, qr_Items = gq_Items q, qr_Summary = summary,
            qr_Total = gq_TotalCount q, qr_Limit = response_limit limit, qr_Offset = offset\<rparr>), uc', bs))"

definition SearchActivity :: "parse_addr \<Rightarrow> instant \<Rightarrow> read_request \<Rightarrow> activity_uc \<Rightarrow> read_response \<times> activity_uc \<times> broadcast list" where
  "SearchActivity pa now rq uc =
     (let query = rd_query rq ''q''; queueScope = rd_query rq ''queue'';
          limit = rd_int rq ''limit'' 0; offset = rd_int rq ''offset'' 0
      in case Search pa now (rd_query rq ''wallet'') query queueScope limit offset uc of
          (Inl err, uc', bs) \<Rightarrow> (Some (activity_error err), uc', bs)
        | (Inr None, uc', bs) \<Rightarrow> (None, uc', bs)
        | (Inr (Some (items, summary, n)), uc', bs) \<Rightarrow> (Some (200, SearchBody \<lparr>sr_Query = query, sr_QueueScope = queueScope,
            sr_Items = items, sr_Summary = summary, sr_Total = n, sr_Limit = response_limit limit, sr_Offset = offset,
            sr_Message = (if query = [] then ''Enter a wallet, opponent, or game ID to search activity.''
              else if n = 0 then ''No matching activity found.'' else [])\<rparr>), uc', bs))"

definition GetUserActivitySummary :: "parse_addr \<Rightarrow> instant \<Rightarrow> read_request \<Rightarrow> activity_uc \<Rightarrow> read_response \<times> activity_uc \<times> broadcast list" where
  "GetUserActivitySummary pa now rq uc = (case GetSummary pa now (rd_address rq) uc of
       (Inl err, uc', bs) \<Rightarrow> (Some (if errors_is err ErrActivityWalletRequired then 400 else 500,
          ErrorBody ''bad_request'' (Error err)), uc', bs)
     | (Inr summary, uc', bs) \<Rightarrow> (Some (200, SummaryBody summary), uc', bs))"

section \<open>Properties\<close>

text \<open>
  While the server answers, a request for a game is answered exactly by what is stored: 400 for
  an id that is no number, 500 for one that is not positive, 404 for a game that is not
  stored, and 200 with the stored game otherwise.
\<close>

theorem game_endpoint_exact:
  assumes "\<forall>n. db_fault db n = None"
  shows "fst (GetGameByIDHandler rq db) = (case ParseInt64 (rd_gameId rq) of
       None \<Rightarrow> Some (400, ErrorBody ''bad_request'' ''Invalid game ID format'')
     | Some k \<Rightarrow> if k \<le> 0 then Some (500, ErrorBody ''internal_error'' ''Failed to retrieve game'')
         else case game_row db k of
             None \<Rightarrow> Some (404, ErrorBody ''not_found'' ''Game not found'')
           | Some g \<Rightarrow> Some (200, GameBody g))"
proof -
  have missing: "str_contains (Error (Wrapf ''execute query'' ErrNoRows)) ''no rows in result set''"
    and positive: "\<not> str_contains ''gameID must be positive'' ''no rows in result set''" "''gameID must be positive'' \<noteq> ''game not found''"
    by code_simp+
  have found: "fst (GetByID k db) = (case game_row db k of None \<Rightarrow> Inl (Wrapf ''execute query'' ErrNoRows) | Some g \<Rightarrow> Inr g)" for k
    using assms by (simp add: GetByID_def wrapDB_def statement_def Let_def split: option.split)
  show ?thesis
  proof (cases "ParseInt64 (rd_gameId rq)")
    case None then show ?thesis by (simp add: GetGameByIDHandler_def)
  next
    case (Some k)
    obtain res db' where got: "GetByID k db = (res, db')" by fastforce
    have "res = (case game_row db k of None \<Rightarrow> Inl (Wrapf ''execute query'' ErrNoRows) | Some g \<Rightarrow> Inr g)"
      using found [of k] got by simp
    then show ?thesis using Some got missing positive
      by (simp add: GetGameByIDHandler_def GetGameByID_def failDB_def split: option.split)
  qed
qed

theorem game_endpoint_exact_witness:
  "fst (GetGameByIDHandler \<lparr>rd_gameId = ''4'', rd_address = [], rd_queueKey = [], rd_query = (\<lambda>k. []), rd_int = (\<lambda>k d. d)\<rparr> demo_db)
     = Some (404, ErrorBody ''not_found'' ''Game not found'')"
proof -
  have "\<forall>n. db_fault demo_db n = None" by (simp add: demo_db_def)
  moreover have "ParseInt64 ''4'' = Some 4" "game_row demo_db 4 = None" by code_simp+
  ultimately show ?thesis using game_endpoint_exact [of demo_db] by simp
qed

text \<open>
  C37. For every status there is one list of the stored games with that status (the paid games
  included for ENDED), most recent activity first, such that every request for it with a positive limit
  and a non-negative offset is answered with that page of the list, each game beside the
  reservation that is active at that instant, if there is one, and with the length of the page as
  the total. A request whose offset is inside the list and whose offset plus limit leaves the
  range of \<open>int\<close> panics.
\<close>

theorem list_endpoint_exact:
  assumes "0 \<le> status" "status \<le> 4" and calm: "\<forall>n. db_fault db n = None"
  shows "\<exists>games. mset games = filter_mset (listed status) (mset (db_games db))
     \<and> sorted_wrt (\<lambda>a b. latestGameActivity (Some b) \<le> latestGameActivity (Some a)) games
     \<and> (\<forall>rq limit offset st now. rd_int rq ''status'' 1 = status \<and> rd_int rq ''limit'' 20 = limit \<and> rd_int rq ''offset'' 0 = offset
          \<and> 0 < limit \<and> 0 \<le> offset \<and> in_i64 limit \<and> in_i64 offset \<longrightarrow>
          fst (ListGamesHandler (Some st) now rq db) =
            (if offset < int (length games) \<and> 2 ^ 63 \<le> offset + limit then None
             else let shown = take (nat limit) (drop (nat offset) games)
               in Some (200, GameList \<lparr>gl_Games = map (\<lambda>g. \<lparr>gwr_Game = g,
                    gwr_Reservation = map_option (\<lambda>r. \<lparr>rv_GameID = r_GameID r, rv_WalletAddress = r_WalletAddress r,
                      rv_CreatedAt = r_CreatedAt r, rv_ExpiresAt = r_ExpiresAt r, rv_Status = r_Status r\<rparr>)
                      (active_claim st now (g_GameID g))\<rparr>) shown,
                  gl_Total = int (length shown), gl_Limit = limit, gl_Offset = offset\<rparr>)))"
proof -
  obtain games where games: "mset games = filter_mset (listed status) (mset (db_games db))"
      "sorted_wrt (\<lambda>a b. latestGameActivity (Some b) \<le> latestGameActivity (Some a)) games"
    and page: "\<And>limit offset. 0 < limit \<and> 0 \<le> offset \<and> in_i64 limit \<and> in_i64 offset \<Longrightarrow>
          fst (ListGames status limit offset db) = Inr (if offset < int (length games) \<and> 2 ^ 63 \<le> offset + limit then None
            else Some (take (nat limit) (drop (nat offset) games)))"
    using list_games_page [OF assms] by metis
  have shown: "shown_reservation (Some st) now g = map_option (\<lambda>r. \<lparr>rv_GameID = r_GameID r, rv_WalletAddress = r_WalletAddress r,
      rv_CreatedAt = r_CreatedAt r, rv_ExpiresAt = r_ExpiresAt r, rv_Status = r_Status r\<rparr>)
      (active_claim st now (g_GameID g))" for st now g
    by (simp add: shown_reservation_def GetReservation_def active_claim_def split: option.split)
  show ?thesis
  proof (intro exI [of _ games] conjI games allI impI, elim conjE)
    fix rq :: read_request and limit offset :: int and st :: claim_store and now :: instant
    assume q: "rd_int rq ''status'' 1 = status" "rd_int rq ''limit'' 20 = limit" "rd_int rq ''offset'' 0 = offset"
      and ok: "0 < limit" "0 \<le> offset" "in_i64 limit" "in_i64 offset"
    obtain res db' where "ListGames status limit offset db = (res, db')" by fastforce
    with page [of limit offset] ok show "fst (ListGamesHandler (Some st) now rq db) =
            (if offset < int (length games) \<and> 2 ^ 63 \<le> offset + limit then None
             else let shown = take (nat limit) (drop (nat offset) games)
               in Some (200, GameList \<lparr>gl_Games = map (\<lambda>g. \<lparr>gwr_Game = g,
                    gwr_Reservation = map_option (\<lambda>r. \<lparr>rv_GameID = r_GameID r, rv_WalletAddress = r_WalletAddress r,
                      rv_CreatedAt = r_CreatedAt r, rv_ExpiresAt = r_ExpiresAt r, rv_Status = r_Status r\<rparr>)
                      (active_claim st now (g_GameID g))\<rparr>) shown,
                  gl_Total = int (length shown), gl_Limit = limit, gl_Offset = offset\<rparr>))"
      by (simp add: ListGamesHandler_def q shown Let_def)
  qed
qed

theorem list_endpoint_exact_witness:
  "fst (ListGamesHandler (Some sample_store) 0 \<lparr>rd_gameId = [], rd_address = [], rd_queueKey = [], rd_query = (\<lambda>k. []),
     rd_int = (\<lambda>k d. if k = ''limit'' then 2 ^ 63 - 1 else if k = ''offset'' then 1 else d)\<rparr> demo_db) = None"
proof -
  obtain games where g: "mset games = filter_mset (listed 1) (mset (db_games demo_db))"
    and page: "\<And>rq limit offset st now. rd_int rq ''status'' 1 = 1 \<and> rd_int rq ''limit'' 20 = limit \<and> rd_int rq ''offset'' 0 = offset
          \<and> 0 < limit \<and> 0 \<le> offset \<and> in_i64 limit \<and> in_i64 offset \<Longrightarrow>
        offset < int (length games) \<Longrightarrow> 2 ^ 63 \<le> offset + limit \<Longrightarrow> fst (ListGamesHandler (Some st) now rq demo_db) = None"
    using list_endpoint_exact [of 1 demo_db] by (auto simp: demo_db_def)
  have "size (mset games) = 2" unfolding g by (simp add: demo_db_def demo_game_def listed_def)
  then have "length games = 2" by simp
  then show ?thesis by (intro page [of _ "2 ^ 63 - 1" 1]) (simp_all add: in_i64_def)
qed

text \<open>
  C38. In every database that the event handlers can reach, whatever the events and whichever
  statements fail, the profile endpoint answers 404 for every wallet, those of stored players
  included, and the history endpoint answers only 400 or 404: neither ever answers 200.
\<close>

theorem user_endpoints_not_found:
  assumes "(persist_step pa marshal)\<^sup>*\<^sup>* p p'" and "tables (p_db p) = ([], [], [])" and "nullable_scan scan"
  shows "fst (GetUserProfile scan rq (p_db p')) = Some (404, ErrorBody ''User not found'' [])
     \<and> map_option fst (fst (GetUserGameHistory lib scan rq (p_db p'))) \<in> {Some 400, Some 404}"
proof -
  obtain e db' where "GetUserByWallet scan (rd_address rq) (p_db p') = (Inl e, db')"
    using profiles_unreachable [OF assms, of "rd_address rq"] by (metis prod.collapse)
  then show ?thesis by (simp add: GetUserProfile_def GetUserGameHistory_def split: option.split)
qed

theorem user_endpoints_not_found_witness:
  "user_by_wallet (p_db initialized_persistence) player_a \<noteq> None
     \<and> fst (GetUserProfile pgx_scan \<lparr>rd_gameId = [], rd_address = player_a, rd_queueKey = [], rd_query = (\<lambda>k. []), rd_int = (\<lambda>k d. d)\<rparr>
          (p_db initialized_persistence)) = Some (404, ErrorBody ''User not found'' [])"
proof
  show "user_by_wallet (p_db initialized_persistence) player_a \<noteq> None" by code_simp
  show "fst (GetUserProfile pgx_scan \<lparr>rd_gameId = [], rd_address = player_a, rd_queueKey = [], rd_query = (\<lambda>k. []), rd_int = (\<lambda>k d. d)\<rparr>
          (p_db initialized_persistence)) = Some (404, ErrorBody ''User not found'' [])"
    by (rule user_endpoints_not_found [OF initialized_reachable _ pgx_scan_ok, THEN conjunct1]) simp
qed

end
