(* ===== verification/Broadcast_Hub.thy ===== *)
theory Broadcast_Hub
  imports Claim_Store "HOL-Library.AList"
begin

text \<open>
  \<open>internal/usecase/game_broadcast.go\<close>: the hub that sends game updates and claim events to
  the WebSocket clients of a game and to the global clients. The map of maps is an association list
  of association lists, which fixes an order of iteration that Go leaves open; the properties do not
  depend on it. A connection is an identity; whether setting its deadline and writing to it succeed
  are parameters of a broadcast, as is the JSON encoding of a message.
\<close>

section \<open>Messages\<close>

record ws_message =
  wm_Type :: string
  wm_Timestamp :: instant
  wm_GameID :: int
  wm_ReservedBy :: "string option"
  wm_ExpiresAt :: "instant option"
  wm_Reason :: "string option"
  wm_EventType :: "string option"   \<comment> \<open>omitted when empty\<close>
  wm_Data :: "Game option"

definition created_message :: "string \<Rightarrow> instant \<Rightarrow> GameReservation \<Rightarrow> ws_message" where
  "created_message ty now r = \<lparr>wm_Type = ty, wm_Timestamp = now, wm_GameID = r_GameID r,
     wm_ReservedBy = Some (r_WalletAddress r), wm_ExpiresAt = Some (r_ExpiresAt r), wm_Reason = None,
     wm_EventType = None, wm_Data = None\<rparr>"

definition released_message :: "string \<Rightarrow> instant \<Rightarrow> int \<Rightarrow> string \<Rightarrow> ws_message" where
  "released_message ty now gameID reason = \<lparr>wm_Type = ty, wm_Timestamp = now, wm_GameID = gameID,
     wm_ReservedBy = None, wm_ExpiresAt = None, wm_Reason = Some reason, wm_EventType = None, wm_Data = None\<rparr>"

fun event_message :: "instant \<Rightarrow> broadcast \<Rightarrow> ws_message" where
  "event_message now (BroadcastReservationCreated r) = created_message ''reservation_created'' now r"
| "event_message now (BroadcastReservationReleased k reason) = released_message ''reservation_released'' now k reason"
| "event_message now (BroadcastCancelReservationCreated r) = created_message ''cancel_reservation_created'' now r"
| "event_message now (BroadcastCancelReservationReleased k reason) = released_message ''cancel_reservation_released'' now k reason"
| "event_message now (BroadcastRevealReservationCreated r) = created_message ''reveal_reservation_created'' now r"
| "event_message now (BroadcastRevealReservationReleased k reason) = released_message ''reveal_reservation_released'' now k reason"
| "event_message now (BroadcastExpiredClaimCreated r) = created_message ''expired_claim_created'' now r"
| "event_message now (BroadcastExpiredClaimReleased k reason) = released_message ''expired_claim_released'' now k reason"
| "event_message now (BroadcastGameUpdateWithEvent g eventType) = \<lparr>wm_Type = ''game_state_update'', wm_Timestamp = now,
     wm_GameID = g_GameID g, wm_ReservedBy = None, wm_ExpiresAt = None, wm_Reason = None,
     wm_EventType = (if eventType = '''' then None else Some eventType), wm_Data = Some g\<rparr>"

section \<open>The hub\<close>

type_synonym conn = nat

record hub =
  gameSubscribers :: "(int \<times> (string \<times> conn) list) list"
  activeConnections :: int

abbreviation (input) GlobalGameID :: int where "GlobalGameID \<equiv> 0"

definition NewGameBroadcastUseCase :: hub where
  "NewGameBroadcastUseCase = \<lparr>gameSubscribers = [], activeConnections = 0\<rparr>"

text \<open>Reading a missing map gives the empty map.\<close>

definition game_map :: "hub \<Rightarrow> int \<Rightarrow> (string \<times> conn) list" where
  "game_map h gameID = (case map_of (gameSubscribers h) gameID of None \<Rightarrow> [] | Some m \<Rightarrow> m)"

definition Subscribe :: "int \<Rightarrow> string \<Rightarrow> conn \<Rightarrow> hub \<Rightarrow> hub" where
  "Subscribe gameID clientID c h = h
     \<lparr>gameSubscribers := AList.update gameID (AList.update clientID c (game_map h gameID)) (gameSubscribers h),
      activeConnections := activeConnections h + 1\<rparr>"

definition Unsubscribe :: "int \<Rightarrow> string \<Rightarrow> hub \<Rightarrow> hub" where
  "Unsubscribe gameID clientID h =
     (if map_of (game_map h gameID) clientID = None then h
      else let m = AList.delete clientID (game_map h gameID) in h
        \<lparr>gameSubscribers := (if m = [] then AList.delete gameID (gameSubscribers h)
           else AList.update gameID m (gameSubscribers h)),
         activeConnections := activeConnections h - 1\<rparr>)"

definition snapshotSubscribers :: "int \<Rightarrow> hub \<Rightarrow> (string \<times> conn) list \<times> string list" where
  "snapshotSubscribers gameID h =
     (foldl (\<lambda>acc (clientID, c). AList.update clientID c acc) (game_map h gameID) (game_map h GlobalGameID),
      map fst (game_map h GlobalGameID))"

text \<open>The connections written to, and the clients that failed, in the game and globally.\<close>

definition broadcastSerializedMessage :: "(conn \<Rightarrow> bool) \<Rightarrow> (conn \<Rightarrow> bool) \<Rightarrow> (string \<times> conn) list \<Rightarrow> string list
    \<Rightarrow> conn list \<times> string list \<times> string list" where
  "broadcastSerializedMessage deadline_ok write_ok allSubscribers globalClientIDs =
     (let failed = filter (\<lambda>(clientID, c). \<not> (deadline_ok c \<and> write_ok c)) allSubscribers in
      (map snd (filter (\<lambda>(clientID, c). deadline_ok c \<and> write_ok c) allSubscribers),
       filter (\<lambda>clientID. clientID \<notin> set globalClientIDs) (map fst failed),
       filter (\<lambda>clientID. clientID \<in> set globalClientIDs) (map fst failed)))"

definition drop_client :: "int \<Rightarrow> string \<Rightarrow> hub \<times> conn list \<Rightarrow> hub \<times> conn list" where
  "drop_client gameID clientID = (\<lambda>(h, shut). case map_of (game_map h gameID) clientID of
       None \<Rightarrow> (h, shut)
     | Some c \<Rightarrow> (h\<lparr>gameSubscribers := AList.update gameID (AList.delete clientID (game_map h gameID)) (gameSubscribers h),
         activeConnections := activeConnections h - 1\<rparr>, shut @ [c]))"

definition cleanupFailedConnections :: "int \<Rightarrow> string list \<Rightarrow> string list \<Rightarrow> hub \<Rightarrow> hub \<times> conn list" where
  "cleanupFailedConnections gameID failedGameClients failedGlobalClients h =
     (if failedGameClients = [] \<and> failedGlobalClients = [] then (h, [])
      else case fold (drop_client gameID) failedGameClients (h, []) of (h1, shut1) \<Rightarrow>
        let h2 = (if game_map h1 gameID = [] then h1\<lparr>gameSubscribers := AList.delete gameID (gameSubscribers h1)\<rparr> else h1)
        in fold (drop_client GlobalGameID) failedGlobalClients (h2, shut1))"

text \<open>
  The two senders of the source repeat the same steps and differ in the text of the serialisation
  error.
\<close>

definition send_message :: "string \<Rightarrow> (ws_message \<Rightarrow> error + string) \<Rightarrow> (conn \<Rightarrow> bool) \<Rightarrow> (conn \<Rightarrow> bool) \<Rightarrow> int \<Rightarrow> ws_message
    \<Rightarrow> hub \<Rightarrow> error option \<times> hub \<times> conn list \<times> conn list" where
  "send_message failure marshal deadline_ok write_ok gameID m h =
     (case snapshotSubscribers gameID h of (allSubscribers, globalClientIDs) \<Rightarrow>
        if allSubscribers = [] then (None, h, [], [])
        else case marshal m of
            Inl err \<Rightarrow> (Some (Wrapf failure err), h, [], [])
          | Inr message \<Rightarrow>
              (case broadcastSerializedMessage deadline_ok write_ok allSubscribers globalClientIDs of
                 (sent, failedGame, failedGlobal) \<Rightarrow>
                   (case cleanupFailedConnections gameID failedGame failedGlobal h of
                      (h', shut) \<Rightarrow> (None, h', sent, shut))))"

definition broadcastEvent :: "(ws_message \<Rightarrow> error + string) \<Rightarrow> (conn \<Rightarrow> bool) \<Rightarrow> (conn \<Rightarrow> bool) \<Rightarrow> int \<Rightarrow> ws_message
    \<Rightarrow> hub \<Rightarrow> error option \<times> hub \<times> conn list \<times> conn list" where
  "broadcastEvent = send_message ''failed to serialize event''"

definition Hub_GameUpdateWithEvent :: "(ws_message \<Rightarrow> error + string) \<Rightarrow> (conn \<Rightarrow> bool) \<Rightarrow> (conn \<Rightarrow> bool) \<Rightarrow> instant
    \<Rightarrow> Game \<Rightarrow> string \<Rightarrow> hub \<Rightarrow> error option \<times> hub \<times> conn list \<times> conn list" where
  "Hub_GameUpdateWithEvent marshal deadline_ok write_ok now g eventType =
     send_message ''failed to serialize game update'' marshal deadline_ok write_ok (g_GameID g)
       (event_message now (BroadcastGameUpdateWithEvent g eventType))"

definition BroadcastGameUpdate :: "(ws_message \<Rightarrow> error + string) \<Rightarrow> (conn \<Rightarrow> bool) \<Rightarrow> (conn \<Rightarrow> bool) \<Rightarrow> instant
    \<Rightarrow> Game \<Rightarrow> hub \<Rightarrow> error option \<times> hub \<times> conn list \<times> conn list" where
  "BroadcastGameUpdate marshal deadline_ok write_ok now g = Hub_GameUpdateWithEvent marshal deadline_ok write_ok now g []"

text \<open>What the hub does for an announcement of the use cases: a game update has its own sender.\<close>

definition announce :: "(ws_message \<Rightarrow> error + string) \<Rightarrow> (conn \<Rightarrow> bool) \<Rightarrow> (conn \<Rightarrow> bool) \<Rightarrow> instant \<Rightarrow> broadcast
    \<Rightarrow> hub \<Rightarrow> error option \<times> hub \<times> conn list \<times> conn list" where
  "announce marshal deadline_ok write_ok now event h = (case event of
       BroadcastGameUpdateWithEvent g eventType \<Rightarrow> Hub_GameUpdateWithEvent marshal deadline_ok write_ok now g eventType h
     | _ \<Rightarrow> let m = event_message now event in broadcastEvent marshal deadline_ok write_ok (wm_GameID m) m h)"

definition GetActiveConnectionCount :: "hub \<Rightarrow> int" where
  "GetActiveConnectionCount h = activeConnections h"

definition GetGameSubscriberCount :: "hub \<Rightarrow> int \<Rightarrow> int" where
  "GetGameSubscriberCount h gameID = int (length (game_map h gameID))"

definition CloseAllConnections :: "hub \<Rightarrow> hub \<times> conn list" where
  "CloseAllConnections h = (h\<lparr>gameSubscribers := [], activeConnections := 0\<rparr>,
     concat (map (\<lambda>(gameID, m). map snd m) (gameSubscribers h)))"

section \<open>The invariant\<close>

text \<open>
  Keys are distinct on both levels, and the counter is the number of subscriptions.
\<close>

definition subscriptions :: "(int \<times> (string \<times> conn) list) list \<Rightarrow> nat" where
  "subscriptions gs = sum_list (map (\<lambda>(gameID, m). length m) gs)"

definition hub_ok :: "hub \<Rightarrow> bool" where
  "hub_ok h \<longleftrightarrow> distinct (map fst (gameSubscribers h)) \<and> (\<forall>gm \<in> set (gameSubscribers h). distinct (map fst (snd gm)))
     \<and> activeConnections h = int (subscriptions (gameSubscribers h))"

lemma subscriptions_update:
  "distinct (map fst gs) \<Longrightarrow> int (subscriptions (AList.update k m gs))
     = int (subscriptions gs) - int (length (case map_of gs k of None \<Rightarrow> [] | Some x \<Rightarrow> x)) + int (length m)"
  by (induction gs) (auto simp: subscriptions_def split: option.split)

lemma subscriptions_delete:
  "distinct (map fst gs) \<Longrightarrow> int (subscriptions (AList.delete k gs))
     = int (subscriptions gs) - int (length (case map_of gs k of None \<Rightarrow> [] | Some x \<Rightarrow> x))"
proof (induction gs)
  case (Cons gm gs)
  then have "fst gm = k \<Longrightarrow> map_of gs k = None" by (auto simp: map_of_eq_None_iff)
  with Cons show ?case by (cases gm) (auto simp: subscriptions_def split: option.splits)
qed (simp add: subscriptions_def)

lemma set_put: "gm \<in> set (AList.update k m gs) \<Longrightarrow> gm = (k, m) \<or> gm \<in> set gs"
  by (induction gs) (auto split: if_splits)

lemma set_dropped: "gm \<in> set (AList.delete k gs) \<Longrightarrow> gm \<in> set gs"
  by (induction gs) (auto split: if_splits)

lemma game_map_distinct: "hub_ok h \<Longrightarrow> distinct (map fst (game_map h gameID))"
  by (auto simp: hub_ok_def game_map_def split: option.split dest!: map_of_SomeD)

lemma game_map_update [simp]:
  "game_map (h\<lparr>gameSubscribers := AList.update k m gs, activeConnections := n\<rparr>) g = (if g = k then m else game_map (h\<lparr>gameSubscribers := gs\<rparr>) g)"
  by (simp add: game_map_def update_conv')

lemma game_map_delete [simp]:
  "game_map (h\<lparr>gameSubscribers := AList.delete k gs\<rparr>) g = (if g = k then [] else game_map (h\<lparr>gameSubscribers := gs\<rparr>) g)"
  by (simp add: game_map_def delete_conv')

lemma length_delete_key:
  "distinct (map fst m) \<Longrightarrow> map_of m k = Some v \<Longrightarrow> Suc (length (AList.delete k m)) = length m"
  by (induction m) (auto split: if_splits)

lemma put_game_ok:
  assumes "hub_ok h" "distinct (map fst m)" "n = activeConnections h - int (length (game_map h g)) + int (length m)"
  shows "hub_ok (h\<lparr>gameSubscribers := AList.update g m (gameSubscribers h), activeConnections := n\<rparr>)"
proof -
  have "distinct (map fst (snd gm))" if "gm \<in> set (AList.update g m (gameSubscribers h))" for gm
    using set_put [OF that] assms(1,2) by (auto simp: hub_ok_def)
  then show ?thesis
    using assms subscriptions_update [of "gameSubscribers h" g m]
    by (auto simp: hub_ok_def game_map_def distinct_update)
qed

lemma remove_game_ok:
  assumes "hub_ok h" "n = activeConnections h - int (length (game_map h g))"
  shows "hub_ok (h\<lparr>gameSubscribers := AList.delete g (gameSubscribers h), activeConnections := n\<rparr>)"
  using assms subscriptions_delete [of "gameSubscribers h" g] set_dropped [of _ g "gameSubscribers h"]
  by (auto simp: hub_ok_def game_map_def distinct_delete)

lemma delete_client_ok:
  assumes "hub_ok h" "map_of (game_map h g) c = Some x"
  shows "hub_ok (h\<lparr>gameSubscribers := AList.update g (AList.delete c (game_map h g)) (gameSubscribers h),
     activeConnections := activeConnections h - 1\<rparr>)"
  using length_delete_key [OF game_map_distinct [OF assms(1)] assms(2)]
  by (intro put_game_ok assms) (auto simp: distinct_delete game_map_distinct [OF assms(1)])

lemma Subscribe_ok: "hub_ok h \<Longrightarrow> map_of (game_map h g) c = None \<Longrightarrow> hub_ok (Subscribe g c x h)"
proof -
  assume h: "hub_ok h" and new: "map_of (game_map h g) c = None"
  have "length (AList.update c x m) = Suc (length m)" if "map_of m c = None" for m :: "(string \<times> conn) list"
    using that by (induction m) auto
  then show ?thesis unfolding Subscribe_def using new
    by (intro put_game_ok h) (auto simp: distinct_update game_map_distinct [OF h])
qed

lemma Unsubscribe_ok:
  assumes "hub_ok h"
  shows "hub_ok (Unsubscribe g c h)"
proof (cases "map_of (game_map h g) c")
  case (Some x)
  note len = length_delete_key [OF game_map_distinct [OF assms] Some]
  show ?thesis
  proof (cases "AList.delete c (game_map h g) = []")
    case True
    with len have "length (game_map h g) = 1" by simp
    with True Some show ?thesis by (simp add: Unsubscribe_def Let_def remove_game_ok assms)
  next
    case False
    with Some delete_client_ok [OF assms Some] show ?thesis by (simp add: Unsubscribe_def Let_def)
  qed
qed (simp add: Unsubscribe_def assms)

lemma game_map_put [simp]:
  "game_map (h\<lparr>gameSubscribers := AList.update k m (gameSubscribers h), activeConnections := n\<rparr>) g = (if g = k then m else game_map h g)"
  "game_map (h\<lparr>gameSubscribers := AList.delete k (gameSubscribers h)\<rparr>) g = (if g = k then [] else game_map h g)"
  by (simp_all add: game_map_def update_conv' delete_conv')

lemma drop_clients:
  "fold (drop_client g) cs (h, s) = (h', s') \<Longrightarrow> hub_ok h \<Longrightarrow>
     hub_ok h' \<and> (\<forall>g'. g' \<noteq> g \<longrightarrow> game_map h' g' = game_map h g')
     \<and> (\<forall>c. map_of (game_map h' g) c = (if c \<in> set cs then None else map_of (game_map h g) c))"
proof (induction cs arbitrary: h s)
  case (Cons k cs)
  obtain h1 s1 where d: "drop_client g k (h, s) = (h1, s1)" by (cases "drop_client g k (h, s)")
  then have run: "fold (drop_client g) cs (h1, s1) = (h', s')" using Cons.prems(1) by simp
  have step: "hub_ok h1" "g' \<noteq> g \<Longrightarrow> game_map h1 g' = game_map h g'"
      "map_of (game_map h1 g) c = (if c = k then None else map_of (game_map h g) c)" for g' c
    using d delete_client_ok [OF Cons.prems(2), of g k] Cons.prems(2)
    by (auto simp: drop_client_def delete_conv' split: option.splits)
  show ?case using Cons.IH [OF run step(1)] step by auto
qed simp

lemma snapshot_map:
  assumes "hub_ok h" "snapshotSubscribers g h = (all, globals)"
  shows "map_of all = map_of (game_map h g) ++ map_of (game_map h GlobalGameID)" "distinct (map fst all)"
    "set globals = dom (map_of (game_map h GlobalGameID))"
proof -
  have fold: "distinct (map fst acc) \<Longrightarrow> distinct (map fst ys) \<Longrightarrow>
      map_of (foldl (\<lambda>acc (clientID, c). AList.update clientID c acc) acc ys) = map_of acc ++ map_of ys
      \<and> distinct (map fst (foldl (\<lambda>acc (clientID, c). AList.update clientID c acc) acc ys))"
    for acc ys :: "(string \<times> conn) list"
  proof (induction ys arbitrary: acc)
    case (Cons y ys)
    then have "map_of ys (fst y) = None" by (auto simp: map_of_eq_None_iff)
    with Cons show ?case by (cases y) (auto simp: distinct_update update_conv' map_add_def fun_eq_iff split: option.split)
  qed simp
  show "map_of all = map_of (game_map h g) ++ map_of (game_map h GlobalGameID)" "distinct (map fst all)"
    using fold [OF game_map_distinct [OF assms(1)] game_map_distinct [OF assms(1)]] assms(2)
    by (auto simp: snapshotSubscribers_def)
  show "set globals = dom (map_of (game_map h GlobalGameID))" using assms(2)
    by (force simp: snapshotSubscribers_def dom_map_of_conv_image_fst)
qed

lemma failed_iff:
  assumes "distinct (map fst all)"
  shows "c \<in> fst ` set (filter (\<lambda>(c, x). \<not> P x) all) \<longleftrightarrow> (\<exists>x. map_of all c = Some x \<and> \<not> P x)"
  using assms by (force simp: map_of_eq_Some_iff image_iff)

lemma cleanup_effect:
  assumes "cleanupFailedConnections g fs gs h = (h', shut)" "hub_ok h"
  shows "hub_ok h'" "k \<noteq> g \<Longrightarrow> k \<noteq> GlobalGameID \<Longrightarrow> game_map h' k = game_map h k"
    "g \<noteq> GlobalGameID \<Longrightarrow> map_of (game_map h' g) c = (if c \<in> set fs then None else map_of (game_map h g) c)"
    "map_of (game_map h' GlobalGameID) c
       = (if c \<in> set gs \<or> g = GlobalGameID \<and> c \<in> set fs then None else map_of (game_map h GlobalGameID) c)"
proof -
  obtain h1 s1 where a: "fold (drop_client g) fs (h, []) = (h1, s1)" by (cases "fold (drop_client g) fs (h, [])")
  note A = drop_clients [OF a assms(2)]
  define h2 where "h2 = (if game_map h1 g = [] then h1\<lparr>gameSubscribers := AList.delete g (gameSubscribers h1)\<rparr> else h1)"
  have same: "game_map h2 k = game_map h1 k" for k by (auto simp: h2_def)
  have ok2: "hub_ok h2"
    using A remove_game_ok [of h1 "activeConnections h1" g] by (auto simp: h2_def)
  obtain h3 s3 where b: "fold (drop_client GlobalGameID) gs (h2, s1) = (h3, s3)"
    by (cases "fold (drop_client GlobalGameID) gs (h2, s1)")
  note B = drop_clients [OF b ok2]
  have end_state: "fs = [] \<and> gs = [] \<and> h' = h \<or> h' = h3"
    using assms(1) a b by (auto simp: cleanupFailedConnections_def Let_def h2_def split: if_splits)
  show "hub_ok h'" using end_state assms(2) B by auto
  show "k \<noteq> g \<Longrightarrow> k \<noteq> GlobalGameID \<Longrightarrow> game_map h' k = game_map h k"
    using end_state A B by (auto simp: same)
  show "g \<noteq> GlobalGameID \<Longrightarrow> map_of (game_map h' g) c = (if c \<in> set fs then None else map_of (game_map h g) c)"
    using end_state A B by (auto simp: same)
  show "map_of (game_map h' GlobalGameID) c
       = (if c \<in> set gs \<or> g = GlobalGameID \<and> c \<in> set fs then None else map_of (game_map h GlobalGameID) c)"
    using end_state A B by (cases "g = GlobalGameID") (auto simp: same)
qed

section \<open>Runs of the hub\<close>

text \<open>
  Other goroutines may run between the snapshot of a broadcast and its clean-up, so the clean-up is a
  step of its own, for any clients; every locked operation is one step. The WebSocket handler
  subscribes each connection under a fresh UUID.
\<close>

inductive hub_step :: "hub \<Rightarrow> hub \<Rightarrow> bool" where
  subscribe: "map_of (game_map h gameID) clientID = None \<Longrightarrow> hub_step h (Subscribe gameID clientID c h)"
| unsubscribe: "hub_step h (Unsubscribe gameID clientID h)"
| cleanup: "hub_step h (fst (cleanupFailedConnections gameID failedGame failedGlobal h))"
| broadcast: "hub_step h (fst (snd (announce marshal deadline_ok write_ok now event h)))"
| close_all: "hub_step h (fst (CloseAllConnections h))"

lemma announce_send:
  "\<exists>failure. announce marshal dl wr now event h
     = send_message failure marshal dl wr (wm_GameID (event_message now event)) (event_message now event) h"
  by (cases event) (auto simp: announce_def broadcastEvent_def Hub_GameUpdateWithEvent_def Let_def)

lemma broadcast_is_cleanup:
  "\<exists>fs gs. fst (snd (announce marshal dl wr now event h)) = h
     \<or> fst (snd (announce marshal dl wr now event h)) = fst (cleanupFailedConnections (wm_GameID (event_message now event)) fs gs h)"
proof -
  obtain failure where a: "announce marshal dl wr now event h
     = send_message failure marshal dl wr (wm_GameID (event_message now event)) (event_message now event) h"
    using announce_send by blast
  show ?thesis unfolding a by (auto simp: send_message_def split: prod.split sum.split) (metis fst_conv)+
qed

lemma hub_step_ok: "hub_step h h' \<Longrightarrow> hub_ok h \<Longrightarrow> hub_ok h'"
proof (induction rule: hub_step.induct)
  case (cleanup h gameID failedGame failedGlobal)
  then show ?case by (metis cleanup_effect(1) prod.collapse)
next
  case (broadcast h marshal deadline_ok write_ok now event)
  then show ?case
    using broadcast_is_cleanup [of marshal deadline_ok write_ok now event h] by (metis cleanup_effect(1) prod.collapse)
next
  case (close_all h)
  show ?case by (simp add: CloseAllConnections_def hub_ok_def subscriptions_def)
qed (simp_all add: Subscribe_ok Unsubscribe_ok)

lemma reachable_hub_ok: "hub_step\<^sup>*\<^sup>* NewGameBroadcastUseCase h \<Longrightarrow> hub_ok h"
proof (induction rule: rtranclp_induct)
  case base
  show ?case by (simp add: NewGameBroadcastUseCase_def hub_ok_def subscriptions_def)
qed (rule hub_step_ok)

section \<open>Properties\<close>

text \<open>
  In every run of the hub, in which subscriptions, cancellations, broadcasts, late clean-ups of a
  broadcast and shutdowns interleave in any order, the number of active connections reported is the
  total of the subscriber counts over the games that have subscribers; in particular it is never
  negative, and it is zero after a shutdown.
\<close>

theorem hub_count:
  assumes "hub_step\<^sup>*\<^sup>* NewGameBroadcastUseCase h"
  shows "GetActiveConnectionCount h = (\<Sum>g \<in> fst ` set (gameSubscribers h). GetGameSubscriberCount h g)
     \<and> 0 \<le> GetActiveConnectionCount h
     \<and> GetActiveConnectionCount (fst (CloseAllConnections h)) = 0 \<and> GetGameSubscriberCount (fst (CloseAllConnections h)) g = 0"
proof -
  have total: "distinct (map fst gs) \<Longrightarrow> int (subscriptions gs)
      = (\<Sum>g \<in> fst ` set gs. int (length (case map_of gs g of None \<Rightarrow> [] | Some m \<Rightarrow> m)))" for gs
  proof (induction gs)
    case (Cons gm gs)
    then show ?case
      by (cases gm) (force simp: subscriptions_def intro!: sum.cong)
  qed (simp add: subscriptions_def)
  have "hub_ok h" by (rule reachable_hub_ok [OF assms])
  then have count: "GetActiveConnectionCount h = (\<Sum>g \<in> fst ` set (gameSubscribers h). GetGameSubscriberCount h g)"
    by (simp add: hub_ok_def GetActiveConnectionCount_def GetGameSubscriberCount_def game_map_def total)
  then have "0 \<le> GetActiveConnectionCount h"
    by (auto simp: GetGameSubscriberCount_def intro: sum_nonneg)
  with count show ?thesis
    by (simp add: CloseAllConnections_def GetActiveConnectionCount_def GetGameSubscriberCount_def game_map_def)
qed

lemma broadcast_run:
  assumes ok: "hub_ok h" and id: "wm_GameID (event_message now event) = gameID"
    and json: "marshal (event_message now event) = Inr bytes"
    and send: "announce marshal dl wr now event h = (r, h', sent, shut)"
  obtains fs gs where "r = None"
    "set sent = {x. \<exists>c. (map_of (game_map h gameID) ++ map_of (game_map h GlobalGameID)) c = Some x \<and> dl x \<and> wr x}"
    "cleanupFailedConnections gameID fs gs h = (h', shut)"
    "\<And>c. c \<in> set fs \<longleftrightarrow> map_of (game_map h GlobalGameID) c = None \<and> (\<exists>x. map_of (game_map h gameID) c = Some x \<and> \<not> (dl x \<and> wr x))"
    "\<And>c. c \<in> set gs \<longleftrightarrow> (\<exists>x. map_of (game_map h GlobalGameID) c = Some x \<and> \<not> (dl x \<and> wr x))"
proof -
  obtain all globals where snap: "snapshotSubscribers gameID h = (all, globals)" by (cases "snapshotSubscribers gameID h")
  note S = snapshot_map [OF ok snap]
  note F = failed_iff [OF S(2), where P = "\<lambda>x. dl x \<and> wr x", unfolded S(1)]
  have target: "x \<in> snd ` set (filter (\<lambda>(c, x). dl x \<and> wr x) all)
      \<longleftrightarrow> (\<exists>c. (map_of (game_map h gameID) ++ map_of (game_map h GlobalGameID)) c = Some x \<and> dl x \<and> wr x)" for x
    using S(2) by (force simp: S(1) [symmetric] map_of_eq_Some_iff image_iff)
  define fs where "fs = filter (\<lambda>c. c \<notin> set globals) (map fst (filter (\<lambda>(c, x). \<not> (dl x \<and> wr x)) all))"
  define gs where "gs = filter (\<lambda>c. c \<in> set globals) (map fst (filter (\<lambda>(c, x). \<not> (dl x \<and> wr x)) all))"
  have fs: "c \<in> set fs \<longleftrightarrow> map_of (game_map h GlobalGameID) c = None \<and> (\<exists>x. map_of (game_map h gameID) c = Some x \<and> \<not> (dl x \<and> wr x))" for c
    using F [of c] S(3) by (auto simp: fs_def map_add_def split: option.splits)
  have gs: "c \<in> set gs \<longleftrightarrow> (\<exists>x. map_of (game_map h GlobalGameID) c = Some x \<and> \<not> (dl x \<and> wr x))" for c
    using F [of c] S(3) by (auto simp: gs_def map_add_def split: option.splits)
  have run: "r = None \<and> cleanupFailedConnections gameID fs gs h = (h', shut) \<and> sent = map snd (filter (\<lambda>(c, x). dl x \<and> wr x) all)"
    using send announce_send [of marshal dl wr now event h] snap json id
    by (auto simp: send_message_def broadcastSerializedMessage_def fs_def gs_def Let_def cleanupFailedConnections_def
        split: if_splits prod.splits)
  show thesis
    by (rule that [of fs gs]) (use run target fs gs in \<open>auto simp: set_eq_iff\<close>)
qed

text \<open>
  C27. A broadcast in a reachable hub whose message serialises returns no error and delivers the message
  to exactly the connections of the game's clients and of the global clients that accept it, a client
  that is both being served once, over its global connection. Afterwards every client whose
  connection failed is unsubscribed where it was found (globally, or else from the game), the
  other clients keep their subscriptions, and no other game changes.
\<close>
theorem hub_delivery:
  assumes run: "hub_step\<^sup>*\<^sup>* NewGameBroadcastUseCase h"
    and event: "wm_GameID (event_message now event) = gameID" "gameID \<noteq> GlobalGameID"
    and json: "marshal (event_message now event) = Inr bytes"
    and send: "announce marshal deadline_ok write_ok now event h = (r, h', sent, shut)"
  shows "r = None
     \<and> set sent = {c. \<exists>clientID. (map_of (game_map h gameID) ++ map_of (game_map h GlobalGameID)) clientID = Some c
         \<and> deadline_ok c \<and> write_ok c}
     \<and> (\<forall>clientID. map_of (game_map h' gameID) clientID = (case map_of (game_map h gameID) clientID of None \<Rightarrow> None
       | Some c \<Rightarrow> if map_of (game_map h GlobalGameID) clientID = None \<and> \<not> (deadline_ok c \<and> write_ok c) then None else Some c))
     \<and> (\<forall>clientID. map_of (game_map h' GlobalGameID) clientID = (case map_of (game_map h GlobalGameID) clientID of None \<Rightarrow> None
       | Some c \<Rightarrow> if deadline_ok c \<and> write_ok c then Some c else None))
     \<and> (\<forall>g'. g' \<notin> {gameID, GlobalGameID} \<longrightarrow> game_map h' g' = game_map h g')"
proof -
  have ok: "hub_ok h" by (rule reachable_hub_ok [OF run])
  from broadcast_run [OF ok event(1) json send] obtain fs gs where R:
    "r = None" "set sent = {x. \<exists>c. (map_of (game_map h gameID) ++ map_of (game_map h GlobalGameID)) c = Some x \<and> deadline_ok x \<and> write_ok x}"
    "cleanupFailedConnections gameID fs gs h = (h', shut)"
    "\<And>c. c \<in> set fs \<longleftrightarrow> map_of (game_map h GlobalGameID) c = None \<and> (\<exists>x. map_of (game_map h gameID) c = Some x \<and> \<not> (deadline_ok x \<and> write_ok x))"
    "\<And>c. c \<in> set gs \<longleftrightarrow> (\<exists>x. map_of (game_map h GlobalGameID) c = Some x \<and> \<not> (deadline_ok x \<and> write_ok x))"
    by blast
  note E = cleanup_effect [OF R(3) ok]
  show ?thesis
    using R(1,2) E(2) E(3) [OF event(2)] E(4) event(2) by (auto simp: R(4,5) split: option.split)
qed

text \<open>A hub with a client of game 7, a client of game 8 and a global client whose connection is broken.\<close>

definition demo_hub :: hub where
  "demo_hub = Subscribe 0 ''w'' 3 (Subscribe 8 ''v'' 2 (Subscribe 7 ''u'' 1 NewGameBroadcastUseCase))"

lemma demo_hub_reachable: "hub_step\<^sup>*\<^sup>* NewGameBroadcastUseCase demo_hub"
proof -
  have "hub_step NewGameBroadcastUseCase (Subscribe 7 ''u'' 1 NewGameBroadcastUseCase)"
    "hub_step (Subscribe 7 ''u'' 1 NewGameBroadcastUseCase) (Subscribe 8 ''v'' 2 (Subscribe 7 ''u'' 1 NewGameBroadcastUseCase))"
    "hub_step (Subscribe 8 ''v'' 2 (Subscribe 7 ''u'' 1 NewGameBroadcastUseCase)) demo_hub"
    unfolding demo_hub_def
    by (rule hub_step.subscribe, simp add: game_map_def Subscribe_def NewGameBroadcastUseCase_def)+
  then show ?thesis by (meson r_into_rtranclp rtranclp_trans)
qed

theorem hub_count_witness:
  "GetActiveConnectionCount demo_hub = (\<Sum>g \<in> {0, 7, 8}. GetGameSubscriberCount demo_hub g) \<and> GetActiveConnectionCount demo_hub = 3"
  using hub_count [OF demo_hub_reachable]
  by (auto simp: demo_hub_def Subscribe_def NewGameBroadcastUseCase_def game_map_def GetActiveConnectionCount_def GetGameSubscriberCount_def)

theorem hub_delivery_witness:
  "case announce (\<lambda>m. Inr ''{}'') (\<lambda>c. True) (\<lambda>c. c \<noteq> 3) 5 (BroadcastReservationReleased 7 ''expired'') demo_hub of
     (r, h', sent, shut) \<Rightarrow> r = None \<and> set sent = {1} \<and> map_of (game_map h' 0) ''w'' = None \<and> map_of (game_map h' 7) ''u'' = Some 1"
proof -
  obtain r h' sent shut where b:
    "announce (\<lambda>m. Inr ''{}'') (\<lambda>c. True) (\<lambda>c. c \<noteq> 3) 5 (BroadcastReservationReleased 7 ''expired'') demo_hub = (r, h', sent, shut)"
    by (metis prod_cases4)
  have maps: "game_map demo_hub 7 = [(''u'', 1)]" "game_map demo_hub 0 = [(''w'', 3)]"
    by (simp_all add: demo_hub_def Subscribe_def NewGameBroadcastUseCase_def game_map_def)
  show ?thesis
    using hub_delivery [OF demo_hub_reachable _ _ _ b, where gameID = 7 and bytes = "''{}''"]
    by (auto simp: b maps released_message_def map_add_def split: if_splits)
qed

end
