(* ===== verification/Game_Socket.thy ===== *)
theory Game_Socket
  imports Broadcast_Hub Join_Reservation
begin

text \<open>
  The WebSocket endpoints, \<open>internal/controller/websocket/game_ws_handler.go\<close>: the checks
  before the upgrade, the answers to the frames of a client, and the life of a connection with its
  handler, its ping goroutine and its subscription in the hub, as a step relation. The web framework
  and JSON are not under \<open>src/\<close>: what they answer is a parameter of the operation. A frame sent to a
  client is the pair of its connection and its message. A connection is subscribed under an
  identifier of \<open>uuid.New\<close>, which the steps take to be unused.
\<close>

section \<open>Frames\<close>

record clientMessage =
  cm_Type :: string
  cm_LastEventTimestamp :: string

record syncResponseMessage =
  sm_Type :: string
  sm_Timestamp :: instant
  sm_Game :: Game

record errorMessage =
  em_Type :: string
  em_Timestamp :: instant
  em_Code :: string
  em_Message :: string

datatype server_message = SyncResponse syncResponseMessage | ErrorFrame errorMessage

abbreviation websocketMessageSyncRequest :: string where "websocketMessageSyncRequest \<equiv> ''sync_request''"
abbreviation websocketMessageSyncResponse :: string where "websocketMessageSyncResponse \<equiv> ''sync_response''"
abbreviation websocketMessageError :: string where "websocketMessageError \<equiv> ''error''"
abbreviation websocketErrorInvalidJSON :: string where "websocketErrorInvalidJSON \<equiv> ''invalid_message_json''"
abbreviation websocketErrorUnsupportedType :: string where "websocketErrorUnsupportedType \<equiv> ''unsupported_message_type''"
abbreviation websocketErrorSyncUnavailable :: string where "websocketErrorSyncUnavailable \<equiv> ''sync_unavailable''"

text \<open>What the handler asks of its surroundings, for one frame: JSON, the write, the games and the clock.\<close>

record socket_env =
  sv_unmarshal :: "string \<Rightarrow> error + clientMessage"
  sv_marshal :: "server_message \<Rightarrow> error option"
  sv_write :: "conn \<Rightarrow> error option"
  sv_repo :: game_repo
  sv_now :: instant

type_synonym frame = "conn \<times> server_message"

definition parseClientMessage :: "socket_env \<Rightarrow> string \<Rightarrow> error + clientMessage" where
  "parseClientMessage env message = sv_unmarshal env message"

definition newSyncResponseMessage :: "instant \<Rightarrow> Game \<Rightarrow> server_message" where
  "newSyncResponseMessage now game = SyncResponse \<lparr>sm_Type = websocketMessageSyncResponse, sm_Timestamp = now, sm_Game = game\<rparr>"

definition newErrorMessage :: "instant \<Rightarrow> string \<Rightarrow> string \<Rightarrow> server_message" where
  "newErrorMessage now code message = ErrorFrame \<lparr>em_Type = websocketMessageError, em_Timestamp = now,
     em_Code = code, em_Message = message\<rparr>"

definition writeServerMessage :: "socket_env \<Rightarrow> conn \<Rightarrow> server_message \<Rightarrow> error option \<times> frame list" where
  "writeServerMessage env c payload = (case sv_marshal env payload of
       Some err \<Rightarrow> (Some err, [])
     | None \<Rightarrow> (case sv_write env c of Some err \<Rightarrow> (Some err, []) | None \<Rightarrow> (None, [(c, payload)])))"

definition sendWebSocketError :: "socket_env \<Rightarrow> conn \<Rightarrow> string \<Rightarrow> string \<Rightarrow> error option \<times> frame list" where
  "sendWebSocketError env c code message = writeServerMessage env c (newErrorMessage (sv_now env) code message)"

definition isTextWebSocketMessage :: "int \<Rightarrow> bool" where
  "isTextWebSocketMessage messageType \<longleftrightarrow> messageType = 1"

section \<open>Answers\<close>

text \<open>A failed write of an answer is logged only.\<close>

definition writeErrorMessage :: "socket_env \<Rightarrow> conn \<Rightarrow> string \<Rightarrow> string \<Rightarrow> frame list" where
  "writeErrorMessage env c code message = snd (sendWebSocketError env c code message)"

definition handleSyncRequest :: "socket_env \<Rightarrow> conn \<Rightarrow> int \<Rightarrow> frame list" where
  "handleSyncRequest env c gameID = (case sv_repo env gameID of
       Inr (Some game) \<Rightarrow> snd (writeServerMessage env c (newSyncResponseMessage (sv_now env) game))
     | _ \<Rightarrow> writeErrorMessage env c websocketErrorSyncUnavailable ''unable to load current game state'')"

definition handleClientMessage :: "socket_env \<Rightarrow> conn \<Rightarrow> int \<Rightarrow> int \<Rightarrow> string \<Rightarrow> frame list" where
  "handleClientMessage env c gameID messageType message =
     (if \<not> isTextWebSocketMessage messageType then []
      else case parseClientMessage env message of
          Inl err \<Rightarrow> writeErrorMessage env c websocketErrorInvalidJSON ''message must be valid JSON''
        | Inr clientMsg \<Rightarrow>
            if cm_Type clientMsg = websocketMessageSyncRequest then handleSyncRequest env c gameID
            else writeErrorMessage env c websocketErrorUnsupportedType ''unsupported websocket message type'')"

definition handleGlobalClientMessage :: "socket_env \<Rightarrow> conn \<Rightarrow> int \<Rightarrow> string \<Rightarrow> frame list" where
  "handleGlobalClientMessage env c messageType message =
     (if \<not> isTextWebSocketMessage messageType then []
      else case parseClientMessage env message of
          Inl err \<Rightarrow> snd (sendWebSocketError env c websocketErrorInvalidJSON ''message must be valid JSON'')
        | Inr clientMsg \<Rightarrow> snd (sendWebSocketError env c websocketErrorUnsupportedType ''global websocket is broadcast-only''))"

section \<open>The upgrade\<close>

text \<open>The request goes on to the handler, with the local \<open>gameID\<close>, or is answered at once.\<close>

datatype upgrade = UpgradeRequired | Rejected int string | Next "int option" | UpgradePanic

definition UpgradeCheck :: "game_repo \<Rightarrow> bool \<Rightarrow> string \<Rightarrow> upgrade" where
  "UpgradeCheck repo isUpgrade gameIDStr =
     (if \<not> isUpgrade then UpgradeRequired
      else case ParseInt64 gameIDStr of
          None \<Rightarrow> Rejected 400 ''invalid game ID''
        | Some gameID \<Rightarrow>
            if gameID \<le> 0 then Rejected 400 ''invalid game ID''
            else case repo gameID of
                Inl err \<Rightarrow> Rejected 404 ''game not found''
              | Inr None \<Rightarrow> UpgradePanic
              | Inr (Some game) \<Rightarrow> Next (Some (g_GameID game)))"

definition GlobalUpgradeCheck :: "bool \<Rightarrow> upgrade" where
  "GlobalUpgradeCheck isUpgrade = (if \<not> isUpgrade then UpgradeRequired else Next None)"

section \<open>Connections\<close>

text \<open>
  A connection after its upgrade: whether its handler still reads, whether its ticker runs and has a tick
  in its channel, whether its ping goroutine runs, and whether the channel \<open>done\<close> is closed. The game 0 is the global
  subscription.
\<close>

record socket =
  sk_global :: bool
  sk_game :: int
  sk_client :: string
  sk_conn :: conn
  sk_reading :: bool
  sk_ticker :: bool
  sk_tick :: bool
  sk_pinging :: bool
  sk_done :: bool

record sockets =
  so_hub :: hub
  so_sockets :: "socket list"
  so_frames :: "frame list"

definition openGameConnection :: "int option \<Rightarrow> string \<Rightarrow> conn \<Rightarrow> hub \<Rightarrow> (int \<times> string) option \<times> hub" where
  "openGameConnection locals clientID c h = (case locals of
       None \<Rightarrow> (None, h)
     | Some gameID \<Rightarrow> (Some (gameID, clientID), Subscribe gameID clientID c h))"

definition openGlobalConnection :: "string \<Rightarrow> conn \<Rightarrow> hub \<Rightarrow> string \<times> hub" where
  "openGlobalConnection clientID c h = (clientID, Subscribe 0 clientID c h)"

text \<open>
  From \<open>prepareConnection\<close> on, the two handlers are the same but for the answers: setting the first
  read deadline may fail, and then the deferred \<open>Unsubscribe\<close> runs at once; otherwise the
  ticker and the ping goroutine start and the handler reads.
\<close>

definition start_socket :: "bool \<Rightarrow> bool \<Rightarrow> int \<Rightarrow> string \<Rightarrow> conn \<Rightarrow> hub \<Rightarrow> hub \<times> socket" where
  "start_socket global deadline_ok gameID clientID c h =
     (if deadline_ok then (h, \<lparr>sk_global = global, sk_game = gameID, sk_client = clientID, sk_conn = c, sk_reading = True,
          sk_ticker = True, sk_tick = False, sk_pinging = True, sk_done = False\<rparr>)
      else (Unsubscribe gameID clientID h, \<lparr>sk_global = global, sk_game = gameID, sk_client = clientID, sk_conn = c, sk_reading = False,
          sk_ticker = False, sk_tick = False, sk_pinging = False, sk_done = False\<rparr>))"

definition add_socket :: "hub \<times> socket \<Rightarrow> sockets \<Rightarrow> sockets" where
  "add_socket hs s = s\<lparr>so_hub := fst hs, so_sockets := so_sockets s @ [snd hs]\<rparr>"

definition HandleConnection_open :: "bool \<Rightarrow> int option \<Rightarrow> string \<Rightarrow> conn \<Rightarrow> sockets \<Rightarrow> sockets" where
  "HandleConnection_open deadline_ok locals clientID c s = (case openGameConnection locals clientID c (so_hub s) of
       (None, h) \<Rightarrow> s\<lparr>so_hub := h\<rparr>
     | (Some (gameID, clientID'), h) \<Rightarrow> add_socket (start_socket False deadline_ok gameID clientID' c h) s)"

definition HandleGlobalConnection_open :: "bool \<Rightarrow> string \<Rightarrow> conn \<Rightarrow> sockets \<Rightarrow> sockets" where
  "HandleGlobalConnection_open deadline_ok clientID c s = (case openGlobalConnection clientID c (so_hub s) of
       (clientID', h) \<Rightarrow> add_socket (start_socket True deadline_ok 0 clientID' c h) s)"

text \<open>One round of \<open>readConnectionMessages\<close>: a frame is answered, an error ends the handler.\<close>

definition socket_message :: "socket_env \<Rightarrow> socket \<Rightarrow> int \<Rightarrow> string \<Rightarrow> frame list" where
  "socket_message env k messageType message =
     (if sk_global k then handleGlobalClientMessage env (sk_conn k) messageType message
      else handleClientMessage env (sk_conn k) (sk_game k) messageType message)"

definition socket_read_error :: "nat \<Rightarrow> sockets \<Rightarrow> sockets" where
  "socket_read_error i s = (let k = so_sockets s ! i in
     s\<lparr>so_hub := Unsubscribe (sk_game k) (sk_client k) (so_hub s),
       so_sockets := (so_sockets s)[i := k\<lparr>sk_reading := False, sk_ticker := False\<rparr>]\<rparr>)"

text \<open>A tick of \<open>startPingLoop\<close>: after a failed ping the goroutine returns and closes \<open>done\<close>.\<close>

definition ping_round :: "bool \<Rightarrow> socket \<Rightarrow> socket" where
  "ping_round ping_ok k = (let k' = k\<lparr>sk_tick := False\<rparr> in if ping_ok then k' else k'\<lparr>sk_pinging := False, sk_done := True\<rparr>)"

definition ping_stop :: "socket \<Rightarrow> socket" where
  "ping_stop k = k\<lparr>sk_pinging := False, sk_done := True\<rparr>"

definition GetConnectionCount :: "sockets \<Rightarrow> int" where
  "GetConnectionCount s = GetActiveConnectionCount (so_hub s)"

definition Shutdown :: "sockets \<Rightarrow> sockets" where
  "Shutdown s = s\<lparr>so_hub := fst (CloseAllConnections (so_hub s))\<rparr>"

text \<open>
  The runs of the server: new connections, frames, read errors, ticks, broadcasts of the use cases
  (with their clean-up at any later time), and the shutdown.
\<close>

definition unused :: "string \<Rightarrow> sockets \<Rightarrow> bool" where
  "unused clientID s \<longleftrightarrow> clientID \<notin> sk_client ` set (so_sockets s)"

inductive socket_step :: "sockets \<Rightarrow> sockets \<Rightarrow> bool" where
  open_game: "unused clientID s \<Longrightarrow> UpgradeCheck repo True gameIDStr = Next locals \<Longrightarrow>
     socket_step s (HandleConnection_open deadline_ok locals clientID c s)"
| open_global: "unused clientID s \<Longrightarrow> GlobalUpgradeCheck True = Next None \<Longrightarrow>
     socket_step s (HandleGlobalConnection_open deadline_ok clientID c s)"
| message: "i < length (so_sockets s) \<Longrightarrow> sk_reading (so_sockets s ! i) \<Longrightarrow>
     socket_step s (s\<lparr>so_frames := so_frames s @ socket_message env (so_sockets s ! i) messageType message\<rparr>)"
| read_error: "i < length (so_sockets s) \<Longrightarrow> sk_reading (so_sockets s ! i) \<Longrightarrow> socket_step s (socket_read_error i s)"
| tick: "i < length (so_sockets s) \<Longrightarrow> k = so_sockets s ! i \<Longrightarrow> sk_ticker k \<Longrightarrow>
     socket_step s (s\<lparr>so_sockets := (so_sockets s)[i := k\<lparr>sk_tick := True\<rparr>]\<rparr>)"
| ping: "i < length (so_sockets s) \<Longrightarrow> k = so_sockets s ! i \<Longrightarrow> sk_pinging k \<Longrightarrow> sk_tick k \<Longrightarrow>
     socket_step s (s\<lparr>so_sockets := (so_sockets s)[i := ping_round ping_ok k]\<rparr>)"
| ping_done: "i < length (so_sockets s) \<Longrightarrow> k = so_sockets s ! i \<Longrightarrow> sk_pinging k \<Longrightarrow> sk_done k \<Longrightarrow>
     socket_step s (s\<lparr>so_sockets := (so_sockets s)[i := ping_stop k]\<rparr>)"
| broadcast: "socket_step s (s\<lparr>so_hub := fst (snd (announce marshal deadline_ok write_ok now event (so_hub s)))\<rparr>)"
| cleanup: "socket_step s (s\<lparr>so_hub := fst (cleanupFailedConnections gameID failedGame failedGlobal (so_hub s))\<rparr>)"
| shutdown: "socket_step s (Shutdown s)"

definition no_sockets :: sockets where
  "no_sockets = \<lparr>so_hub = NewGameBroadcastUseCase, so_sockets = [], so_frames = []\<rparr>"

section \<open>Subscriptions belong to running handlers\<close>

definition subscribed :: "hub \<Rightarrow> int \<Rightarrow> string \<Rightarrow> conn \<Rightarrow> bool" where
  "subscribed h g c x \<longleftrightarrow> map_of (game_map h g) c = Some x"

definition owned :: "sockets \<Rightarrow> bool" where
  "owned s \<longleftrightarrow> hub_ok (so_hub s) \<and> distinct (map sk_client (so_sockets s))
     \<and> (\<forall>g c x. subscribed (so_hub s) g c x \<longrightarrow>
          (\<exists>k \<in> set (so_sockets s). sk_reading k \<and> sk_game k = g \<and> sk_client k = c \<and> sk_conn k = x))
     \<and> (\<forall>k \<in> set (so_sockets s). \<not> (sk_pinging k \<and> sk_done k))"

lemma subscribed_Subscribe:
  "subscribed (Subscribe g c x h) g' c' x' \<longleftrightarrow> (if g' = g \<and> c' = c then x' = x else subscribed h g' c' x')"
  by (auto simp: subscribed_def Subscribe_def update_conv')

lemma subscribed_Unsubscribe:
  "subscribed (Unsubscribe g c h) g' c' x' \<longleftrightarrow> subscribed h g' c' x' \<and> \<not> (g' = g \<and> c' = c)"
proof (cases "map_of (game_map h g) c")
  case (Some x)
  have "game_map (h\<lparr>gameSubscribers := AList.delete g (gameSubscribers h), activeConnections := n\<rparr>) g'
      = (if g' = g then [] else game_map h g')" for n
    by (simp add: game_map_def delete_conv')
  moreover have "map_of (game_map h g) c' = None" if "AList.delete c (game_map h g) = []" "c' \<noteq> c"
    using that by (metis delete_conv' fun_upd_other map_of.simps(1))
  ultimately show ?thesis
    using Some by (auto simp: subscribed_def Unsubscribe_def Let_def delete_conv' split: if_splits)
qed (auto simp: subscribed_def Unsubscribe_def)

lemma subscribed_cleanup:
  assumes "hub_ok h" "subscribed (fst (cleanupFailedConnections g fs gs h)) g' c x"
  shows "subscribed h g' c x"
proof -
  obtain h' shut where run: "cleanupFailedConnections g fs gs h = (h', shut)" by fastforce
  note E = cleanup_effect [OF run assms(1)]
  show ?thesis
    using assms(2) E(2) [of g'] E(3) [of c] E(4) [of c] unfolding run subscribed_def
    by (cases "g' = 0"; cases "g' = g") (auto split: if_splits)
qed

lemma subscribed_announce:
  assumes "hub_ok h" "subscribed (fst (snd (announce m dl wr now e h))) g c x"
  shows "subscribed h g c x"
  using broadcast_is_cleanup [of m dl wr now e h] subscribed_cleanup [OF assms(1)] assms(2) by metis

lemma ownedI:
  assumes "hub_ok (so_hub s)" "distinct (map sk_client (so_sockets s))"
    and "\<And>g c x. subscribed (so_hub s) g c x \<Longrightarrow>
      \<exists>k \<in> set (so_sockets s). sk_reading k \<and> sk_game k = g \<and> sk_client k = c \<and> sk_conn k = x"
    and "\<And>k. k \<in> set (so_sockets s) \<Longrightarrow> \<not> (sk_pinging k \<and> sk_done k)"
  shows "owned s"
  using assms by (auto simp: owned_def)

lemma ownedE:
  assumes "owned s" "subscribed (so_hub s) g c x"
  obtains k where "k \<in> set (so_sockets s)" "sk_reading k" "sk_game k = g" "sk_client k = c" "sk_conn k = x"
  using assms unfolding owned_def by blast

lemma owned_hub:
  assumes "owned s" "hub_ok h" "\<And>g c x. subscribed h g c x \<Longrightarrow> subscribed (so_hub s) g c x"
  shows "owned (s\<lparr>so_hub := h\<rparr>)"
  using assms by (auto simp: owned_def)

lemma owned_open:
  assumes "owned s" "unused c s"
  shows "owned (add_socket (start_socket gl ok g c x (Subscribe g c x (so_hub s))) s)"
proof -
  have hub: "hub_ok (so_hub s)" using assms(1) by (simp add: owned_def)
  have "\<not> subscribed (so_hub s) g c x'" for x'
    using assms(2) by (auto simp: unused_def elim!: ownedE [OF assms(1)])
  then have new: "map_of (game_map (so_hub s) g) c = None"
    unfolding subscribed_def by (metis not_Some_eq)
  have ok: "hub_ok (Subscribe g c x (so_hub s))" by (rule Subscribe_ok [OF hub new])
  show ?thesis
  proof (cases ok)
    case True
    show ?thesis
      by (rule ownedI) (use assms ok True in \<open>auto simp: owned_def unused_def add_socket_def start_socket_def subscribed_Subscribe split: if_splits\<close>)
  next
    case False
    show ?thesis
      by (rule ownedI) (use assms Unsubscribe_ok [OF ok] False in \<open>auto simp: owned_def unused_def add_socket_def start_socket_def
        subscribed_Subscribe subscribed_Unsubscribe split: if_splits\<close>)
  qed
qed

lemma clients_update: "i < length ks \<Longrightarrow> sk_client k' = sk_client (ks ! i) \<Longrightarrow> map sk_client (ks[i := k']) = map sk_client ks"
  by (metis list_update_id map_update nth_map)

lemma owned_ping:
  assumes "owned s" "i < length (so_sockets s)" "k = so_sockets s ! i" "\<not> (sk_pinging k' \<and> sk_done k')"
    and "sk_reading k' = sk_reading k" "sk_game k' = sk_game k" "sk_client k' = sk_client k" "sk_conn k' = sk_conn k"
  shows "owned (s\<lparr>so_sockets := (so_sockets s)[i := k']\<rparr>)"
proof (rule ownedI, goal_cases)
  case (3 g c x)
  then obtain j where j: "j < length (so_sockets s)" "sk_reading (so_sockets s ! j)" "sk_game (so_sockets s ! j) = g"
      "sk_client (so_sockets s ! j) = c" "sk_conn (so_sockets s ! j) = x"
    using ownedE [OF assms(1), of g c x] by (auto simp: in_set_conv_nth)
  then have "j < length ((so_sockets s)[i := k'])" "sk_reading ((so_sockets s)[i := k'] ! j)" "sk_game ((so_sockets s)[i := k'] ! j) = g"
      "sk_client ((so_sockets s)[i := k'] ! j) = c" "sk_conn ((so_sockets s)[i := k'] ! j) = x"
    using assms by (auto simp: nth_list_update)
  then show ?case by (auto intro: nth_mem)
next
  case (4 k2)
  then show ?case using assms by (auto simp: owned_def dest: set_update_subset_insert [THEN subsetD])
qed (use assms clients_update [of i "so_sockets s" k'] in \<open>auto simp: owned_def\<close>)

lemma owned_read_error:
  assumes "owned s" "i < length (so_sockets s)"
  shows "owned (socket_read_error i s)"
proof -
  let ?k = "so_sockets s ! i"
  let ?k' = "?k\<lparr>sk_reading := False, sk_ticker := False\<rparr>"
  have dist: "distinct (map sk_client (so_sockets s))" using assms(1) by (simp add: owned_def)
  show ?thesis
  proof (rule ownedI, goal_cases)
    case 1
    then show ?case using assms(1) by (simp add: socket_read_error_def Let_def owned_def Unsubscribe_ok)
  next
    case 2
    then show ?case using clients_update [of i "so_sockets s" ?k'] assms dist by (simp add: socket_read_error_def Let_def)
  next
    case (3 g c x)
    then have sub: "subscribed (so_hub s) g c x" "\<not> (g = sk_game ?k \<and> c = sk_client ?k)"
      by (auto simp: socket_read_error_def Let_def subscribed_Unsubscribe)
    then obtain k where k: "k \<in> set (so_sockets s)" "sk_reading k" "sk_game k = g" "sk_client k = c" "sk_conn k = x"
      using ownedE [OF assms(1) sub(1)] by blast
    then obtain j where j: "j < length (so_sockets s)" "so_sockets s ! j = k" by (auto simp: in_set_conv_nth)
    with k sub(2) have "j \<noteq> i" by auto
    with j have "k \<in> set ((so_sockets s)[i := ?k'])" by (metis length_list_update nth_list_update_neq nth_mem)
    with k show ?case by (auto simp: socket_read_error_def Let_def)
  next
    case (4 k)
    then show ?case using assms by (auto simp: socket_read_error_def Let_def owned_def dest!: set_update_subset_insert [THEN subsetD])
  qed
qed

lemma socket_step_owned: "socket_step s s' \<Longrightarrow> owned s \<Longrightarrow> owned s'"
proof (induction rule: socket_step.induct)
  case (open_game clientID s repo gameIDStr locals deadline_ok c)
  have "s\<lparr>so_hub := so_hub s\<rparr> = s" by simp
  with open_game show ?case by (cases locals) (simp_all add: HandleConnection_open_def openGameConnection_def owned_open)
next
  case (open_global clientID s deadline_ok c)
  then show ?case by (simp add: HandleGlobalConnection_open_def openGlobalConnection_def owned_open)
next
  case (message i s env messageType message)
  then show ?case by (simp add: owned_def)
next
  case (read_error i s)
  then show ?case by (simp add: owned_read_error)
next
  case (tick i s k)
  then have "\<not> (sk_pinging k \<and> sk_done k)" by (auto simp: owned_def)
  with tick show ?case by (intro owned_ping [of s i k]) auto
next
  case (ping i s k ping_ok)
  then have "\<not> (sk_pinging k \<and> sk_done k)" by (auto simp: owned_def)
  with ping show ?case by (intro owned_ping [of s i k]) (auto simp: ping_round_def Let_def)
next
  case (ping_done i s k)
  then show ?case by (intro owned_ping [of s i k]) (auto simp: ping_stop_def)
next
  case (broadcast s marshal deadline_ok write_ok now event)
  then show ?case
    by (intro owned_hub) (auto simp: owned_def intro: subscribed_announce hub_step_ok hub_step.broadcast)
next
  case (cleanup s gameID failedGame failedGlobal)
  then show ?case
    by (intro owned_hub) (auto simp: owned_def intro: subscribed_cleanup hub_step_ok hub_step.cleanup)
next
  case (shutdown s)
  show ?case unfolding Shutdown_def
    by (intro owned_hub [OF shutdown] hub_step_ok [OF hub_step.close_all])
      (use shutdown in \<open>auto simp: owned_def subscribed_def CloseAllConnections_def game_map_def\<close>)
qed

lemma sockets_run_owned: "socket_step\<^sup>*\<^sup>* no_sockets s \<Longrightarrow> owned s"
proof (induction rule: rtranclp_induct)
  case base
  show ?case by (simp add: owned_def no_sockets_def NewGameBroadcastUseCase_def hub_ok_def subscriptions_def subscribed_def game_map_def)
qed (rule socket_step_owned)

section \<open>Counting\<close>

definition client_pairs :: "(int \<times> (string \<times> conn) list) list \<Rightarrow> (int \<times> string) set" where
  "client_pairs gs = {(g, c). \<exists>m. map_of gs g = Some m \<and> c \<in> dom (map_of m)}"

lemma subscriptions_card:
  "distinct (map fst gs) \<Longrightarrow> (\<forall>gm \<in> set gs. distinct (map fst (snd gm))) \<Longrightarrow>
     subscriptions gs = card (client_pairs gs) \<and> finite (client_pairs gs)"
proof (induction gs)
  case (Cons gm gs)
  obtain g m where gm: "gm = (g, m)" by (cases gm)
  have g: "map_of gs g = None" using Cons.prems(1) by (auto simp: gm map_of_eq_None_iff)
  have split: "client_pairs (gm # gs) = {g} \<times> dom (map_of m) \<union> client_pairs gs"
    using g by (auto simp: gm client_pairs_def split: if_splits)
  have disj: "({g} \<times> dom (map_of m)) \<inter> client_pairs gs = {}" using g by (auto simp: client_pairs_def)
  have IH: "subscriptions gs = card (client_pairs gs)" "finite (client_pairs gs)" using Cons by (auto simp: gm)
  have "card (dom (map_of m)) = length m"
    using Cons.prems(2) distinct_card [of "map fst m"] by (simp add: gm dom_map_of_conv_image_fst)
  then have "card ({g} \<times> dom (map_of m)) = length m" by (simp add: card_cartesian_product_singleton)
  then show ?case unfolding split using IH disj by (simp add: card_Un_disjoint subscriptions_def gm finite_dom_map_of)
qed (simp add: subscriptions_def client_pairs_def)

lemma hub_pairs:
  assumes "hub_ok h"
  shows "activeConnections h = int (card {(g, c). \<exists>x. subscribed h g c x})" "finite {(g, c). \<exists>x. subscribed h g c x}"
proof -
  have "{(g, c). \<exists>x. subscribed h g c x} = client_pairs (gameSubscribers h)"
    by (auto simp: client_pairs_def subscribed_def game_map_def split: option.splits)
  with subscriptions_card [of "gameSubscribers h"] assms
  show "activeConnections h = int (card {(g, c). \<exists>x. subscribed h g c x})" "finite {(g, c). \<exists>x. subscribed h g c x}"
    by (auto simp: hub_ok_def)
qed

lemma owned_count:
  assumes "owned s"
  shows "GetConnectionCount s \<le> int (length (filter sk_reading (so_sockets s)))"
proof -
  let ?P = "{(g, c). \<exists>x. subscribed (so_hub s) g c x}"
  have hub: "hub_ok (so_hub s)" using assms by (simp add: owned_def)
  have dist: "distinct (map sk_client (so_sockets s))" using assms by (simp add: owned_def)
  have sock: "\<exists>k \<in> set (so_sockets s). sk_reading k \<and> sk_game k = g \<and> sk_client k = c" if "(g, c) \<in> ?P" for g c
    using assms that by (fastforce simp: owned_def)
  have uniq: "k = k'" if "k \<in> set (so_sockets s)" "k' \<in> set (so_sockets s)" "sk_client k = sk_client k'" for k k'
    using dist that by (auto simp: distinct_map inj_on_def)
  have "inj_on snd ?P"
  proof (rule inj_onI, clarsimp)
    fix g c g' x x'
    assume "subscribed (so_hub s) g c x" "subscribed (so_hub s) g' c x'"
    with sock [of g c] sock [of g' c] uniq show "g = g'" by auto
  qed
  then have "card ?P = card (snd ` ?P)" by (simp add: card_image)
  also have "snd ` ?P \<subseteq> sk_client ` set (filter sk_reading (so_sockets s))" using sock by fastforce
  then have "card (snd ` ?P) \<le> card (sk_client ` set (filter sk_reading (so_sockets s)))" by (intro card_mono) auto
  also have "\<dots> \<le> length (filter sk_reading (so_sockets s))"
    by (metis card_length length_map list.set_map)
  finally show ?thesis using hub_pairs(1) [OF hub] by (simp add: GetConnectionCount_def GetActiveConnectionCount_def)
qed

section \<open>Properties\<close>

text \<open>
  C36. In every run of the server, in which connections open, are used, fail, are dropped by a broadcast
  or by the shutdown and close in any order, every subscription of the hub belongs to a
  connection of that game whose handler still reads: no closed connection stays subscribed, and the
  number of connections reported is at most the number of running handlers.
\<close>

theorem sockets_owned:
  assumes "socket_step\<^sup>*\<^sup>* no_sockets s"
  shows "(\<forall>g c x. map_of (game_map (so_hub s) g) c = Some x \<longrightarrow>
       (\<exists>k \<in> set (so_sockets s). sk_reading k \<and> sk_game k = g \<and> sk_client k = c \<and> sk_conn k = x))
     \<and> 0 \<le> GetConnectionCount s \<and> GetConnectionCount s \<le> int (length (filter sk_reading (so_sockets s)))"
proof -
  have own: "owned s" by (rule sockets_run_owned [OF assms])
  then have "hub_ok (so_hub s)" by (simp add: owned_def)
  then have "0 \<le> GetConnectionCount s" by (simp add: hub_ok_def GetConnectionCount_def GetActiveConnectionCount_def)
  with own owned_count [OF own] show ?thesis by (auto simp: owned_def subscribed_def)
qed

text \<open>Two clients connect, and the first one leaves.\<close>

definition two_clients :: sockets where
  "two_clients = HandleGlobalConnection_open True ''v'' 2 (HandleGlobalConnection_open True ''u'' 1 no_sockets)"

theorem sockets_owned_witness:
  "GetConnectionCount (socket_read_error 0 two_clients) = 1
     \<and> GetConnectionCount (socket_read_error 0 two_clients) \<le> int (length (filter sk_reading (so_sockets (socket_read_error 0 two_clients))))"
proof -
  let ?one = "HandleGlobalConnection_open True ''u'' 1 no_sockets"
  have "unused ''u'' no_sockets" "unused ''v'' ?one" "0 < length (so_sockets two_clients)" "sk_reading (so_sockets two_clients ! 0)"
    unfolding unused_def two_clients_def by code_simp+
  then have "socket_step no_sockets ?one" "socket_step ?one two_clients" "socket_step two_clients (socket_read_error 0 two_clients)"
    unfolding two_clients_def by (auto intro!: socket_step.intros simp: GlobalUpgradeCheck_def)
  then have "socket_step\<^sup>*\<^sup>* no_sockets (socket_read_error 0 two_clients)" by (meson r_into_rtranclp rtranclp_trans)
  moreover have "GetConnectionCount (socket_read_error 0 two_clients) = 1" by code_simp
  ultimately show ?thesis using sockets_owned by blast
qed

text \<open>
  The channel \<open>done\<close> of a connection is closed by its ping goroutine only, when that returns. So
  when a handler ends while its pings succeed and no tick is waiting, its ticker is stopped,
  nothing wakes the goroutine any more, and it stays for the life of the process.
\<close>

lemma ping_step_stuck:
  assumes "socket_step s s'" "owned s" "i < length (so_sockets s)" "\<not> sk_ticker (so_sockets s ! i)" "\<not> sk_tick (so_sockets s ! i)"
    "sk_pinging (so_sockets s ! i)"
  shows "i < length (so_sockets s') \<and> \<not> sk_ticker (so_sockets s' ! i) \<and> \<not> sk_tick (so_sockets s' ! i) \<and> sk_pinging (so_sockets s' ! i)"
proof -
  have "\<not> sk_done (so_sockets s ! i)" using assms(2,3,6) by (auto simp: owned_def)
  with assms show ?thesis
    by (induction rule: socket_step.induct)
      (auto simp: HandleConnection_open_def HandleGlobalConnection_open_def openGameConnection_def openGlobalConnection_def
        add_socket_def socket_read_error_def ping_round_def ping_stop_def Shutdown_def Let_def nth_append nth_list_update
        split: option.splits)
qed

theorem ping_goroutine_leaks:
  assumes "socket_step\<^sup>*\<^sup>* no_sockets s" "i < length (so_sockets s)" "sk_reading (so_sockets s ! i)" "sk_pinging (so_sockets s ! i)"
    and "\<not> sk_tick (so_sockets s ! i)" and "socket_step\<^sup>*\<^sup>* (socket_read_error i s) s'"
  shows "sk_pinging (so_sockets s' ! i) \<and> \<not> sk_ticker (so_sockets s' ! i)"
proof -
  let ?s = "socket_read_error i s"
  have own: "owned ?s" using sockets_run_owned [OF assms(1)] assms(2) by (rule owned_read_error)
  have start: "i < length (so_sockets ?s) \<and> \<not> sk_ticker (so_sockets ?s ! i) \<and> \<not> sk_tick (so_sockets ?s ! i) \<and> sk_pinging (so_sockets ?s ! i)"
    using assms(2,4,5) by (simp add: socket_read_error_def Let_def)
  have "owned s' \<and> i < length (so_sockets s') \<and> \<not> sk_ticker (so_sockets s' ! i) \<and> \<not> sk_tick (so_sockets s' ! i)
      \<and> sk_pinging (so_sockets s' ! i)"
    using assms(6)
  proof (induction rule: rtranclp_induct)
    case base
    then show ?case using own start by blast
  next
    case (step y z)
    then show ?case using ping_step_stuck [of y z i] socket_step_owned by blast
  qed
  then show ?thesis by blast
qed

end
