(* ===== verification/Retention.thy ===== *)
theory Retention
  imports Persistence_Outcomes
begin

text \<open>
  Data retention, \<open>cmd/cleanup/main.go\<close> with the \<open>DeleteOlderThan\<close> methods of the game and the
  user repository, and the rest of the event repository
  (\<open>internal/repository/postgres/game_event_repository.go\<close>): the plain insert and the reads. The
  cut-off date is the instant at which that day begins. A deleted game takes its events with it
  (\<open>ON DELETE CASCADE\<close>), and a user that a game names cannot be deleted (\<open>ON DELETE RESTRICT\<close>).
\<close>

section \<open>Deletes\<close>

definition delete_events :: "(GameEvent \<Rightarrow> bool) \<Rightarrow> int db_op" where
  "delete_events p = statement (\<lambda>db. Inr (int (length (filter p (db_events db))),
     db\<lparr>db_events := filter (\<lambda>e. \<not> p e) (db_events db)\<rparr>))"

definition delete_games :: "(Game \<Rightarrow> bool) \<Rightarrow> int db_op" where
  "delete_games p = statement (\<lambda>db.
     let gone = filter p (db_games db) in Inr (int (length gone),
       db\<lparr>db_games := filter (\<lambda>g. \<not> p g) (db_games db),
          db_events := filter (\<lambda>e. e_GameID e \<notin> set (map g_GameID gone)) (db_events db)\<rparr>))"

definition plays_in :: "wallet \<Rightarrow> Game \<Rightarrow> bool" where
  "plays_in w g \<longleftrightarrow> g_PlayerOneAddress g = w \<or> g_PlayerTwoAddress g = Some w"

definition delete_users :: "(user_row \<Rightarrow> bool) \<Rightarrow> int db_op" where
  "delete_users p = statement (\<lambda>db.
     let gone = filter p (db_users db) in
     if list_ex (\<lambda>u. list_ex (plays_in (ur_WalletAddress u)) (db_games db)) gone then Inl (sql_error ''23503'')
     else Inr (int (length gone), db\<lparr>db_users := filter (\<lambda>u. \<not> p u) (db_users db)\<rparr>))"

text \<open>A comparison with \<open>NULL\<close> is not true: a game that is not completed is kept.\<close>

definition Game_DeleteOlderThan :: "instant \<Rightarrow> int db_op" where
  "Game_DeleteOlderThan olderThanDate = wrapDB ''execute query'' (delete_games (\<lambda>g. case g_CompletedAt g of
       None \<Rightarrow> False | Some t \<Rightarrow> t < olderThanDate))"

definition User_DeleteOlderThan :: "instant \<Rightarrow> int db_op" where
  "User_DeleteOlderThan olderThanDate = wrapDB ''execute query'' (delete_users (\<lambda>u. ur_CreatedAt u < olderThanDate))"

section \<open>The clean-up job\<close>

definition count_rows :: "(db \<Rightarrow> nat) \<Rightarrow> int db_op" where
  "count_rows f = statement (\<lambda>db. Inr (int (f db), db))"

definition recent_players :: "instant \<Rightarrow> db \<Rightarrow> wallet list" where
  "recent_players cutoffDate db =
     (let recent = filter (\<lambda>g. g_CreatedAt g \<ge> cutoffDate) (db_games db)
      in map g_PlayerOneAddress recent @ List.map_filter g_PlayerTwoAddress recent)"

text \<open>The counts that the dry run reports: events, games and inactive users.\<close>

definition dryRunCleanup :: "instant \<Rightarrow> (int \<times> int \<times> int) db_op" where
  "dryRunCleanup cutoffDate =
     bindDB (wrapDB ''count game_events'' (count_rows (\<lambda>db. length (filter (\<lambda>e. e_CreatedAt e < cutoffDate) (db_events db))))) (\<lambda>eventsCount.
     bindDB (wrapDB ''count games'' (count_rows (\<lambda>db. length (filter (\<lambda>g. g_CreatedAt g < cutoffDate) (db_games db))))) (\<lambda>gamesCount.
     bindDB (wrapDB ''count users'' (count_rows (\<lambda>db.
        length (filter (\<lambda>u. ur_WalletAddress u \<notin> set (recent_players cutoffDate db)) (db_users db))))) (\<lambda>usersCount.
     returnDB (eventsCount, gamesCount, usersCount))))"

text \<open>
  The job in its transaction, with the deferred \<open>Rollback\<close>, whose own failure is ignored; the
  numbers are those of the final message.
\<close>

definition cleanup_body :: "instant \<Rightarrow> (int \<times> int) db_op" where
  "cleanup_body cutoffDate =
     bindDB (wrapDB ''delete game_events'' (delete_events (\<lambda>e. e_CreatedAt e < cutoffDate))) (\<lambda>eventsDeleted.
     bindDB (wrapDB ''delete games'' (delete_games (\<lambda>g. g_CreatedAt g < cutoffDate))) (\<lambda>gamesDeleted.
     bindDB (wrapDB ''commit transaction'' (statement (\<lambda>db. Inr ((), db)))) (\<lambda>_.
     returnDB (eventsDeleted, gamesDeleted))))"

definition performCleanup :: "instant \<Rightarrow> (int \<times> int) db_op" where
  "performCleanup cutoffDate db = (case wrapDB ''begin transaction'' (statement (\<lambda>db. Inr ((), db))) db of
       (Inl err, db1) \<Rightarrow> (Inl err, db1)
     | (Inr _, db1) \<Rightarrow> (case cleanup_body cutoffDate db1 of
           (Inl err, db2) \<Rightarrow> (Inl err, snd (statement (\<lambda>db. Inr ((), db)) (rolled_back db1 db2)))
         | (Inr counts, db2) \<Rightarrow> (Inr counts, db2)))"

section \<open>The event repository\<close>

text \<open>The plain insert: a duplicate is an error here.\<close>

definition Event_Create :: "GameEvent \<Rightarrow> GameEvent db_op" where
  "Event_Create event = (case GameEvent_Validate event of
       Some e \<Rightarrow> failDB (Wrapf ''validation failed'' e)
     | None \<Rightarrow> wrapDB ''execute query'' (statement (\<lambda>db. case insert_event event db of
         Inl e \<Rightarrow> Inl e
       | Inr (None, db') \<Rightarrow> Inl (sql_error ''23505'')
       | Inr (Some row, db') \<Rightarrow> Inr (row, db'))))"

definition queryEvents :: "(GameEvent list \<Rightarrow> GameEvent list) \<Rightarrow> GameEvent list db_op" where
  "queryEvents select = wrapDB ''execute query'' (statement (\<lambda>db. Inr (select (db_events db), db)))"

definition queryEvent :: "(GameEvent list \<Rightarrow> GameEvent list) \<Rightarrow> GameEvent db_op" where
  "queryEvent select = wrapDB ''execute query'' (statement (\<lambda>db. case select (db_events db) of
       [] \<Rightarrow> Inl ErrNoRows | e # _ \<Rightarrow> Inr (e, db)))"

definition Event_GetByGameID :: "int \<Rightarrow> GameEvent list db_op" where
  "Event_GetByGameID gameID = queryEvents (\<lambda>es. sort_key e_Timestamp (filter (\<lambda>e. e_GameID e = gameID) es))"

definition Event_GetByTransactionHash :: "string \<Rightarrow> GameEvent db_op" where
  "Event_GetByTransactionHash txHash = queryEvent (filter (\<lambda>e. e_TransactionHash e = txHash))"

definition Event_GetByEventType :: "string \<Rightarrow> GameEvent list db_op" where
  "Event_GetByEventType eventType = queryEvents (\<lambda>es. sort_key e_Timestamp (filter (\<lambda>e. e_EventType e = eventType) es))"

definition Event_GetByBlockRange :: "int \<Rightarrow> int \<Rightarrow> GameEvent list db_op" where
  "Event_GetByBlockRange startBlock endBlock = queryEvents (\<lambda>es. sort_key e_BlockNumber (sort_key e_Timestamp
     (filter (\<lambda>e. e_BlockNumber e \<ge> startBlock \<and> e_BlockNumber e \<le> endBlock) es)))"

definition Event_Exists :: "int \<Rightarrow> string \<Rightarrow> string \<Rightarrow> bool db_op" where
  "Event_Exists gameID txHash eventType = wrapDB ''execute query'' (statement (\<lambda>db.
     Inr (length (filter (\<lambda>e. e_GameID e = gameID \<and> e_TransactionHash e = txHash \<and> e_EventType e = eventType) (db_events db)) > 0, db)))"

definition Event_ExistsByTxHash :: "string \<Rightarrow> bool db_op" where
  "Event_ExistsByTxHash txHash = wrapDB ''execute query'' (statement (\<lambda>db.
     Inr (length (filter (\<lambda>e. e_TransactionHash e = txHash) (db_events db)) > 0, db)))"

definition GetLatestByGameID :: "int \<Rightarrow> GameEvent db_op" where
  "GetLatestByGameID gameID = queryEvent (\<lambda>es. stable_newest_first e_Timestamp (filter (\<lambda>e. e_GameID e = gameID) es))"

section \<open>Integrity\<close>

lemma delete_events_ok: "keepsDB tables_ok (delete_events p)"
  unfolding delete_events_def by (rule keepsDB_statement) (auto simp: tables_def distinct_map_filter)

lemma delete_games_ok: "keepsDB tables_ok (delete_games p)"
  unfolding delete_games_def by (rule keepsDB_statement) (auto 0 4 simp: tables_def Let_def distinct_map_filter image_iff)

lemma delete_users_ok: "keepsDB tables_ok (delete_users p)"
  unfolding delete_users_def
proof (rule keepsDB_statement)
  fix db x db'
  assume ok: "tables_ok (tables db)" and run: "(let gone = filter p (db_users db) in
       if list_ex (\<lambda>u. list_ex (plays_in (ur_WalletAddress u)) (db_games db)) gone then Inl (sql_error ''23503'')
       else Inr (int (length gone), db\<lparr>db_users := filter (\<lambda>u. \<not> p u) (db_users db)\<rparr>)) = Inr (x, db')"
  then have db': "db' = db\<lparr>db_users := filter (\<lambda>u. \<not> p u) (db_users db)\<rparr>"
    and free: "\<forall>u \<in> set (db_users db). p u \<longrightarrow> (\<forall>g \<in> set (db_games db). \<not> plays_in (ur_WalletAddress u) g)"
    by (auto simp: Let_def list_ex_iff split: if_splits)
  have kept: "w \<in> ur_WalletAddress ` set (filter (\<lambda>u. \<not> p u) (db_users db))"
    if "w \<in> ur_WalletAddress ` set (db_users db)" "g \<in> set (db_games db)" "plays_in w g" for w g
    using that free by auto
  from ok have "\<forall>g \<in> set (db_games db). \<forall>w. plays_in w g \<longrightarrow> w \<in> ur_WalletAddress ` set (db_users db)"
    by (auto simp: tables_def plays_in_def)
  with kept have "\<forall>g \<in> set (db_games db). \<forall>w. plays_in w g \<longrightarrow> w \<in> ur_WalletAddress ` set (filter (\<lambda>u. \<not> p u) (db_users db))"
    by blast
  with ok show "tables_ok (tables db')" by (simp add: db' tables_def distinct_map_filter plays_in_def)
qed

lemma Event_Create_ok: "keepsDB tables_ok (Event_Create event)"
proof (cases "GameEvent_Validate event")
  case None
  have ok: "tables_ok (tables db')" if "tables_ok (tables db)" "insert_event event db = Inr (x, db')" for db x db'
    using that insert_event_done [OF that(2)] by (auto simp: tables_def event_recorded_def game_row_None)
  show ?thesis unfolding Event_Create_def None option.simps
    by (intro keepsDB_wrap keepsDB_statement) (auto dest: ok split: sum.splits option.splits)
qed (simp add: Event_Create_def keepsDB_def failDB_def)

section \<open>The effect of the clean-up\<close>

lemma performCleanup_failed:
  assumes "performCleanup cutoff db = (Inl err, db')"
  shows "tables db' = tables db"
proof -
  obtain res db1 where begun: "statement (\<lambda>db. Inr ((), db)) db = (res, db1)" by fastforce
  then have db1: "tables db1 = tables db" by (metis nop_tables snd_conv)
  obtain body db2 where body: "cleanup_body cutoff db1 = (body, db2)" by fastforce
  have "tables (snd (statement (\<lambda>db. Inr ((), db)) (rolled_back db1 db2))) = tables db1" by (simp del: tables_upd) (simp add: tables_upd)
  then show ?thesis using assms begun db1 body
    by (cases res; cases body) (auto simp: performCleanup_def wrapDB_def)
qed

lemma statement_returned:
  "statement (\<lambda>db. Inr (f db, g db)) db = (Inr x, db') \<Longrightarrow>
     db' = g (db\<lparr>db_tick := Suc (db_tick db)\<rparr>) \<and> x = f (db\<lparr>db_tick := Suc (db_tick db)\<rparr>)"
  by (auto simp: statement_def Let_def split: option.splits)

lemma bindDB_run: "bindDB m f db = (Inr x, db') \<longleftrightarrow> (\<exists>y db1. m db = (Inr y, db1) \<and> f y db1 = (Inr x, db'))"
  by (auto simp: bindDB_def split: prod.splits sum.splits)

lemma performCleanup_done:
  assumes "performCleanup cutoff db = (Inr (es, gs), db')"
  shows "db_users db' = db_users db" "db_games db' = filter (\<lambda>g. cutoff \<le> g_CreatedAt g) (db_games db)"
    "db_events db' = filter (\<lambda>e. cutoff \<le> e_CreatedAt e
        \<and> e_GameID e \<notin> g_GameID ` set (filter (\<lambda>g. g_CreatedAt g < cutoff) (db_games db))) (db_events db)"
    "es = int (length (filter (\<lambda>e. e_CreatedAt e < cutoff) (db_events db)))"
    "gs = int (length (filter (\<lambda>g. g_CreatedAt g < cutoff) (db_games db)))"
proof -
  obtain db1 where begun: "statement (\<lambda>db. Inr ((), db)) db = (Inr (), db1)" and body: "cleanup_body cutoff db1 = (Inr (es, gs), db')"
  proof -
    obtain r1 db1 where b: "statement (\<lambda>db. Inr ((), db)) db = (r1, db1)" by fastforce
    obtain r2 db2 where c: "cleanup_body cutoff db1 = (r2, db2)" by fastforce
    show thesis using assms b c that by (cases r1; cases r2) (simp_all add: performCleanup_def wrapDB_def)
  qed
  obtain db2 db3 where first: "delete_events (\<lambda>e. e_CreatedAt e < cutoff) db1 = (Inr es, db2)"
    and second: "delete_games (\<lambda>g. g_CreatedAt g < cutoff) db2 = (Inr gs, db3)"
    and commit: "statement (\<lambda>db. Inr ((), db)) db3 = (Inr (), db')"
    using body by (auto simp: cleanup_body_def bindDB_run wrapDB_Inr returnDB_def)
  have db1: "db1 = db\<lparr>db_tick := Suc (db_tick db)\<rparr>" by (rule nop_Inr [OF begun])
  note first = statement_returned [OF first [unfolded delete_events_def]]
  note second = statement_returned [OF second [unfolded delete_games_def Let_def]]
  have db': "db' = db3\<lparr>db_tick := Suc (db_tick db3)\<rparr>" by (rule nop_Inr [OF commit])
  show "db_users db' = db_users db" "db_games db' = filter (\<lambda>g. cutoff \<le> g_CreatedAt g) (db_games db)"
    "db_events db' = filter (\<lambda>e. cutoff \<le> e_CreatedAt e
        \<and> e_GameID e \<notin> g_GameID ` set (filter (\<lambda>g. g_CreatedAt g < cutoff) (db_games db))) (db_events db)"
    "es = int (length (filter (\<lambda>e. e_CreatedAt e < cutoff) (db_events db)))"
    "gs = int (length (filter (\<lambda>g. g_CreatedAt g < cutoff) (db_games db)))"
    using first second by (simp_all add: db1 db' not_less conj_commute)
qed

lemma dryRunCleanup_counts:
  assumes "\<forall>n. db_fault db n = None"
  shows "\<exists>us. fst (dryRunCleanup cutoff db) = Inr (int (length (filter (\<lambda>e. e_CreatedAt e < cutoff) (db_events db))),
      int (length (filter (\<lambda>g. g_CreatedAt g < cutoff) (db_games db))), us)"
  using assms by (simp add: dryRunCleanup_def bindDB_def wrapDB_def count_rows_def statement_def returnDB_def Let_def)

lemma performCleanup_ok: "keepsDB tables_ok (performCleanup cutoff)"
proof -
  have nop: "keepsDB tables_ok (statement (\<lambda>db. Inr ((), db)))" by (rule keepsDB_statement) simp
  have "keepsDB tables_ok (cleanup_body cutoff)" unfolding cleanup_body_def
    by (intro keepsDB_bind keepsDB_wrap delete_events_ok delete_games_ok nop keepsDB_basic)
  then have body: "tables_ok (tables db) \<Longrightarrow> tables_ok (tables (snd (cleanup_body cutoff db)))" for db by (simp add: keepsDB_def)
  show ?thesis unfolding keepsDB_def
  proof (intro allI impI)
    fix db :: db
    assume ok: "tables_ok (tables db)"
    obtain r1 db1 where begun: "statement (\<lambda>db. Inr ((), db)) db = (r1, db1)" by fastforce
    then have "tables db1 = tables db" by (metis nop_tables snd_conv)
    moreover obtain r2 db2 where "cleanup_body cutoff db1 = (r2, db2)" by fastforce
    ultimately show "tables_ok (tables (snd (performCleanup cutoff db)))"
      using ok begun body [of db1] by (cases r1; cases r2) (simp_all add: performCleanup_def wrapDB_def)
  qed
qed

section \<open>Properties\<close>

text \<open>
  C39. The clean-up job is all or nothing. When it fails, no table changes. When it succeeds, the
  tables keep their integrity, the users stay, exactly the games created since the cut-off stay,
  whatever their status, and exactly those of their events that were recorded since the cut-off;
  the numbers it reports are those the dry run counts on the same tables.
\<close>

theorem cleanup_exact:
  assumes "tables_ok (tables db)"
  shows "case performCleanup cutoff db of
       (Inl err, db') \<Rightarrow> tables db' = tables db
     | (Inr (es, gs), db') \<Rightarrow> tables_ok (tables db') \<and> db_users db' = db_users db
         \<and> db_games db' = filter (\<lambda>g. cutoff \<le> g_CreatedAt g) (db_games db)
         \<and> db_events db' = filter (\<lambda>e. cutoff \<le> e_CreatedAt e \<and> e_GameID e \<in> g_GameID ` set (db_games db')) (db_events db)
         \<and> (\<forall>dry. tables dry = tables db \<and> (\<forall>n. db_fault dry n = None) \<longrightarrow>
              (\<exists>us. fst (dryRunCleanup cutoff dry) = Inr (es, gs, us)))"
proof -
  obtain res db' where run: "performCleanup cutoff db = (res, db')" by fastforce
  show ?thesis
  proof (cases res)
    case (Inl err)
    then show ?thesis using run performCleanup_failed by auto
  next
    case (Inr counts)
    obtain es gs where run: "performCleanup cutoff db = (Inr (es, gs), db')" using run Inr by (cases counts) auto
    note E = performCleanup_done [OF run]
    have ids: "distinct (map g_GameID (db_games db))" and known: "\<forall>e \<in> set (db_events db). e_GameID e \<in> g_GameID ` set (db_games db)"
      using assms by (auto simp: tables_def)
    have same: "g = g'" if "g \<in> set (db_games db)" "g' \<in> set (db_games db)" "g_GameID g = g_GameID g'" for g g'
      using ids that by (auto simp: distinct_map inj_on_def)
    have "e_GameID e \<notin> g_GameID ` set (filter (\<lambda>g. g_CreatedAt g < cutoff) (db_games db)) \<longleftrightarrow> e_GameID e \<in> g_GameID ` set (db_games db')"
      if "e \<in> set (db_events db)" for e
    proof -
      obtain g where g: "g \<in> set (db_games db)" "g_GameID g = e_GameID e" using known \<open>e \<in> set (db_events db)\<close> by (auto simp: image_iff)
      have "e_GameID e \<in> g_GameID ` set (filter p (db_games db)) \<longleftrightarrow> p g" for p
      proof
        assume "e_GameID e \<in> g_GameID ` set (filter p (db_games db))"
        then obtain x where x: "x \<in> set (db_games db)" "p x" "g_GameID x = e_GameID e" by auto
        with same [OF g(1) x(1)] g(2) show "p g" by simp
      qed (use g in \<open>auto simp: image_iff intro!: bexI [of _ g]\<close>)
      then show ?thesis unfolding E(2) by (simp add: not_less)
    qed
    then have events: "db_events db' = filter (\<lambda>e. cutoff \<le> e_CreatedAt e \<and> e_GameID e \<in> g_GameID ` set (db_games db')) (db_events db)"
      unfolding E(3) by (intro filter_cong) auto
    have ok: "tables_ok (tables db')" using performCleanup_ok [of cutoff] assms run unfolding keepsDB_def by (metis snd_conv)
    have "\<exists>us. fst (dryRunCleanup cutoff dry) = Inr (es, gs, us)" if "tables dry = tables db" "\<forall>n. db_fault dry n = None" for dry
      using dryRunCleanup_counts [OF that(2), of cutoff] that(1) by (simp add: E(4,5) tables_def)
    then show ?thesis using ok E(1,2) events by (auto simp: run)
  qed
qed

theorem cleanup_exact_witness:
  "\<exists>db'. performCleanup 1 (p_db initialized_persistence) = (Inr (1, 1), db') \<and> tables_ok (tables db') \<and> db_games db' = []"
proof -
  let ?db = "p_db initialized_persistence"
  have ok: "tables_ok (tables ?db)" using integrity.persist_run_keeps [OF initialized_reachable] by simp
  have "fst (performCleanup 1 ?db) = Inr (1, 1)" "filter (\<lambda>g. 1 \<le> g_CreatedAt g) (db_games ?db) = []" by code_simp+
  then obtain db' where run: "performCleanup 1 ?db = (Inr (1, 1), db')" and none: "filter (\<lambda>g. 1 \<le> g_CreatedAt g) (db_games ?db) = []"
    by (metis prod.collapse)
  show ?thesis using cleanup_exact [OF ok, of 1] by (simp add: run none)
qed

text \<open>
  The event handlers interleaved with the clean-up job, the two \<open>DeleteOlderThan\<close> methods and plain
  inserts, in any order and with any failures: the integrity of the tables survives.
\<close>

inductive maintained_step :: "parse_addr \<Rightarrow> marshal \<Rightarrow> persistence \<Rightarrow> persistence \<Rightarrow> bool"
  for pa :: parse_addr and marshal :: marshal where
  handled: "persist_step pa marshal p p' \<Longrightarrow> maintained_step pa marshal p p'"
| cleaned: "maintained_step pa marshal p (p\<lparr>p_db := snd (performCleanup cutoff (p_db p))\<rparr>)"
| games_deleted: "maintained_step pa marshal p (p\<lparr>p_db := snd (Game_DeleteOlderThan cutoff (p_db p))\<rparr>)"
| users_deleted: "maintained_step pa marshal p (p\<lparr>p_db := snd (User_DeleteOlderThan cutoff (p_db p))\<rparr>)"
| event_created: "maintained_step pa marshal p (p\<lparr>p_db := snd (Event_Create event (p_db p))\<rparr>)"

theorem maintained_integrity:
  assumes "(maintained_step pa marshal)\<^sup>*\<^sup>* p p'" and "tables_ok (tables (p_db p))"
  shows "tables_ok (tables (p_db p'))"
  using assms
proof (induction rule: rtranclp_induct)
  case (step y z)
  have keep: "keepsDB tables_ok (Game_DeleteOlderThan cutoff)" "keepsDB tables_ok (User_DeleteOlderThan cutoff)" for cutoff
    unfolding Game_DeleteOlderThan_def User_DeleteOlderThan_def by (intro keepsDB_wrap delete_games_ok delete_users_ok)+
  from step(2,3) step(4) keep performCleanup_ok Event_Create_ok show ?case
    by (induction rule: maintained_step.induct) (auto simp: keepsDB_def intro: integrity.persist_step_keeps)
qed

text \<open>
  A game that waits for its opponent since before the cut-off is deleted, and its events go with it,
  also those that the cut-off keeps and that the report and the dry run do not count.
\<close>

definition waiting_db :: db where
  "waiting_db = (p_db initialized_persistence)\<lparr>db_events := map (\<lambda>e. e\<lparr>e_CreatedAt := 10\<rparr>) (db_events (p_db initialized_persistence))\<rparr>"

theorem cleanup_drops_waiting_game:
  "map g_Status (db_games waiting_db) = [GameStatusWaitingForOpponent] \<and> length (db_events waiting_db) = 1
     \<and> fst (performCleanup 5 waiting_db) = Inr (0, 1)
     \<and> db_games (snd (performCleanup 5 waiting_db)) = [] \<and> db_events (snd (performCleanup 5 waiting_db)) = []"
  by code_simp

end
