(* ===== verification/Request_Guards.thy ===== *)
theory Request_Guards
  imports Entities "HOL-Library.Multiset" "HOL-Library.List_Lexorder" "HOL-Library.Char_ord"
begin

text \<open>
  The guards of requests: Telegram Mini App authentication (\<open>internal/infrastructure/telegram/\<close>), the
  rate limiter (\<open>internal/infrastructure/ratelimit/middleware.go\<close>), the list of CORS origins
  (\<open>internal/infrastructure/cors/middleware.go\<close>) and the address validator
  (\<open>internal/controller/http/middleware/validator.go\<close>). HMAC-SHA256 is an argument of which nothing
  is assumed, the order in which \<open>range\<close> visits a map is an argument that permutes its entries, and
  the limiter library is an argument with its store as a state. The texts of the errors of
  \<open>net/url\<close> and of \<open>fmt.Sscanf\<close> leave out the quoted input.
\<close>

section \<open>Query strings\<close>

type_synonym Values = "(string \<times> string list) list"

definition hex_value :: "char \<Rightarrow> nat option" where
  "hex_value c = (let n = (of_char c :: nat) in
     if 48 \<le> n \<and> n \<le> 57 then Some (n - 48)
     else if 97 \<le> n \<and> n \<le> 102 then Some (n - 87)
     else if 65 \<le> n \<and> n \<le> 70 then Some (n - 55) else None)"

fun QueryUnescape :: "string \<Rightarrow> string option" where
  "QueryUnescape [] = Some []"
| "QueryUnescape (c # s) =
     (if c = CHR ''%'' then (case s of
          a # b # s' \<Rightarrow> (case (hex_value a, hex_value b) of
              (Some x, Some y) \<Rightarrow> map_option ((#) (char_of (16 * x + y))) (QueryUnescape s')
            | _ \<Rightarrow> None)
        | _ \<Rightarrow> None)
      else map_option ((#) (if c = CHR ''+'' then CHR '' '' else c)) (QueryUnescape s))"

text \<open>\<open>strings.Cut\<close> and \<open>strings.Split\<close> at one character.\<close>

definition cut_at :: "char \<Rightarrow> string \<Rightarrow> string \<times> string" where
  "cut_at c s = (takeWhile (\<lambda>x. x \<noteq> c) s, drop 1 (dropWhile (\<lambda>x. x \<noteq> c) s))"

fun split_at :: "char \<Rightarrow> string \<Rightarrow> string list" where
  "split_at c [] = [[]]"
| "split_at c (x # s) = (if x = c then [] # split_at c s else (case split_at c s of [] \<Rightarrow> [[x]] | y # ys \<Rightarrow> (x # y) # ys))"

definition add_value :: "string \<Rightarrow> string \<Rightarrow> Values \<Rightarrow> Values" where
  "add_value k v m = (if k \<in> set (map fst m) then map (\<lambda>(k', vs). (k', if k' = k then vs @ [v] else vs)) m else m @ [(k, [v])])"

definition parse_segment :: "string \<Rightarrow> error option \<times> Values \<Rightarrow> error option \<times> Values" where
  "parse_segment seg st = (case st of (err, m) \<Rightarrow>
     if CHR '';'' \<in> set seg then (Some (ErrorString ''invalid semicolon separator in query''), m)
     else if seg = [] then (err, m)
     else (case cut_at (CHR ''='') seg of (key, val) \<Rightarrow>
       (case (QueryUnescape key, QueryUnescape val) of
          (Some k, Some v) \<Rightarrow> (err, add_value k v m)
        | _ \<Rightarrow> (if err = None then Some (ErrorString ''invalid URL escape'') else err, m))))"

definition ParseQuery :: "string \<Rightarrow> error + Values" where
  "ParseQuery query = (case fold parse_segment (split_at (CHR ''&'') query) (None, []) of
       (Some err, m) \<Rightarrow> Inl err | (None, m) \<Rightarrow> Inr m)"

definition Values_Get :: "Values \<Rightarrow> string \<Rightarrow> string" where
  "Values_Get m k = (case map_of m k of Some (v # _) \<Rightarrow> v | _ \<Rightarrow> [])"

definition Values_Del :: "Values \<Rightarrow> string \<Rightarrow> Values" where
  "Values_Del m k = filter (\<lambda>kv. fst kv \<noteq> k) m"

section \<open>Numbers and hexadecimal text\<close>

text \<open>\<open>fmt.Sscanf(s, "%d", &n)\<close>: the longest number at the start, whatever follows it.\<close>

fun skip_blanks :: "string \<Rightarrow> string option" where
  "skip_blanks [] = Some []"
| "skip_blanks (c # s) = (if c = CHR 0x0A then None else if c = CHR 0x0D \<and> (case s of x # _ \<Rightarrow> x = CHR 0x0A | [] \<Rightarrow> False) then None
     else if is_space c then skip_blanks s else Some (c # s))"

definition Sscan_int :: "string \<Rightarrow> error + int" where
  "Sscan_int s = (case skip_blanks s of
       None \<Rightarrow> Inl (ErrorString ''unexpected newline'')
     | Some t \<Rightarrow> (let sign = (case t of c # _ \<Rightarrow> if c = CHR ''+'' \<or> c = CHR ''-'' then [c] else [] | [] \<Rightarrow> []);
           digits = takeWhile is_digit (drop (length sign) t)
         in if drop (length sign) t = [] then Inl (ErrorString ''unexpected EOF'')
            else if digits = [] then Inl (ErrorString ''expected integer'')
            else case ParseInt64 (sign @ digits) of
                None \<Rightarrow> Inl (ErrorString ''integer overflow'') | Some n \<Rightarrow> Inr n))"

definition hex_digit :: "nat \<Rightarrow> char" where
  "hex_digit n = (if n < 10 then char_of (48 + n) else char_of (87 + n))"

definition hex_EncodeToString :: "string \<Rightarrow> string" where
  "hex_EncodeToString bs = concat (map (\<lambda>c. [hex_digit ((of_char c :: nat) div 16), hex_digit ((of_char c :: nat) mod 16)]) bs)"

fun join_lines :: "string list \<Rightarrow> string" where
  "join_lines [] = []"
| "join_lines [x] = x"
| "join_lines (x # xs) = x @ CHR 0x0A # join_lines xs"

section \<open>Telegram authentication\<close>

record AuthConfig =
  ac_BotToken :: string
  ac_MaxAge :: int

type_synonym hmac = "string \<Rightarrow> string \<Rightarrow> string"

text \<open>The orders in which the two loops over the map visit it.\<close>

type_synonym visits = "nat \<Rightarrow> Values \<Rightarrow> Values"

definition check_pairs :: "Values \<Rightarrow> string list" where
  "check_pairs visited = map (\<lambda>(key, vals). key @ ''='' @ hd vals) (filter (\<lambda>(key, vals). vals \<noteq> []) visited)"

definition computed_hash :: "hmac \<Rightarrow> string \<Rightarrow> string \<Rightarrow> string" where
  "computed_hash mac token dataCheckString = hex_EncodeToString (mac (mac ''WebAppData'' token) dataCheckString)"

definition first_values :: "Values \<Rightarrow> string \<Rightarrow> string option" where
  "first_values visited = fold (\<lambda>(key, vals) result. if vals \<noteq> [] then result(key \<mapsto> hd vals) else result) visited Map.empty"

definition ValidateInitData :: "visits \<Rightarrow> hmac \<Rightarrow> int \<Rightarrow> string \<Rightarrow> AuthConfig \<Rightarrow> error + (string \<Rightarrow> string option)" where
  "ValidateInitData visit mac now initData config =
     (if initData = [] then Inl (ErrorString ''initData is empty'')
      else case ParseQuery initData of
          Inl err \<Rightarrow> Inl (Wrapf ''failed to parse initData'' err)
        | Inr parsed \<Rightarrow>
            (let providedHash = Values_Get parsed ''hash'' in
             if providedHash = [] then Inl (ErrorString ''hash is missing from initData'')
             else let vs = Values_Del parsed ''hash'';
                      dataCheckString = join_lines (sort (check_pairs (visit 0 vs)))
               in if computed_hash mac (ac_BotToken config) dataCheckString \<noteq> providedHash
                  then Inl (ErrorString ''hash verification failed'')
                  else let authDateStr = Values_Get vs ''auth_date'' in
                    if authDateStr = [] then Inl (ErrorString ''auth_date is missing'')
                    else case Sscan_int authDateStr of
                        Inl err \<Rightarrow> Inl (Wrapf ''invalid auth_date format'' err)
                      | Inr authDate \<Rightarrow>
                          let maxAge = (if ac_MaxAge config = 0 then 86400 else ac_MaxAge config)
                          in if i64 (now - authDate) > maxAge
                             then Inl (ErrorString (''initData is too old (auth_date: '' @ FormatInt authDate @ '')''))
                             else Inr (first_values (visit 1 vs))))"

text \<open>\<open>data[key]\<close> of a missing key is the empty string.\<close>

definition field :: "(string \<Rightarrow> string option) \<Rightarrow> string \<Rightarrow> string" where
  "field data key = (case data key of None \<Rightarrow> [] | Some v \<Rightarrow> v)"

definition ParseUserData :: "(string \<Rightarrow> string option) \<Rightarrow> error + int \<times> string" where
  "ParseUserData data = (let userIDStr = field data ''user_id'' in
     if userIDStr = [] then
       (if field data ''user'' = [] then Inl (ErrorString ''user_id or user field is required'')
        else Inl (ErrorString ''user_id not found in initData''))
     else case Sscan_int userIDStr of
         Inl err \<Rightarrow> Inl (Wrapf ''invalid user_id format'' err)
       | Inr userID \<Rightarrow> Inr (userID, field data ''username''))"

text \<open>A request goes on with its locals, or is answered 401.\<close>

datatype auth = Unauthorized string | Continue "(int \<times> string) option"

definition AuthMiddleware :: "visits \<Rightarrow> hmac \<Rightarrow> int \<Rightarrow> AuthConfig \<Rightarrow> string \<Rightarrow> auth" where
  "AuthMiddleware visit mac now config initData =
     (if initData = [] then Unauthorized ''Missing X-Telegram-Init-Data header''
      else case ValidateInitData visit mac now initData config of
          Inl err \<Rightarrow> Unauthorized (''Invalid Telegram authentication: '' @ Error err)
        | Inr data \<Rightarrow> (case ParseUserData data of
            Inl err \<Rightarrow> Unauthorized (''Failed to parse user data: '' @ Error err)
          | Inr user \<Rightarrow> Continue (Some user)))"

definition OptionalAuthMiddleware :: "visits \<Rightarrow> hmac \<Rightarrow> int \<Rightarrow> AuthConfig \<Rightarrow> string \<Rightarrow> auth" where
  "OptionalAuthMiddleware visit mac now config initData =
     (if initData = [] then Continue None
      else case ValidateInitData visit mac now initData config of
          Inl err \<Rightarrow> Continue None
        | Inr data \<Rightarrow> (case ParseUserData data of Inl err \<Rightarrow> Continue None | Inr user \<Rightarrow> Continue (Some user)))"

definition GetUserIDFromContext :: "(int \<times> string) option \<Rightarrow> int" where
  "GetUserIDFromContext locals = (case locals of None \<Rightarrow> 0 | Some (userID, username) \<Rightarrow> userID)"

definition GetUsernameFromContext :: "(int \<times> string) option \<Rightarrow> string" where
  "GetUsernameFromContext locals = (case locals of None \<Rightarrow> [] | Some (userID, username) \<Rightarrow> username)"

section \<open>Rate limiting\<close>

record ratelimit_config =
  rl_Rate :: string
  rl_UserIDHeader :: string

definition ratelimit_DefaultConfig :: ratelimit_config where
  "ratelimit_DefaultConfig = \<lparr>rl_Rate = ''100-M'', rl_UserIDHeader = ''X-Telegram-User-Id''\<rparr>"

record limiter_context =
  lc_Limit :: int
  lc_Remaining :: int
  lc_Reset :: int
  lc_Reached :: bool

text \<open>The request goes on, with the headers of the limit if there are any, or is answered 429.\<close>

datatype limited = Allowed "limiter_context option" | LimiterError error | TooManyRequests limiter_context

definition unlimited_path :: "string \<Rightarrow> bool" where
  "unlimited_path path \<longleftrightarrow> path \<in> {''/health'', ''/healthz'', ''/metrics'', ''/swagger'', ''/api/docs''}
     \<or> length path > 8 \<and> take 8 path = ''/swagger'' \<or> length path \<ge> 3 \<and> take 3 path = ''/ws''"

definition ratelimit_New :: "ratelimit_config option \<Rightarrow> ('s \<Rightarrow> string \<Rightarrow> (error + limiter_context) \<times> 's) \<Rightarrow>
    (string \<Rightarrow> string) \<Rightarrow> string \<Rightarrow> string \<Rightarrow> 's \<Rightarrow> limited \<times> 's" where
  "ratelimit_New config get header ip path store =
     (let cfg = (case config of None \<Rightarrow> ratelimit_DefaultConfig | Some c \<Rightarrow> c) in
      if unlimited_path path then (Allowed None, store)
      else let userID = (if header (rl_UserIDHeader cfg) = [] then ip else header (rl_UserIDHeader cfg))
        in case get store userID of
            (Inl err, store') \<Rightarrow> (LimiterError err, store')
          | (Inr ctx, store') \<Rightarrow> (if lc_Reached ctx then TooManyRequests ctx else Allowed (Some ctx), store'))"

section \<open>Origins and addresses\<close>

definition parseOrigins :: "string \<Rightarrow> string list" where
  "parseOrigins originsStr = (if originsStr = [] then []
     else filter (\<lambda>t. t \<noteq> []) (map TrimSpace (split_at (CHR '','') originsStr)))"

definition allowed_origins :: "string \<Rightarrow> string list" where
  "allowed_origins cfg = (let origins = parseOrigins cfg in if origins = [] then [''*''] else origins)"

definition tonaddress :: "string \<Rightarrow> bool" where
  "tonaddress address =
     (if length address \<noteq> 48 then False
      else if take 2 address \<noteq> ''EQ'' \<and> take 2 address \<noteq> ''UQ'' then False
      else list_all (\<lambda>c. c \<in> set ''ABCDEFGHIJKLMNOPQRSTUVWXYZabcdefghijklmnopqrstuvwxyz0123456789_-'') (drop 2 address))"

section \<open>Parsed queries are maps\<close>

lemma distinct_add_value: "distinct (map fst m) \<Longrightarrow> distinct (map fst (add_value k v m))"
  by (simp add: add_value_def map_map comp_def case_prod_unfold)

lemma distinct_fold_segments:
  "distinct (map fst (snd st)) \<Longrightarrow> distinct (map fst (snd (fold parse_segment segs st)))"
proof (induction segs arbitrary: st)
  case (Cons seg segs)
  have "distinct (map fst (snd (parse_segment seg st)))"
    using Cons.prems by (auto simp: parse_segment_def distinct_add_value split: prod.split option.split)
  then show ?case by (simp add: Cons.IH)
qed simp

lemma ParseQuery_distinct:
  assumes "ParseQuery query = Inr m"
  shows "distinct (map fst m)"
  using distinct_fold_segments [of "(None, [])" "split_at (CHR ''&'') query"] assms
  by (auto simp: ParseQuery_def split: prod.splits option.splits)

lemma first_values_fold:
  "distinct (map fst xs) \<Longrightarrow>
     fold (\<lambda>(key, vals) result. if vals \<noteq> [] then result(key \<mapsto> hd vals) else result) xs m k
       = (case map_of xs k of Some (v # vs) \<Rightarrow> Some v | _ \<Rightarrow> m k)"
proof (induction xs arbitrary: m)
  case (Cons kv xs)
  obtain key vals where kv: "kv = (key, vals)" by (cases kv)
  have "map_of xs key = None" using Cons.prems by (auto simp: kv map_of_eq_None_iff)
  then show ?case using Cons by (cases vals) (auto simp: kv split: option.split list.split)
qed simp

lemma field_first_values:
  assumes "mset xs = mset m" "distinct (map fst m)"
  shows "field (first_values xs) k = Values_Get m k"
proof -
  have "distinct (map fst xs)" using assms by (metis mset_eq_imp_distinct_iff mset_map)
  moreover have "map_of xs = map_of m"
    using assms calculation map_of_inject_set mset_eq_setD by blast
  ultimately show ?thesis
    by (auto simp: field_def first_values_def first_values_fold Values_Get_def split: option.split list.split)
qed

lemma sorted_pairs:
  assumes "mset xs = mset m"
  shows "sort (check_pairs xs) = sort (check_pairs m)"
proof -
  have "mset (check_pairs xs) = mset (check_pairs m)" using assms by (simp add: check_pairs_def mset_filter)
  then show ?thesis by (metis sorted_list_of_multiset_mset)
qed

lemma Sscan_int_Nil [simp]: "Sscan_int [] = Inl (ErrorString ''unexpected EOF'')"
  by (simp add: Sscan_int_def)

lemma Values_Del_Get: "k \<noteq> d \<Longrightarrow> Values_Get (Values_Del m d) k = Values_Get m k"
proof -
  assume "k \<noteq> d"
  then have "map_of (filter (\<lambda>kv. fst kv \<noteq> d) m) k = map_of m k" by (induction m) auto
  then show ?thesis by (simp add: Values_Get_def Values_Del_def)
qed

lemma ParseUserData_signed:
  assumes "mset xs = mset (Values_Del m ''hash'')" "distinct (map fst m)"
  shows "ParseUserData (first_values xs) = Inr u \<longleftrightarrow>
      (\<exists>userID. Sscan_int (Values_Get m ''user_id'') = Inr userID \<and> u = (userID, Values_Get m ''username''))"
proof -
  have "distinct (map fst (Values_Del m ''hash''))" using assms(2) by (simp add: Values_Del_def distinct_map_filter)
  from field_first_values [OF assms(1) this] show ?thesis
    by (auto simp: ParseUserData_def Values_Del_Get Let_def split: sum.split)
qed

section \<open>Properties\<close>

text \<open>The first value of every key but the hash, as \<open>key=value\<close>, sorted, one on a line.\<close>

definition data_check_string :: "Values \<Rightarrow> string" where
  "data_check_string m = join_lines (sort (check_pairs (Values_Del m ''hash'')))"


text \<open>A toy MAC, and a request that it signs.\<close>

definition toy_mac :: hmac where
  "toy_mac key msg = take 2 (rev msg)"

definition signed_request :: string where
  "signed_request = ''user_id=42&auth_date=1000&username=ann%20b&hash=6220''"


text \<open>
  Mini Apps send the user as JSON in the parameter \<open>user\<close>; a request without a separate
  \<open>user_id\<close> is answered 401 however it is signed.
\<close>

theorem auth_needs_user_id:
  assumes "\<And>n m. mset (visit n m) = mset m" and "ParseQuery initData = Inr m" and "Values_Get m ''user_id'' = []"
  shows "\<exists>msg. AuthMiddleware visit mac now config initData = Unauthorized msg"
proof -
  have "\<nexists>u. ParseUserData (first_values (visit 1 (Values_Del m ''hash''))) = Inr u"
    using ParseUserData_signed [OF assms(1) ParseQuery_distinct [OF assms(2)]] assms(3) by simp
  then obtain e where "ParseUserData (first_values (visit 1 (Values_Del m ''hash''))) = Inl e" by (metis sum.exhaust)
  then show ?thesis using assms(2) by (auto simp: AuthMiddleware_def ValidateInitData_def Let_def split: sum.split)
qed

text \<open>The optional guard lets every request through, with the user of exactly those that the strict one accepts.\<close>

lemma optional_auth: "OptionalAuthMiddleware visit mac now config initData =
   Continue (case AuthMiddleware visit mac now config initData of Continue user \<Rightarrow> user | Unauthorized msg \<Rightarrow> None)"
  by (simp add: OptionalAuthMiddleware_def AuthMiddleware_def split: sum.split)

text \<open>
  The limit is kept per value of a header that the client chooses: two requests with the same
  header share a limit whatever their addresses, and a path of the list never reaches the limiter.
\<close>

lemma ratelimit_identity:
  "unlimited_path path \<Longrightarrow> ratelimit_New config get header ip path store = (Allowed None, store)"
  "header (rl_UserIDHeader cfg) \<noteq> [] \<Longrightarrow> ratelimit_New (Some cfg) get header ip path store = ratelimit_New (Some cfg) get header ip' path store"
  by (simp_all add: ratelimit_New_def Let_def)

text \<open>The validator accepts the two printed forms; the entities accept one of them.\<close>

lemma ton_char_listed: "c \<in> set ''ABCDEFGHIJKLMNOPQRSTUVWXYZabcdefghijklmnopqrstuvwxyz0123456789_-'' \<longleftrightarrow> ton_char c"
proof -
  have "list_all (\<lambda>c. (c \<in> set ''ABCDEFGHIJKLMNOPQRSTUVWXYZabcdefghijklmnopqrstuvwxyz0123456789_-'') = ton_char c) Enum.enum"
    by code_simp
  then show ?thesis by (simp add: list_all_iff enum_UNIV del: set_simps)
qed

theorem tonaddress_regex: "tonAddressRegex address \<longleftrightarrow> tonaddress address \<and> take 2 address = ''EQ''"
  by (auto simp: tonAddressRegex_def tonaddress_def ton_char_listed simp del: set_simps)

end
