(* ===== verification/Spec2Isabelle.thy ===== *)
theory Spec2Isabelle
  imports Coordination Pipeline Activity Health Restart Rest_Claims Rest_Reads Game_Socket Retention Request_Guards
begin

text \<open>
  A verification library for \<open>pod-backend\<close>, the Go backend of a two-player coin game on the TON
  blockchain.

  \<^bold>\<open>The program.\<close> Players play on the chain. The backend reads the transactions of the game contract,
  either by polling TON Center over HTTP or over a WebSocket with a fallback to polling, decodes
  their messages, and stores games, events and users in PostgreSQL. A transaction that cannot be
  parsed or stored goes to a dead letter queue; a checkpoint of the last logical time is stored, and a
  restarted process resumes there. Beside the chain, four in-memory use cases hand out short
  claims on a game: to join it, to cancel it, to reveal a choice, to settle an expired game. The event
  handlers release those claims. HTTP endpoints serve claims, games, users, activity queues and
  health; a broadcast hub sends every change to WebSocket clients.

  \<^bold>\<open>Theories and sources\<close> (paths under \<open>src/internal/\<close> unless they begin with \<open>cmd/\<close> or \<open>pkg/\<close>).

  \<^item> \<open>Prelude\<close>: 64-bit arithmetic, results, Go's string functions, stable sorting, slices with
    their bounds, and list lemmas. \<open>Base64\<close>: the standard encoding. \<open>Entities\<close>: \<open>entity/\<close>.
  \<^item> \<open>Wallet\<close>: the comparison of wallet addresses in \<open>usecase/reservation.go\<close>.
  \<^item> \<open>Claim_Store\<close>: the state and code shared by the four claim use cases, with an abstract
    machine and the contract of a claim service; \<open>Join_Reservation\<close>, \<open>Cancel_Reservation\<close>,
    \<open>Reveal_Reservation\<close>, \<open>Expired_Claim\<close>: \<open>usecase/reservation.go\<close>, \<open>cancel_reservation.go\<close>,
    \<open>reveal_reservation.go\<close>, \<open>expired_claim.go\<close>; \<open>Coordination\<close>: joining and cancelling together, as
    whole calls and as interleaved halves.
  \<^item> \<open>Database\<close>: the tables with their constraints, \<open>repository/postgres/\<close> and
    \<open>pkg/postgres/tx.go\<close>; \<open>Game_Persistence\<close>: \<open>usecase/game_persistence.go\<close>, the seven event handlers
    with their statements, releases and broadcasts; \<open>Persistence_Invariants\<close>,
    \<open>Persistence_Outcomes\<close>, \<open>Handler_Outcomes\<close>: what they keep and what they do.
  \<^item> \<open>User_Profiles\<close>: the user repository and \<open>usecase/user_management.go\<close>; \<open>Game_Query\<close>:
    \<open>usecase/game_query.go\<close>; \<open>Activity\<close>: \<open>usecase/game_activity.go\<close>; \<open>Retention\<close>:
    \<open>cmd/cleanup/main.go\<close> and the rest of the event repository.
  \<^item> \<open>Dead_Letter\<close>: entity, repository and use case of the dead letter queue.
  \<^item> \<open>Ton_Transactions\<close>, \<open>Poller\<close>, \<open>Ws_Client\<close>, \<open>Source_Factory\<close>: \<open>client.go\<close>,
    \<open>poller.go\<close>, \<open>websocket_client.go\<close>, \<open>websocket_subscriber.go\<close> and \<open>factory.go\<close> of
    \<open>infrastructure/toncenter/\<close>; \<open>Checkpoints\<close>, \<open>Event_Sources\<close>: the abstract checkpoint
    machine and its refinement by both sources.
  \<^item> \<open>Message_Parser\<close>, \<open>Cell_Parser\<close>: \<open>message_parser.go\<close>, \<open>message_parser_v2.go\<close>;
    \<open>Message_Roundtrip\<close>, \<open>Tvm_Cells\<close>: the message builder, the contract of the cell library and an
    instance of it on bit strings.
  \<^item> \<open>Subscriber\<close>: \<open>usecase/blockchain_subscriber.go\<close>; \<open>Pipeline\<close>: from a raw transaction to
    the handlers and the dead letters.
  \<^item> \<open>Sync_State\<close>: the checkpoint repository; \<open>Ingestion\<close>, \<open>Ingestion_Runs\<close>, \<open>Restart\<close>:
    \<open>controller/blockchain/ton_event_handler.go\<close> with the callbacks of \<open>app/app.go\<close>, the runs
    of its goroutines, and what a restarted process finds; \<open>Health\<close>: \<open>rest/health_handler.go\<close>.
  \<^item> \<open>Broadcast_Hub\<close>: \<open>usecase/game_broadcast.go\<close>; \<open>Game_Socket\<close>:
    \<open>controller/websocket/game_ws_handler.go\<close>.
  \<^item> \<open>Rest_Claims\<close>: the endpoints of the claims; \<open>Rest_Reads\<close>: those that only read;
    \<open>Request_Guards\<close>: Telegram authentication, rate limiting, origins and addresses.

  \<^bold>\<open>State and operations.\<close> A Go struct is a record, an operation a function from its receiver to the
  result and the new receiver; an error is the left case of a sum or the \<open>Some\<close> of an option, with
  \<open>errors.Is\<close> and \<open>Error()\<close> on the datatype \<open>error\<close>. A map is a function or an association list,
  integers are unbounded with the wrap-around of \<open>int64\<close> written out where it can occur, and a panic is
  a value. A claim use case is a \<open>claim_store\<close>: the claims by game and the index by wallet. The
  database is the record \<open>db\<close>; \<open>db_fault\<close> says which statement fails, and the handlers thread an
  event and the database through \<open>hop\<close>. Runs are step relations: \<open>join_step\<close> and its siblings for the
  claims, \<open>persist_step\<close> for the handlers, \<open>rt_step\<close> for the goroutines of the ingestion,
  \<open>hub_step\<close> and \<open>socket_step\<close> for clients.

  \<^bold>\<open>Interfaces.\<close> The locale \<open>claim_machine\<close> (limits and index in every reachable state) and
  \<open>claim_service\<close>, extended to \<open>claim_creator\<close> (what a lookup returns after a creation or a
  release), are interpreted for the four use cases. \<open>table_invariant\<close> (a fact that every statement keeps
  is kept by every run of the handlers), with \<open>game_invariant\<close> as a sublocale, is interpreted for the
  integrity of the tables, for the status ENDED, for referrers and for anonymous users.
  \<open>event_source\<close> (the checkpoint machine) is interpreted for the poller, the WebSocket subscriber and
  the whole ingestion runtime; \<open>cell_library\<close> for bit strings; \<open>game_reader\<close> for the queries of the
  repository.

  \<^bold>\<open>What is shown.\<close> For the claims: when a claim is granted, that limits hold in every interleaving,
  that claims are not stolen, that clean-ups remove exactly what expired, that joining and cancelling
  exclude each other for calls that do not overlap, and that overlapping calls can both succeed. For
  persistence: integrity of the tables under every sequence of events and failures, the exact and
  single effect of a finished game, duplicates without effect, released claims, and that ENDED is never
  stored. For ingestion: a poll that returns and misses nothing, both sources as refinements of one
  machine, once-and-in-order handling in every run, the position after a restart, the reached fallback
  and that it ends ingestion. For messages: parsing inverts building, whatever keeps the contract of the
  cell library, and parsed messages are well typed. For failures: nothing is lost without being counted,
  retries are bounded, dead letters are unique. For readers: pages, queues, searches, health, profiles
  and the answers of the endpoints, exactly. For clients: who receives a broadcast, and that
  subscriptions belong to running handlers. For guards: which requests authentication accepts.

  \<^bold>\<open>Loops and bounds.\<close> Loops over slices and maps are recursions on the visited list. The back-fill
  loop of the poller may run for ever against a server that invents history; it is a
  \<open>partial_function\<close> with values in \<open>option\<close>, and the property on polls shows that it returns
  for a server that serves a finite history. No definition uses fuel. The retry and back-off
  arithmetic is that of \<open>time.Duration\<close>, an \<open>int64\<close> of nanoseconds.

  \<^bold>\<open>Choices of the model.\<close> PostgreSQL executes one statement at a time, a failed statement has no
  effect, and \<open>ORDER BY\<close> keeps rows with equal keys in insertion order. An operation reads the clock once,
  except the clean-ups, where a second reading matters. Strings are lists of bytes, with the case and
  white space of ASCII. Instants in responses stay instants. The float that smooths poll intervals is a
  rational number. Contexts form chains with a set of cancelled ones, and a round of a goroutine is one
  step. Identifiers of \<open>uuid.New\<close> are unused ones. Where the source visits a Go map, the order is an
  association list or an argument.

  Arguments of the definitions stand for code that is not under \<open>src/\<close>: the TON address library
  (\<open>parse_addr\<close>, \<open>address_lib\<close> with its contract), the cell library, JSON, the scanning of nullable
  columns by the driver, the network, the limiter, HMAC-SHA256, and the casts of the server to \<open>numeric\<close>.

  \<^bold>\<open>Not modelled.\<close> Route registration, the HTTP server, request logging and panic recovery, the HTTP
  client of TON Center with its circuit breaker library, connection pools, configuration, command
  lines, migrations (their constraints are part of the statements), metrics, tracing and logging,
  and generated documentation: they configure or call libraries, and no modelled operation depends on a
  result they compute. The methods of the subscriber that only forward to the event source are not
  repeated, and neither is \<open>WithTxOptions\<close>, which has no caller. The data races the Go memory model
  would allow are not modelled: an operation that holds its lock is one step, and operations
  that release it in between are split there.
\<close>

section \<open>The four claim use cases\<close>

text \<open>
  C2. In every state that one of the four claim use cases can reach from its constructor, whatever the
  interleaving of calls, clean-ups and clock readings, no wallet actively holds more claims than its
  limit, whatever the spelling of its address, and every active claim is filed under its game and
  found in its holder's index.
\<close>

theorem claim_limits:
  assumes "(join_step pa)\<^sup>*\<^sup>* (t0, NewReservationUseCase bc cfg) (now, st)
     \<or> (cancel_step pa)\<^sup>*\<^sup>* (t0, NewCancelReservationUseCase bc cfg) (now, st)
     \<or> (reveal_step pa)\<^sup>*\<^sup>* (t0, NewRevealReservationUseCase bc cfg) (now, st)
     \<or> (expired_step pa)\<^sup>*\<^sup>* (t0, NewExpiredClaimUseCase bc cfg) (now, st)"
  shows "int (card {k. \<exists>r. active_claim st now k = Some r \<and> normalizeReservationWallet pa (r_WalletAddress r) = n}) \<le> maxPerWallet st
     \<and> (\<forall>k r. active_claim st now k = Some r \<longrightarrow> r_GameID r = k
           \<and> k \<in> set (wallet_ids st (normalizeReservationWallet pa (r_WalletAddress r))))"
proof -
  have init: "join_init (NewReservationUseCase bc cfg)" "cancel_init (NewCancelReservationUseCase bc cfg)"
    "reveal_init (NewRevealReservationUseCase bc cfg)" "expired_init (NewExpiredClaimUseCase bc cfg)"
    by (auto simp: join_init_def cancel_init_def reveal_init_def expired_init_def)
  from assms show ?thesis
  proof (elim disjE, goal_cases)
    case 1 then show ?case using join_run.reach_limit [OF init(1) 1] join_run.reach_indexed [OF init(1) 1] by blast
  next
    case 2 then show ?case using cancel_run.reach_limit [OF init(2) 2] cancel_run.reach_indexed [OF init(2) 2] by blast
  next
    case 3 then show ?case using reveal_run.reach_limit [OF init(3) 3] reveal_run.reach_indexed [OF init(3) 3] by blast
  next
    case 4 then show ?case using expired_run.reach_limit [OF init(4) 4] expired_run.reach_indexed [OF init(4) 4] by blast
  qed
qed

theorem claim_limits_witness:
  "let st = fst (snd (ReserveBatch_commit no_addr 5 [7, 7, 8] ''alice'' (NewRevealReservationUseCase True
        \<lparr>MaxPerWallet = 3, TimeoutSeconds = 60, CleanupIntervalSeconds = 5\<rparr>)))
   in int (card {k. \<exists>r. active_claim st 5 k = Some r
        \<and> normalizeReservationWallet no_addr (r_WalletAddress r) = ''alice''}) \<le> maxPerWallet st"
proof -
  let ?init = "NewRevealReservationUseCase True \<lparr>MaxPerWallet = 3, TimeoutSeconds = 60, CleanupIntervalSeconds = 5\<rparr>"
  let ?st = "fst (snd (ReserveBatch_commit no_addr 5 [7, 7, 8] ''alice'' ?init))"
  have "(reveal_step no_addr)\<^sup>*\<^sup>* (5, ?init) (5, ?st)"
    by (rule r_into_rtranclp [of "reveal_step no_addr", OF reveal_step.reserve])
  then show ?thesis
    using claim_limits [of no_addr 5 True "\<lparr>MaxPerWallet = 3, TimeoutSeconds = 60, CleanupIntervalSeconds = 5\<rparr>" 5 ?st "''alice''"]
    by (simp add: Let_def)
qed

end
